(* ===== verification/Prelude.thy ===== *)
theory Prelude
  imports Main "HOL-Library.Word"
begin

text \<open>
  Shared vocabulary of the development: the machine integer types of the Rust sources, the
  three ways a Rust call can end (a value, an error, a panic), the bit-range accessors the
  sources use on integers, and the generic word and list lemmas of the component proofs.
  The crate is only built in release mode (\<^verbatim>\<open>MODE := release\<close> in the Makefile), so
  \<open>+\<close>, \<open>-\<close> and \<open>*\<close> on \<open>usize\<close> wrap around, which is what they do on words, and
  \<^verbatim>\<open>debug_assert!\<close> is compiled out.
\<close>

unbundle bit_operations_syntax

type_synonym u8 = "8 word"
type_synonym u16 = "16 word"
type_synonym u32 = "32 word"
type_synonym u64 = "64 word"
type_synonym usize = "64 word"

named_theorems rvm_const "definitions of the numeric constants of the sources"
named_theorems pte_simps "facts about single page-table entries"
named_theorems range_simps "membership in address ranges, as naturals"


section \<open>Results\<close>

text \<open>
  A Rust function of type \<^verbatim>\<open>Result<T, E>\<close> returns \<open>Ok\<close> or \<open>Err\<close>, or it panics (an
  \<^verbatim>\<open>unwrap\<close>, \<^verbatim>\<open>expect\<close>, \<^verbatim>\<open>assert!\<close> or \<^verbatim>\<open>unreachable!\<close> that fires).
\<close>

datatype ('a, 'e) result = Ok 'a | Err 'e | Panic

primrec is_ok :: "('a, 'e) result \<Rightarrow> bool" where
  "is_ok (Ok _) = True"
| "is_ok (Err _) = False"
| "is_ok Panic = False"

primrec map_err :: "('e \<Rightarrow> 'f) \<Rightarrow> ('a, 'e) result \<Rightarrow> ('a, 'f) result" where
  "map_err f (Ok a) = Ok a"
| "map_err f (Err e) = Err (f e)"
| "map_err f Panic = Panic"

text \<open>The postfix \<^verbatim>\<open>?\<close> operator on a value, and on a computation that has changed a state.\<close>

primrec and_then :: "('a, 'e) result \<Rightarrow> ('a \<Rightarrow> ('b, 'e) result) \<Rightarrow> ('b, 'e) result" where
  "and_then (Ok a) f = f a"
| "and_then (Err e) f = Err e"
| "and_then Panic f = Panic"

fun st_then :: "'s \<times> ('a, 'e) result \<Rightarrow> ('s \<Rightarrow> 'a \<Rightarrow> 's \<times> ('b, 'e) result)
  \<Rightarrow> 's \<times> ('b, 'e) result" where
  "st_then (s, Ok a) f = f s a"
| "st_then (s, Err e) f = (s, Err e)"
| "st_then (s, Panic) f = (s, Panic)"

lemma and_then_Ok [simp]: "and_then r f = Ok b \<longleftrightarrow> (\<exists>a. r = Ok a \<and> f a = Ok b)"
  by (cases r) auto

lemma st_then_Ok:
  "st_then r f = (s', Ok b) \<longleftrightarrow> (\<exists>s a. r = (s, Ok a) \<and> f s a = (s', Ok b))"
  by (cases "(r, f)" rule: st_then.cases) auto

lemma is_ok_iff: "is_ok r \<longleftrightarrow> (\<exists>a. r = Ok a)"
  by (cases r) auto

lemma map_err_Ok [simp]: "map_err f r = Ok a \<longleftrightarrow> r = Ok a"
  by (cases r) auto

lemma map_err_Panic [simp]: "map_err f r = Panic \<longleftrightarrow> r = Panic"
  by (cases r) auto


section \<open>Bit ranges\<close>

text \<open>
  \<^verbatim>\<open>x.get_bits(lo..hi)\<close>, \<^verbatim>\<open>x.get_bit(n)\<close> and \<^verbatim>\<open>x.set_bits(lo..hi, v)\<close>: the last one panics
  when \<open>v\<close> has a one outside its low \<open>hi - lo\<close> bits, which is \<open>None\<close> here.
\<close>

definition get_bits :: "'a::len word \<Rightarrow> nat \<Rightarrow> nat \<Rightarrow> 'a word" where
  "get_bits w lo hi = take_bit (hi - lo) (drop_bit lo w)"

definition set_bits_range :: "'a::len word \<Rightarrow> nat \<Rightarrow> nat \<Rightarrow> 'a word \<Rightarrow> 'a word option" where
  "set_bits_range w lo hi v =
     (if take_bit (hi - lo) v = v
      then Some ((w AND NOT (push_bit lo (mask (hi - lo)))) OR push_bit lo v)
      else None)"

text \<open>\<^verbatim>\<open>Flags::contains\<close> and \<^verbatim>\<open>Flags::from_bits_truncate\<close> of a bit-flag type.\<close>

definition contains :: "'a::len word \<Rightarrow> 'a word \<Rightarrow> bool" where
  "contains f g \<longleftrightarrow> f AND g = g"

definition truncate_flags :: "'a::len word \<Rightarrow> 'a word \<Rightarrow> 'a word" where
  "truncate_flags all_bits w = w AND all_bits"

lemma bit_get_bits:
  "bit (get_bits w lo hi) n \<longleftrightarrow> n < hi - lo \<and> bit w (lo + n)"
  by (auto simp: get_bits_def bit_take_bit_iff bit_drop_bit_eq add.commute)

lemma get_bits_lt: "hi - lo < LENGTH('a) \<Longrightarrow> unat (get_bits (w :: 'a::len word) lo hi) < 2 ^ (hi - lo)"
  by (simp add: get_bits_def unsigned_take_bit_eq)

lemma set_bits_range_Some:
  assumes "set_bits_range w lo hi v = Some w'"
  shows "bit w' n \<longleftrightarrow> n < LENGTH('a) \<and>
    (if lo \<le> n \<and> n < hi then bit v (n - lo) else bit (w :: 'a::len word) n)"
proof -
  from assms have v: "take_bit (hi - lo) v = v"
    and w': "w' = (w AND NOT (push_bit lo (mask (hi - lo)))) OR push_bit lo v"
    by (auto simp: set_bits_range_def split: if_splits)
  have "bit v m \<Longrightarrow> m < hi - lo" for m
    using v by (metis bit_take_bit_iff)
  then have high: "bit v (n - lo) \<Longrightarrow> lo \<le> n \<Longrightarrow> n < hi"
    by fastforce
  then show ?thesis
    unfolding w'
    by (auto simp: bit_simps dest: bit_imp_le_length)
qed

lemma bit_nonzero: "bit w n \<Longrightarrow> (w :: 'a::len word) \<noteq> 0"
  by auto

lemma contains_bit: "contains f (push_bit n 1) \<longleftrightarrow> bit (f :: 'a::len word) n" if "n < LENGTH('a)"
proof
  assume "contains f (push_bit n 1)"
  then have "f AND push_bit n 1 = push_bit n 1" by (simp add: contains_def)
  then have "bit (f AND push_bit n 1) n = bit (push_bit n (1 :: 'a word)) n" by simp
  with that show "bit f n" by (simp add: bit_simps)
next
  assume "bit f n"
  with that show "contains f (push_bit n 1)"
    by (auto simp: contains_def bit_simps intro!: bit_word_eqI)
qed

lemma bit_push_bit_one: "k < LENGTH('a) \<Longrightarrow> bit (push_bit k (1 :: 'a::len word)) n \<longleftrightarrow> n = k"
  by (simp only: bit_push_bit_iff bit_1_iff) (auto simp: possible_bit_def)

lemma contains_iff: "contains b c \<longleftrightarrow> (\<forall>n. bit c n \<longrightarrow> bit (b :: 'a::len word) n)"
  unfolding contains_def by (auto simp: bit_eq_iff bit_and_iff dest: bit_imp_le_length)

lemma contains_or: "contains a c \<or> contains b c \<Longrightarrow> contains (a OR b) c"
  by (auto simp: contains_iff bit_or_iff)

text \<open>Replacing the bits of a mask in a word and keeping the others.\<close>

lemma masked_write_in:
  "f AND k = f \<Longrightarrow> ((a AND NOT k) OR f) AND k = (f :: 'a::len word)"
  by (simp add: bit.conj_disj_distrib2 and.assoc)

lemma masked_write_out:
  assumes "f AND k = f"
  shows "((a AND NOT k) OR f) AND NOT k = (a :: 'a::len word) AND NOT k"
proof -
  have "f AND NOT k = (f AND k) AND NOT k" by (simp add: assms)
  also have "\<dots> = 0" by (simp add: and.assoc)
  finally show ?thesis by (simp add: bit.conj_disj_distrib2 and.assoc)
qed


section \<open>Machine words as naturals\<close>

lemma unat_lt_2p64: "unat (x :: u64) < 2 ^ 64"
  using unsigned_less[of x, where 'a = nat] by simp

lemma unat_add_no_wrap:
  "unat (x :: u64) + unat y < 2 ^ 64 \<Longrightarrow> unat (x + y) = unat x + unat y"
  by (simp add: unat_word_ariths)

lemma unat_sub_no_wrap: "(y :: u64) \<le> x \<Longrightarrow> unat (x - y) = unat x - unat y"
  by (rule unat_sub)

lemma unat_take_bit: "unat (take_bit n (x :: 'a::len word)) = unat x mod 2 ^ n"
  unfolding unsigned_take_bit_eq by (simp add: take_bit_eq_mod)

lemma unat_drop_bit: "unat (drop_bit n (x :: 'a::len word)) = unat x div 2 ^ n"
  by (metis drop_bit_eq_div unsigned_drop_bit_eq take_bit_nat_eq_self unsigned_less)

lemma and_not_mask: "(x :: 'a::len word) AND NOT (mask n) = x - take_bit n x"
proof -
  have "x = (x AND mask n) + (x AND NOT (mask n))"
    by (subst disjunctive_add) (auto simp: bit_simps intro!: bit_word_eqI)
  then show ?thesis
    by (simp add: take_bit_eq_mask algebra_simps)
qed

lemma unat_and_not_mask: "unat ((x :: 'a::len word) AND NOT (mask n)) = unat x - unat x mod 2 ^ n"
proof -
  have "take_bit n x \<le> x"
    by (metis take_bit_eq_mask word_and_le2)
  then show ?thesis
    by (simp add: and_not_mask unat_sub unat_take_bit)
qed

lemma and_not_mask_eq_self:
  "(x :: 'a::len word) AND NOT (mask n) = x \<longleftrightarrow> take_bit n x = 0"
  by (simp add: and_not_mask)

lemma take_bit_0_iff_dvd: "take_bit n (x :: 'a::len word) = 0 \<longleftrightarrow> 2 ^ n dvd unat x"
proof -
  have "take_bit n x = 0 \<longleftrightarrow> unat (take_bit n x) = 0"
    by (simp add: unat_eq_0)
  also have "\<dots> \<longleftrightarrow> 2 ^ n dvd unat x"
    by (simp add: unat_take_bit dvd_eq_mod_eq_0)
  finally show ?thesis .
qed


section \<open>Lists\<close>

lemma list_length4E:
  assumes "length xs = 4"
  obtains a b c d where "xs = [a, b, c, d]"
  using assms by (auto simp: numeral_eq_Suc length_Suc_conv)

lemma take_Suc_nth: "k < length xs \<Longrightarrow> take (Suc k) xs = take k xs @ [xs ! k]"
  by (rule take_Suc_conv_app_nth)

end
