(* ===== verification/HvError.thy ===== *)
theory HvError
  imports Prelude
begin

text \<open>
  The POSIX-style error type of \<^verbatim>\<open>src/src/error.rs\<close>. The location and message fields of an
  \<^verbatim>\<open>HvError\<close> are read by its \<^verbatim>\<open>Debug\<close> output only; the operations of the other theories
  return the error number, which is all that their callers branch on.
\<close>

datatype HvErrorNum =
    EPERM | ENOENT | EIO | E2BIG | ENOMEM | EFAULT | EBUSY | EEXIST | ENODEV | EINVAL | ERANGE
  | ENOSYS

primrec errno :: "HvErrorNum \<Rightarrow> u32" where
  "errno EPERM = 1"
| "errno ENOENT = 2"
| "errno EIO = 5"
| "errno E2BIG = 7"
| "errno ENOMEM = 12"
| "errno EFAULT = 14"
| "errno EBUSY = 16"
| "errno EEXIST = 17"
| "errno ENODEV = 19"
| "errno EINVAL = 22"
| "errno ERANGE = 34"
| "errno ENOSYS = 38"

primrec as_str :: "HvErrorNum \<Rightarrow> string" where
  "as_str EPERM = ''Operation not permitted''"
| "as_str ENOENT = ''No such file or directory''"
| "as_str EIO = ''I/O error''"
| "as_str E2BIG = ''Argument list too long''"
| "as_str ENOMEM = ''Out of memory''"
| "as_str EFAULT = ''Bad address''"
| "as_str EBUSY = ''Device or resource busy''"
| "as_str EEXIST = ''File exists''"
| "as_str ENODEV = ''No such device''"
| "as_str EINVAL = ''Invalid argument''"
| "as_str ERANGE = ''Math result not representable''"
| "as_str ENOSYS = ''Function not implemented''"

record HvError =
  num :: HvErrorNum
  loc_line :: u32
  loc_col :: u32
  loc_file :: string
  msg :: "string option"

definition HvError_new ::
  "HvErrorNum \<Rightarrow> string \<Rightarrow> u32 \<Rightarrow> u32 \<Rightarrow> string option \<Rightarrow> HvError" where
  "HvError_new n file line col m =
     \<lparr>num = n, loc_line = line, loc_col = col, loc_file = file, msg = m\<rparr>"

text \<open>An \<^verbatim>\<open>i32\<close> is a 32-bit word read with \<^const>\<open>sint\<close>; unary minus wraps.\<close>

definition err_code :: "HvErrorNum \<Rightarrow> u32" where
  "err_code n = - errno n"

definition HvError_code :: "HvError \<Rightarrow> u32" where
  "HvError_code e = err_code (num e)"

text \<open>The cast \<^verbatim>\<open>err.code() as usize\<close> sign-extends.\<close>

definition code_as_usize :: "HvErrorNum \<Rightarrow> usize" where
  "code_as_usize n = scast (err_code n)"

lemma sint_err_code: "sint (err_code n) = - int (unat (errno n))"
  by (cases n) (simp_all add: err_code_def)

lemma err_code_neg: "sint (err_code n) < 0"
  by (cases n) (simp_all add: err_code_def)

lemma err_code_nonzero: "err_code n \<noteq> 0"
  by (cases n) (simp_all add: err_code_def)

lemma errno_inj: "errno m = errno n \<longleftrightarrow> m = n"
  by (cases m; cases n) simp_all

lemma code_as_usize_inj: "code_as_usize m = code_as_usize n \<longleftrightarrow> m = n"
  by (cases m; cases n) (simp_all add: code_as_usize_def err_code_def)

lemma sint_code_as_usize: "sint (code_as_usize n) = - int (unat (errno n))"
  by (cases n) (simp_all add: code_as_usize_def err_code_def)

end
