(* ===== verification/Processor.thy ===== *)
theory Processor
  imports HvError
begin

text \<open>
  The processor as the hypervisor's privileged code sees it. \<open>machine\<close> is the state of one
  logical CPU that the sources read and write through single instructions: the model-specific
  registers (\<^verbatim>\<open>crates/libvmm/src/x86_64/msr.rs\<close>), the control registers, the descriptor-table
  registers, the segment selectors, the VMX operation state with the fields of the VMCS
  regions, SVM's global interrupt flag, and the memory words the descriptor tables lie in.

  What the crates outside the repository decide is the argument \<open>x\<close> of type \<open>ext\<close>: whether a VMX
  instruction fails, what \<^verbatim>\<open>VirtAddr::new\<close> accepts, the flag bits that the types \<^verbatim>\<open>Cr0Flags\<close>,
  \<^verbatim>\<open>Cr4Flags\<close> and \<^verbatim>\<open>EferFlags\<close> know, and the answers of the CPUID instruction.
\<close>


section \<open>Model-specific registers\<close>

datatype (plugins only: code size) Msr =
    MSR_IA32_FEATURE_CONTROL | MSR_IA32_SYSENTER_CS | MSR_IA32_SYSENTER_ESP
  | MSR_IA32_SYSENTER_EIP | MSR_IA32_PAT | MSR_IA32_MTRR_DEF_TYPE | MSR_IA32_PERF_GLOBAL_CTRL
  | MSR_IA32_VMX_BASIC | MSR_IA32_VMX_PINBASED_CTLS | MSR_IA32_VMX_PROCBASED_CTLS
  | MSR_IA32_VMX_EXIT_CTLS | MSR_IA32_VMX_ENTRY_CTLS | MSR_IA32_VMX_MISC
  | MSR_IA32_VMX_CR0_FIXED0 | MSR_IA32_VMX_CR0_FIXED1 | MSR_IA32_VMX_CR4_FIXED0
  | MSR_IA32_VMX_CR4_FIXED1 | MSR_IA32_VMX_PROCBASED_CTLS2 | MSR_IA32_VMX_EPT_VPID_CAP
  | MSR_IA32_VMX_TRUE_PINBASED_CTLS | MSR_IA32_VMX_TRUE_PROCBASED_CTLS
  | MSR_IA32_VMX_TRUE_EXIT_CTLS | MSR_IA32_VMX_TRUE_ENTRY_CTLS | MSR_IA32_EFER | MSR_IA32_STAR
  | MSR_IA32_LSTAR | MSR_IA32_CSTAR | MSR_IA32_FMASK | MSR_IA32_FS_BASE | MSR_IA32_GS_BASE
  | MSR_IA32_KERNEL_GSBASE | MSR_IA32_TSC_AUX | MSR_VM_CR | MSR_IGNNE | MSR_VM_HSAVE_PA
  | MSR_PERF_EVT_SEL0 | MSR_PERF_EVT_SEL1 | MSR_PERF_EVT_SEL2 | MSR_PERF_EVT_SEL3
  | MSR_PERF_EVT_SEL4 | MSR_PERF_EVT_SEL5

primrec msr_addr :: "Msr \<Rightarrow> u32" where
  "msr_addr MSR_IA32_FEATURE_CONTROL = 0x3a"
| "msr_addr MSR_IA32_SYSENTER_CS = 0x174"
| "msr_addr MSR_IA32_SYSENTER_ESP = 0x175"
| "msr_addr MSR_IA32_SYSENTER_EIP = 0x176"
| "msr_addr MSR_IA32_PAT = 0x277"
| "msr_addr MSR_IA32_MTRR_DEF_TYPE = 0x2ff"
| "msr_addr MSR_IA32_PERF_GLOBAL_CTRL = 0x38f"
| "msr_addr MSR_IA32_VMX_BASIC = 0x480"
| "msr_addr MSR_IA32_VMX_PINBASED_CTLS = 0x481"
| "msr_addr MSR_IA32_VMX_PROCBASED_CTLS = 0x482"
| "msr_addr MSR_IA32_VMX_EXIT_CTLS = 0x483"
| "msr_addr MSR_IA32_VMX_ENTRY_CTLS = 0x484"
| "msr_addr MSR_IA32_VMX_MISC = 0x485"
| "msr_addr MSR_IA32_VMX_CR0_FIXED0 = 0x486"
| "msr_addr MSR_IA32_VMX_CR0_FIXED1 = 0x487"
| "msr_addr MSR_IA32_VMX_CR4_FIXED0 = 0x488"
| "msr_addr MSR_IA32_VMX_CR4_FIXED1 = 0x489"
| "msr_addr MSR_IA32_VMX_PROCBASED_CTLS2 = 0x48b"
| "msr_addr MSR_IA32_VMX_EPT_VPID_CAP = 0x48c"
| "msr_addr MSR_IA32_VMX_TRUE_PINBASED_CTLS = 0x48d"
| "msr_addr MSR_IA32_VMX_TRUE_PROCBASED_CTLS = 0x48e"
| "msr_addr MSR_IA32_VMX_TRUE_EXIT_CTLS = 0x48f"
| "msr_addr MSR_IA32_VMX_TRUE_ENTRY_CTLS = 0x490"
| "msr_addr MSR_IA32_EFER = 0xc0000080"
| "msr_addr MSR_IA32_STAR = 0xc0000081"
| "msr_addr MSR_IA32_LSTAR = 0xc0000082"
| "msr_addr MSR_IA32_CSTAR = 0xc0000083"
| "msr_addr MSR_IA32_FMASK = 0xc0000084"
| "msr_addr MSR_IA32_FS_BASE = 0xc0000100"
| "msr_addr MSR_IA32_GS_BASE = 0xc0000101"
| "msr_addr MSR_IA32_KERNEL_GSBASE = 0xc0000102"
| "msr_addr MSR_IA32_TSC_AUX = 0xc0000103"
| "msr_addr MSR_VM_CR = 0xc0010114"
| "msr_addr MSR_IGNNE = 0xc0010115"
| "msr_addr MSR_VM_HSAVE_PA = 0xc0010117"
| "msr_addr MSR_PERF_EVT_SEL0 = 0xc0010200"
| "msr_addr MSR_PERF_EVT_SEL1 = 0xc0010202"
| "msr_addr MSR_PERF_EVT_SEL2 = 0xc0010204"
| "msr_addr MSR_PERF_EVT_SEL3 = 0xc0010206"
| "msr_addr MSR_PERF_EVT_SEL4 = 0xc0010208"
| "msr_addr MSR_PERF_EVT_SEL5 = 0xc001020a"


section \<open>The state of a logical CPU\<close>

text \<open>The operand of the \<^verbatim>\<open>lgdt\<close>, \<^verbatim>\<open>sgdt\<close>, \<^verbatim>\<open>lidt\<close> and \<^verbatim>\<open>sidt\<close> instructions.\<close>

record DescriptorTablePointer =
  dt_limit :: u16
  dt_base :: u64

record machine =
  msr :: "u32 \<Rightarrow> u64"
  m_cr0 :: u64
  m_cr3 :: u64
  m_cr4 :: u64
  m_gdtr :: DescriptorTablePointer
  m_idtr :: DescriptorTablePointer
  m_es :: u16
  m_cs :: u16
  m_ss :: u16
  m_ds :: u16
  m_fs :: u16
  m_gs :: u16
  m_tr :: u16
  vmx_root :: "u64 option"
  vmcs_cur :: "u64 option"
  vmcs_data :: "u64 \<Rightarrow> u32 \<Rightarrow> u64"
  m_gif :: bool
  m_mem :: "u64 \<Rightarrow> u64"

definition Msr_read :: "Msr \<Rightarrow> machine \<Rightarrow> u64" where
  "Msr_read r m = msr m (msr_addr r)"

definition Msr_write :: "Msr \<Rightarrow> u64 \<Rightarrow> machine \<Rightarrow> machine" where
  "Msr_write r v m = m\<lparr>msr := (msr m)(msr_addr r := v)\<rparr>"

lemma Msr_read_write: "Msr_read r (Msr_write r' v m) = (if msr_addr r = msr_addr r' then v else Msr_read r m)"
  by (simp add: Msr_read_def Msr_write_def)


section \<open>Code outside the repository\<close>

datatype VmFail = VmFailValid | VmFailInvalid

datatype vmx_instr =
    I_vmxon u64 | I_vmxoff | I_vmclear u64 | I_vmptrld u64 | I_vmread u32 | I_vmwrite u32 u64
  | I_invept u64 u64 | I_vmlaunch | I_vmresume

record cpuid_result =
  cpuid_eax :: u32
  cpuid_ebx :: u32
  cpuid_ecx :: u32
  cpuid_edx :: u32

text \<open>
  \<open>x_vmfail i m\<close> is the failure the instruction \<open>i\<close> reports in the state \<open>m\<close>, if it fails, and
  \<open>x_rflags i m\<close> the RFLAGS register after the instruction.
  \<open>x_virt_new\<close> is \<^verbatim>\<open>x86_64::VirtAddr::new\<close>, which panics (\<open>None\<close>) on an address that is not
  canonical. \<open>x_cpuid\<close> is the CPUID instruction, by leaf and sub-leaf; the optional answers of
  the \<^verbatim>\<open>raw_cpuid\<close> accessors that \<^verbatim>\<open>src/src/arch/x86_64/cpuid.rs\<close> calls follow.
\<close>

record ext =
  x_vmfail :: "vmx_instr \<Rightarrow> machine \<Rightarrow> VmFail option"
  x_rflags :: "vmx_instr \<Rightarrow> machine \<Rightarrow> u64"
  x_virt_new :: "u64 \<Rightarrow> u64 option"
  x_cr0_all :: u64
  x_cr4_all :: u64
  x_efer_all :: u64
  x_cpuid :: "u32 \<Rightarrow> u32 \<Rightarrow> cpuid_result"
  x_perf_version :: "u8 option"
  x_feat_vmx :: "bool option"
  x_feat_xsave :: "bool option"
  x_feat_rdtscp :: "bool option"
  x_feat_invpcid :: "bool option"
  x_feat_xsaves :: "bool option"


text \<open>
  A processor on which no VMX instruction fails; \<open>x_virt_new\<close> accepts the canonical addresses and
  the flag types know the architectural bits.
\<close>

definition sample_ext :: ext where
  "sample_ext = \<lparr>x_vmfail = (\<lambda>_ _. None), x_rflags = (\<lambda>_ _. 2),
     x_virt_new = (\<lambda>a. if get_bits a 47 64 = 0 \<or> get_bits a 47 64 = 0x1ffff then Some a else None),
     x_cr0_all = 0xe005003f, x_cr4_all = 0x77ffff, x_efer_all = 0xfd01,
     x_cpuid = (\<lambda>leaf sub. \<lparr>cpuid_eax = leaf, cpuid_ebx = sub, cpuid_ecx = 0xffffffff, cpuid_edx = 0\<rparr>),
     x_perf_version = Some 4, x_feat_vmx = Some True, x_feat_xsave = Some True,
     x_feat_rdtscp = Some True, x_feat_invpcid = Some True, x_feat_xsaves = Some True\<rparr>"


section \<open>Control registers\<close>

text \<open>
  The flag bits of the control registers the sources name, at their architectural positions.
  \<open>read_cr0\<close> and \<open>read_cr4\<close> keep the flags the type knows, \<open>write_cr0\<close>, \<open>write_cr4\<close> and
  \<open>write_efer\<close> preserve the other bits of the register, and \<open>read_cr3\<close> is the address of the
  frame the register holds.
\<close>

definition CR0_PROTECTED_MODE_ENABLE :: u64 where [rvm_const]: "CR0_PROTECTED_MODE_ENABLE = push_bit 0 1"
definition CR0_MONITOR_COPROCESSOR :: u64 where [rvm_const]: "CR0_MONITOR_COPROCESSOR = push_bit 1 1"
definition CR0_TASK_SWITCHED :: u64 where [rvm_const]: "CR0_TASK_SWITCHED = push_bit 3 1"
definition CR0_NUMERIC_ERROR :: u64 where [rvm_const]: "CR0_NUMERIC_ERROR = push_bit 5 1"
definition CR0_WRITE_PROTECT :: u64 where [rvm_const]: "CR0_WRITE_PROTECT = push_bit 16 1"
definition CR0_NOT_WRITE_THROUGH :: u64 where [rvm_const]: "CR0_NOT_WRITE_THROUGH = push_bit 29 1"
definition CR0_CACHE_DISABLE :: u64 where [rvm_const]: "CR0_CACHE_DISABLE = push_bit 30 1"
definition CR0_PAGING :: u64 where [rvm_const]: "CR0_PAGING = push_bit 31 1"
definition CR4_PHYSICAL_ADDRESS_EXTENSION :: u64 where [rvm_const]: "CR4_PHYSICAL_ADDRESS_EXTENSION = push_bit 5 1"
definition CR4_VIRTUAL_MACHINE_EXTENSIONS :: u64 where [rvm_const]: "CR4_VIRTUAL_MACHINE_EXTENSIONS = push_bit 13 1"
definition CR4_OSXSAVE :: u64 where [rvm_const]: "CR4_OSXSAVE = push_bit 18 1"
definition EFER_SECURE_VIRTUAL_MACHINE_ENABLE :: u64 where [rvm_const]:
  "EFER_SECURE_VIRTUAL_MACHINE_ENABLE = push_bit 12 1"

definition read_cr0 :: "ext \<Rightarrow> machine \<Rightarrow> u64" where
  "read_cr0 x m = truncate_flags (x_cr0_all x) (m_cr0 m)"

definition write_cr0 :: "ext \<Rightarrow> u64 \<Rightarrow> machine \<Rightarrow> machine" where
  "write_cr0 x v m = m\<lparr>m_cr0 := (m_cr0 m AND NOT (x_cr0_all x)) OR v\<rparr>"

definition read_cr3 :: "machine \<Rightarrow> u64" where
  "read_cr3 m = m_cr3 m AND 0x000ffffffffff000"

definition read_cr4 :: "ext \<Rightarrow> machine \<Rightarrow> u64" where
  "read_cr4 x m = truncate_flags (x_cr4_all x) (m_cr4 m)"

definition write_cr4 :: "ext \<Rightarrow> u64 \<Rightarrow> machine \<Rightarrow> machine" where
  "write_cr4 x v m = m\<lparr>m_cr4 := (m_cr4 m AND NOT (x_cr4_all x)) OR v\<rparr>"

definition read_efer :: "ext \<Rightarrow> machine \<Rightarrow> u64" where
  "read_efer x m = truncate_flags (x_efer_all x) (Msr_read MSR_IA32_EFER m)"

definition write_efer :: "ext \<Rightarrow> u64 \<Rightarrow> machine \<Rightarrow> machine" where
  "write_efer x v m = Msr_write MSR_IA32_EFER ((Msr_read MSR_IA32_EFER m AND NOT (x_efer_all x)) OR v) m"


section \<open>VMX instructions\<close>

text \<open>
  An instruction that does not fail has its architectural effect. The VMCS fields are those of
  the current VMCS; clearing a VMCS that is current leaves no current VMCS, and leaving VMX
  operation does so too. Without a current VMCS, \<open>vmread\<close> and \<open>vmwrite\<close> report \<open>VmFailInvalid\<close>.
\<close>

definition vmx_do ::
  "ext \<Rightarrow> vmx_instr \<Rightarrow> (machine \<Rightarrow> machine) \<Rightarrow> machine \<Rightarrow> machine \<times> (unit, VmFail) result" where
  "vmx_do x i f m = (case x_vmfail x i m of Some e \<Rightarrow> (m, Err e) | None \<Rightarrow> (f m, Ok ()))"

definition vmxon :: "ext \<Rightarrow> u64 \<Rightarrow> machine \<Rightarrow> machine \<times> (unit, VmFail) result" where
  "vmxon x p = vmx_do x (I_vmxon p) (vmx_root_update (\<lambda>_. Some p))"

definition vmxoff :: "ext \<Rightarrow> machine \<Rightarrow> machine \<times> (unit, VmFail) result" where
  "vmxoff x = vmx_do x I_vmxoff (\<lambda>m. m\<lparr>vmx_root := None, vmcs_cur := None\<rparr>)"

definition vmclear :: "ext \<Rightarrow> u64 \<Rightarrow> machine \<Rightarrow> machine \<times> (unit, VmFail) result" where
  "vmclear x p = vmx_do x (I_vmclear p)
     (\<lambda>m. if vmcs_cur m = Some p then m\<lparr>vmcs_cur := None\<rparr> else m)"

definition vmptrld :: "ext \<Rightarrow> u64 \<Rightarrow> machine \<Rightarrow> machine \<times> (unit, VmFail) result" where
  "vmptrld x p = vmx_do x (I_vmptrld p) (vmcs_cur_update (\<lambda>_. Some p))"

definition vmread :: "ext \<Rightarrow> u32 \<Rightarrow> machine \<Rightarrow> (u64, VmFail) result" where
  "vmread x f m = (case x_vmfail x (I_vmread f) m of
       Some e \<Rightarrow> Err e
     | None \<Rightarrow> (case vmcs_cur m of None \<Rightarrow> Err VmFailInvalid | Some p \<Rightarrow> Ok (vmcs_data m p f)))"

definition vmwrite :: "ext \<Rightarrow> u32 \<Rightarrow> u64 \<Rightarrow> machine \<Rightarrow> machine \<times> (unit, VmFail) result" where
  "vmwrite x f v m = (case x_vmfail x (I_vmwrite f v) m of
       Some e \<Rightarrow> (m, Err e)
     | None \<Rightarrow> (case vmcs_cur m of
           None \<Rightarrow> (m, Err VmFailInvalid)
         | Some p \<Rightarrow> (m\<lparr>vmcs_data := (vmcs_data m)(p := (vmcs_data m p)(f := v))\<rparr>, Ok ())))"

end
