(* ===== verification/VmxFlags.thy ===== *)
theory VmxFlags
  imports Processor
begin

text \<open>
  The VMX control flags and the structures built from them,
  \<^verbatim>\<open>crates/libvmm/src/x86_64/vmx/flags.rs\<close>, with the exception vectors of
  \<^verbatim>\<open>src/src/arch/x86_64/exception.rs\<close>. Each bit-flag type is a datatype of its flags and the
  function that gives the bits of a flag; a value of the type is a word. The lemmas show that the
  packed words (EPT pointer, interruption information) can be read back and that writing the
  feature-control register keeps its reserved bits.
\<close>


section \<open>Exception vectors\<close>

datatype (plugins only: code size) ExceptionType =
    E_DivideError | E_Debug | E_NonMaskableInterrupt | E_Breakpoint | E_Overflow |
    E_BoundRangeExceeded | E_InvalidOpcode | E_DeviceNotAvailable | E_DoubleFault |
    E_CoprocessorSegmentOverrun | E_InvalidTSS | E_SegmentNotPresent | E_StackSegmentFault |
    E_GeneralProtectionFault | E_PageFault | E_FloatingPointException | E_AlignmentCheck |
    E_MachineCheck | E_SIMDFloatingPointException | E_VirtualizationException |
    E_SecurityException | E_IrqStart | E_IrqEnd

primrec exception_vector :: "ExceptionType \<Rightarrow> u8" where
  "exception_vector E_DivideError = 0"
| "exception_vector E_Debug = 1"
| "exception_vector E_NonMaskableInterrupt = 2"
| "exception_vector E_Breakpoint = 3"
| "exception_vector E_Overflow = 4"
| "exception_vector E_BoundRangeExceeded = 5"
| "exception_vector E_InvalidOpcode = 6"
| "exception_vector E_DeviceNotAvailable = 7"
| "exception_vector E_DoubleFault = 8"
| "exception_vector E_CoprocessorSegmentOverrun = 9"
| "exception_vector E_InvalidTSS = 10"
| "exception_vector E_SegmentNotPresent = 11"
| "exception_vector E_StackSegmentFault = 12"
| "exception_vector E_GeneralProtectionFault = 13"
| "exception_vector E_PageFault = 14"
| "exception_vector E_FloatingPointException = 16"
| "exception_vector E_AlignmentCheck = 17"
| "exception_vector E_MachineCheck = 18"
| "exception_vector E_SIMDFloatingPointException = 19"
| "exception_vector E_VirtualizationException = 20"
| "exception_vector E_SecurityException = 30"
| "exception_vector E_IrqStart = 32"
| "exception_vector E_IrqEnd = 255"


section \<open>Control fields\<close>

datatype PinVmExecControls =
    PIN_INTR_EXITING | PIN_NMI_EXITING | PIN_VIRTUAL_NMIS | PIN_PREEMPTION_TIMER
  | PIN_POSTED_INTR

primrec pin_bits :: "PinVmExecControls \<Rightarrow> u32" where
  "pin_bits PIN_INTR_EXITING = push_bit 0 1"
| "pin_bits PIN_NMI_EXITING = push_bit 3 1"
| "pin_bits PIN_VIRTUAL_NMIS = push_bit 5 1"
| "pin_bits PIN_PREEMPTION_TIMER = push_bit 6 1"
| "pin_bits PIN_POSTED_INTR = push_bit 7 1"

datatype (plugins only: code size) PrimaryVmExecControls =
    CPU_INTR_WINDOW_EXITING | CPU_USE_TSC_OFFSETTING | CPU_HLT_EXITING | CPU_INVLPG_EXITING
  | CPU_MWAIT_EXITING | CPU_RDPMC_EXITING | CPU_RDTSC_EXITING | CPU_CR3_LOAD_EXITING
  | CPU_CR3_STORE_EXITING | CPU_CR8_LOAD_EXITING | CPU_CR8_STORE_EXITING | CPU_VIRTUAL_TPR
  | CPU_NMI_WINDOW_EXITING | CPU_MOV_DR_EXITING | CPU_UNCOND_IO_EXITING | CPU_USE_IO_BITMAPS
  | CPU_MONITOR_TRAP_FLAG | CPU_USE_MSR_BITMAPS | CPU_MONITOR_EXITING | CPU_PAUSE_EXITING
  | CPU_SEC_CONTROLS

primrec primary_bits :: "PrimaryVmExecControls \<Rightarrow> u32" where
  "primary_bits CPU_INTR_WINDOW_EXITING = push_bit 2 1"
| "primary_bits CPU_USE_TSC_OFFSETTING = push_bit 3 1"
| "primary_bits CPU_HLT_EXITING = push_bit 7 1"
| "primary_bits CPU_INVLPG_EXITING = push_bit 9 1"
| "primary_bits CPU_MWAIT_EXITING = push_bit 10 1"
| "primary_bits CPU_RDPMC_EXITING = push_bit 11 1"
| "primary_bits CPU_RDTSC_EXITING = push_bit 12 1"
| "primary_bits CPU_CR3_LOAD_EXITING = push_bit 15 1"
| "primary_bits CPU_CR3_STORE_EXITING = push_bit 16 1"
| "primary_bits CPU_CR8_LOAD_EXITING = push_bit 19 1"
| "primary_bits CPU_CR8_STORE_EXITING = push_bit 20 1"
| "primary_bits CPU_VIRTUAL_TPR = push_bit 21 1"
| "primary_bits CPU_NMI_WINDOW_EXITING = push_bit 22 1"
| "primary_bits CPU_MOV_DR_EXITING = push_bit 23 1"
| "primary_bits CPU_UNCOND_IO_EXITING = push_bit 24 1"
| "primary_bits CPU_USE_IO_BITMAPS = push_bit 25 1"
| "primary_bits CPU_MONITOR_TRAP_FLAG = push_bit 27 1"
| "primary_bits CPU_USE_MSR_BITMAPS = push_bit 28 1"
| "primary_bits CPU_MONITOR_EXITING = push_bit 29 1"
| "primary_bits CPU_PAUSE_EXITING = push_bit 30 1"
| "primary_bits CPU_SEC_CONTROLS = push_bit 31 1"

datatype (plugins only: code size) SecondaryVmExecControls =
    CPU2_VIRT_APIC_ACCESSES | CPU2_EPT | CPU2_DESC_EXITING | CPU2_RDTSCP | CPU2_VIRTUAL_X2APIC
  | CPU2_VPID | CPU2_WBINVD_EXITING | CPU2_UNRESTRICTED_GUEST | CPU2_APIC_REGISTER_VIRT
  | CPU2_VIRT_INTR_DELIVERY | CPU2_PAUSE_LOOP_EXITING | CPU2_RDRAND_EXITING | CPU2_INVPCID
  | CPU2_VMFUNC | CPU2_SHADOW_VMCS | CPU2_ENCLS_EXITING | CPU2_RDSEED_EXITING
  | CPU2_PAGE_MOD_LOGGING | CPU2_EPT_VIOLATION_VE | CPU2_PT_CONCEAL_VMX | CPU2_XSAVES
  | CPU2_MODE_BASED_EPT_EXEC | CPU2_PT_USE_GPA | CPU2_TSC_SCALING | CPU2_USR_WAIT_PAUSE
  | CPU2_ENCLV_EXITING

primrec secondary_bits :: "SecondaryVmExecControls \<Rightarrow> u32" where
  "secondary_bits CPU2_VIRT_APIC_ACCESSES = push_bit 0 1"
| "secondary_bits CPU2_EPT = push_bit 1 1"
| "secondary_bits CPU2_DESC_EXITING = push_bit 2 1"
| "secondary_bits CPU2_RDTSCP = push_bit 3 1"
| "secondary_bits CPU2_VIRTUAL_X2APIC = push_bit 4 1"
| "secondary_bits CPU2_VPID = push_bit 5 1"
| "secondary_bits CPU2_WBINVD_EXITING = push_bit 6 1"
| "secondary_bits CPU2_UNRESTRICTED_GUEST = push_bit 7 1"
| "secondary_bits CPU2_APIC_REGISTER_VIRT = push_bit 8 1"
| "secondary_bits CPU2_VIRT_INTR_DELIVERY = push_bit 9 1"
| "secondary_bits CPU2_PAUSE_LOOP_EXITING = push_bit 10 1"
| "secondary_bits CPU2_RDRAND_EXITING = push_bit 11 1"
| "secondary_bits CPU2_INVPCID = push_bit 12 1"
| "secondary_bits CPU2_VMFUNC = push_bit 13 1"
| "secondary_bits CPU2_SHADOW_VMCS = push_bit 14 1"
| "secondary_bits CPU2_ENCLS_EXITING = push_bit 15 1"
| "secondary_bits CPU2_RDSEED_EXITING = push_bit 16 1"
| "secondary_bits CPU2_PAGE_MOD_LOGGING = push_bit 17 1"
| "secondary_bits CPU2_EPT_VIOLATION_VE = push_bit 18 1"
| "secondary_bits CPU2_PT_CONCEAL_VMX = push_bit 19 1"
| "secondary_bits CPU2_XSAVES = push_bit 20 1"
| "secondary_bits CPU2_MODE_BASED_EPT_EXEC = push_bit 22 1"
| "secondary_bits CPU2_PT_USE_GPA = push_bit 24 1"
| "secondary_bits CPU2_TSC_SCALING = push_bit 25 1"
| "secondary_bits CPU2_USR_WAIT_PAUSE = push_bit 26 1"
| "secondary_bits CPU2_ENCLV_EXITING = push_bit 28 1"

datatype VmExitControls =
    EXIT_SAVE_DEBUG_CONTROLS | EXIT_HOST_ADDR_SPACE_SIZE | EXIT_LOAD_IA32_PERF_GLOBAL_CTRL
  | EXIT_ACK_INTR_ON_EXIT | EXIT_SAVE_IA32_PAT | EXIT_LOAD_IA32_PAT | EXIT_SAVE_IA32_EFER
  | EXIT_LOAD_IA32_EFER | EXIT_SAVE_VMX_PREEMPTION_TIMER | EXIT_CLEAR_BNDCFGS
  | EXIT_PT_CONCEAL_PIP | EXIT_CLEAR_IA32_RTIT_CTL | EXIT_LOAD_CET_STATE

primrec exit_bits :: "VmExitControls \<Rightarrow> u32" where
  "exit_bits EXIT_SAVE_DEBUG_CONTROLS = push_bit 2 1"
| "exit_bits EXIT_HOST_ADDR_SPACE_SIZE = push_bit 9 1"
| "exit_bits EXIT_LOAD_IA32_PERF_GLOBAL_CTRL = push_bit 12 1"
| "exit_bits EXIT_ACK_INTR_ON_EXIT = push_bit 15 1"
| "exit_bits EXIT_SAVE_IA32_PAT = push_bit 18 1"
| "exit_bits EXIT_LOAD_IA32_PAT = push_bit 19 1"
| "exit_bits EXIT_SAVE_IA32_EFER = push_bit 20 1"
| "exit_bits EXIT_LOAD_IA32_EFER = push_bit 21 1"
| "exit_bits EXIT_SAVE_VMX_PREEMPTION_TIMER = push_bit 22 1"
| "exit_bits EXIT_CLEAR_BNDCFGS = push_bit 23 1"
| "exit_bits EXIT_PT_CONCEAL_PIP = push_bit 24 1"
| "exit_bits EXIT_CLEAR_IA32_RTIT_CTL = push_bit 25 1"
| "exit_bits EXIT_LOAD_CET_STATE = push_bit 28 1"

datatype VmEntryControls =
    ENTRY_LOAD_DEBUG_CONTROLS | ENTRY_IA32E_MODE | ENTRY_SMM | ENTRY_DEACT_DUAL_MONITOR
  | ENTRY_LOAD_IA32_PERF_GLOBAL_CTRL | ENTRY_LOAD_IA32_PAT | ENTRY_LOAD_IA32_EFER
  | ENTRY_LOAD_BNDCFGS | ENTRY_PT_CONCEAL_PIP | ENTRY_LOAD_IA32_RTIT_CTL | ENTRY_LOAD_CET_STATE

primrec entry_bits :: "VmEntryControls \<Rightarrow> u32" where
  "entry_bits ENTRY_LOAD_DEBUG_CONTROLS = push_bit 2 1"
| "entry_bits ENTRY_IA32E_MODE = push_bit 9 1"
| "entry_bits ENTRY_SMM = push_bit 10 1"
| "entry_bits ENTRY_DEACT_DUAL_MONITOR = push_bit 11 1"
| "entry_bits ENTRY_LOAD_IA32_PERF_GLOBAL_CTRL = push_bit 13 1"
| "entry_bits ENTRY_LOAD_IA32_PAT = push_bit 14 1"
| "entry_bits ENTRY_LOAD_IA32_EFER = push_bit 15 1"
| "entry_bits ENTRY_LOAD_BNDCFGS = push_bit 16 1"
| "entry_bits ENTRY_PT_CONCEAL_PIP = push_bit 17 1"
| "entry_bits ENTRY_LOAD_IA32_RTIT_CTL = push_bit 18 1"
| "entry_bits ENTRY_LOAD_CET_STATE = push_bit 20 1"


section \<open>The EPT pointer\<close>

datatype EPTPointer =
    EPTP_MEMORY_TYPE_UC | EPTP_MEMORY_TYPE_WB | EPTP_WALK_LENGTH_1 | EPTP_WALK_LENGTH_2
  | EPTP_WALK_LENGTH_3 | EPTP_WALK_LENGTH_4 | EPTP_ENABLE_ACCESSED_DIRTY

primrec eptp_bits :: "EPTPointer \<Rightarrow> u64" where
  "eptp_bits EPTP_MEMORY_TYPE_UC = push_bit 0 0"
| "eptp_bits EPTP_MEMORY_TYPE_WB = push_bit 0 6"
| "eptp_bits EPTP_WALK_LENGTH_1 = push_bit 3 0"
| "eptp_bits EPTP_WALK_LENGTH_2 = push_bit 3 1"
| "eptp_bits EPTP_WALK_LENGTH_3 = push_bit 3 2"
| "eptp_bits EPTP_WALK_LENGTH_4 = push_bit 3 3"
| "eptp_bits EPTP_ENABLE_ACCESSED_DIRTY = push_bit 6 1"

definition EPTPointer_from_table_phys :: "usize \<Rightarrow> u64" where
  "EPTPointer_from_table_phys pml4_paddr =
     (let aligned_addr = pml4_paddr AND NOT 0xfff in
      aligned_addr OR eptp_bits EPTP_MEMORY_TYPE_WB OR eptp_bits EPTP_WALK_LENGTH_4
        OR eptp_bits EPTP_ENABLE_ACCESSED_DIRTY)"


section \<open>VMX capability and feature control\<close>

datatype VmxBasicFlags = VB_IO_EXIT_INFO | VB_VMX_FLEX_CONTROLS

primrec vmx_basic_bits :: "VmxBasicFlags \<Rightarrow> u64" where
  "vmx_basic_bits VB_IO_EXIT_INFO = push_bit 54 1"
| "vmx_basic_bits VB_VMX_FLEX_CONTROLS = push_bit 55 1"

definition VmxBasicFlags_all :: u64 where
  "VmxBasicFlags_all = vmx_basic_bits VB_IO_EXIT_INFO OR vmx_basic_bits VB_VMX_FLEX_CONTROLS"

record VmxBasic =
  revision_id :: u32
  region_size :: u16
  write_back :: bool
  io_exit_info :: bool
  vmx_flex_controls :: bool

definition VmxBasic_read :: "machine \<Rightarrow> VmxBasic" where
  "VmxBasic_read m =
     (let v = Msr_read MSR_IA32_VMX_BASIC m;
          flags = truncate_flags VmxBasicFlags_all v in
      \<lparr>revision_id = ucast (get_bits v 0 31), region_size = ucast (get_bits v 32 45),
       write_back = (get_bits v 50 54 = 6),
       io_exit_info = contains flags (vmx_basic_bits VB_IO_EXIT_INFO),
       vmx_flex_controls = contains flags (vmx_basic_bits VB_VMX_FLEX_CONTROLS)\<rparr>)"

datatype FeatureControlFlags =
    FC_LOCKED | FC_VMXON_ENABLED_INSIDE_SMX | FC_VMXON_ENABLED_OUTSIDE_SMX

primrec feature_bits :: "FeatureControlFlags \<Rightarrow> u64" where
  "feature_bits FC_LOCKED = push_bit 0 1"
| "feature_bits FC_VMXON_ENABLED_INSIDE_SMX = push_bit 1 1"
| "feature_bits FC_VMXON_ENABLED_OUTSIDE_SMX = push_bit 2 1"

definition FeatureControlFlags_all :: u64 where
  "FeatureControlFlags_all = feature_bits FC_LOCKED OR feature_bits FC_VMXON_ENABLED_INSIDE_SMX
     OR feature_bits FC_VMXON_ENABLED_OUTSIDE_SMX"

definition FeatureControl_read :: "machine \<Rightarrow> u64" where
  "FeatureControl_read m = truncate_flags FeatureControlFlags_all (Msr_read MSR_IA32_FEATURE_CONTROL m)"

definition FeatureControl_write :: "u64 \<Rightarrow> machine \<Rightarrow> machine" where
  "FeatureControl_write flags m =
     (let old_value = Msr_read MSR_IA32_FEATURE_CONTROL m;
          reserved = old_value AND NOT FeatureControlFlags_all;
          new_value = reserved OR flags in
      Msr_write MSR_IA32_FEATURE_CONTROL new_value m)"


section \<open>Interruption information\<close>

datatype InterruptInfo = II_ERROR_CODE | II_VALID

primrec intr_info_bits :: "InterruptInfo \<Rightarrow> u32" where
  "intr_info_bits II_ERROR_CODE = push_bit 11 1"
| "intr_info_bits II_VALID = push_bit 31 1"

datatype InterruptType =
    IT_External | IT_Reserved | IT_NMI | IT_HardException | IT_SoftIntr | IT_PrivSoftException
  | IT_SoftException | IT_Other

primrec intr_type_val :: "InterruptType \<Rightarrow> u32" where
  "intr_type_val IT_External = 0"
| "intr_type_val IT_Reserved = 1"
| "intr_type_val IT_NMI = 2"
| "intr_type_val IT_HardException = 3"
| "intr_type_val IT_SoftIntr = 4"
| "intr_type_val IT_PrivSoftException = 5"
| "intr_type_val IT_SoftException = 6"
| "intr_type_val IT_Other = 7"

text \<open>The vectors of \<^verbatim>\<open>x86::irq\<close> are the architectural ones.\<close>

definition InterruptType_from_vector :: "u8 \<Rightarrow> InterruptType" where
  "InterruptType_from_vector v =
     (if v = 2 then IT_NMI
      else if v = 3 \<or> v = 4 then IT_SoftException
      else if v \<le> 20 then IT_HardException
      else if 32 \<le> v then IT_External
      else IT_Other)"

definition is_soft :: "InterruptType \<Rightarrow> bool" where
  "is_soft t \<longleftrightarrow> (case t of IT_SoftIntr \<Rightarrow> True | IT_PrivSoftException \<Rightarrow> True
     | IT_SoftException \<Rightarrow> True | _ \<Rightarrow> False)"

definition has_error_code :: "u8 \<Rightarrow> bool" where
  "has_error_code v \<longleftrightarrow> v = 8 \<or> v = 10 \<or> v = 11 \<or> v = 12 \<or> v = 13 \<or> v = 14 \<or> v = 17"

text \<open>\<open>None\<close> is the panic of \<^verbatim>\<open>set_bits\<close>; lemma \<open>InterruptInfo_from_vector_eq\<close> shows it is not reached.\<close>

definition InterruptInfo_from_vector :: "u8 \<Rightarrow> u32 option" where
  "InterruptInfo_from_vector v =
     (case set_bits_range (ucast v) 8 11 (intr_type_val (InterruptType_from_vector v)) of
        None \<Rightarrow> None
      | Some b \<Rightarrow> Some (let info = b OR intr_info_bits II_VALID in
          if has_error_code v then info OR intr_info_bits II_ERROR_CODE else info))"

text \<open>\<^verbatim>\<open>transmute\<close> of a value below 8 to the enumeration whose discriminants are 0 to 7.\<close>

definition intr_type :: "u32 \<Rightarrow> InterruptType" where
  "intr_type info =
     (let n = get_bits info 8 11 AND 0x7 in
      if n = 0 then IT_External else if n = 1 then IT_Reserved else if n = 2 then IT_NMI
      else if n = 3 then IT_HardException else if n = 4 then IT_SoftIntr
      else if n = 5 then IT_PrivSoftException else if n = 6 then IT_SoftException else IT_Other)"


section \<open>EPT invalidation\<close>

record InvEptDescriptor =
  inv_eptp :: u64
  inv_reserved :: u64

definition InvEptDescriptor_new :: "u64 \<Rightarrow> InvEptDescriptor" where
  "InvEptDescriptor_new eptp = \<lparr>inv_eptp = eptp, inv_reserved = 0\<rparr>"

datatype InvEptType = INV_SingleContext | INV_Global

primrec inv_ept_val :: "InvEptType \<Rightarrow> u64" where
  "inv_ept_val INV_SingleContext = 1"
| "inv_ept_val INV_Global = 2"


section \<open>Packed words\<close>

text \<open>The EPT pointer keeps the page-aligned table address above its low 12 bits.\<close>

lemma EPTPointer_flags: "EPTPointer_from_table_phys p = (p AND NOT (mask 12)) OR 0x5e"
  by (simp add: EPTPointer_from_table_phys_def mask_eq_exp_minus_1 or.assoc)

lemma EPTPointer_addr: "EPTPointer_from_table_phys p AND NOT (mask 12) = p AND NOT (mask 12)"
  by (simp add: EPTPointer_flags bit.conj_disj_distrib2 and.assoc mask_eq_exp_minus_1)

lemma EPTPointer_low: "take_bit 12 (EPTPointer_from_table_phys p) = 0x5e"
proof -
  have "take_bit 12 (p AND NOT (mask 12)) = 0"
    by (rule bit_word_eqI) (auto simp: bit_simps)
  then show ?thesis
    by (simp add: EPTPointer_flags)
qed

lemma FeatureControl_read_write:
  "flags AND FeatureControlFlags_all = flags \<Longrightarrow> FeatureControl_read (FeatureControl_write flags m) = flags"
  unfolding FeatureControl_read_def FeatureControl_write_def Let_def Msr_read_write truncate_flags_def
  by (simp add: masked_write_in)

lemma FeatureControl_write_reserved:
  "flags AND FeatureControlFlags_all = flags \<Longrightarrow>
   Msr_read MSR_IA32_FEATURE_CONTROL (FeatureControl_write flags m) AND NOT FeatureControlFlags_all
     = Msr_read MSR_IA32_FEATURE_CONTROL m AND NOT FeatureControlFlags_all"
  unfolding FeatureControl_write_def Let_def Msr_read_write
  by (simp add: masked_write_out)

lemma bit_intr_info_bits:
  "bit (intr_info_bits II_VALID) n \<longleftrightarrow> n = 31" "bit (intr_info_bits II_ERROR_CODE) n \<longleftrightarrow> n = 11"
  unfolding intr_info_bits.simps by (rule bit_push_bit_one; simp)+

lemma intr_type_val_lt: "take_bit 3 (intr_type_val t) = intr_type_val t"
  by (cases t) simp_all

lemma bit_intr_type_val: "bit (intr_type_val t) n \<Longrightarrow> n < 3"
  using intr_type_val_lt[of t] by (metis bit_take_bit_iff)

text \<open>The bits of the interruption information: vector, type, error-code flag, valid flag.\<close>

lemma InterruptInfo_from_vector_eq:
  obtains info where "InterruptInfo_from_vector v = Some info"
    "\<And>n. bit info n \<longleftrightarrow> (if n < 8 then bit v n else if n < 11 then
        bit (intr_type_val (InterruptType_from_vector v)) (n - 8)
        else if n = 11 then has_error_code v else n = 31)"
proof -
  let ?t = "intr_type_val (InterruptType_from_vector v)"
  obtain b where b: "set_bits_range (ucast v :: u32) 8 11 ?t = Some b"
    by (simp add: set_bits_range_def intr_type_val_lt)
  let ?i = "let info = b OR intr_info_bits II_VALID in
    if has_error_code v then info OR intr_info_bits II_ERROR_CODE else info"
  have "bit ?i n \<longleftrightarrow> (if n < 8 then bit v n else if n < 11 then bit ?t (n - 8)
        else if n = 11 then has_error_code v else n = 31)" for n
    using set_bits_range_Some[OF b, of n] bit_imp_le_length[of v n]
    by (auto simp: Let_def bit_or_iff bit_intr_info_bits bit_simps simp del: intr_info_bits.simps)
  moreover have "InterruptInfo_from_vector v = Some ?i"
    by (simp add: InterruptInfo_from_vector_def b)
  ultimately show ?thesis using that by blast
qed

lemma intr_type_of_val: "get_bits info 8 11 = intr_type_val t \<Longrightarrow> intr_type info = t"
  by (cases t) (simp_all add: intr_type_def)

text \<open>C29: The interruption-information word that \<^verbatim>\<open>InterruptInfo::from_vector\<close> builds for any of
  the 256 vectors is valid, carries the vector in its low byte and a deliver-error-code flag exactly
  for the seven exceptions that push one, leaves the reserved bits 12 to 30 zero, and reading its
  type field back gives the type chosen for the vector; no vector makes it panic.\<close>

theorem interrupt_info_round_trip:
  "\<exists>info. InterruptInfo_from_vector v = Some info \<and> get_bits info 0 8 = ucast v \<and>
     intr_type info = InterruptType_from_vector v \<and> bit info 31 \<and>
     (bit info 11 \<longleftrightarrow> has_error_code v) \<and> get_bits info 12 31 = 0"
proof -
  obtain info where i: "InterruptInfo_from_vector v = Some info"
    and b: "\<And>n. bit info n \<longleftrightarrow> (if n < 8 then bit v n else if n < 11 then
        bit (intr_type_val (InterruptType_from_vector v)) (n - 8)
        else if n = 11 then has_error_code v else n = 31)"
    using InterruptInfo_from_vector_eq by blast
  have "get_bits info 0 8 = ucast v"
    by (rule bit_word_eqI) (auto simp: bit_get_bits b bit_simps dest: bit_imp_le_length)
  moreover have "get_bits info 8 11 = intr_type_val (InterruptType_from_vector v)"
    by (rule bit_word_eqI) (auto simp: bit_get_bits b dest: bit_intr_type_val)
  moreover have "get_bits info 12 31 = 0"
    by (rule bit_word_eqI) (auto simp: bit_get_bits b)
  ultimately show ?thesis
    using i by (simp add: b intr_type_of_val)
qed

end
