(* ===== verification/SvmDefs.thy ===== *)
theory SvmDefs
  imports VmxFlags
begin

text \<open>
  Exit codes, intercepts and flags of SVM: \<^verbatim>\<open>crates/libvmm/src/x86_64/svm/definitions.rs\<close> and
  \<^verbatim>\<open>crates/libvmm/src/x86_64/svm/flags.rs\<close>. The arms of \<^verbatim>\<open>SvmExitCode::try_from\<close> for single values are a
  table, tried after the arms for ranges, with which they do not overlap. The lemmas show that the
  decoding of exit codes is exact and that the event-injection word can be read back.
\<close>


section \<open>Exit codes\<close>

datatype (plugins only: code size) SvmExitCode =
    SX_CR_READ u8 | SX_CR_WRITE u8 | SX_DR_READ u8 | SX_DR_WRITE u8 | SX_EXCP u8 | SX_INTR |
    SX_NMI | SX_SMI | SX_INIT | SX_VINTR | SX_CR0_SEL_WRITE | SX_IDTR_READ | SX_GDTR_READ |
    SX_LDTR_READ | SX_TR_READ | SX_IDTR_WRITE | SX_GDTR_WRITE | SX_LDTR_WRITE | SX_TR_WRITE
    | SX_RDTSC | SX_RDPMC | SX_PUSHF | SX_POPF | SX_CPUID | SX_RSM | SX_IRET | SX_SWINT |
    SX_INVD | SX_PAUSE | SX_HLT | SX_INVLPG | SX_INVLPGA | SX_IOIO | SX_MSR | SX_TASK_SWITCH
    | SX_FERR_FREEZE | SX_SHUTDOWN | SX_VMRUN | SX_VMMCALL | SX_VMLOAD | SX_VMSAVE | SX_STGI
    | SX_CLGI | SX_SKINIT | SX_RDTSCP | SX_ICEBP | SX_WBINVD | SX_MONITOR | SX_MWAIT |
    SX_MWAIT_CONDITIONAL | SX_XSETBV | SX_RDPRU | SX_EFER_WRITE_TRAP | SX_CR_WRITE_TRAP u8 |
    SX_INVLPGB | SX_INVLPGB_ILLEGAL | SX_INVPCID | SX_MCOMMIT | SX_TLBSYNC | SX_NPF |
    SX_AVIC_INCOMPLETE_IPI | SX_AVIC_NOACCEL | SX_VMGEXIT | SX_INVALID | SX_BUSY

definition SvmExitCode_arms :: "(int \<times> SvmExitCode) list" where
  "SvmExitCode_arms =
    [(0x60, SX_INTR), (0x61, SX_NMI), (0x62, SX_SMI), (0x63, SX_INIT), (0x64, SX_VINTR),
     (0x65, SX_CR0_SEL_WRITE), (0x66, SX_IDTR_READ), (0x67, SX_GDTR_READ), (0x68,
     SX_LDTR_READ), (0x69, SX_TR_READ), (0x6a, SX_IDTR_WRITE), (0x6b, SX_GDTR_WRITE), (0x6c,
     SX_LDTR_WRITE), (0x6d, SX_TR_WRITE), (0x6e, SX_RDTSC), (0x6f, SX_RDPMC), (0x70,
     SX_PUSHF), (0x71, SX_POPF), (0x72, SX_CPUID), (0x73, SX_RSM), (0x74, SX_IRET), (0x75,
     SX_SWINT), (0x76, SX_INVD), (0x77, SX_PAUSE), (0x78, SX_HLT), (0x79, SX_INVLPG), (0x7a,
     SX_INVLPGA), (0x7b, SX_IOIO), (0x7c, SX_MSR), (0x7d, SX_TASK_SWITCH), (0x7e,
     SX_FERR_FREEZE), (0x7f, SX_SHUTDOWN), (0x80, SX_VMRUN), (0x81, SX_VMMCALL), (0x82,
     SX_VMLOAD), (0x83, SX_VMSAVE), (0x84, SX_STGI), (0x85, SX_CLGI), (0x86, SX_SKINIT),
     (0x87, SX_RDTSCP), (0x88, SX_ICEBP), (0x89, SX_WBINVD), (0x8a, SX_MONITOR), (0x8b,
     SX_MWAIT), (0x8c, SX_MWAIT_CONDITIONAL), (0x8d, SX_XSETBV), (0x8e, SX_RDPRU), (0x8f,
     SX_EFER_WRITE_TRAP), (0xa0, SX_INVLPGB), (0xa1, SX_INVLPGB_ILLEGAL), (0xa2,
     SX_INVPCID), (0xa3, SX_MCOMMIT), (0xa4, SX_TLBSYNC), (0x400, SX_NPF), (0x401,
     SX_AVIC_INCOMPLETE_IPI), (0x402, SX_AVIC_NOACCEL), (0x403, SX_VMGEXIT), (- 1,
     SX_INVALID), (- 2, SX_BUSY)]"

definition SvmExitCode_try_from :: "u64 \<Rightarrow> (SvmExitCode, u64) result" where
  "SvmExitCode_try_from val =
     (let v = sint val in
      if 0x00 \<le> v \<and> v \<le> 0x0f then Ok (SX_CR_READ (ucast val)) else
      if 0x10 \<le> v \<and> v \<le> 0x1f then Ok (SX_CR_WRITE (ucast val - 0x10)) else
      if 0x20 \<le> v \<and> v \<le> 0x2f then Ok (SX_DR_READ (ucast val - 0x20)) else
      if 0x30 \<le> v \<and> v \<le> 0x3f then Ok (SX_DR_WRITE (ucast val - 0x30)) else
      if 0x40 \<le> v \<and> v \<le> 0x5f then Ok (SX_EXCP (ucast val - 0x40)) else
      if 0x90 \<le> v \<and> v \<le> 0x9f then Ok (SX_CR_WRITE_TRAP (ucast val - 0x90)) else
      case map_of SvmExitCode_arms v of Some c \<Rightarrow> Ok c | None \<Rightarrow> Err val)"


section \<open>Intercepts\<close>

datatype (plugins only: code size) SvmIntercept =
    SI_INTR | SI_NMI | SI_SMI | SI_INIT | SI_VINTR | SI_CR0_SEL_WRITE | SI_IDTR_READ
  | SI_GDTR_READ | SI_LDTR_READ | SI_TR_READ | SI_IDTR_WRITE | SI_GDTR_WRITE | SI_LDTR_WRITE
  | SI_TR_WRITE | SI_RDTSC | SI_RDPMC | SI_PUSHF | SI_POPF | SI_CPUID | SI_RSM | SI_IRET
  | SI_SWINT | SI_INVD | SI_PAUSE | SI_HLT | SI_INVLPG | SI_INVLPGA | SI_IOIO_PROT
  | SI_MSR_PROT | SI_TASK_SWITCH | SI_FERR_FREEZE | SI_SHUTDOWN | SI_VMRUN | SI_VMMCALL
  | SI_VMLOAD | SI_VMSAVE | SI_STGI | SI_CLGI | SI_SKINIT | SI_RDTSCP | SI_ICEBP | SI_WBINVD
  | SI_MONITOR | SI_MWAIT | SI_MWAIT_CONDITIONAL | SI_XSETBV | SI_RDPRU | SI_EFER_WRITE_TRAP
  | SI_INVLPGB | SI_INVLPGB_ILLEGAL | SI_INVPCID | SI_MCOMMIT | SI_TLBSYNC

primrec svm_intercept_val :: "SvmIntercept \<Rightarrow> u8" where
  "svm_intercept_val SI_INTR = 0x60"
| "svm_intercept_val SI_NMI = 0x61"
| "svm_intercept_val SI_SMI = 0x62"
| "svm_intercept_val SI_INIT = 0x63"
| "svm_intercept_val SI_VINTR = 0x64"
| "svm_intercept_val SI_CR0_SEL_WRITE = 0x65"
| "svm_intercept_val SI_IDTR_READ = 0x66"
| "svm_intercept_val SI_GDTR_READ = 0x67"
| "svm_intercept_val SI_LDTR_READ = 0x68"
| "svm_intercept_val SI_TR_READ = 0x69"
| "svm_intercept_val SI_IDTR_WRITE = 0x6a"
| "svm_intercept_val SI_GDTR_WRITE = 0x6b"
| "svm_intercept_val SI_LDTR_WRITE = 0x6c"
| "svm_intercept_val SI_TR_WRITE = 0x6d"
| "svm_intercept_val SI_RDTSC = 0x6e"
| "svm_intercept_val SI_RDPMC = 0x6f"
| "svm_intercept_val SI_PUSHF = 0x70"
| "svm_intercept_val SI_POPF = 0x71"
| "svm_intercept_val SI_CPUID = 0x72"
| "svm_intercept_val SI_RSM = 0x73"
| "svm_intercept_val SI_IRET = 0x74"
| "svm_intercept_val SI_SWINT = 0x75"
| "svm_intercept_val SI_INVD = 0x76"
| "svm_intercept_val SI_PAUSE = 0x77"
| "svm_intercept_val SI_HLT = 0x78"
| "svm_intercept_val SI_INVLPG = 0x79"
| "svm_intercept_val SI_INVLPGA = 0x7a"
| "svm_intercept_val SI_IOIO_PROT = 0x7b"
| "svm_intercept_val SI_MSR_PROT = 0x7c"
| "svm_intercept_val SI_TASK_SWITCH = 0x7d"
| "svm_intercept_val SI_FERR_FREEZE = 0x7e"
| "svm_intercept_val SI_SHUTDOWN = 0x7f"
| "svm_intercept_val SI_VMRUN = 0x80"
| "svm_intercept_val SI_VMMCALL = 0x81"
| "svm_intercept_val SI_VMLOAD = 0x82"
| "svm_intercept_val SI_VMSAVE = 0x83"
| "svm_intercept_val SI_STGI = 0x84"
| "svm_intercept_val SI_CLGI = 0x85"
| "svm_intercept_val SI_SKINIT = 0x86"
| "svm_intercept_val SI_RDTSCP = 0x87"
| "svm_intercept_val SI_ICEBP = 0x88"
| "svm_intercept_val SI_WBINVD = 0x89"
| "svm_intercept_val SI_MONITOR = 0x8a"
| "svm_intercept_val SI_MWAIT = 0x8b"
| "svm_intercept_val SI_MWAIT_CONDITIONAL = 0x8c"
| "svm_intercept_val SI_XSETBV = 0x8d"
| "svm_intercept_val SI_RDPRU = 0x8e"
| "svm_intercept_val SI_EFER_WRITE_TRAP = 0x8f"
| "svm_intercept_val SI_INVLPGB = 0xa0"
| "svm_intercept_val SI_INVLPGB_ILLEGAL = 0xa1"
| "svm_intercept_val SI_INVPCID = 0xa2"
| "svm_intercept_val SI_MCOMMIT = 0xa3"
| "svm_intercept_val SI_TLBSYNC = 0xa4"


section \<open>Flags\<close>

datatype VmCrFlags =
    VMCR_DPD | VMCR_R_INIT | VMCR_DIS_A20M | VMCR_LOCK | VMCR_SVMDIS

primrec vm_cr_bits :: "VmCrFlags \<Rightarrow> u64" where
  "vm_cr_bits VMCR_DPD = push_bit 0 1"
| "vm_cr_bits VMCR_R_INIT = push_bit 1 1"
| "vm_cr_bits VMCR_DIS_A20M = push_bit 2 1"
| "vm_cr_bits VMCR_LOCK = push_bit 3 1"
| "vm_cr_bits VMCR_SVMDIS = push_bit 4 1"

definition VmCrFlags_all :: u64 where
  "VmCrFlags_all = vm_cr_bits VMCR_DPD OR vm_cr_bits VMCR_R_INIT OR vm_cr_bits VMCR_DIS_A20M
     OR vm_cr_bits VMCR_LOCK OR vm_cr_bits VMCR_SVMDIS"

definition VmCr_read :: "machine \<Rightarrow> u64" where
  "VmCr_read m = truncate_flags VmCrFlags_all (Msr_read MSR_VM_CR m)"

datatype VmcbCleanBits =
    CLEAN_I | CLEAN_IOPM | CLEAN_ASID | CLEAN_TPR | CLEAN_NP | CLEAN_CR_X | CLEAN_DR_X
  | CLEAN_DT | CLEAN_SEG | CLEAN_CR2 | CLEAN_LBR | CLEAN_AVIC | CLEAN_CET | CLEAN_UNMODIFIED

primrec clean_bits_val :: "VmcbCleanBits \<Rightarrow> u32" where
  "clean_bits_val CLEAN_I = push_bit 0 1"
| "clean_bits_val CLEAN_IOPM = push_bit 1 1"
| "clean_bits_val CLEAN_ASID = push_bit 2 1"
| "clean_bits_val CLEAN_TPR = push_bit 3 1"
| "clean_bits_val CLEAN_NP = push_bit 4 1"
| "clean_bits_val CLEAN_CR_X = push_bit 5 1"
| "clean_bits_val CLEAN_DR_X = push_bit 6 1"
| "clean_bits_val CLEAN_DT = push_bit 7 1"
| "clean_bits_val CLEAN_SEG = push_bit 8 1"
| "clean_bits_val CLEAN_CR2 = push_bit 9 1"
| "clean_bits_val CLEAN_LBR = push_bit 10 1"
| "clean_bits_val CLEAN_AVIC = push_bit 11 1"
| "clean_bits_val CLEAN_CET = push_bit 12 1"
| "clean_bits_val CLEAN_UNMODIFIED = 0xffffffff"

datatype VmcbIntInfo =
    VI_ERROR_CODE | VI_VALID

primrec vmcb_int_bits :: "VmcbIntInfo \<Rightarrow> u32" where
  "vmcb_int_bits VI_ERROR_CODE = push_bit 11 1"
| "vmcb_int_bits VI_VALID = push_bit 31 1"

datatype SvmInterruptType =
    SIT_External | SIT_NMI | SIT_Exception | SIT_SoftIntr

primrec svm_intr_type_val :: "SvmInterruptType \<Rightarrow> u32" where
  "svm_intr_type_val SIT_External = 0"
| "svm_intr_type_val SIT_NMI = 2"
| "svm_intr_type_val SIT_Exception = 3"
| "svm_intr_type_val SIT_SoftIntr = 4"

text \<open>The vectors of \<^verbatim>\<open>x86::irq\<close> are the architectural ones.\<close>

definition VmcbIntInfo_has_error_code :: "u8 \<Rightarrow> bool" where
  "VmcbIntInfo_has_error_code v \<longleftrightarrow>
     v = 8 \<or> v = 10 \<or> v = 11 \<or> v = 12 \<or> v = 13 \<or> v = 14 \<or> v = 17"

text \<open>\<open>None\<close> is the panic of \<^verbatim>\<open>set_bits\<close>; lemma \<open>VmcbIntInfo_from_eq\<close> shows it is not reached.\<close>

definition VmcbIntInfo_from :: "SvmInterruptType \<Rightarrow> u8 \<Rightarrow> u32 option" where
  "VmcbIntInfo_from int_type v =
     (case set_bits_range (ucast v) 8 11 (svm_intr_type_val int_type) of
        None \<Rightarrow> None
      | Some b \<Rightarrow> Some (let info = b OR vmcb_int_bits VI_VALID in
          if VmcbIntInfo_has_error_code v then info OR vmcb_int_bits VI_ERROR_CODE else info))"

datatype VmcbTlbControl =
    TLB_DoNotFlush | TLB_FlushAll | TLB_FlushAsid | TLB_FlushAsidNonGlobal

primrec tlb_control_val :: "VmcbTlbControl \<Rightarrow> u8" where
  "tlb_control_val TLB_DoNotFlush = 0"
| "tlb_control_val TLB_FlushAll = 0x01"
| "tlb_control_val TLB_FlushAsid = 0x03"
| "tlb_control_val TLB_FlushAsidNonGlobal = 0x07"


section \<open>Decoding\<close>

text \<open>The value of an exit code, with which the decoding is compared.\<close>

primrec svm_exit_val :: "SvmExitCode \<Rightarrow> u64" where
  "svm_exit_val (SX_CR_READ n) = 0x00 + ucast n"
| "svm_exit_val (SX_CR_WRITE n) = 0x10 + ucast n"
| "svm_exit_val (SX_DR_READ n) = 0x20 + ucast n"
| "svm_exit_val (SX_DR_WRITE n) = 0x30 + ucast n"
| "svm_exit_val (SX_EXCP n) = 0x40 + ucast n"
| "svm_exit_val SX_INTR = 0x60"
| "svm_exit_val SX_NMI = 0x61"
| "svm_exit_val SX_SMI = 0x62"
| "svm_exit_val SX_INIT = 0x63"
| "svm_exit_val SX_VINTR = 0x64"
| "svm_exit_val SX_CR0_SEL_WRITE = 0x65"
| "svm_exit_val SX_IDTR_READ = 0x66"
| "svm_exit_val SX_GDTR_READ = 0x67"
| "svm_exit_val SX_LDTR_READ = 0x68"
| "svm_exit_val SX_TR_READ = 0x69"
| "svm_exit_val SX_IDTR_WRITE = 0x6a"
| "svm_exit_val SX_GDTR_WRITE = 0x6b"
| "svm_exit_val SX_LDTR_WRITE = 0x6c"
| "svm_exit_val SX_TR_WRITE = 0x6d"
| "svm_exit_val SX_RDTSC = 0x6e"
| "svm_exit_val SX_RDPMC = 0x6f"
| "svm_exit_val SX_PUSHF = 0x70"
| "svm_exit_val SX_POPF = 0x71"
| "svm_exit_val SX_CPUID = 0x72"
| "svm_exit_val SX_RSM = 0x73"
| "svm_exit_val SX_IRET = 0x74"
| "svm_exit_val SX_SWINT = 0x75"
| "svm_exit_val SX_INVD = 0x76"
| "svm_exit_val SX_PAUSE = 0x77"
| "svm_exit_val SX_HLT = 0x78"
| "svm_exit_val SX_INVLPG = 0x79"
| "svm_exit_val SX_INVLPGA = 0x7a"
| "svm_exit_val SX_IOIO = 0x7b"
| "svm_exit_val SX_MSR = 0x7c"
| "svm_exit_val SX_TASK_SWITCH = 0x7d"
| "svm_exit_val SX_FERR_FREEZE = 0x7e"
| "svm_exit_val SX_SHUTDOWN = 0x7f"
| "svm_exit_val SX_VMRUN = 0x80"
| "svm_exit_val SX_VMMCALL = 0x81"
| "svm_exit_val SX_VMLOAD = 0x82"
| "svm_exit_val SX_VMSAVE = 0x83"
| "svm_exit_val SX_STGI = 0x84"
| "svm_exit_val SX_CLGI = 0x85"
| "svm_exit_val SX_SKINIT = 0x86"
| "svm_exit_val SX_RDTSCP = 0x87"
| "svm_exit_val SX_ICEBP = 0x88"
| "svm_exit_val SX_WBINVD = 0x89"
| "svm_exit_val SX_MONITOR = 0x8a"
| "svm_exit_val SX_MWAIT = 0x8b"
| "svm_exit_val SX_MWAIT_CONDITIONAL = 0x8c"
| "svm_exit_val SX_XSETBV = 0x8d"
| "svm_exit_val SX_RDPRU = 0x8e"
| "svm_exit_val SX_EFER_WRITE_TRAP = 0x8f"
| "svm_exit_val (SX_CR_WRITE_TRAP n) = 0x90 + ucast n"
| "svm_exit_val SX_INVLPGB = 0xa0"
| "svm_exit_val SX_INVLPGB_ILLEGAL = 0xa1"
| "svm_exit_val SX_INVPCID = 0xa2"
| "svm_exit_val SX_MCOMMIT = 0xa3"
| "svm_exit_val SX_TLBSYNC = 0xa4"
| "svm_exit_val SX_NPF = 0x400"
| "svm_exit_val SX_AVIC_INCOMPLETE_IPI = 0x401"
| "svm_exit_val SX_AVIC_NOACCEL = 0x402"
| "svm_exit_val SX_VMGEXIT = 0x403"
| "svm_exit_val SX_INVALID = - 1"
| "svm_exit_val SX_BUSY = - 2"

definition svm_exit_valid :: "SvmExitCode \<Rightarrow> bool" where
  "svm_exit_valid c \<longleftrightarrow> (case c of SX_CR_READ n \<Rightarrow> n \<le> 0xf | SX_CR_WRITE n \<Rightarrow> n \<le> 0xf
     | SX_DR_READ n \<Rightarrow> n \<le> 0xf | SX_DR_WRITE n \<Rightarrow> n \<le> 0xf
     | SX_EXCP n \<Rightarrow> n \<le> 0x1f | SX_CR_WRITE_TRAP n \<Rightarrow> n \<le> 0xf | _ \<Rightarrow> True)"

lemma ucast_of_int:
  "0 \<le> k \<Longrightarrow> k < 256 \<Longrightarrow> (ucast (word_of_int k :: u64) :: u8) = word_of_int k"
  "0 \<le> k \<Longrightarrow> k < 256 \<Longrightarrow> (ucast (word_of_int k :: u8) :: u64) = word_of_int k"
  by (simp_all add: unsigned_of_int take_bit_int_eq_self)

lemma range_arm:
  assumes "0 \<le> lo" "lo \<le> v" "v \<le> hi" "hi < 256"
  shows "word_of_int lo + ucast (ucast (word_of_int v :: u64) - word_of_int lo :: u8) = (word_of_int v :: u64)"
    "ucast (word_of_int v :: u64) - word_of_int lo \<le> (word_of_int (hi - lo) :: u8)"
proof -
  have d: "ucast (word_of_int v :: u64) - word_of_int lo = (word_of_int (v - lo) :: u8)"
    using assms by (simp add: ucast_of_int)
  show "word_of_int lo + ucast (ucast (word_of_int v :: u64) - word_of_int lo :: u8) = (word_of_int v :: u64)"
    unfolding d using assms ucast_of_int(2)[of "v - lo"] by simp
  show "ucast (word_of_int v :: u64) - word_of_int lo \<le> (word_of_int (hi - lo) :: u8)"
    unfolding d using assms by (simp add: word_le_def uint_word_of_int_eq take_bit_int_eq_self del: of_int_diff)
qed

lemmas range_arms =
  range_arm[of "0x00" _ "0x0f", simplified] range_arm[of "0x10" _ "0x1f", simplified]
  range_arm[of "0x20" _ "0x2f", simplified] range_arm[of "0x30" _ "0x3f", simplified]
  range_arm[of "0x40" _ "0x5f", simplified] range_arm[of "0x90" _ "0x9f", simplified]

lemma try_from_inverse:
  assumes "SvmExitCode_try_from val = Ok c"
  shows "svm_exit_val c = val \<and> svm_exit_valid c"
proof -
  define v where "v = sint val"
  have w: "val = word_of_int v" using v_def by simp
  show ?thesis
  proof (cases "(v, c) \<in> set SvmExitCode_arms")
    case True
    then show ?thesis by (auto simp: SvmExitCode_arms_def w svm_exit_valid_def)
  next
    case False
    then show ?thesis
      using assms unfolding SvmExitCode_try_from_def Let_def v_def[symmetric]
      by (auto split: if_splits option.splits dest: map_of_SomeD simp: w svm_exit_valid_def range_arms)
  qed
qed

lemma sint_of_int: "0 \<le> k \<Longrightarrow> k < 2 ^ 63 \<Longrightarrow> sint (word_of_int k :: u64) = k"
  by (simp add: signed_of_int signed_take_bit_int_eq_self)

lemma of_int_arm: "lo + ucast (n :: u8) = (word_of_int (uint lo + uint n) :: u64)"
  by (simp only: of_int_add word_of_int_uint ucast_eq)

lemma range_decode:
  assumes "n \<le> (hi :: u8)" "uint lo + uint hi < 256"
  shows "sint (lo + ucast n :: u64) = uint lo + uint n"
    "(ucast (lo + ucast n :: u64) :: u8) = word_of_int (uint lo) + n"
proof -
  have "uint n \<le> uint hi" using assms(1) by (simp add: word_le_def)
  then have k: "0 \<le> uint lo + uint n" "uint lo + uint n < 256" using assms(2) by simp_all
  show "sint (lo + ucast n :: u64) = uint lo + uint n"
    unfolding of_int_arm using k by (intro sint_of_int) auto
  show "(ucast (lo + ucast n :: u64) :: u8) = word_of_int (uint lo) + n"
    unfolding of_int_arm ucast_of_int(1)[OF k] by simp
qed

lemma range_bound: "n \<le> (hi :: u8) \<Longrightarrow> 0 \<le> uint n \<and> uint n \<le> uint hi"
  by (simp add: word_le_def)

lemma try_from_range:
  "n \<le> 0x0f \<Longrightarrow> SvmExitCode_try_from (0 + ucast n) = Ok (SX_CR_READ n)"
  "n \<le> 0x0f \<Longrightarrow> SvmExitCode_try_from (0x10 + ucast n) = Ok (SX_CR_WRITE n)"
  "n \<le> 0x0f \<Longrightarrow> SvmExitCode_try_from (0x20 + ucast n) = Ok (SX_DR_READ n)"
  "n \<le> 0x0f \<Longrightarrow> SvmExitCode_try_from (0x30 + ucast n) = Ok (SX_DR_WRITE n)"
  "n \<le> 0x1f \<Longrightarrow> SvmExitCode_try_from (0x40 + ucast n) = Ok (SX_EXCP n)"
  "n \<le> 0x0f \<Longrightarrow> SvmExitCode_try_from (0x90 + ucast n) = Ok (SX_CR_WRITE_TRAP n)"
  subgoal using range_decode[of n "0x0f" "0"] range_bound[of n "0x0f"] by (simp add: SvmExitCode_try_from_def Let_def; use uint_ge_0[of n] in linarith)
  subgoal using range_decode[of n "0x0f" "0x10"] range_bound[of n "0x0f"] by (simp add: SvmExitCode_try_from_def Let_def; use uint_ge_0[of n] in linarith)
  subgoal using range_decode[of n "0x0f" "0x20"] range_bound[of n "0x0f"] by (simp add: SvmExitCode_try_from_def Let_def; use uint_ge_0[of n] in linarith)
  subgoal using range_decode[of n "0x0f" "0x30"] range_bound[of n "0x0f"] by (simp add: SvmExitCode_try_from_def Let_def; use uint_ge_0[of n] in linarith)
  subgoal using range_decode[of n "0x1f" "0x40"] range_bound[of n "0x1f"] by (simp add: SvmExitCode_try_from_def Let_def; use uint_ge_0[of n] in linarith)
  subgoal using range_decode[of n "0x0f" "0x90"] range_bound[of n "0x0f"] by (simp add: SvmExitCode_try_from_def Let_def; use uint_ge_0[of n] in linarith)
  done

lemma arms_table:
  "distinct (map fst SvmExitCode_arms)"
  "\<forall>(v, c) \<in> set SvmExitCode_arms. - 2 \<le> v \<and> v \<le> 0x403 \<and> (v < 0 \<or> 0x60 \<le> v) \<and> (v < 0x90 \<or> 0x9f < v)"
  "\<forall>(v, c) \<in> set SvmExitCode_arms. svm_exit_val c = word_of_int v"
  by (simp_all add: SvmExitCode_arms_def)

lemma try_from_arm:
  assumes "(v, c) \<in> set SvmExitCode_arms"
  shows "SvmExitCode_try_from (svm_exit_val c) = Ok c"
proof -
  have v: "- 2 \<le> v" "v \<le> 0x403" "v < 0 \<or> 0x60 \<le> v" "v < 0x90 \<or> 0x9f < v"
    and val: "svm_exit_val c = word_of_int v"
    using assms arms_table(2,3) by auto
  have "sint (word_of_int v :: u64) = v"
    using v(1,2) by (simp add: signed_of_int signed_take_bit_int_eq_self)
  moreover have "map_of SvmExitCode_arms v = Some c"
    using assms arms_table(1) by simp
  ultimately show ?thesis
    unfolding val SvmExitCode_try_from_def Let_def using v(3,4) by auto
qed

lemma arms_complete:
  "(case c of SX_CR_READ _ \<Rightarrow> True | SX_CR_WRITE _ \<Rightarrow> True | SX_DR_READ _ \<Rightarrow> True | SX_DR_WRITE _ \<Rightarrow> True
    | SX_EXCP _ \<Rightarrow> True | SX_CR_WRITE_TRAP _ \<Rightarrow> True | _ \<Rightarrow> c \<in> set (map snd SvmExitCode_arms))"
  by (cases c) (simp_all add: SvmExitCode_arms_def)

lemma try_from_svm_exit_val:
  assumes "svm_exit_valid c"
  shows "SvmExitCode_try_from (svm_exit_val c) = Ok c"
proof (cases "c \<in> set (map snd SvmExitCode_arms)")
  case True
  then show ?thesis using try_from_arm by auto
next
  case False
  then show ?thesis
    using assms arms_complete[of c] try_from_range
    by (cases c) (simp_all add: svm_exit_valid_def)
qed

text \<open>C39: Decoding an SVM exit code is exact: \<^verbatim>\<open>SvmExitCode::try_from\<close> accepts a 64-bit value as the code
  \<open>c\<close> exactly when it is the value of \<open>c\<close> with the register or vector number in the range the manual
  gives, and every other value is returned as the error; it never panics.\<close>

theorem svm_exit_code_exact:
  "(SvmExitCode_try_from val = Ok c \<longleftrightarrow> svm_exit_val c = val \<and> svm_exit_valid c) \<and>
   (SvmExitCode_try_from val = Err val \<longleftrightarrow> (\<nexists>c. svm_exit_val c = val \<and> svm_exit_valid c))"
proof -
  have iff: "SvmExitCode_try_from val = Ok c \<longleftrightarrow> svm_exit_val c = val \<and> svm_exit_valid c" for c
    using try_from_inverse try_from_svm_exit_val by blast
  moreover have "SvmExitCode_try_from val = Err val \<or> (\<exists>c. SvmExitCode_try_from val = Ok c)"
    by (simp add: SvmExitCode_try_from_def Let_def split: option.splits)
  ultimately show ?thesis by (metis result.distinct(1))
qed


section \<open>Event injection\<close>

lemma svm_intr_type_val_lt: "take_bit 3 (svm_intr_type_val t) = svm_intr_type_val t"
  by (cases t) simp_all

lemma bit_svm_intr_type_val: "bit (svm_intr_type_val t) n \<Longrightarrow> n < 3"
  using svm_intr_type_val_lt[of t] by (metis bit_take_bit_iff)

lemma bit_vmcb_int_bits:
  "bit (vmcb_int_bits VI_VALID) n \<longleftrightarrow> n = 31" "bit (vmcb_int_bits VI_ERROR_CODE) n \<longleftrightarrow> n = 11"
  unfolding vmcb_int_bits.simps by (rule bit_push_bit_one; simp)+

lemma VmcbIntInfo_from_eq:
  obtains info where "VmcbIntInfo_from t v = Some info"
    "\<And>n. bit info n \<longleftrightarrow> (if n < 8 then bit v n else if n < 11 then bit (svm_intr_type_val t) (n - 8)
        else if n = 11 then VmcbIntInfo_has_error_code v else n = 31)"
proof -
  obtain b where b: "set_bits_range (ucast v :: u32) 8 11 (svm_intr_type_val t) = Some b"
    by (simp add: set_bits_range_def svm_intr_type_val_lt)
  let ?i = "let info = b OR vmcb_int_bits VI_VALID in
    if VmcbIntInfo_has_error_code v then info OR vmcb_int_bits VI_ERROR_CODE else info"
  have "bit ?i n \<longleftrightarrow> (if n < 8 then bit v n else if n < 11 then bit (svm_intr_type_val t) (n - 8)
        else if n = 11 then VmcbIntInfo_has_error_code v else n = 31)" for n
    using set_bits_range_Some[OF b, of n] bit_imp_le_length[of v n]
    by (auto simp: Let_def bit_or_iff bit_vmcb_int_bits bit_simps simp del: vmcb_int_bits.simps)
  moreover have "VmcbIntInfo_from t v = Some ?i"
    by (simp add: VmcbIntInfo_from_def b)
  ultimately show ?thesis using that by blast
qed

end
