(* ===== verification/Vmcb.thy ===== *)
theory Vmcb
  imports SvmDefs
begin

text \<open>
  The virtual machine control block of SVM, \<^verbatim>\<open>crates/libvmm/src/x86_64/svm/vmcb.rs\<close>. The structures are
  records without their reserved fields. Because the processor reads the block from memory, the
  layout matters: the \<open>_layout\<close> lists give every field with its type, reserved ones included, and
  \<open>repr_c\<close> computes the offsets of a \<^verbatim>\<open>#[repr(C)]\<close> structure.
\<close>


section \<open>The structures\<close>

record VmcbControlArea =
  vc_intercept_cr :: u32
  vc_intercept_dr :: u32
  vc_intercept_exceptions :: u32
  vc_intercept_vector3 :: u32
  vc_intercept_vector4 :: u32
  vc_intercept_vector5 :: u32
  vc_pause_filter_thresh :: u16
  vc_pause_filter_count :: u16
  vc_iopm_base_pa :: u64
  vc_msrpm_base_pa :: u64
  vc_tsc_offset :: u64
  vc_guest_asid :: u32
  vc_tlb_control :: u8
  vc_int_control :: u32
  vc_int_vector :: u32
  vc_int_state :: u32
  vc_exit_code :: u64
  vc_exit_info_1 :: u64
  vc_exit_info_2 :: u64
  vc_exit_int_info :: u32
  vc_exit_int_info_err :: u32
  vc_np_enable :: u8
  vc_avic_vapic_bar :: u64
  vc_event_inj :: u32
  vc_event_inj_err :: u32
  vc_nest_cr3 :: u64
  vc_lbr_control :: u64
  vc_clean_bits :: u32
  vc_next_rip :: u64
  vc_insn_len :: u8
  vc_insn_bytes :: "u8 list"
  vc_avic_backing_page :: u64
  vc_avic_logical_id :: u64
  vc_avic_physical_id :: u64

record VmcbSegment =
  vs_selector :: u16
  vs_attr :: u16
  vs_limit :: u32
  vs_base :: u64

record VmcbStateSaveArea =
  va_es :: VmcbSegment
  va_cs :: VmcbSegment
  va_ss :: VmcbSegment
  va_ds :: VmcbSegment
  va_fs :: VmcbSegment
  va_gs :: VmcbSegment
  va_gdtr :: VmcbSegment
  va_ldtr :: VmcbSegment
  va_idtr :: VmcbSegment
  va_tr :: VmcbSegment
  va_cpl :: u8
  va_efer :: u64
  va_cr4 :: u64
  va_cr3 :: u64
  va_cr0 :: u64
  va_dr7 :: u64
  va_dr6 :: u64
  va_rflags :: u64
  va_rip :: u64
  va_rsp :: u64
  va_s_cet :: u64
  va_ssp :: u64
  va_isst_addr :: u64
  va_rax :: u64
  va_star :: u64
  va_lstar :: u64
  va_cstar :: u64
  va_sfmask :: u64
  va_kernel_gs_base :: u64
  va_sysenter_cs :: u64
  va_sysenter_esp :: u64
  va_sysenter_eip :: u64
  va_cr2 :: u64
  va_g_pat :: u64
  va_dbgctl :: u64
  va_br_from :: u64
  va_br_to :: u64
  va_last_excp_from :: u64
  va_last_excp_to :: u64

record Vmcb =
  vmcb_control :: VmcbControlArea
  vmcb_save :: VmcbStateSaveArea

text \<open>\<^verbatim>\<open>MaybeUninit::zeroed\<close>.\<close>

definition VmcbSegment_zeroed :: VmcbSegment where
  "VmcbSegment_zeroed = \<lparr>vs_selector = 0, vs_attr = 0, vs_limit = 0, vs_base = 0\<rparr>"

definition VmcbControlArea_zeroed :: VmcbControlArea where
  "VmcbControlArea_zeroed =
     \<lparr>vc_intercept_cr = 0, vc_intercept_dr = 0, vc_intercept_exceptions = 0,
      vc_intercept_vector3 = 0, vc_intercept_vector4 = 0, vc_intercept_vector5 = 0,
      vc_pause_filter_thresh = 0, vc_pause_filter_count = 0, vc_iopm_base_pa = 0,
      vc_msrpm_base_pa = 0, vc_tsc_offset = 0, vc_guest_asid = 0, vc_tlb_control = 0,
      vc_int_control = 0, vc_int_vector = 0, vc_int_state = 0, vc_exit_code = 0,
      vc_exit_info_1 = 0, vc_exit_info_2 = 0, vc_exit_int_info = 0, vc_exit_int_info_err = 0,
      vc_np_enable = 0, vc_avic_vapic_bar = 0, vc_event_inj = 0, vc_event_inj_err = 0,
      vc_nest_cr3 = 0, vc_lbr_control = 0, vc_clean_bits = 0, vc_next_rip = 0, vc_insn_len = 0,
      vc_insn_bytes = replicate 15 0, vc_avic_backing_page = 0, vc_avic_logical_id = 0,
      vc_avic_physical_id = 0\<rparr>"

definition VmcbStateSaveArea_zeroed :: VmcbStateSaveArea where
  "VmcbStateSaveArea_zeroed =
     \<lparr>va_es = VmcbSegment_zeroed, va_cs = VmcbSegment_zeroed, va_ss = VmcbSegment_zeroed,
      va_ds = VmcbSegment_zeroed, va_fs = VmcbSegment_zeroed, va_gs = VmcbSegment_zeroed,
      va_gdtr = VmcbSegment_zeroed, va_ldtr = VmcbSegment_zeroed, va_idtr = VmcbSegment_zeroed,
      va_tr = VmcbSegment_zeroed, va_cpl = 0, va_efer = 0, va_cr4 = 0, va_cr3 = 0, va_cr0 = 0,
      va_dr7 = 0, va_dr6 = 0, va_rflags = 0, va_rip = 0, va_rsp = 0, va_s_cet = 0, va_ssp = 0,
      va_isst_addr = 0, va_rax = 0, va_star = 0, va_lstar = 0, va_cstar = 0, va_sfmask = 0,
      va_kernel_gs_base = 0, va_sysenter_cs = 0, va_sysenter_esp = 0, va_sysenter_eip = 0,
      va_cr2 = 0, va_g_pat = 0, va_dbgctl = 0, va_br_from = 0, va_br_to = 0,
      va_last_excp_from = 0, va_last_excp_to = 0\<rparr>"

definition Vmcb_default :: Vmcb where
  "Vmcb_default = \<lparr>vmcb_control = VmcbControlArea_zeroed, vmcb_save = VmcbStateSaveArea_zeroed\<rparr>"


section \<open>Operations\<close>

text \<open>\<^verbatim>\<open>1 << n\<close> on 32 bits takes the shift amount modulo 32.\<close>

definition shl1 :: "u8 \<Rightarrow> u32" where
  "shl1 n = push_bit (unat n mod 32) 1"

definition Vmcb_set_intercept :: "SvmIntercept \<Rightarrow> Vmcb \<Rightarrow> Vmcb" where
  "Vmcb_set_intercept which b =
     (let val = svm_intercept_val which; c = vmcb_control b in
      if 0x60 \<le> val \<and> val \<le> 0x7f then
        b\<lparr>vmcb_control := c\<lparr>vc_intercept_vector3 := vc_intercept_vector3 c OR shl1 (val - 0x60)\<rparr>\<rparr>
      else if 0x80 \<le> val \<and> val \<le> 0x8f then
        b\<lparr>vmcb_control := c\<lparr>vc_intercept_vector4 := vc_intercept_vector4 c OR shl1 (val - 0x80)\<rparr>\<rparr>
      else if 0xa0 \<le> val \<and> val \<le> 0xa4 then
        b\<lparr>vmcb_control := c\<lparr>vc_intercept_vector5 := vc_intercept_vector5 c OR shl1 (val - 0xa0)\<rparr>\<rparr>
      else b)"

definition Vmcb_inject_event :: "u32 \<Rightarrow> u32 \<Rightarrow> Vmcb \<Rightarrow> Vmcb" where
  "Vmcb_inject_event info error_code b =
     b\<lparr>vmcb_control := (vmcb_control b)\<lparr>vc_event_inj := info, vc_event_inj_err := error_code\<rparr>\<rparr>"

record SvmExitInfo =
  sx_exit_code :: "(SvmExitCode, u64) result"
  sx_exit_info_1 :: u64
  sx_exit_info_2 :: u64
  sx_guest_rip :: u64
  sx_guest_next_rip :: u64

definition SvmExitInfo_new :: "Vmcb \<Rightarrow> SvmExitInfo" where
  "SvmExitInfo_new b =
     \<lparr>sx_exit_code = SvmExitCode_try_from (vc_exit_code (vmcb_control b)),
      sx_exit_info_1 = vc_exit_info_1 (vmcb_control b), sx_exit_info_2 = vc_exit_info_2 (vmcb_control b),
      sx_guest_rip = va_rip (vmcb_save b), sx_guest_next_rip = vc_next_rip (vmcb_control b)\<rparr>"


section \<open>Layout\<close>

datatype rust_type = R_u8 | R_u16 | R_u32 | R_u64 | R_array rust_type nat | R_struct nat nat

text \<open>A structure is given by its size and its alignment.\<close>

primrec rust_size :: "rust_type \<Rightarrow> nat" where
  "rust_size R_u8 = 1"
| "rust_size R_u16 = 2"
| "rust_size R_u32 = 4"
| "rust_size R_u64 = 8"
| "rust_size (R_array t n) = n * rust_size t"
| "rust_size (R_struct s a) = s"

primrec rust_align :: "rust_type \<Rightarrow> nat" where
  "rust_align R_u8 = 1"
| "rust_align R_u16 = 2"
| "rust_align R_u32 = 4"
| "rust_align R_u64 = 8"
| "rust_align (R_array t n) = rust_align t"
| "rust_align (R_struct s a) = a"

definition round_up :: "nat \<Rightarrow> nat \<Rightarrow> nat" where
  "round_up n a = (n + (a - 1)) div a * a"

text \<open>
  The offsets of the fields of a \<^verbatim>\<open>#[repr(C)]\<close> structure that starts at offset \<open>off\<close>, its alignment,
  at least the declared one, and its size, which is a multiple of the alignment.
\<close>

primrec repr_c_offsets :: "nat \<Rightarrow> (string \<times> rust_type) list \<Rightarrow> (string \<times> nat) list" where
  "repr_c_offsets off [] = []"
| "repr_c_offsets off (f # fs) =
     (fst f, round_up off (rust_align (snd f)))
     # repr_c_offsets (round_up off (rust_align (snd f)) + rust_size (snd f)) fs"

primrec repr_c_end :: "nat \<Rightarrow> (string \<times> rust_type) list \<Rightarrow> nat" where
  "repr_c_end off [] = off"
| "repr_c_end off (f # fs) = repr_c_end (round_up off (rust_align (snd f)) + rust_size (snd f)) fs"

definition repr_c :: "nat \<Rightarrow> (string \<times> rust_type) list \<Rightarrow> rust_type" where
  "repr_c al fs =
     (let a = fold max (map (rust_align \<circ> snd) fs) al in R_struct (round_up (repr_c_end 0 fs) a) a)"

definition VmcbSegment_layout :: "(string \<times> rust_type) list" where
  "VmcbSegment_layout =
    [(''selector'', R_u16), (''attr'', R_u16), (''limit'', R_u32), (''base'', R_u64)]"

definition VmcbControlArea_layout :: "(string \<times> rust_type) list" where
  "VmcbControlArea_layout =
    [(''intercept_cr'', R_u32), (''intercept_dr'', R_u32), (''intercept_exceptions'', R_u32),
     (''intercept_vector3'', R_u32), (''intercept_vector4'', R_u32),
     (''intercept_vector5'', R_u32), (''_reserved1'', R_array R_u32 9),
     (''pause_filter_thresh'', R_u16), (''pause_filter_count'', R_u16),
     (''iopm_base_pa'', R_u64), (''msrpm_base_pa'', R_u64), (''tsc_offset'', R_u64),
     (''guest_asid'', R_u32), (''tlb_control'', R_u8), (''_reserved2'', R_array R_u8 3),
     (''int_control'', R_u32), (''int_vector'', R_u32), (''int_state'', R_u32),
     (''_reserved3'', R_array R_u8 4), (''exit_code'', R_u64), (''exit_info_1'', R_u64),
     (''exit_info_2'', R_u64), (''exit_int_info'', R_u32), (''exit_int_info_err'', R_u32),
     (''np_enable'', R_u8), (''_reserved4'', R_array R_u8 3), (''avic_vapic_bar'', R_u64),
     (''_reserved5'', R_array R_u8 8), (''event_inj'', R_u32), (''event_inj_err'', R_u32),
     (''nest_cr3'', R_u64), (''lbr_control'', R_u64), (''clean_bits'', R_u32),
     (''_reserved6'', R_u32), (''next_rip'', R_u64), (''insn_len'', R_u8),
     (''insn_bytes'', R_array R_u8 15), (''avic_backing_page'', R_u64),
     (''_reserved7'', R_array R_u8 8), (''avic_logical_id'', R_u64),
     (''avic_physical_id'', R_u64)]"

definition VmcbStateSaveArea_layout :: "(string \<times> rust_type) list" where
  "VmcbStateSaveArea_layout =
    [(''es'', R_struct 16 8), (''cs'', R_struct 16 8), (''ss'', R_struct 16 8),
     (''ds'', R_struct 16 8), (''fs'', R_struct 16 8), (''gs'', R_struct 16 8),
     (''gdtr'', R_struct 16 8), (''ldtr'', R_struct 16 8), (''idtr'', R_struct 16 8),
     (''tr'', R_struct 16 8), (''_reserved1'', R_array R_u8 43), (''cpl'', R_u8),
     (''_reserved2'', R_array R_u8 4), (''efer'', R_u64), (''_reserved3'', R_array R_u8 112),
     (''cr4'', R_u64), (''cr3'', R_u64), (''cr0'', R_u64), (''dr7'', R_u64), (''dr6'', R_u64),
     (''rflags'', R_u64), (''rip'', R_u64), (''_reserved4'', R_array R_u8 88), (''rsp'', R_u64),
     (''s_cet'', R_u64), (''ssp'', R_u64), (''isst_addr'', R_u64), (''rax'', R_u64),
     (''star'', R_u64), (''lstar'', R_u64), (''cstar'', R_u64), (''sfmask'', R_u64),
     (''kernel_gs_base'', R_u64), (''sysenter_cs'', R_u64), (''sysenter_esp'', R_u64),
     (''sysenter_eip'', R_u64), (''cr2'', R_u64), (''_reserved5'', R_array R_u8 32),
     (''g_pat'', R_u64), (''dbgctl'', R_u64), (''br_from'', R_u64), (''br_to'', R_u64),
     (''last_excp_from'', R_u64), (''last_excp_to'', R_u64)]"

definition Vmcb_layout :: "(string \<times> rust_type) list" where
  "Vmcb_layout = [(''control'', repr_c 1024 VmcbControlArea_layout),
     (''save'', repr_c 1024 VmcbStateSaveArea_layout)]"

text \<open>The offsets the unit tests of the source demand, those of the AMD manual.\<close>

definition vmcb_ctrl_offsets :: "(string \<times> nat) list" where
  "vmcb_ctrl_offsets =
    [(''intercept_cr'', 0x00), (''intercept_dr'', 0x04), (''intercept_exceptions'', 0x08),
     (''intercept_vector3'', 0x0c), (''intercept_vector4'', 0x10), (''intercept_vector5'', 0x14),
     (''pause_filter_thresh'', 0x3c), (''pause_filter_count'', 0x3e), (''iopm_base_pa'', 0x40),
     (''msrpm_base_pa'', 0x48), (''tsc_offset'', 0x50), (''guest_asid'', 0x58),
     (''tlb_control'', 0x5c), (''int_control'', 0x60), (''int_vector'', 0x64),
     (''int_state'', 0x68), (''exit_code'', 0x70), (''exit_info_1'', 0x78),
     (''exit_info_2'', 0x80), (''exit_int_info'', 0x88), (''exit_int_info_err'', 0x8c),
     (''np_enable'', 0x90), (''avic_vapic_bar'', 0x98), (''event_inj'', 0xa8),
     (''event_inj_err'', 0xac), (''nest_cr3'', 0xb0), (''lbr_control'', 0xb8),
     (''clean_bits'', 0xc0), (''next_rip'', 0xc8), (''insn_len'', 0xd0), (''insn_bytes'', 0xd1),
     (''avic_backing_page'', 0xe0), (''avic_logical_id'', 0xf0), (''avic_physical_id'', 0xf8)]"

definition vmcb_save_offsets :: "(string \<times> nat) list" where
  "vmcb_save_offsets =
    [(''es'', 0x00), (''cs'', 0x10), (''ss'', 0x20), (''ds'', 0x30), (''fs'', 0x40),
     (''gs'', 0x50), (''gdtr'', 0x60), (''ldtr'', 0x70), (''idtr'', 0x80), (''tr'', 0x90),
     (''cpl'', 0xcb), (''efer'', 0xd0), (''cr4'', 0x148), (''cr3'', 0x150), (''cr0'', 0x158),
     (''dr7'', 0x160), (''dr6'', 0x168), (''rflags'', 0x170), (''rip'', 0x178), (''rsp'', 0x1d8),
     (''s_cet'', 0x1e0), (''ssp'', 0x1e8), (''isst_addr'', 0x1f0), (''rax'', 0x1f8),
     (''star'', 0x200), (''lstar'', 0x208), (''cstar'', 0x210), (''sfmask'', 0x218),
     (''kernel_gs_base'', 0x220), (''sysenter_cs'', 0x228), (''sysenter_esp'', 0x230),
     (''sysenter_eip'', 0x238), (''cr2'', 0x240), (''g_pat'', 0x268), (''dbgctl'', 0x270),
     (''br_from'', 0x278), (''br_to'', 0x280), (''last_excp_from'', 0x288),
     (''last_excp_to'', 0x290)]"

text \<open>Reserved fields have names that start with an underscore.\<close>

definition named_field :: "string \<times> nat \<Rightarrow> bool" where
  "named_field f \<longleftrightarrow> hd (fst f) \<noteq> CHR ''_''"

lemma vmcb_areas:
  "repr_c 1 VmcbSegment_layout = R_struct 16 8"
  "repr_c 1024 VmcbControlArea_layout = R_struct 0x400 1024"
  "repr_c 1024 VmcbStateSaveArea_layout = R_struct 0x400 1024"
  by (simp_all add: repr_c_def VmcbSegment_layout_def VmcbControlArea_layout_def
      VmcbStateSaveArea_layout_def round_up_def)



section \<open>Intercepts\<close>

text \<open>The processor's view: intercept \<open>n\<close> is bit \<open>n mod 32\<close> of vector \<open>n div 32\<close>.\<close>

definition vmcb_vector :: "Vmcb \<Rightarrow> nat \<Rightarrow> u32" where
  "vmcb_vector b k = (let c = vmcb_control b in
     if k = 3 then vc_intercept_vector3 c else if k = 4 then vc_intercept_vector4 c
     else if k = 5 then vc_intercept_vector5 c else 0)"

definition vmcb_intercepts :: "Vmcb \<Rightarrow> SvmIntercept \<Rightarrow> bool" where
  "vmcb_intercepts b i \<longleftrightarrow>
     bit (vmcb_vector b (unat (svm_intercept_val i) div 32)) (unat (svm_intercept_val i) mod 32)"

lemma svm_intercept_range:
  "0x60 \<le> svm_intercept_val i \<and> svm_intercept_val i \<le> 0x7f \<or>
   0x80 \<le> svm_intercept_val i \<and> svm_intercept_val i \<le> 0x8f \<or>
   0xa0 \<le> svm_intercept_val i \<and> svm_intercept_val i \<le> 0xa4"
  by (cases i) simp_all

definition SvmIntercept_all :: "SvmIntercept list" where
  "SvmIntercept_all =
    [SI_INTR, SI_NMI, SI_SMI, SI_INIT, SI_VINTR, SI_CR0_SEL_WRITE, SI_IDTR_READ,
     SI_GDTR_READ, SI_LDTR_READ, SI_TR_READ, SI_IDTR_WRITE, SI_GDTR_WRITE, SI_LDTR_WRITE,
     SI_TR_WRITE, SI_RDTSC, SI_RDPMC, SI_PUSHF, SI_POPF, SI_CPUID, SI_RSM, SI_IRET,
     SI_SWINT, SI_INVD, SI_PAUSE, SI_HLT, SI_INVLPG, SI_INVLPGA, SI_IOIO_PROT, SI_MSR_PROT,
     SI_TASK_SWITCH, SI_FERR_FREEZE, SI_SHUTDOWN, SI_VMRUN, SI_VMMCALL, SI_VMLOAD,
     SI_VMSAVE, SI_STGI, SI_CLGI, SI_SKINIT, SI_RDTSCP, SI_ICEBP, SI_WBINVD, SI_MONITOR,
     SI_MWAIT, SI_MWAIT_CONDITIONAL, SI_XSETBV, SI_RDPRU, SI_EFER_WRITE_TRAP, SI_INVLPGB,
     SI_INVLPGB_ILLEGAL, SI_INVPCID, SI_MCOMMIT, SI_TLBSYNC]"

lemma SvmIntercept_all_complete: "i \<in> set SvmIntercept_all"
  by (cases i) (simp_all add: SvmIntercept_all_def)

lemma svm_intercept_inj: "svm_intercept_val i = svm_intercept_val j \<longleftrightarrow> i = j"
proof -
  have "distinct (map svm_intercept_val SvmIntercept_all)"
    by (simp add: SvmIntercept_all_def)
  then show ?thesis
    using SvmIntercept_all_complete by (metis distinct_map inj_onD)
qed

lemma bit_shl1: "unat n < 32 \<Longrightarrow> bit (shl1 n) k \<longleftrightarrow> k = unat n"
  unfolding shl1_def by (subst bit_push_bit_one) auto

lemma bit_shl1_offset:
  assumes "lo \<le> v" "v \<le> lo + 31" "unat lo + 31 < 256" "unat lo mod 32 = 0"
  shows "bit (shl1 (v - lo)) n \<longleftrightarrow> n = unat v mod 32" "unat v div 32 = unat lo div 32"
proof -
  have u: "unat (v - lo) = unat v - unat lo" "unat lo \<le> unat v"
    using assms(1) by (simp_all add: unat_sub word_le_nat_alt)
  have "unat (lo + 31) = unat lo + 31"
    using assms(3) by (simp add: unat_word_ariths)
  then have le: "unat v \<le> unat lo + 31"
    using assms(2) by (simp add: word_le_nat_alt)
  obtain k where k: "unat lo = 32 * k" using assms(4) by auto
  obtain j where j: "unat v = 32 * k + j" "j < 32"
    using u(2) le k that[of "unat v - 32 * k"] by auto
  show "bit (shl1 (v - lo)) n \<longleftrightarrow> n = unat v mod 32"
    using j k u by (subst bit_shl1) auto
  show "unat v div 32 = unat lo div 32"
    using j k by simp
qed

lemma set_intercept_vector:
  assumes "v = svm_intercept_val i"
  shows "bit (vmcb_vector (Vmcb_set_intercept i b) k) n \<longleftrightarrow>
    (k = unat v div 32 \<and> n = unat v mod 32) \<or> bit (vmcb_vector b k) n"
proof -
  consider "0x60 \<le> v" "v \<le> 0x7f" | "0x80 \<le> v" "v \<le> 0x8f" | "0xa0 \<le> v" "v \<le> 0xa4"
    using svm_intercept_range[of i] assms by blast
  then show ?thesis
  proof cases
    case 1
    then show ?thesis
      using bit_shl1_offset(1)[of "0x60" v n] bit_shl1_offset(2)[of "0x60" v] unfolding Vmcb_set_intercept_def Let_def assms[symmetric] vmcb_vector_def
      by (simp add: bit_or_iff) blast
  next
    case 2
    then have "\<not> v \<le> 0x7f" "v \<le> 0x80 + 31" by (auto simp: word_le_nat_alt)
    then show ?thesis
      using 2 bit_shl1_offset(1)[of "0x80" v n] bit_shl1_offset(2)[of "0x80" v] unfolding Vmcb_set_intercept_def Let_def assms[symmetric] vmcb_vector_def
      by (simp add: bit_or_iff) blast
  next
    case 3
    then have "\<not> v \<le> 0x7f" "\<not> v \<le> 0x8f" "v \<le> 0xa0 + 31" by (auto simp: word_le_nat_alt)
    then show ?thesis
      using 3 bit_shl1_offset(1)[of "0xa0" v n] bit_shl1_offset(2)[of "0xa0" v] unfolding Vmcb_set_intercept_def Let_def assms[symmetric] vmcb_vector_def
      by (simp add: bit_or_iff) blast
  qed
qed

lemma set_intercept_iff: "vmcb_intercepts (Vmcb_set_intercept i b) j \<longleftrightarrow> j = i \<or> vmcb_intercepts b j"
proof -
  have "unat (svm_intercept_val j) div 32 = unat (svm_intercept_val i) div 32 \<and>
      unat (svm_intercept_val j) mod 32 = unat (svm_intercept_val i) mod 32 \<longleftrightarrow> j = i"
    using svm_intercept_inj[of j i] by (metis div_mod_decomp unsigned_word_eqI word_unat_eq_iff)
  then show ?thesis
    by (simp add: vmcb_intercepts_def set_intercept_vector)
qed

end
