(* ===== verification/Addr.thy ===== *)
theory Addr
  imports Prelude
begin

text \<open>
  Addresses and pages: \<^verbatim>\<open>src/src/memory/addr.rs\<close>, and the \<^verbatim>\<open>PageSize\<close> type of
  \<^verbatim>\<open>src/src/memory/paging.rs\<close>. \<open>PHYS_VIRT_OFFSET\<close>, a static of the crate that is written once
  by \<^verbatim>\<open>init_heap\<close>, is the argument \<open>off\<close>. The lemmas read the bit masks as arithmetic:
  remainders, multiples of the page size, the least multiple above.
\<close>

type_synonym virt_addr = usize
type_synonym phys_addr = usize

definition PAGE_SIZE :: usize where [rvm_const]: "PAGE_SIZE = 0x1000"

definition virt_to_phys :: "usize \<Rightarrow> virt_addr \<Rightarrow> phys_addr" where
  "virt_to_phys off vaddr = vaddr - off"

definition phys_to_virt :: "usize \<Rightarrow> phys_addr \<Rightarrow> virt_addr" where
  "phys_to_virt off paddr = paddr + off"

definition align_down :: "usize \<Rightarrow> usize" where
  "align_down addr = addr AND NOT (PAGE_SIZE - 1)"

definition align_up :: "usize \<Rightarrow> usize" where
  "align_up addr = (addr + PAGE_SIZE - 1) AND NOT (PAGE_SIZE - 1)"

definition page_offset :: "usize \<Rightarrow> usize" where
  "page_offset addr = addr AND (PAGE_SIZE - 1)"

definition is_aligned :: "usize \<Rightarrow> bool" where
  "is_aligned addr \<longleftrightarrow> page_offset addr = 0"

definition page_count :: "usize \<Rightarrow> usize" where
  "page_count n = align_up n div PAGE_SIZE"


section \<open>Page sizes\<close>

datatype PageSize = Size4K | Size2M | Size1G

primrec page_bytes :: "PageSize \<Rightarrow> usize" where
  "page_bytes Size4K = 0x1000"
| "page_bytes Size2M = 0x200000"
| "page_bytes Size1G = 0x40000000"

definition ps_align_down :: "PageSize \<Rightarrow> usize \<Rightarrow> usize" where
  "ps_align_down sz addr = addr AND NOT (page_bytes sz - 1)"

definition ps_page_offset :: "PageSize \<Rightarrow> usize \<Rightarrow> usize" where
  "ps_page_offset sz addr = addr AND (page_bytes sz - 1)"

definition ps_is_aligned :: "PageSize \<Rightarrow> usize \<Rightarrow> bool" where
  "ps_is_aligned sz addr \<longleftrightarrow> ps_page_offset sz addr = 0"

definition ps_is_huge :: "PageSize \<Rightarrow> bool" where
  "ps_is_huge sz \<longleftrightarrow> (case sz of Size1G \<Rightarrow> True | Size2M \<Rightarrow> True | Size4K \<Rightarrow> False)"

text \<open>The number of offset bits of a page.\<close>

primrec page_shift :: "PageSize \<Rightarrow> nat" where
  "page_shift Size4K = 12"
| "page_shift Size2M = 21"
| "page_shift Size1G = 30"

lemma page_bytes_mask: "page_bytes sz - 1 = mask (page_shift sz)"
  by (cases sz) (simp_all add: mask_eq_exp_minus_1)

lemma unat_page_bytes: "unat (page_bytes sz) = 2 ^ page_shift sz"
  by (cases sz) simp_all

lemma page_shift_bounds: "12 \<le> page_shift sz" "page_shift sz \<le> 30"
  by (cases sz; simp)+

lemma PAGE_SIZE_page_bytes: "PAGE_SIZE = page_bytes Size4K"
  by (simp add: rvm_const)

lemma page_offset_4K: "page_offset a = ps_page_offset Size4K a"
  by (simp add: page_offset_def ps_page_offset_def PAGE_SIZE_page_bytes)

lemma align_down_4K: "align_down a = ps_align_down Size4K a"
  by (simp add: align_down_def ps_align_down_def PAGE_SIZE_page_bytes)

lemma is_aligned_4K: "is_aligned a \<longleftrightarrow> ps_is_aligned Size4K a"
  by (simp add: is_aligned_def ps_is_aligned_def page_offset_4K)


section \<open>Masks as arithmetic\<close>

lemma ps_page_offset_take_bit: "ps_page_offset sz a = take_bit (page_shift sz) a"
  by (simp add: ps_page_offset_def page_bytes_mask take_bit_eq_mask)

lemma unat_ps_page_offset: "unat (ps_page_offset sz a) = unat a mod 2 ^ page_shift sz"
  by (simp add: ps_page_offset_take_bit unat_take_bit)

lemma unat_ps_align_down: "unat (ps_align_down sz a) = unat a - unat a mod 2 ^ page_shift sz"
  by (simp add: ps_align_down_def page_bytes_mask unat_and_not_mask)

lemma ps_is_aligned_iff: "ps_is_aligned sz a \<longleftrightarrow> 2 ^ page_shift sz dvd unat a"
  by (simp add: ps_is_aligned_def ps_page_offset_take_bit take_bit_0_iff_dvd)

lemma ps_align_down_plus_offset: "ps_align_down sz a + ps_page_offset sz a = a"
  by (simp add: ps_align_down_def ps_page_offset_take_bit page_bytes_mask and_not_mask)

lemma ps_align_down_aligned: "ps_is_aligned sz a \<Longrightarrow> ps_align_down sz a = a"
  using ps_align_down_plus_offset[of sz a] by (simp add: ps_is_aligned_def)

lemma ps_is_aligned_align_down: "ps_is_aligned sz (ps_align_down sz a)"
  by (simp add: ps_is_aligned_iff unat_ps_align_down minus_mod_eq_mult_div)

lemma ps_page_offset_lt: "unat (ps_page_offset sz a) < 2 ^ page_shift sz"
  by (simp add: unat_ps_page_offset)

lemma unat_align_down: "unat (align_down a) = unat a - unat a mod 4096"
  by (simp add: align_down_4K unat_ps_align_down)

lemma is_aligned_iff: "is_aligned a \<longleftrightarrow> 4096 dvd unat a"
  by (simp add: is_aligned_4K ps_is_aligned_iff)

lemma align_down_aligned: "is_aligned a \<Longrightarrow> align_down a = a"
  by (simp add: align_down_4K is_aligned_4K ps_align_down_aligned)

lemma is_aligned_align_down: "is_aligned (align_down a)"
  by (simp add: is_aligned_4K align_down_4K ps_is_aligned_align_down)

lemma align_up_eq: "align_up a = align_down (a + 4095)"
  by (simp add: align_up_def align_down_def rvm_const add.commute add.left_commute)

lemma unat_align_up:
  "unat a + 4095 < 2 ^ 64 \<Longrightarrow> unat (align_up a) = (unat a + 4095) - (unat a + 4095) mod 4096"
  by (simp add: align_up_eq unat_align_down unat_add_no_wrap)

lemma is_aligned_align_up: "is_aligned (align_up a)"
  by (simp add: align_up_eq is_aligned_align_down)

lemma align_up_wraps: "2 ^ 64 \<le> unat a + 4095 \<Longrightarrow> align_up a = 0"
proof -
  assume wrap: "2 ^ 64 \<le> unat a + 4095"
  have "unat (a + 4095) = (unat a + 4095) mod 2 ^ 64"
    by (simp add: unat_word_ariths)
  also have "\<dots> = unat a + 4095 - 2 ^ 64"
    using wrap unat_lt_2p64[of a] by (simp add: mod_if)
  finally have "unat (a + 4095) < 4096"
    using unat_lt_2p64[of a] by simp
  then have "unat (align_up a) = 0"
    by (simp add: align_up_eq unat_align_down)
  then show ?thesis by (simp add: unat_eq_0)
qed

lemma align_up_aligned: "is_aligned a \<Longrightarrow> align_up a = a"
proof -
  assume "is_aligned a"
  then obtain k where k: "unat a = 4096 * k"
    by (auto simp: is_aligned_iff dvd_def)
  with unat_lt_2p64[of a] have "unat a + 4095 < 2 ^ 64" by simp
  then have "unat (align_up a) = unat a"
    using k by (simp add: unat_align_up mod_mult_self4)
  then show ?thesis by (simp add: word_unat_eq_iff)
qed

lemma align_up_least:
  assumes "unat a + 4095 < 2 ^ 64"
  shows "unat a \<le> unat (align_up a)" and "unat (align_up a) < unat a + 4096"
proof -
  have "(unat a + 4095) mod 4096 < 4096" "(unat a + 4095) mod 4096 \<le> unat a + 4095"
    by simp_all
  then show "unat a \<le> unat (align_up a)" "unat (align_up a) < unat a + 4096"
    using unat_align_up[OF assms] by linarith+
qed

lemma ps_is_aligned_4K: "ps_is_aligned sz a \<Longrightarrow> is_aligned a"
  by (cases sz) (auto simp: ps_is_aligned_iff is_aligned_iff intro: dvd_trans[rotated])

end
