(* ===== verification/HvConfig.thy ===== *)
theory HvConfig
  imports Vmcb Addr
begin

text \<open>
  The configuration the driver places behind the per-CPU data: \<^verbatim>\<open>src/src/config.rs\<close>, with
  \<^verbatim>\<open>src/src/header.rs\<close> and the addresses of \<^verbatim>\<open>src/src/consts.rs\<close>. A configuration is a pointer into a
  memory of bytes, and its fields are read at the offsets of the packed structures. The linker's
  symbols \<^verbatim>\<open>__core_end\<close>, \<^verbatim>\<open>__core_size\<close> and \<^verbatim>\<open>__entry_offset\<close> are arguments.
\<close>


section \<open>Packed structures\<close>

type_synonym layout = "(string \<times> rust_type) list"
type_synonym bytes = "usize \<Rightarrow> u8"

definition packed_size :: "layout \<Rightarrow> nat" where
  "packed_size fs = sum_list (map (rust_size \<circ> snd) fs)"

definition packed :: "layout \<Rightarrow> rust_type" where
  "packed fs = R_struct (packed_size fs) 1"

primrec packed_offset :: "layout \<Rightarrow> string \<Rightarrow> nat" where
  "packed_offset [] n = 0"
| "packed_offset (f # fs) n = (if fst f = n then 0 else rust_size (snd f) + packed_offset fs n)"

primrec read_le :: "bytes \<Rightarrow> usize \<Rightarrow> nat \<Rightarrow> u64" where
  "read_le mem a 0 = 0"
| "read_le mem a (Suc n) = ucast (mem a) OR push_bit 8 (read_le mem (a + 1) n)"

definition read_bytes :: "bytes \<Rightarrow> usize \<Rightarrow> nat \<Rightarrow> u8 list" where
  "read_bytes mem a n = map (\<lambda>i. mem (a + of_nat i)) [0..<n]"

definition field_ptr :: "layout \<Rightarrow> string \<Rightarrow> usize \<Rightarrow> usize" where
  "field_ptr fs n p = p + of_nat (packed_offset fs n)"

definition get_field :: "layout \<Rightarrow> string \<Rightarrow> bytes \<Rightarrow> usize \<Rightarrow> u64" where
  "get_field fs n mem p = read_le mem (field_ptr fs n p) (case map_of fs n of Some t \<Rightarrow> rust_size t | None \<Rightarrow> 0)"

definition HV_CELL_NAME_MAXLEN :: nat where "HV_CELL_NAME_MAXLEN = 31"
definition HV_MAX_IOMMU_UNITS :: nat where "HV_MAX_IOMMU_UNITS = 8"

definition HvConsole_layout :: layout where
  "HvConsole_layout = [(''address'', R_u64), (''size'', R_u32), (''console_type'', R_u16), (''flags'', R_u16),
     (''divider'', R_u32), (''gate_nr'', R_u32), (''clock_reg'', R_u64)]"

definition HvCellDesc_layout :: layout where
  "HvCellDesc_layout = [(''signature'', R_array R_u8 6), (''revision'', R_u16),
     (''name'', R_array R_u8 (HV_CELL_NAME_MAXLEN + 1)), (''id'', R_u32), (''flags'', R_u32),
     (''cpu_set_size'', R_u32), (''num_memory_regions'', R_u32), (''num_cache_regions'', R_u32),
     (''num_irqchips'', R_u32), (''pio_bitmap_size'', R_u32), (''num_pci_devices'', R_u32),
     (''num_pci_caps'', R_u32), (''vpci_irq_base'', R_u32), (''cpu_reset_address'', R_u64),
     (''msg_reply_timeout'', R_u64), (''console'', packed HvConsole_layout)]"

definition HvMemoryRegion_layout :: layout where
  "HvMemoryRegion_layout = [(''phys_start'', R_u64), (''virt_start'', R_u64), (''size'', R_u64), (''flags'', R_u64)]"

definition HvCacheRegion_layout :: layout where
  "HvCacheRegion_layout = [(''start'', R_u32), (''size'', R_u32), (''cache_type'', R_u8), (''_padding'', R_u8),
     (''flags'', R_u16)]"

definition HvIrqChip_layout :: layout where
  "HvIrqChip_layout = [(''address'', R_u64), (''id'', R_u32), (''pin_base'', R_u32), (''pin_bitmap'', R_array R_u32 4)]"

definition HvPciDevice_layout :: layout where
  "HvPciDevice_layout = [(''pci_device_type'', R_u8), (''iommu'', R_u8), (''domain'', R_u16), (''bdf'', R_u16),
     (''bar_mask'', R_array R_u32 6), (''caps_start'', R_u16), (''num_caps'', R_u16), (''num_msi_vectors'', R_u8),
     (''msi_64bits'', R_u8), (''num_msix_vectors'', R_u16), (''msix_region_size'', R_u16), (''msix_address'', R_u64),
     (''shmem_region'', R_u32), (''shmem_protocol'', R_u16), (''_padding'', R_array R_u8 2)]"

definition HvPciCapability_layout :: layout where
  "HvPciCapability_layout = [(''id'', R_u16), (''start'', R_u16), (''len'', R_u16), (''flags'', R_u16)]"

definition HvIommu_layout :: layout where
  "HvIommu_layout = [(''base'', R_u64), (''size'', R_u32), (''amd_bdf'', R_u16), (''amd_base_cap'', R_u8),
     (''amd_msi_cap'', R_u8), (''amd_features'', R_u32)]"

definition ArchPlatformInfo_layout :: layout where
  "ArchPlatformInfo_layout = [(''pm_timer_address'', R_u16), (''vtd_interrupt_limit'', R_u32), (''apic_mode'', R_u8),
     (''_padding'', R_array R_u8 3), (''tsc_khz'', R_u32), (''apic_khz'', R_u32),
     (''iommu_units'', R_array (packed HvIommu_layout) HV_MAX_IOMMU_UNITS)]"

definition PlatformInfo_layout :: layout where
  "PlatformInfo_layout = [(''pci_mmconfig_base'', R_u64), (''pci_mmconfig_end_bus'', R_u8), (''pci_is_virtual'', R_u8),
     (''pci_domain'', R_u16), (''arch'', packed ArchPlatformInfo_layout)]"

definition HvSystemConfig_layout :: layout where
  "HvSystemConfig_layout = [(''signature'', R_array R_u8 6), (''revision'', R_u16), (''flags'', R_u32),
     (''hypervisor_memory'', packed HvMemoryRegion_layout), (''debug_console'', packed HvConsole_layout),
     (''platform_info'', packed PlatformInfo_layout), (''root_cell'', packed HvCellDesc_layout)]"

definition CONFIG_SIGNATURE :: "u8 list" where
  "CONFIG_SIGNATURE = map (\<lambda>c. of_nat (of_char c)) ''RVMSYS''"

definition CONFIG_REVISION :: u16 where "CONFIG_REVISION = 10"


section \<open>Reading a configuration\<close>

record HvMemoryRegion =
  hr_phys_start :: u64
  hr_virt_start :: u64
  hr_size :: u64
  hr_flags :: u64

definition read_region :: "bytes \<Rightarrow> usize \<Rightarrow> HvMemoryRegion" where
  "read_region mem p =
     \<lparr>hr_phys_start = get_field HvMemoryRegion_layout ''phys_start'' mem p,
      hr_virt_start = get_field HvMemoryRegion_layout ''virt_start'' mem p,
      hr_size = get_field HvMemoryRegion_layout ''size'' mem p,
      hr_flags = get_field HvMemoryRegion_layout ''flags'' mem p\<rparr>"

definition size_of :: "layout \<Rightarrow> usize" where
  "size_of fs = of_nat (packed_size fs)"

definition HvCellDesc_config_size :: "bytes \<Rightarrow> usize \<Rightarrow> usize" where
  "HvCellDesc_config_size mem p =
     get_field HvCellDesc_layout ''cpu_set_size'' mem p
     + get_field HvCellDesc_layout ''num_memory_regions'' mem p * size_of HvMemoryRegion_layout
     + get_field HvCellDesc_layout ''num_cache_regions'' mem p * size_of HvCacheRegion_layout
     + get_field HvCellDesc_layout ''num_irqchips'' mem p * size_of HvIrqChip_layout
     + get_field HvCellDesc_layout ''pio_bitmap_size'' mem p
     + get_field HvCellDesc_layout ''num_pci_devices'' mem p * size_of HvPciDevice_layout
     + get_field HvCellDesc_layout ''num_pci_caps'' mem p * size_of HvPciCapability_layout"

definition root_cell_ptr :: "usize \<Rightarrow> usize" where
  "root_cell_ptr cfg = field_ptr HvSystemConfig_layout ''root_cell'' cfg"

definition HvSystemConfig_size :: "bytes \<Rightarrow> usize \<Rightarrow> usize" where
  "HvSystemConfig_size mem cfg = size_of HvSystemConfig_layout + HvCellDesc_config_size mem (root_cell_ptr cfg)"

definition HvSystemConfig_check :: "bytes \<Rightarrow> usize \<Rightarrow> (unit, HvErrorNum) result" where
  "HvSystemConfig_check mem cfg =
     (if read_bytes mem (field_ptr HvSystemConfig_layout ''signature'' cfg) 6 \<noteq> CONFIG_SIGNATURE then Err EINVAL
      else if get_field HvSystemConfig_layout ''revision'' mem cfg \<noteq> ucast CONFIG_REVISION then Err EINVAL
      else Ok ())"

definition hypervisor_memory :: "bytes \<Rightarrow> usize \<Rightarrow> HvMemoryRegion" where
  "hypervisor_memory mem cfg = read_region mem (field_ptr HvSystemConfig_layout ''hypervisor_memory'' cfg)"

text \<open>The variable part starts behind the cell description; a slice is given by its address and length.\<close>

definition config_ptr :: "usize \<Rightarrow> usize" where
  "config_ptr desc = desc + size_of HvCellDesc_layout"

definition cpu_set_slice :: "bytes \<Rightarrow> usize \<Rightarrow> usize \<times> usize" where
  "cpu_set_slice mem desc = (config_ptr desc, get_field HvCellDesc_layout ''cpu_set_size'' mem desc div 8)"

definition mem_regions_slice :: "bytes \<Rightarrow> usize \<Rightarrow> usize \<times> usize" where
  "mem_regions_slice mem desc =
     (let (p, n) = cpu_set_slice mem desc in
      (p + n * 8, get_field HvCellDesc_layout ''num_memory_regions'' mem desc))"

definition mem_regions :: "bytes \<Rightarrow> usize \<Rightarrow> HvMemoryRegion list" where
  "mem_regions mem desc =
     (let (p, n) = mem_regions_slice mem desc in
      map (\<lambda>i. read_region mem (p + of_nat i * size_of HvMemoryRegion_layout)) [0..<unat n])"


section \<open>The header and the memory layout\<close>

record HvHeader =
  hh_signature :: "u8 list"
  hh_core_size :: usize
  hh_percpu_size :: usize
  hh_entry :: usize
  hh_console_page :: usize
  hh_gcov_info_head :: usize
  hh_max_cpus :: u32
  hh_online_cpus :: u32
  hh_debug_console_base :: usize
  hh_arm_linux_hyp_vectors :: u64
  hh_arm_linux_hyp_abi :: u32

definition HEADER_SIGNATURE :: "u8 list" where
  "HEADER_SIGNATURE = map (\<lambda>c. of_nat (of_char c)) ''RVMIMAGE''"

definition HV_HEAP_SIZE :: usize where "HV_HEAP_SIZE = 32 * 1024 * 1024"
definition PER_CPU_SIZE :: usize where "PER_CPU_SIZE = 512 * 1024"
definition HV_BASE :: usize where "HV_BASE = 0xffffff0000000000"

text \<open>The header of the image; the driver fills in the numbers of CPUs.\<close>

definition HEADER_STUFF :: "usize \<Rightarrow> usize \<Rightarrow> HvHeader" where
  "HEADER_STUFF core_size entry_offset =
     \<lparr>hh_signature = HEADER_SIGNATURE, hh_core_size = core_size, hh_percpu_size = PER_CPU_SIZE,
      hh_entry = entry_offset, hh_console_page = 0, hh_gcov_info_head = 0, hh_max_cpus = 0, hh_online_cpus = 0,
      hh_debug_console_base = 0, hh_arm_linux_hyp_vectors = 0, hh_arm_linux_hyp_abi = 0\<rparr>"

definition hv_config_ptr :: "usize \<Rightarrow> HvHeader \<Rightarrow> usize" where
  "hv_config_ptr core_end h = core_end + ucast (hh_max_cpus h) * PER_CPU_SIZE"

definition free_memory_start :: "bytes \<Rightarrow> usize \<Rightarrow> HvHeader \<Rightarrow> virt_addr" where
  "free_memory_start mem core_end h =
     align_up (hv_config_ptr core_end h + HvSystemConfig_size mem (hv_config_ptr core_end h))"

definition hv_end :: "bytes \<Rightarrow> usize \<Rightarrow> HvHeader \<Rightarrow> virt_addr" where
  "hv_end mem core_end h = HV_BASE + hr_size (hypervisor_memory mem (hv_config_ptr core_end h))"


section \<open>Bounds\<close>

lemma read_le_less: "n \<le> 8 \<Longrightarrow> unat (read_le mem a n) < 2 ^ (8 * n)"
proof (induction n arbitrary: a)
  case (Suc n)
  then have IH: "unat (read_le mem (a + 1) n) < 2 ^ (8 * n)" by simp
  have "bit (read_le mem a (Suc n)) k \<Longrightarrow> k < 8 * Suc n" for k
  proof -
    assume "bit (read_le mem a (Suc n)) k"
    then consider "bit (ucast (mem a) :: u64) k" | "8 \<le> k" "bit (read_le mem (a + 1) n) (k - 8)"
      by (auto simp: bit_or_iff bit_push_bit_iff)
    then show ?thesis
    proof cases
      case 1
      then show ?thesis using bit_imp_le_length[of "mem a" k] by (simp add: bit_ucast_iff)
    next
      case 2
      have "take_bit (8 * n) (unat (read_le mem (a + 1) n)) = unat (read_le mem (a + 1) n)"
        using IH by (simp add: take_bit_nat_eq_self)
      moreover have "bit (unat (read_le mem (a + 1) n)) (k - 8)"
        using 2(2) by (simp add: bit_unsigned_iff)
      ultimately have "k - 8 < 8 * n" by (metis bit_take_bit_iff)
      then show ?thesis using 2(1) by simp
    qed
  qed
  then have "take_bit (8 * Suc n) (read_le mem a (Suc n)) = read_le mem a (Suc n)"
    by (intro bit_eqI) (auto simp only: bit_take_bit_iff)
  then have "take_bit (8 * Suc n) (unat (read_le mem a (Suc n))) = unat (read_le mem a (Suc n))"
    by (metis unsigned_take_bit_eq)
  then show ?case by (simp only: take_bit_nat_eq_self_iff)
qed simp

lemma packed_sizes:
  "packed_size HvConsole_layout = 32" "packed_size HvCellDesc_layout = 128" "packed_size HvMemoryRegion_layout = 32"
  "packed_size HvCacheRegion_layout = 12" "packed_size HvIrqChip_layout = 32" "packed_size HvPciDevice_layout = 56"
  "packed_size HvPciCapability_layout = 8" "packed_size HvIommu_layout = 20"
  "packed_size ArchPlatformInfo_layout = 178" "packed_size PlatformInfo_layout = 190"
  "packed_size HvSystemConfig_layout = 394"
  by (simp_all add: packed_size_def packed_def HvConsole_layout_def HvCellDesc_layout_def HvMemoryRegion_layout_def
      HvCacheRegion_layout_def HvIrqChip_layout_def HvPciDevice_layout_def HvPciCapability_layout_def
      HvIommu_layout_def ArchPlatformInfo_layout_def PlatformInfo_layout_def HvSystemConfig_layout_def
      HV_CELL_NAME_MAXLEN_def HV_MAX_IOMMU_UNITS_def)

abbreviation cell_u32 :: "bytes \<Rightarrow> usize \<Rightarrow> string \<Rightarrow> nat" where
  "cell_u32 mem p n \<equiv> unat (get_field HvCellDesc_layout n mem p)"

definition cell_counts :: "string list" where
  "cell_counts = [''cpu_set_size'', ''num_memory_regions'', ''num_cache_regions'', ''num_irqchips'',
     ''pio_bitmap_size'', ''num_pci_devices'', ''num_pci_caps'']"

lemma cell_u32_less: "n \<in> set cell_counts \<Longrightarrow> cell_u32 mem p n < 2 ^ 32"
proof -
  assume "n \<in> set cell_counts"
  then have "map_of HvCellDesc_layout n = Some R_u32"
    by (auto simp: cell_counts_def HvCellDesc_layout_def)
  then show ?thesis using read_le_less[of 4 mem "field_ptr HvCellDesc_layout n p"] by (simp add: get_field_def)
qed

text \<open>A sum of words whose values add up to less than the modulus.\<close>

lemma unat_add_le: "unat (a :: u64) = m \<Longrightarrow> unat b = n \<Longrightarrow> m + n < 2 ^ 64 \<Longrightarrow> unat (a + b) = m + n"
  by (simp add: unat_add_no_wrap)

lemma unat_mult_le: "unat (a :: u64) = m \<Longrightarrow> unat b = n \<Longrightarrow> m * n < 2 ^ 64 \<Longrightarrow> unat (a * b) = m * n"
  by (simp add: unat_word_ariths)

lemma config_size_exact:
  "unat (HvCellDesc_config_size mem p) =
     cell_u32 mem p ''cpu_set_size'' + cell_u32 mem p ''num_memory_regions'' * 32
     + cell_u32 mem p ''num_cache_regions'' * 12 + cell_u32 mem p ''num_irqchips'' * 32
     + cell_u32 mem p ''pio_bitmap_size'' + cell_u32 mem p ''num_pci_devices'' * 56
     + cell_u32 mem p ''num_pci_caps'' * 8"
proof -
  have b: "cell_u32 mem p ''cpu_set_size'' < 2 ^ 32" "cell_u32 mem p ''num_memory_regions'' < 2 ^ 32"
    "cell_u32 mem p ''num_cache_regions'' < 2 ^ 32" "cell_u32 mem p ''num_irqchips'' < 2 ^ 32"
    "cell_u32 mem p ''pio_bitmap_size'' < 2 ^ 32" "cell_u32 mem p ''num_pci_devices'' < 2 ^ 32"
    "cell_u32 mem p ''num_pci_caps'' < 2 ^ 32"
    by (rule cell_u32_less; simp add: cell_counts_def)+
  show ?thesis
    unfolding HvCellDesc_config_size_def size_of_def packed_sizes
    by (rule unat_add_le unat_mult_le refl | use b in simp)+
qed

text \<open>C35: The size of a configuration is computed without wrap-around, whatever the driver wrote: it is
  the exact sum of the parts and less than 2^40. The slice of memory regions that the hypervisor reads
  starts behind the fixed part and ends inside the configuration.\<close>

theorem config_bounds:
  "unat (HvSystemConfig_size mem cfg) = 394 + unat (HvCellDesc_config_size mem (root_cell_ptr cfg)) \<and>
   unat (HvCellDesc_config_size mem p) =
     cell_u32 mem p ''cpu_set_size'' + cell_u32 mem p ''num_memory_regions'' * 32
     + cell_u32 mem p ''num_cache_regions'' * 12 + cell_u32 mem p ''num_irqchips'' * 32
     + cell_u32 mem p ''pio_bitmap_size'' + cell_u32 mem p ''num_pci_devices'' * 56
     + cell_u32 mem p ''num_pci_caps'' * 8 \<and>
   unat (HvSystemConfig_size mem cfg) < 2 ^ 40 \<and>
   394 \<le> unat (fst (mem_regions_slice mem (root_cell_ptr cfg)) - cfg) \<and>
   unat (fst (mem_regions_slice mem (root_cell_ptr cfg)) - cfg)
     + 32 * unat (snd (mem_regions_slice mem (root_cell_ptr cfg))) \<le> unat (HvSystemConfig_size mem cfg)"
proof -
  let ?r = "root_cell_ptr cfg"
  have b: "cell_u32 mem q n < 2 ^ 32" if "n \<in> set cell_counts" for q n
    using that by (rule cell_u32_less)
  have small: "unat (HvCellDesc_config_size mem q) < 142 * 2 ^ 32" for q
    unfolding config_size_exact using b[of "''cpu_set_size''" q] b[of "''num_memory_regions''" q]
      b[of "''num_cache_regions''" q] b[of "''num_irqchips''" q] b[of "''pio_bitmap_size''" q]
      b[of "''num_pci_devices''" q] b[of "''num_pci_caps''" q]
    by (simp add: cell_counts_def)
  have size: "unat (HvSystemConfig_size mem cfg) = 394 + unat (HvCellDesc_config_size mem ?r)"
    unfolding HvSystemConfig_size_def size_of_def packed_sizes
    using small[of ?r] by (intro unat_add_le) simp_all
  have off: "fst (mem_regions_slice mem ?r) - cfg = 394 + get_field HvCellDesc_layout ''cpu_set_size'' mem ?r div 8 * 8"
    by (simp add: mem_regions_slice_def cpu_set_slice_def config_ptr_def size_of_def packed_sizes root_cell_ptr_def
        field_ptr_def HvSystemConfig_layout_def packed_def)
  have "unat (get_field HvCellDesc_layout ''cpu_set_size'' mem ?r div 8 * 8) = cell_u32 mem ?r ''cpu_set_size'' div 8 * 8"
    using b[of "''cpu_set_size''" ?r] by (intro unat_mult_le) (simp_all add: unat_div cell_counts_def)
  then have "unat (fst (mem_regions_slice mem ?r) - cfg) = 394 + cell_u32 mem ?r ''cpu_set_size'' div 8 * 8"
    unfolding off using b[of "''cpu_set_size''" ?r] by (intro unat_add_le) (simp_all add: cell_counts_def)
  then show ?thesis
    using size small[of ?r] config_size_exact[of mem ?r] config_size_exact[of mem p]
    by (simp add: mem_regions_slice_def cpu_set_slice_def)
qed

end
