(* ===== verification/PageEntry.thy ===== *)
theory PageEntry
  imports Addr
begin

text \<open>
  Page-table entries. The trait \<^verbatim>\<open>GenericPTE\<close> of \<^verbatim>\<open>src/src/memory/paging.rs\<close> is a record of
  operations on the 64-bit entry, and its three implementations are \<open>PTEntry_ops\<close>
  (\<^verbatim>\<open>src/src/arch/x86_64/page_table.rs\<close>, the hypervisor's and the guest's own tables),
  \<open>EPTEntry_ops\<close> (\<^verbatim>\<open>intel/ept.rs\<close>, the nested tables on Intel) and \<open>NPTEntry_ops\<close>
  (\<^verbatim>\<open>amd/npt.rs\<close>, the nested tables on AMD). The setters return an option because
  \<^verbatim>\<open>set_bits\<close> panics on a value that does not fit its range.

  The locale \<open>generic_pte\<close> states what the paging code relies on; each implementation
  interprets it.
\<close>


section \<open>Memory flags\<close>

definition MEM_READ :: u64 where "MEM_READ = push_bit 0 1"
definition MEM_WRITE :: u64 where "MEM_WRITE = push_bit 1 1"
definition MEM_EXECUTE :: u64 where "MEM_EXECUTE = push_bit 2 1"
definition MEM_DMA :: u64 where "MEM_DMA = push_bit 3 1"
definition MEM_IO :: u64 where "MEM_IO = push_bit 4 1"
definition MEM_NO_HUGEPAGES :: u64 where "MEM_NO_HUGEPAGES = push_bit 8 1"
definition MEM_USER :: u64 where "MEM_USER = push_bit 9 1"

text \<open>The x86-64 page-table flags, at the positions the architecture fixes.\<close>

definition PTF_PRESENT :: u64 where "PTF_PRESENT = push_bit 0 1"
definition PTF_WRITABLE :: u64 where "PTF_WRITABLE = push_bit 1 1"
definition PTF_USER_ACCESSIBLE :: u64 where "PTF_USER_ACCESSIBLE = push_bit 2 1"
definition PTF_NO_CACHE :: u64 where "PTF_NO_CACHE = push_bit 4 1"
definition PTF_HUGE_PAGE :: u64 where "PTF_HUGE_PAGE = push_bit 7 1"
definition PTF_NO_EXECUTE :: u64 where "PTF_NO_EXECUTE = push_bit 63 1"

text \<open>Every bit outside the address field is a flag: bits 0 to 11 and 52 to 63.\<close>

definition PTF_ALL :: u64 where "PTF_ALL = 0xfff0000000000fff"

definition EPT_READ :: u64 where "EPT_READ = push_bit 0 1"
definition EPT_WRITE :: u64 where "EPT_WRITE = push_bit 1 1"
definition EPT_EXECUTE :: u64 where "EPT_EXECUTE = push_bit 2 1"
definition EPT_IGNORE_PAT :: u64 where "EPT_IGNORE_PAT = push_bit 6 1"
definition EPT_HUGE_PAGE :: u64 where "EPT_HUGE_PAGE = push_bit 7 1"
definition EPT_ACCESSED :: u64 where "EPT_ACCESSED = push_bit 8 1"
definition EPT_DIRTY :: u64 where "EPT_DIRTY = push_bit 9 1"
definition EPT_EXECUTE_FOR_USER :: u64 where "EPT_EXECUTE_FOR_USER = push_bit 10 1"

definition EPT_ALL :: u64 where
  "EPT_ALL = EPT_READ OR EPT_WRITE OR EPT_EXECUTE OR EPT_IGNORE_PAT OR EPT_HUGE_PAGE
     OR EPT_ACCESSED OR EPT_DIRTY OR EPT_EXECUTE_FOR_USER"

definition PHYS_ADDR_MASK :: u64 where "PHYS_ADDR_MASK = 0x000ffffffffff000"

lemma bit_shift_one: "k < 64 \<Longrightarrow> bit (push_bit k (1 :: u64)) n \<longleftrightarrow> n = k"
  by (simp only: bit_push_bit_iff bit_1_iff) (auto simp: possible_bit_def)

lemma bit_flag_consts [pte_simps]:
  "bit MEM_READ n \<longleftrightarrow> n = 0" "bit MEM_WRITE n \<longleftrightarrow> n = 1" "bit MEM_EXECUTE n \<longleftrightarrow> n = 2"
  "bit MEM_DMA n \<longleftrightarrow> n = 3" "bit MEM_IO n \<longleftrightarrow> n = 4" "bit MEM_NO_HUGEPAGES n \<longleftrightarrow> n = 8"
  "bit MEM_USER n \<longleftrightarrow> n = 9"
  "bit PTF_PRESENT n \<longleftrightarrow> n = 0" "bit PTF_WRITABLE n \<longleftrightarrow> n = 1"
  "bit PTF_USER_ACCESSIBLE n \<longleftrightarrow> n = 2" "bit PTF_NO_CACHE n \<longleftrightarrow> n = 4"
  "bit PTF_HUGE_PAGE n \<longleftrightarrow> n = 7" "bit PTF_NO_EXECUTE n \<longleftrightarrow> n = 63"
  "bit EPT_READ n \<longleftrightarrow> n = 0" "bit EPT_WRITE n \<longleftrightarrow> n = 1" "bit EPT_EXECUTE n \<longleftrightarrow> n = 2"
  "bit EPT_IGNORE_PAT n \<longleftrightarrow> n = 6" "bit EPT_HUGE_PAGE n \<longleftrightarrow> n = 7" "bit EPT_ACCESSED n \<longleftrightarrow> n = 8"
  "bit EPT_DIRTY n \<longleftrightarrow> n = 9" "bit EPT_EXECUTE_FOR_USER n \<longleftrightarrow> n = 10"
  unfolding MEM_READ_def MEM_WRITE_def MEM_EXECUTE_def MEM_DMA_def MEM_IO_def
    MEM_NO_HUGEPAGES_def MEM_USER_def PTF_PRESENT_def PTF_WRITABLE_def PTF_USER_ACCESSIBLE_def
    PTF_NO_CACHE_def PTF_HUGE_PAGE_def PTF_NO_EXECUTE_def EPT_READ_def EPT_WRITE_def
    EPT_EXECUTE_def EPT_IGNORE_PAT_def EPT_HUGE_PAGE_def EPT_ACCESSED_def EPT_DIRTY_def
    EPT_EXECUTE_FOR_USER_def
  by (rule bit_shift_one; simp)+

lemma contains_flag_consts [pte_simps]:
  "contains f MEM_READ \<longleftrightarrow> bit f 0" "contains f MEM_WRITE \<longleftrightarrow> bit f 1"
  "contains f MEM_EXECUTE \<longleftrightarrow> bit f 2" "contains f MEM_DMA \<longleftrightarrow> bit f 3"
  "contains f MEM_IO \<longleftrightarrow> bit f 4" "contains f MEM_NO_HUGEPAGES \<longleftrightarrow> bit f 8"
  "contains f MEM_USER \<longleftrightarrow> bit f 9"
  "contains f PTF_PRESENT \<longleftrightarrow> bit f 0" "contains f PTF_WRITABLE \<longleftrightarrow> bit f 1"
  "contains f PTF_USER_ACCESSIBLE \<longleftrightarrow> bit f 2" "contains f PTF_NO_CACHE \<longleftrightarrow> bit f 4"
  "contains f PTF_HUGE_PAGE \<longleftrightarrow> bit f 7" "contains f PTF_NO_EXECUTE \<longleftrightarrow> bit f 63"
  "contains f EPT_READ \<longleftrightarrow> bit f 0" "contains f EPT_WRITE \<longleftrightarrow> bit f 1"
  "contains f EPT_EXECUTE \<longleftrightarrow> bit f 2" "contains f EPT_HUGE_PAGE \<longleftrightarrow> bit f 7"
  unfolding MEM_READ_def MEM_WRITE_def MEM_EXECUTE_def MEM_DMA_def MEM_IO_def
    MEM_NO_HUGEPAGES_def MEM_USER_def PTF_PRESENT_def PTF_WRITABLE_def PTF_USER_ACCESSIBLE_def
    PTF_NO_CACHE_def PTF_HUGE_PAGE_def PTF_NO_EXECUTE_def EPT_READ_def EPT_WRITE_def
    EPT_EXECUTE_def EPT_HUGE_PAGE_def
  by (rule contains_bit; simp)+

lemma PHYS_ADDR_MASK_eq: "PHYS_ADDR_MASK = push_bit 12 (mask 40)"
  by (simp add: PHYS_ADDR_MASK_def mask_eq_exp_minus_1)

lemma bit_PHYS_ADDR_MASK [pte_simps]: "bit PHYS_ADDR_MASK n \<longleftrightarrow> 12 \<le> n \<and> n < 52"
  unfolding PHYS_ADDR_MASK_eq by (auto simp: bit_simps)

lemma bit_PTF_ALL [pte_simps]: "bit PTF_ALL n \<longleftrightarrow> n < 64 \<and> \<not> (12 \<le> n \<and> n < 52)"
proof -
  have eq: "PTF_ALL = NOT PHYS_ADDR_MASK"
    by (simp add: PTF_ALL_def PHYS_ADDR_MASK_def)
  show ?thesis
    unfolding eq bit_not_iff bit_PHYS_ADDR_MASK by (auto simp: possible_bit_def)
qed

lemma bit_EPT_ALL [pte_simps]:
  "bit EPT_ALL n \<longleftrightarrow> n \<in> {0, 1, 2, 6, 7, 8, 9, 10}"
  by (auto simp: EPT_ALL_def bit_or_iff pte_simps)

text \<open>A physical address the entry formats can hold: page-aligned and below \<open>2 ^ 52\<close>.\<close>

definition phys_frame :: "phys_addr \<Rightarrow> bool" where
  "phys_frame p \<longleftrightarrow> p AND PHYS_ADDR_MASK = p"

lemma phys_frame_bit: "phys_frame p \<Longrightarrow> bit p n \<Longrightarrow> 12 \<le> n \<and> n < 52"
  unfolding phys_frame_def by (metis bit_and_iff bit_PHYS_ADDR_MASK)

lemma phys_frame_iff: "phys_frame p \<longleftrightarrow> is_aligned p \<and> unat p < 2 ^ 52"
proof -
  have "phys_frame p \<longleftrightarrow> (\<forall>n. bit p n \<longrightarrow> 12 \<le> n \<and> n < 52)"
    by (auto dest: phys_frame_bit)
      (auto simp: phys_frame_def bit_and_iff bit_PHYS_ADDR_MASK intro!: bit_word_eqI)
  also have "\<dots> \<longleftrightarrow> take_bit 12 p = 0 \<and> take_bit 52 p = p"
    using bit_imp_le_length[of p]
    by (fastforce simp: bit_eq_iff bit_take_bit_iff linorder_not_less)
  also have "take_bit 52 p = p \<longleftrightarrow> unat p < 2 ^ 52"
    by (simp add: word_unat_eq_iff unat_take_bit mod_eq_self_iff_div_eq_0 div_eq_0_iff)
  finally show ?thesis
    by (simp add: is_aligned_iff take_bit_0_iff_dvd)
qed


section \<open>The GenericPTE trait\<close>

record pte_ops =
  pte_addr :: "u64 \<Rightarrow> phys_addr"
  pte_flags :: "u64 \<Rightarrow> u64"
  pte_is_unused :: "u64 \<Rightarrow> bool"
  pte_is_present :: "u64 \<Rightarrow> bool"
  pte_is_huge :: "u64 \<Rightarrow> bool"
  pte_set_addr :: "u64 \<Rightarrow> phys_addr \<Rightarrow> u64 option"
  pte_set_flags :: "u64 \<Rightarrow> u64 \<Rightarrow> bool \<Rightarrow> u64 option"
  pte_set_table :: "u64 \<Rightarrow> phys_addr \<Rightarrow> u64 option"
  pte_clear :: "u64 \<Rightarrow> u64"

text \<open>
  What the paging code needs of an entry type. \<open>ok_flags\<close> are the flags with which a mapping
  is visible, \<open>norm_flags\<close> are the flags a mapping made with \<open>f\<close> reads back with.
\<close>

locale generic_pte =
  fixes ops :: pte_ops
    and ok_flags :: "u64 \<Rightarrow> bool"
    and norm_flags :: "u64 \<Rightarrow> u64"
  assumes unused_iff: "pte_is_unused ops e \<longleftrightarrow> e = 0"
    and not_present_0: "\<not> pte_is_present ops 0"
    and not_huge_0: "\<not> pte_is_huge ops 0"
    and clear_0: "pte_clear ops e = 0"
    and addr_frame: "phys_frame (pte_addr ops e)"
    and set_table_ok: "phys_frame p \<Longrightarrow> \<exists>e'. pte_set_table ops e p = Some e' \<and> e' \<noteq> 0 \<and>
      pte_is_present ops e' \<and> \<not> pte_is_huge ops e' \<and> pte_addr ops e' = p"
    and set_leaf_ok: "phys_frame p \<Longrightarrow> ok_flags f \<Longrightarrow>
      \<exists>e1 e2. pte_set_addr ops e p = Some e1 \<and> pte_set_flags ops e1 f h = Some e2 \<and> e2 \<noteq> 0 \<and>
      pte_is_huge ops e2 = h \<and> pte_addr ops e2 = p \<and> pte_flags ops e2 = norm_flags f"


section \<open>x86-64 entries\<close>

definition ptf_from_mem :: "u64 \<Rightarrow> u64" where
  "ptf_from_mem f =
     (if f = 0 then 0
      else let ret = PTF_PRESENT;
               ret = (if contains f MEM_WRITE then ret OR PTF_WRITABLE else ret);
               ret = (if \<not> contains f MEM_EXECUTE then ret OR PTF_NO_EXECUTE else ret);
               ret = (if contains f MEM_USER then ret OR PTF_USER_ACCESSIBLE else ret);
               ret = (if contains f MEM_IO then ret OR PTF_NO_CACHE else ret)
           in ret)"

definition mem_from_ptf :: "u64 \<Rightarrow> u64" where
  "mem_from_ptf f =
     (if f = 0 then 0
      else let ret = MEM_READ;
               ret = (if contains f PTF_WRITABLE then ret OR MEM_WRITE else ret);
               ret = (if \<not> contains f PTF_NO_EXECUTE then ret OR MEM_EXECUTE else ret);
               ret = (if contains f PTF_USER_ACCESSIBLE then ret OR MEM_USER else ret);
               ret = (if contains f PTF_NO_CACHE then ret OR MEM_IO else ret)
           in ret)"

definition PTEntry_addr :: "u64 \<Rightarrow> phys_addr" where
  "PTEntry_addr e = e AND PHYS_ADDR_MASK"

definition PTEntry_set_addr :: "u64 \<Rightarrow> phys_addr \<Rightarrow> u64" where
  "PTEntry_set_addr e paddr = (e AND NOT PHYS_ADDR_MASK) OR (paddr AND PHYS_ADDR_MASK)"

definition PTEntry_set_flags :: "u64 \<Rightarrow> u64 \<Rightarrow> bool \<Rightarrow> u64" where
  "PTEntry_set_flags e flags is_huge =
     (let fl = ptf_from_mem flags;
          fl = (if is_huge then fl OR PTF_HUGE_PAGE else fl)
      in PTEntry_addr e OR fl)"

definition PTEntry_set_table :: "u64 \<Rightarrow> phys_addr \<Rightarrow> u64" where
  "PTEntry_set_table e paddr =
     (paddr AND PHYS_ADDR_MASK) OR (PTF_PRESENT OR PTF_WRITABLE OR PTF_USER_ACCESSIBLE)"

definition PTEntry_ops :: pte_ops where
  "PTEntry_ops =
     \<lparr>pte_addr = PTEntry_addr,
      pte_flags = (\<lambda>e. mem_from_ptf (truncate_flags PTF_ALL e)),
      pte_is_unused = (\<lambda>e. e = 0),
      pte_is_present = (\<lambda>e. contains (truncate_flags PTF_ALL e) PTF_PRESENT),
      pte_is_huge = (\<lambda>e. contains (truncate_flags PTF_ALL e) PTF_HUGE_PAGE),
      pte_set_addr = (\<lambda>e p. Some (PTEntry_set_addr e p)),
      pte_set_flags = (\<lambda>e f h. Some (PTEntry_set_flags e f h)),
      pte_set_table = (\<lambda>e p. Some (PTEntry_set_table e p)),
      pte_clear = (\<lambda>e. 0)\<rparr>"

text \<open>
  The flags that survive: a present x86 page is always readable, and \<open>DMA\<close>,
  \<open>NO_HUGEPAGES\<close> and unknown bits are dropped.
\<close>

definition x86_norm_flags :: "u64 \<Rightarrow> u64" where
  "x86_norm_flags f = MEM_READ OR (f AND (MEM_WRITE OR MEM_EXECUTE OR MEM_USER OR MEM_IO))"

lemma bit_ptf_from_mem [pte_simps]:
  "bit (ptf_from_mem f) n \<longleftrightarrow> f \<noteq> 0 \<and>
     (n = 0 \<or> n = 1 \<and> bit f 1 \<or> n = 63 \<and> \<not> bit f 2 \<or> n = 2 \<and> bit f 9 \<or> n = 4 \<and> bit f 4)"
  by (auto simp: ptf_from_mem_def Let_def bit_or_iff pte_simps)

lemma bit_mem_from_ptf [pte_simps]:
  "bit (mem_from_ptf f) n \<longleftrightarrow> f \<noteq> 0 \<and>
     (n = 0 \<or> n = 1 \<and> bit f 1 \<or> n = 2 \<and> \<not> bit f 63 \<or> n = 9 \<and> bit f 2 \<or> n = 4 \<and> bit f 4)"
  by (auto simp: mem_from_ptf_def Let_def bit_or_iff pte_simps)

lemma bit_x86_norm_flags [pte_simps]:
  "bit (x86_norm_flags f) n \<longleftrightarrow> n = 0 \<or> n \<in> {1, 2, 4, 9} \<and> bit f n"
  by (auto simp: x86_norm_flags_def bit_or_iff bit_and_iff pte_simps)

lemma bit_x86_leaf:
  "bit (PTEntry_set_flags (PTEntry_set_addr e p) f h) n \<longleftrightarrow>
     12 \<le> n \<and> n < 52 \<and> bit p n \<or> bit (ptf_from_mem f) n \<or> h \<and> n = 7"
  by (auto simp: PTEntry_set_flags_def PTEntry_set_addr_def PTEntry_addr_def bit_simps pte_simps
      Let_def)

lemma bit_x86_table:
  "bit (PTEntry_set_table e p) n \<longleftrightarrow> 12 \<le> n \<and> n < 52 \<and> bit p n \<or> n \<in> {0, 1, 2}"
  by (auto simp: PTEntry_set_table_def bit_simps pte_simps)

lemma x86_leaf_nonzero: "f \<noteq> 0 \<Longrightarrow> PTEntry_set_flags (PTEntry_set_addr e p) f h \<noteq> 0"
  using bit_x86_leaf[of e p f h 0] by (auto simp: pte_simps)

lemma x86_leaf_flags:
  assumes "f \<noteq> 0"
  shows "mem_from_ptf (truncate_flags PTF_ALL (PTEntry_set_flags (PTEntry_set_addr e p) f h))
    = x86_norm_flags f" (is "mem_from_ptf ?g = _")
proof -
  have g: "bit ?g n \<longleftrightarrow> bit (ptf_from_mem f) n \<or> h \<and> n = 7" for n
    by (auto simp: truncate_flags_def bit_and_iff bit_x86_leaf pte_simps)
  have "bit ?g 0"
    using assms by (simp add: g bit_ptf_from_mem)
  then have "?g \<noteq> 0"
    by (metis bit_0_eq bot_apply bot_bool_def)
  then show ?thesis
    using assms by (intro bit_word_eqI) (auto simp: bit_mem_from_ptf g bit_ptf_from_mem bit_x86_norm_flags)
qed

lemma x86_leaf_addr:
  "phys_frame p \<Longrightarrow> PTEntry_addr (PTEntry_set_flags (PTEntry_set_addr e p) f h) = p"
  by (rule bit_word_eqI)
    (auto simp: PTEntry_addr_def bit_and_iff bit_x86_leaf pte_simps dest: phys_frame_bit)

lemma x86_table_addr: "phys_frame p \<Longrightarrow> PTEntry_addr (PTEntry_set_table e p) = p"
  by (rule bit_word_eqI)
    (auto simp: PTEntry_addr_def bit_and_iff bit_x86_table pte_simps dest: phys_frame_bit)

interpretation x86: generic_pte PTEntry_ops "\<lambda>f. f \<noteq> 0" x86_norm_flags
proof unfold_locales
  fix p e f :: u64 and h
  assume p: "phys_frame p"
  show "\<exists>e'. pte_set_table PTEntry_ops e p = Some e' \<and> e' \<noteq> 0 \<and>
      pte_is_present PTEntry_ops e' \<and> \<not> pte_is_huge PTEntry_ops e' \<and> pte_addr PTEntry_ops e' = p"
    using p bit_nonzero[of "PTEntry_set_table e p" 0]
    by (auto simp: PTEntry_ops_def x86_table_addr truncate_flags_def bit_and_iff bit_x86_table
        pte_simps)
  assume "f \<noteq> 0"
  then show "\<exists>e1 e2. pte_set_addr PTEntry_ops e p = Some e1 \<and>
      pte_set_flags PTEntry_ops e1 f h = Some e2 \<and> e2 \<noteq> 0 \<and> pte_is_huge PTEntry_ops e2 = h \<and>
      pte_addr PTEntry_ops e2 = p \<and> pte_flags PTEntry_ops e2 = x86_norm_flags f"
    using p
    by (simp add: PTEntry_ops_def x86_leaf_addr x86_leaf_nonzero x86_leaf_flags)
      (simp add: truncate_flags_def bit_and_iff bit_x86_leaf pte_simps)
next
  show "phys_frame (pte_addr PTEntry_ops e)" for e
    by (simp add: PTEntry_ops_def PTEntry_addr_def phys_frame_def and.assoc)
qed (simp_all add: PTEntry_ops_def truncate_flags_def pte_simps)


section \<open>Intel extended page-table entries\<close>

datatype EPTMemType = Uncached | WriteCombining | WriteThrough | WriteProtected | WriteBack

primrec EPTMemType_val :: "EPTMemType \<Rightarrow> u64" where
  "EPTMemType_val Uncached = 0"
| "EPTMemType_val WriteCombining = 1"
| "EPTMemType_val WriteThrough = 4"
| "EPTMemType_val WriteProtected = 5"
| "EPTMemType_val WriteBack = 6"

definition EPTMemType_try_from :: "u64 \<Rightarrow> (EPTMemType, u64) result" where
  "EPTMemType_try_from v =
     (if v = 0 then Ok Uncached else if v = 1 then Ok WriteCombining
      else if v = 4 then Ok WriteThrough else if v = 5 then Ok WriteProtected
      else if v = 6 then Ok WriteBack else Err v)"

text \<open>\<^verbatim>\<open>EPTMemType::empty\<close> is \<^verbatim>\<open>try_from(0).unwrap()\<close>.\<close>

definition EPTMemType_empty :: "EPTMemType option" where
  "EPTMemType_empty = (case EPTMemType_try_from 0 of Ok t \<Rightarrow> Some t | _ \<Rightarrow> None)"

definition ept_from_mem :: "u64 \<Rightarrow> u64" where
  "ept_from_mem f =
     (if f = 0 then 0
      else let ret = 0;
               ret = (if contains f MEM_READ then ret OR EPT_READ else ret);
               ret = (if contains f MEM_WRITE then ret OR EPT_WRITE else ret);
               ret = (if contains f MEM_EXECUTE then ret OR EPT_EXECUTE else ret)
           in ret)"

definition mem_from_ept :: "u64 \<Rightarrow> u64" where
  "mem_from_ept f =
     (let ret = 0;
          ret = (if contains f EPT_READ then ret OR MEM_READ else ret);
          ret = (if contains f EPT_WRITE then ret OR MEM_WRITE else ret);
          ret = (if contains f EPT_EXECUTE then ret OR MEM_EXECUTE else ret)
      in ret)"

definition EPTEntry_ept_flags :: "u64 \<Rightarrow> u64" where
  "EPTEntry_ept_flags e = truncate_flags EPT_ALL e"

definition EPTEntry_memory_type :: "u64 \<Rightarrow> (EPTMemType, u64) result" where
  "EPTEntry_memory_type e = EPTMemType_try_from (get_bits e 3 6)"

definition EPTEntry_addr :: "u64 \<Rightarrow> phys_addr" where
  "EPTEntry_addr e = push_bit 12 (get_bits e 12 52)"

definition EPTEntry_set_addr :: "u64 \<Rightarrow> phys_addr \<Rightarrow> u64 option" where
  "EPTEntry_set_addr e paddr = set_bits_range e 12 52 (drop_bit 12 paddr)"

definition EPTEntry_set_flags_and_mem_type :: "u64 \<Rightarrow> u64 \<Rightarrow> EPTMemType \<Rightarrow> u64 option" where
  "EPTEntry_set_flags_and_mem_type e flags mem_type =
     Option.bind (set_bits_range e 0 12 flags)
       (\<lambda>e. set_bits_range e 3 6 (EPTMemType_val mem_type))"

definition EPTEntry_set_flags :: "u64 \<Rightarrow> u64 \<Rightarrow> bool \<Rightarrow> u64 option" where
  "EPTEntry_set_flags e flags is_huge =
     (let fl = ept_from_mem flags;
          fl = (if is_huge then fl OR EPT_HUGE_PAGE else fl)
      in EPTEntry_set_flags_and_mem_type e fl WriteBack)"

definition EPTEntry_set_table :: "u64 \<Rightarrow> phys_addr \<Rightarrow> u64 option" where
  "EPTEntry_set_table e paddr =
     Option.bind (EPTEntry_set_addr e paddr)
       (\<lambda>e. Option.bind EPTMemType_empty
         (EPTEntry_set_flags_and_mem_type e (EPT_READ OR EPT_WRITE OR EPT_EXECUTE)))"

definition EPTEntry_ops :: pte_ops where
  "EPTEntry_ops =
     \<lparr>pte_addr = EPTEntry_addr,
      pte_flags = (\<lambda>e. mem_from_ept (EPTEntry_ept_flags e)),
      pte_is_unused = (\<lambda>e. e = 0),
      pte_is_present = (\<lambda>e. get_bits e 0 3 \<noteq> 0),
      pte_is_huge = (\<lambda>e. contains (EPTEntry_ept_flags e) EPT_HUGE_PAGE),
      pte_set_addr = EPTEntry_set_addr,
      pte_set_flags = EPTEntry_set_flags,
      pte_set_table = EPTEntry_set_table,
      pte_clear = (\<lambda>e. 0)\<rparr>"

definition ept_norm_flags :: "u64 \<Rightarrow> u64" where
  "ept_norm_flags f = f AND (MEM_READ OR MEM_WRITE OR MEM_EXECUTE)"

lemma bit_ept_from_mem [pte_simps]: "bit (ept_from_mem f) n \<longleftrightarrow> n \<in> {0, 1, 2} \<and> bit f n"
  by (auto simp: ept_from_mem_def Let_def bit_or_iff pte_simps intro!: gr0I)

lemma bit_mem_from_ept [pte_simps]: "bit (mem_from_ept f) n \<longleftrightarrow> n \<in> {0, 1, 2} \<and> bit f n"
  by (auto simp: mem_from_ept_def Let_def bit_or_iff pte_simps intro!: gr0I)

lemma bit_ept_norm_flags [pte_simps]: "bit (ept_norm_flags f) n \<longleftrightarrow> n \<in> {0, 1, 2} \<and> bit f n"
  by (auto simp: ept_norm_flags_def bit_or_iff bit_and_iff pte_simps)

lemma set_bits_range_fits:
  "(\<And>n. bit v n \<Longrightarrow> n < hi - lo) \<Longrightarrow> \<exists>w'. set_bits_range w lo hi (v :: u64) = Some w'"
  by (auto simp: set_bits_range_def bit_take_bit_iff intro!: bit_word_eqI)

lemma bit_EPTMemType_val [pte_simps]:
  "bit (EPTMemType_val WriteBack) n \<longleftrightarrow> n = 1 \<or> n = 2" "\<not> bit (EPTMemType_val Uncached) n"
proof -
  have "EPTMemType_val WriteBack = MEM_WRITE OR MEM_EXECUTE"
    by (simp add: MEM_WRITE_def MEM_EXECUTE_def)
  then show "bit (EPTMemType_val WriteBack) n \<longleftrightarrow> n = 1 \<or> n = 2"
    by (simp only: bit_or_iff bit_flag_consts)
qed simp

lemma EPTEntry_set_addr_frame:
  assumes "phys_frame p"
  shows "\<exists>e'. EPTEntry_set_addr e p = Some e' \<and>
    (\<forall>n. bit e' n \<longleftrightarrow> (if 12 \<le> n \<and> n < 52 then bit p n else bit e n))"
proof -
  obtain e' where e': "set_bits_range e 12 52 (drop_bit 12 p) = Some e'"
    using set_bits_range_fits[of "drop_bit 12 p" 52 12 e] phys_frame_bit[OF assms]
    by (fastforce simp: bit_drop_bit_eq)
  then show ?thesis
    by (auto simp: EPTEntry_set_addr_def set_bits_range_Some[OF e'] bit_drop_bit_eq
        dest: bit_imp_le_length)
qed

lemma EPTMemType_val_fits: "bit (EPTMemType_val mt) n \<Longrightarrow> n < 3"
proof -
  have "take_bit 3 (EPTMemType_val mt) = EPTMemType_val mt"
    by (cases mt) simp_all
  then show "bit (EPTMemType_val mt) n \<Longrightarrow> n < 3"
    by (metis bit_take_bit_iff)
qed

lemma EPTEntry_set_flags_and_mem_type_Some:
  assumes "\<And>n. bit fl n \<Longrightarrow> n < 12"
  shows "\<exists>e'. EPTEntry_set_flags_and_mem_type e fl mt = Some e' \<and>
    (\<forall>n. bit e' n \<longleftrightarrow> (if 3 \<le> n \<and> n < 6 then bit (EPTMemType_val mt) (n - 3)
                       else if n < 12 then bit fl n else bit e n))"
proof -
  obtain e1 where e1: "set_bits_range e 0 12 fl = Some e1"
    using set_bits_range_fits[of fl 12 0 e] assms by fastforce
  obtain e2 where e2: "set_bits_range e1 3 6 (EPTMemType_val mt) = Some e2"
    using set_bits_range_fits[of "EPTMemType_val mt" 6 3 e1] EPTMemType_val_fits by fastforce
  from e1 e2 show ?thesis
    by (auto simp: EPTEntry_set_flags_and_mem_type_def set_bits_range_Some[OF e1]
        set_bits_range_Some[OF e2] dest: bit_imp_le_length)
qed

lemma EPTEntry_leaf:
  assumes "phys_frame p"
  shows "\<exists>e1 e2. EPTEntry_set_addr e p = Some e1 \<and> EPTEntry_set_flags e1 f h = Some e2 \<and>
    (\<forall>n<52. bit e2 n \<longleftrightarrow> 12 \<le> n \<and> bit p n \<or> n \<in> {0, 1, 2} \<and> bit f n \<or> n \<in> {4, 5} \<or>
       n = 7 \<and> h)"
proof -
  obtain e1 where e1: "EPTEntry_set_addr e p = Some e1"
    "\<And>n. bit e1 n \<longleftrightarrow> (if 12 \<le> n \<and> n < 52 then bit p n else bit e n)"
    using EPTEntry_set_addr_frame[OF assms] by blast
  define fl where "fl = (if h then ept_from_mem f OR EPT_HUGE_PAGE else ept_from_mem f)"
  have fl: "bit fl n \<longleftrightarrow> n \<in> {0, 1, 2} \<and> bit f n \<or> n = 7 \<and> h" for n
    by (auto simp: fl_def bit_or_iff pte_simps)
  have fits: "\<And>n. bit fl n \<Longrightarrow> n < 12" by (auto simp: fl)
  obtain e2 where "EPTEntry_set_flags_and_mem_type e1 fl WriteBack = Some e2"
    "\<And>n. bit e2 n \<longleftrightarrow> (if 3 \<le> n \<and> n < 6 then bit (EPTMemType_val WriteBack) (n - 3)
                       else if n < 12 then bit fl n else bit e1 n)"
    using EPTEntry_set_flags_and_mem_type_Some[where mt = WriteBack and e = e1, OF fits] by blast
  then show ?thesis
    using e1 by (auto simp: EPTEntry_set_flags_def fl_def[symmetric] Let_def fl
        bit_EPTMemType_val simp del: EPTMemType_val.simps intro!: exI[of _ e1])
qed

lemma EPTEntry_table:
  assumes "phys_frame p"
  shows "\<exists>e'. EPTEntry_set_table e p = Some e' \<and>
    (\<forall>n<52. bit e' n \<longleftrightarrow> 12 \<le> n \<and> bit p n \<or> n \<in> {0, 1, 2})"
proof -
  obtain e1 where e1: "EPTEntry_set_addr e p = Some e1"
    "\<And>n. bit e1 n \<longleftrightarrow> (if 12 \<le> n \<and> n < 52 then bit p n else bit e n)"
    using EPTEntry_set_addr_frame[OF assms] by blast
  define fl where "fl = EPT_READ OR EPT_WRITE OR EPT_EXECUTE"
  have fl: "bit fl n \<longleftrightarrow> n \<in> {0, 1, 2}" for n
    by (auto simp: fl_def bit_or_iff pte_simps)
  have fits: "\<And>n. bit fl n \<Longrightarrow> n < 12" by (auto simp: fl)
  obtain e2 where "EPTEntry_set_flags_and_mem_type e1 fl Uncached = Some e2"
    "\<And>n. bit e2 n \<longleftrightarrow> (if 3 \<le> n \<and> n < 6 then bit (EPTMemType_val Uncached) (n - 3)
                       else if n < 12 then bit fl n else bit e1 n)"
    using EPTEntry_set_flags_and_mem_type_Some[where mt = Uncached and e = e1, OF fits] by blast
  then show ?thesis
    using e1 by (auto simp: EPTEntry_set_table_def fl_def[symmetric] EPTMemType_empty_def
        EPTMemType_try_from_def fl bit_EPTMemType_val)
qed

lemma bit_EPTEntry_addr: "bit (EPTEntry_addr e) n \<longleftrightarrow> 12 \<le> n \<and> n < 52 \<and> bit e n"
  by (auto simp: EPTEntry_addr_def bit_push_bit_iff bit_get_bits possible_bit_def)

lemma EPTEntry_present: "get_bits e 0 3 \<noteq> 0 \<longleftrightarrow> (\<exists>n<3. bit (e :: u64) n)"
proof
  assume "get_bits e 0 3 \<noteq> 0"
  then obtain n where "bit (get_bits e 0 3) n"
    by (auto simp: bit_eq_iff)
  then show "\<exists>n<3. bit e n" by (auto simp: bit_get_bits)
next
  assume "\<exists>n<3. bit e n"
  then obtain n where "bit (get_bits e 0 3) n" by (auto simp: bit_get_bits)
  then show "get_bits e 0 3 \<noteq> 0" by (rule bit_nonzero)
qed

lemma EPTEntry_addr_eq: "(\<And>n. 12 \<le> n \<Longrightarrow> n < 52 \<Longrightarrow> bit e n \<longleftrightarrow> bit p n) \<Longrightarrow> phys_frame p \<Longrightarrow>
    EPTEntry_addr e = p"
  by (rule bit_word_eqI) (auto simp: bit_EPTEntry_addr dest: phys_frame_bit)

interpretation ept: generic_pte EPTEntry_ops "\<lambda>f. True" ept_norm_flags
proof unfold_locales
  fix p e f :: u64 and h
  assume p: "phys_frame p"
  obtain e' where e': "EPTEntry_set_table e p = Some e'"
    "\<And>n. n < 52 \<Longrightarrow> bit e' n \<longleftrightarrow> 12 \<le> n \<and> bit p n \<or> n \<in> {0, 1, 2}"
    using EPTEntry_table[OF p, of e] by blast
  moreover from e'(2) have "\<exists>n<3. bit e' n"
    by (intro exI[of _ 0]) simp
  ultimately show "\<exists>e'. pte_set_table EPTEntry_ops e p = Some e' \<and> e' \<noteq> 0 \<and>
      pte_is_present EPTEntry_ops e' \<and> \<not> pte_is_huge EPTEntry_ops e' \<and> pte_addr EPTEntry_ops e' = p"
    using p bit_nonzero[of e' 0]
    by (auto simp: EPTEntry_ops_def EPTEntry_present EPTEntry_ept_flags_def truncate_flags_def
        bit_and_iff pte_simps EPTEntry_addr_eq)
  obtain e1 e2 where e2: "EPTEntry_set_addr e p = Some e1" "EPTEntry_set_flags e1 f h = Some e2"
    "\<And>n. n < 52 \<Longrightarrow> bit e2 n \<longleftrightarrow> 12 \<le> n \<and> bit p n \<or> n \<in> {0, 1, 2} \<and> bit f n \<or> n \<in> {4, 5} \<or>
       n = 7 \<and> h"
    using EPTEntry_leaf[OF p, of e f h] by blast
  moreover have "mem_from_ept (EPTEntry_ept_flags e2) = ept_norm_flags f"
    by (rule bit_word_eqI)
      (auto simp: e2(3) EPTEntry_ept_flags_def truncate_flags_def bit_and_iff pte_simps)
  ultimately show "\<exists>e1 e2. pte_set_addr EPTEntry_ops e p = Some e1 \<and>
      pte_set_flags EPTEntry_ops e1 f h = Some e2 \<and> e2 \<noteq> 0 \<and> pte_is_huge EPTEntry_ops e2 = h \<and>
      pte_addr EPTEntry_ops e2 = p \<and> pte_flags EPTEntry_ops e2 = ept_norm_flags f"
    using p bit_nonzero[of e2 4]
    by (auto simp: EPTEntry_ops_def EPTEntry_ept_flags_def truncate_flags_def bit_and_iff pte_simps
        EPTEntry_addr_eq)
next
  show "phys_frame (pte_addr EPTEntry_ops e)" for e
    by (auto simp: EPTEntry_ops_def phys_frame_def bit_EPTEntry_addr bit_and_iff pte_simps
        intro!: bit_word_eqI)
qed (simp_all add: EPTEntry_ops_def EPTEntry_ept_flags_def truncate_flags_def pte_simps
    get_bits_def)


section \<open>AMD nested page-table entries\<close>

definition NPTEntry_set_flags :: "u64 \<Rightarrow> u64 \<Rightarrow> bool \<Rightarrow> u64 option" where
  "NPTEntry_set_flags e flags is_huge =
     pte_set_flags PTEntry_ops e (flags OR MEM_USER) is_huge"

definition NPTEntry_ops :: pte_ops where
  "NPTEntry_ops =
     \<lparr>pte_addr = pte_addr PTEntry_ops,
      pte_flags = pte_flags PTEntry_ops,
      pte_is_unused = pte_is_unused PTEntry_ops,
      pte_is_present = pte_is_present PTEntry_ops,
      pte_is_huge = pte_is_huge PTEntry_ops,
      pte_set_addr = pte_set_addr PTEntry_ops,
      pte_set_flags = NPTEntry_set_flags,
      pte_set_table = pte_set_table PTEntry_ops,
      pte_clear = pte_clear PTEntry_ops\<rparr>"

definition npt_norm_flags :: "u64 \<Rightarrow> u64" where
  "npt_norm_flags f = x86_norm_flags (f OR MEM_USER)"

lemma user_flags_nonzero: "f OR MEM_USER \<noteq> 0"
  by (rule bit_nonzero[of _ 9]) (simp add: bit_or_iff pte_simps)

interpretation npt: generic_pte NPTEntry_ops "\<lambda>f. True" npt_norm_flags
proof unfold_locales
  show "\<exists>e1 e2. pte_set_addr NPTEntry_ops e p = Some e1 \<and>
      pte_set_flags NPTEntry_ops e1 f h = Some e2 \<and> e2 \<noteq> 0 \<and> pte_is_huge NPTEntry_ops e2 = h \<and>
      pte_addr NPTEntry_ops e2 = p \<and> pte_flags NPTEntry_ops e2 = npt_norm_flags f"
    if "phys_frame p" for p e f h
    using x86.set_leaf_ok[OF that user_flags_nonzero]
    by (simp add: NPTEntry_ops_def NPTEntry_set_flags_def npt_norm_flags_def)
qed (simp_all add: NPTEntry_ops_def x86.unused_iff x86.not_present_0 x86.not_huge_0 x86.clear_0
    x86.addr_frame x86.set_table_ok)

end
