(* ===== verification/FrameAlloc.thy ===== *)
theory FrameAlloc
  imports HvError PageEntry
begin

text \<open>
  Physical frames: \<^verbatim>\<open>src/src/memory/frame.rs\<close>. The bitmap allocator is a crate outside the
  repository, so its operations are the argument \<open>ba\<close> of the definitions, and
  \<open>bit_alloc_spec ba free\<close> states its documented behaviour, with \<open>free b\<close> the set of indices
  an allocator state \<open>b\<close> can still hand out. The contents of physical memory are seen as
  tables of 64-bit entries, by the physical address of a page and the index of the entry in
  it; every pointer the code derives from a physical address goes through \<^verbatim>\<open>phys_to_virt\<close>,
  which is a bijection.
\<close>

section \<open>The bitmap allocator\<close>

record 'b bit_alloc =
  ba_default :: 'b
  ba_insert :: "'b \<Rightarrow> usize \<Rightarrow> usize \<Rightarrow> 'b"
  ba_alloc :: "'b \<Rightarrow> 'b \<times> usize option"
  ba_alloc_contiguous :: "'b \<Rightarrow> usize \<Rightarrow> usize \<Rightarrow> 'b \<times> usize option"
  ba_dealloc :: "'b \<Rightarrow> usize \<Rightarrow> 'b"

text \<open>The capacity of \<^verbatim>\<open>BitAlloc1M\<close>.\<close>

abbreviation BA_CAP :: usize where "BA_CAP \<equiv> 0x100000"

definition bit_alloc_spec :: "'b bit_alloc \<Rightarrow> ('b \<Rightarrow> usize set) \<Rightarrow> bool" where
  "bit_alloc_spec ba free \<longleftrightarrow>
     free (ba_default ba) = {} \<and>
     (\<forall>b. free b \<subseteq> {..<BA_CAP}) \<and>
     (\<forall>b lo hi. lo \<le> hi \<and> hi \<le> BA_CAP \<longrightarrow> free (ba_insert ba b lo hi) = free b \<union> {lo..<hi}) \<and>
     (\<forall>b b'. ba_alloc ba b = (b', None) \<longrightarrow> free b = {} \<and> free b' = {}) \<and>
     (\<forall>b b' i. ba_alloc ba b = (b', Some i) \<longrightarrow> i \<in> free b \<and> free b' = free b - {i}) \<and>
     (\<forall>b b' n a. ba_alloc_contiguous ba b n a = (b', None) \<longrightarrow> free b' = free b) \<and>
     (\<forall>b b' n a i. ba_alloc_contiguous ba b n a = (b', Some i) \<longrightarrow>
        unat i + unat n \<le> unat BA_CAP \<and> 2 ^ unat a dvd unat i \<and> {i..<i + n} \<subseteq> free b \<and>
        free b' = free b - {i..<i + n}) \<and>
     (\<forall>b i. i < BA_CAP \<and> i \<notin> free b \<longrightarrow> free (ba_dealloc ba b i) = insert i (free b))"

text \<open>
  A concrete allocator with this behaviour, to show that the hypothesis can hold: the list of
  free indices, first fit for single bits, the first aligned run for contiguous ones.
\<close>

definition list_run_free :: "usize list \<Rightarrow> usize \<Rightarrow> usize \<Rightarrow> usize \<Rightarrow> bool" where
  "list_run_free b n a i \<longleftrightarrow> unat i + unat n \<le> unat BA_CAP \<and> unat i mod 2 ^ unat a = 0 \<and>
     (\<forall>k \<in> set [0..<unat n]. i + of_nat k \<in> set b)"

definition list_alloc :: "usize list bit_alloc" where
  "list_alloc =
     \<lparr>ba_default = [],
      ba_insert = (\<lambda>b lo hi. filter (\<lambda>i. i < BA_CAP) (map of_nat [unat lo..<unat hi]) @ b),
      ba_alloc = (\<lambda>b. case filter (\<lambda>i. i < BA_CAP) b of
         [] \<Rightarrow> (b, None) | i # _ \<Rightarrow> (filter (\<lambda>j. j \<noteq> i) b, Some i)),
      ba_alloc_contiguous = (\<lambda>b n a. case filter (list_run_free b n a) b of
         [] \<Rightarrow> (b, None)
       | i # _ \<Rightarrow> (filter (\<lambda>j. \<not> (i \<le> j \<and> j < i + n)) b, Some i)),
      ba_dealloc = (\<lambda>b i. i # b)\<rparr>"

definition list_free :: "usize list \<Rightarrow> usize set" where
  "list_free b = {i \<in> set b. i < BA_CAP}"


section \<open>The frame allocator\<close>

record 'b FrameAllocator =
  fa_base :: phys_addr
  fa_inner :: 'b

record Frame =
  start_paddr :: phys_addr
  frame_count :: usize

type_synonym table_mem = "phys_addr \<Rightarrow> usize \<Rightarrow> u64"

text \<open>The global allocator and the contents of physical memory.\<close>

record 'b pmem =
  falloc :: "'b FrameAllocator"
  tabs :: table_mem

definition fa_empty :: "'b bit_alloc \<Rightarrow> 'b FrameAllocator" where
  "fa_empty ba = \<lparr>fa_base = 0, fa_inner = ba_default ba\<rparr>"

definition fa_init :: "'b bit_alloc \<Rightarrow> 'b FrameAllocator \<Rightarrow> phys_addr \<Rightarrow> usize
  \<Rightarrow> 'b FrameAllocator" where
  "fa_init ba fa base sz =
     (let fa = fa\<lparr>fa_base := align_up base\<rparr>;
          page_count = align_up sz div PAGE_SIZE
      in fa\<lparr>fa_inner := ba_insert ba (fa_inner fa) 0 page_count\<rparr>)"

definition fa_alloc :: "'b bit_alloc \<Rightarrow> 'b FrameAllocator \<Rightarrow> 'b FrameAllocator \<times> phys_addr option"
  where
  "fa_alloc ba fa =
     (let (b, r) = ba_alloc ba (fa_inner fa)
      in (fa\<lparr>fa_inner := b\<rparr>, map_option (\<lambda>idx. idx * PAGE_SIZE + fa_base fa) r))"

definition fa_alloc_contiguous :: "'b bit_alloc \<Rightarrow> 'b FrameAllocator \<Rightarrow> usize \<Rightarrow> usize
  \<Rightarrow> 'b FrameAllocator \<times> phys_addr option" where
  "fa_alloc_contiguous ba fa count align_log2 =
     (let (b, r) = ba_alloc_contiguous ba (fa_inner fa) count align_log2
      in (fa\<lparr>fa_inner := b\<rparr>, map_option (\<lambda>idx. idx * PAGE_SIZE + fa_base fa) r))"

definition fa_dealloc :: "'b bit_alloc \<Rightarrow> 'b FrameAllocator \<Rightarrow> phys_addr \<Rightarrow> 'b FrameAllocator" where
  "fa_dealloc ba fa target =
     fa\<lparr>fa_inner := ba_dealloc ba (fa_inner fa) ((target - fa_base fa) div PAGE_SIZE)\<rparr>"

definition fa_dealloc_contiguous :: "'b bit_alloc \<Rightarrow> 'b FrameAllocator \<Rightarrow> phys_addr \<Rightarrow> usize
  \<Rightarrow> 'b FrameAllocator" where
  "fa_dealloc_contiguous ba fa target count =
     (let start_idx = (target - fa_base fa) div PAGE_SIZE
      in fa\<lparr>fa_inner := fold (\<lambda>k b. ba_dealloc ba b (start_idx + of_nat k)) [0..<unat count]
             (fa_inner fa)\<rparr>)"

definition Frame_new :: "'b bit_alloc \<Rightarrow> 'b pmem \<Rightarrow> 'b pmem \<times> (Frame, HvErrorNum) result" where
  "Frame_new ba s =
     (case fa_alloc ba (falloc s) of
        (fa, Some p) \<Rightarrow> (s\<lparr>falloc := fa\<rparr>, Ok \<lparr>start_paddr = p, frame_count = 1\<rparr>)
      | (fa, None) \<Rightarrow> (s\<lparr>falloc := fa\<rparr>, Err ENOMEM))"

definition Frame_size :: "Frame \<Rightarrow> usize" where
  "Frame_size f = frame_count f * PAGE_SIZE"

definition Frame_as_ptr :: "usize \<Rightarrow> Frame \<Rightarrow> usize" where
  "Frame_as_ptr off f = phys_to_virt off (start_paddr f)"

text \<open>\<^verbatim>\<open>write_bytes(ptr, byte, size)\<close>: every 64-bit entry of the frame's pages is eight copies.\<close>

definition byte_entry :: "u8 \<Rightarrow> u64" where
  "byte_entry byte = ucast byte * 0x0101010101010101"

definition Frame_fill :: "Frame \<Rightarrow> u8 \<Rightarrow> 'b pmem \<Rightarrow> 'b pmem" where
  "Frame_fill f byte s =
     s\<lparr>tabs := (\<lambda>p. if p \<in> set (map (\<lambda>k. start_paddr f + of_nat k * PAGE_SIZE)
                                    [0..<unat (frame_count f)])
                   then (\<lambda>_. byte_entry byte) else tabs s p)\<rparr>"

definition Frame_zero :: "Frame \<Rightarrow> 'b pmem \<Rightarrow> 'b pmem" where
  "Frame_zero f = Frame_fill f 0"

definition Frame_new_zero :: "'b bit_alloc \<Rightarrow> 'b pmem \<Rightarrow> 'b pmem \<times> (Frame, HvErrorNum) result"
  where
  "Frame_new_zero ba s = st_then (Frame_new ba s) (\<lambda>s f. (Frame_zero f s, Ok f))"

definition Frame_new_contiguous :: "'b bit_alloc \<Rightarrow> 'b pmem \<Rightarrow> usize \<Rightarrow> usize
  \<Rightarrow> 'b pmem \<times> (Frame, HvErrorNum) result" where
  "Frame_new_contiguous ba s count align_log2 =
     (case fa_alloc_contiguous ba (falloc s) count align_log2 of
        (fa, Some p) \<Rightarrow> (s\<lparr>falloc := fa\<rparr>, Ok \<lparr>start_paddr = p, frame_count = count\<rparr>)
      | (fa, None) \<Rightarrow> (s\<lparr>falloc := fa\<rparr>, Err ENOMEM))"

definition Frame_from_paddr :: "phys_addr \<Rightarrow> (Frame, 'e) result" where
  "Frame_from_paddr p = (if is_aligned p then Ok \<lparr>start_paddr = p, frame_count = 0\<rparr> else Panic)"

definition Frame_drop :: "'b bit_alloc \<Rightarrow> Frame \<Rightarrow> 'b pmem \<Rightarrow> 'b pmem" where
  "Frame_drop ba f s =
     (if frame_count f = 0 then s
      else if frame_count f = 1 then s\<lparr>falloc := fa_dealloc ba (falloc s) (start_paddr f)\<rparr>
      else s\<lparr>falloc := fa_dealloc_contiguous ba (falloc s) (start_paddr f) (frame_count f)\<rparr>)"


section \<open>The pool\<close>

text \<open>
  \<open>pool_index fa i\<close>: the frame with index \<open>i\<close> lies below \<open>2 ^ 52\<close>. A well-formed allocator has
  a page-aligned base and only hands out such frames.
\<close>

definition pool_index :: "'b FrameAllocator \<Rightarrow> usize \<Rightarrow> bool" where
  "pool_index fa i \<longleftrightarrow> i < BA_CAP \<and> unat (fa_base fa) + unat i * 4096 + 4096 \<le> 2 ^ 52"

definition frame_of :: "'b FrameAllocator \<Rightarrow> usize \<Rightarrow> phys_addr" where
  "frame_of fa i = i * PAGE_SIZE + fa_base fa"

definition pool_frame :: "'b FrameAllocator \<Rightarrow> phys_addr \<Rightarrow> bool" where
  "pool_frame fa p \<longleftrightarrow> (\<exists>i. pool_index fa i \<and> p = frame_of fa i)"

definition free_frames :: "('b \<Rightarrow> usize set) \<Rightarrow> 'b FrameAllocator \<Rightarrow> phys_addr set" where
  "free_frames free fa = frame_of fa ` free (fa_inner fa)"

definition falloc_wf :: "('b \<Rightarrow> usize set) \<Rightarrow> 'b FrameAllocator \<Rightarrow> bool" where
  "falloc_wf free fa \<longleftrightarrow> is_aligned (fa_base fa) \<and> (\<forall>i \<in> free (fa_inner fa). pool_index fa i)"

lemma unat_frame_of: "pool_index fa i \<Longrightarrow> unat (frame_of fa i) = unat i * 4096 + unat (fa_base fa)"
proof -
  assume i: "pool_index fa i"
  then have "unat i * 4096 + unat (fa_base fa) < 2 ^ 64"
    by (simp add: pool_index_def)
  then have "unat (i * 4096) = unat i * 4096"
    by (simp add: unat_word_ariths)
  with i show ?thesis
    by (simp add: frame_of_def rvm_const pool_index_def unat_word_ariths)
qed

lemma frame_of_inj: "pool_index fa i \<Longrightarrow> pool_index fa j \<Longrightarrow> frame_of fa i = frame_of fa j \<longleftrightarrow> i = j"
  using unat_frame_of[of fa i] unat_frame_of[of fa j] by (auto simp: word_unat_eq_iff)

lemma phys_frame_frame_of:
  assumes "is_aligned (fa_base fa)" "pool_index fa i"
  shows "phys_frame (frame_of fa i)"
  using assms(1) unat_frame_of[OF assms(2)] assms(2)
  by (simp add: phys_frame_iff is_aligned_iff pool_index_def)

lemma index_of_frame: "pool_index fa i \<Longrightarrow> (frame_of fa i - fa_base fa) div PAGE_SIZE = i"
proof -
  assume i: "pool_index fa i"
  then have "unat (i * 4096) = unat i * 4096"
    by (simp add: pool_index_def unat_word_ariths)
  then show ?thesis
    by (simp add: frame_of_def rvm_const word_unat_eq_iff unat_div_distrib)
qed

lemma free_frames_pool: "falloc_wf free fa \<Longrightarrow> p \<in> free_frames free fa \<Longrightarrow> pool_frame fa p"
  by (auto simp: falloc_wf_def free_frames_def pool_frame_def)

lemma pool_frame_phys: "falloc_wf free fa \<Longrightarrow> pool_frame fa p \<Longrightarrow> phys_frame p"
  by (auto simp: falloc_wf_def pool_frame_def intro: phys_frame_frame_of)


section \<open>Allocation and deallocation\<close>

lemma bit_alloc_specD:
  assumes "bit_alloc_spec ba free"
  shows "free (ba_default ba) = {}"
    and "i \<in> free b \<Longrightarrow> i < BA_CAP"
    and "lo \<le> hi \<Longrightarrow> hi \<le> BA_CAP \<Longrightarrow> free (ba_insert ba b lo hi) = free b \<union> {lo..<hi}"
    and "ba_alloc ba b = (b', None) \<Longrightarrow> free b = {} \<and> free b' = {}"
    and "ba_alloc ba b = (b', Some i) \<Longrightarrow> i \<in> free b \<and> free b' = free b - {i}"
    and "ba_alloc_contiguous ba b n a = (b', None) \<Longrightarrow> free b' = free b"
    and "ba_alloc_contiguous ba b n a = (b', Some i) \<Longrightarrow>
        unat i + unat n \<le> unat BA_CAP \<and> 2 ^ unat a dvd unat i \<and> {i..<i + n} \<subseteq> free b \<and>
        free b' = free b - {i..<i + n}"
    and "i < BA_CAP \<Longrightarrow> i \<notin> free b \<Longrightarrow> free (ba_dealloc ba b i) = insert i (free b)"
  by (insert assms, unfold bit_alloc_spec_def, elim conjE; auto)+

lemma word_interval_of_nat:
  "(of_nat :: nat \<Rightarrow> 'a::len word) ` {unat lo..<unat hi} = {lo..<hi}"
proof (intro set_eqI iffI)
  fix x :: "'a word" assume "x \<in> of_nat ` {unat lo..<unat hi}"
  then obtain k where k: "x = of_nat k" "unat lo \<le> k" "k < unat hi" by auto
  have "k < 2 ^ LENGTH('a)"
    using k(3) unsigned_less[of hi] by (rule less_trans)
  with k(1) have "unat x = k"
    by (simp add: unat_of_nat)
  with k show "x \<in> {lo..<hi}" by (simp add: word_le_nat_alt word_less_nat_alt)
next
  fix x :: "'a word" assume "x \<in> {lo..<hi}"
  then show "x \<in> of_nat ` {unat lo..<unat hi}"
    by (intro image_eqI[of _ _ "unat x"]) (auto simp: word_le_nat_alt word_less_nat_alt)
qed

lemma list_run_free_sub:
  assumes "list_run_free b n a i"
  shows "{i..<i + n} \<subseteq> list_free b"
proof
  fix j assume j: "j \<in> {i..<i + n}"
  have n: "unat i + unat n \<le> 0x100000" "unat (i + n) = unat i + unat n"
    using assms by (simp_all add: list_run_free_def unat_word_ariths)
  with j have "unat i \<le> unat j" "unat j < unat i + unat n"
    by (simp_all add: word_le_nat_alt word_less_nat_alt)
  then have k: "unat j - unat i \<in> set [0..<unat n]" "j = i + of_nat (unat j - unat i)"
    "unat j < 0x100000"
    using n(1) by (auto simp: of_nat_diff)
  have "i + of_nat (unat j - unat i) \<in> set b"
    using assms k(1) unfolding list_run_free_def by blast
  with k(2,3) show "j \<in> list_free b"
    by (simp add: list_free_def word_less_nat_alt)
qed

lemma list_alloc_alloc:
  "ba_alloc list_alloc b = (b', None) \<Longrightarrow> list_free b = {} \<and> list_free b' = {}"
  "ba_alloc list_alloc b = (b', Some i) \<Longrightarrow> i \<in> list_free b \<and> list_free b' = list_free b - {i}"
proof -
  show "ba_alloc list_alloc b = (b', None) \<Longrightarrow> list_free b = {} \<and> list_free b' = {}"
    by (auto simp: list_alloc_def list_free_def filter_empty_conv split: list.splits)
  assume a: "ba_alloc list_alloc b = (b', Some i)"
  then obtain r where r: "filter (\<lambda>i. i < BA_CAP) b = i # r" "b' = filter (\<lambda>j. j \<noteq> i) b"
    by (auto simp: list_alloc_def split: list.splits)
  have "i \<in> set (filter (\<lambda>i. i < BA_CAP) b)"
    unfolding r(1) by simp
  then show "i \<in> list_free b \<and> list_free b' = list_free b - {i}"
    by (auto simp: r(2) list_free_def)
qed

lemma list_alloc_contiguous:
  "ba_alloc_contiguous list_alloc b n a = (b', None) \<Longrightarrow> list_free b' = list_free b"
  "ba_alloc_contiguous list_alloc b n a = (b', Some i) \<Longrightarrow>
     unat i + unat n \<le> unat BA_CAP \<and> 2 ^ unat a dvd unat i \<and> {i..<i + n} \<subseteq> list_free b \<and>
     list_free b' = list_free b - {i..<i + n}"
proof -
  show "ba_alloc_contiguous list_alloc b n a = (b', None) \<Longrightarrow> list_free b' = list_free b"
    by (auto simp: list_alloc_def split: list.splits)
  assume a: "ba_alloc_contiguous list_alloc b n a = (b', Some i)"
  then obtain r where r: "filter (list_run_free b n a) b = i # r"
      "b' = filter (\<lambda>j. \<not> (i \<le> j \<and> j < i + n)) b"
    by (auto simp: list_alloc_def split: list.splits)
  have "i \<in> set (filter (list_run_free b n a) b)"
    unfolding r(1) by simp
  then have i: "list_run_free b n a i" by simp
  from i have "unat i + unat n \<le> unat BA_CAP" "2 ^ unat a dvd unat i"
    by (simp_all add: list_run_free_def dvd_eq_mod_eq_0)
  moreover have "list_free b' = list_free b - {i..<i + n}"
    by (auto simp: r(2) list_free_def)
  ultimately show "unat i + unat n \<le> unat BA_CAP \<and> 2 ^ unat a dvd unat i \<and>
      {i..<i + n} \<subseteq> list_free b \<and> list_free b' = list_free b - {i..<i + n}"
    using list_run_free_sub[OF i] by blast
qed

lemma list_alloc_insert:
  "hi \<le> BA_CAP \<Longrightarrow> list_free (ba_insert list_alloc b lo hi) = list_free b \<union> {lo..<hi}"
  using word_interval_of_nat[of lo hi]
  by (auto simp: list_alloc_def list_free_def set_eq_iff image_def)

lemma list_alloc_spec: "bit_alloc_spec list_alloc list_free"
proof -
  have "list_free (ba_default list_alloc) = {}" "list_free b \<subseteq> {..<BA_CAP}"
    "i < BA_CAP \<Longrightarrow> list_free (ba_dealloc list_alloc b i) = insert i (list_free b)" for b i
    by (auto simp: list_alloc_def list_free_def)
  note rules = this list_alloc_insert
  show ?thesis
    unfolding bit_alloc_spec_def
    by (intro conjI allI impI; (elim conjE)?;
        (simp only: rules | blast dest: list_alloc_alloc list_alloc_contiguous))
qed

lemma free_frames_update:
  assumes "falloc_wf free fa" "free b \<subseteq> free (fa_inner fa)"
  shows "free_frames free (fa\<lparr>fa_inner := b\<rparr>) =
           free_frames free fa - frame_of fa ` (free (fa_inner fa) - free b)"
    and "falloc_wf free (fa\<lparr>fa_inner := b\<rparr>)"
proof -
  have same: "frame_of (fa\<lparr>fa_inner := b\<rparr>) = frame_of fa"
      "pool_index (fa\<lparr>fa_inner := b\<rparr>) = pool_index fa"
    by (simp_all add: frame_of_def pool_index_def fun_eq_iff)
  have inj: "inj_on (frame_of fa) (free (fa_inner fa))"
    using assms(1) frame_of_inj[of fa] by (auto simp: inj_on_def falloc_wf_def)
  have "free b = free (fa_inner fa) - (free (fa_inner fa) - free b)"
    using assms(2) by auto
  then show "free_frames free (fa\<lparr>fa_inner := b\<rparr>) =
      free_frames free fa - frame_of fa ` (free (fa_inner fa) - free b)"
    using inj_on_image_set_diff[OF inj, of "free (fa_inner fa)" "free (fa_inner fa) - free b"]
      assms(2) by (simp add: free_frames_def same)
  show "falloc_wf free (fa\<lparr>fa_inner := b\<rparr>)"
    using assms by (auto simp: falloc_wf_def same)
qed

lemma fa_alloc_None:
  assumes "bit_alloc_spec ba free" "fa_alloc ba fa = (fa', None)"
  shows "free_frames free fa = {}" "free_frames free fa' = {}" "fa_base fa' = fa_base fa"
  using assms bit_alloc_specD(4)[OF assms(1), of "fa_inner fa"]
  by (auto simp: fa_alloc_def free_frames_def split: prod.splits)

lemma fa_alloc_Some:
  assumes "bit_alloc_spec ba free" "falloc_wf free fa" "fa_alloc ba fa = (fa', Some p)"
  shows "p \<in> free_frames free fa" "free_frames free fa' = free_frames free fa - {p}"
    "falloc_wf free fa'" "fa_base fa' = fa_base fa"
proof -
  obtain b i where a: "ba_alloc ba (fa_inner fa) = (b, Some i)" "fa' = fa\<lparr>fa_inner := b\<rparr>"
      "p = frame_of fa i"
    using assms(3) by (auto simp: fa_alloc_def frame_of_def split: prod.splits)
  note i = bit_alloc_specD(5)[OF assms(1) a(1)]
  with a show "p \<in> free_frames free fa"
    by (auto simp: free_frames_def)
  from i have sub: "free b \<subseteq> free (fa_inner fa)" "free (fa_inner fa) - free b = {i}"
    by auto
  show "free_frames free fa' = free_frames free fa - {p}" "falloc_wf free fa'"
    using free_frames_update[OF assms(2) sub(1)] by (simp_all add: a sub)
  show "fa_base fa' = fa_base fa"
    by (simp add: a)
qed

lemma fa_dealloc_frames:
  assumes "bit_alloc_spec ba free" "falloc_wf free fa" "pool_frame fa p" "p \<notin> free_frames free fa"
  shows "free_frames free (fa_dealloc ba fa p) = insert p (free_frames free fa)"
    and "falloc_wf free (fa_dealloc ba fa p)" and "fa_base (fa_dealloc ba fa p) = fa_base fa"
proof -
  obtain i where i: "pool_index fa i" "p = frame_of fa i"
    using assms(3) by (auto simp: pool_frame_def)
  then have "i < BA_CAP" "i \<notin> free (fa_inner fa)"
    using assms(4) by (auto simp: free_frames_def pool_index_def)
  note f = bit_alloc_specD(8)[OF assms(1) this]
  have idx: "(p - fa_base fa) div PAGE_SIZE = i"
    using i index_of_frame by auto
  show "free_frames free (fa_dealloc ba fa p) = insert p (free_frames free fa)"
    unfolding free_frames_def fa_dealloc_def idx using f i(2) by (simp add: frame_of_def)
  show "falloc_wf free (fa_dealloc ba fa p)"
    using assms(2) i unfolding fa_dealloc_def idx falloc_wf_def
    by (simp add: f pool_index_def)
  show "fa_base (fa_dealloc ba fa p) = fa_base fa"
    by (simp add: fa_dealloc_def)
qed

lemma fa_init_frames:
  assumes spec: "bit_alloc_spec ba free" and base: "is_aligned base"
    and sz: "is_aligned sz" "unat sz \<le> 2 ^ 32" and bound: "unat base + unat sz \<le> 2 ^ 52"
  shows "falloc_wf free (fa_init ba (fa_empty ba) base sz)"
    and "free_frames free (fa_init ba (fa_empty ba) base sz) =
           {p. is_aligned p \<and> unat base \<le> unat p \<and> unat p < unat base + unat sz}"
proof -
  let ?fa = "fa_init ba (fa_empty ba) base sz" and ?n = "sz div 0x1000"
  have n: "unat ?n = unat sz div 4096" "4096 dvd unat sz"
    using sz(1) by (simp_all add: unat_div_distrib is_aligned_iff)
  have cap: "?n \<le> BA_CAP"
    using n sz(2) by (simp add: word_le_nat_alt)
  have fa: "fa_base ?fa = base" "free (fa_inner ?fa) = {0..<?n}"
    using bit_alloc_specD(1,3)[OF spec] cap base sz(1)
    by (simp_all add: fa_init_def fa_empty_def align_up_aligned rvm_const)
  have idx: "i < ?n \<longleftrightarrow> unat i * 4096 < unat sz" for i
    using n by (auto simp: word_less_nat_alt elim!: dvdE)
  have pi: "pool_index ?fa i" if "i < ?n" for i
    using that idx[of i] cap bound n(2) by (auto simp: pool_index_def fa elim!: dvdE)
  show "falloc_wf free ?fa"
    using base pi by (auto simp: falloc_wf_def fa)
  have "\<exists>i<?n. p = frame_of ?fa i"
    if "is_aligned p" "unat base \<le> unat p" "unat p < unat base + unat sz" for p
  proof (intro exI conjI)
    have d: "4096 dvd unat p - unat base"
      using that base by (simp add: is_aligned_iff dvd_diff_nat)
    have u: "unat ((p - base) div 0x1000) = (unat p - unat base) div 4096"
      using that(2) by (simp add: unat_div_distrib unat_sub word_le_nat_alt)
    show lt: "(p - base) div 0x1000 < ?n"
      using that d by (simp add: idx u)
    show "p = frame_of ?fa ((p - base) div 0x1000)"
      using unat_frame_of[OF pi[OF lt]] that d by (simp add: word_unat_eq_iff u fa)
  qed
  moreover have "is_aligned (frame_of ?fa i) \<and> unat base \<le> unat (frame_of ?fa i) \<and>
      unat (frame_of ?fa i) < unat base + unat sz" if "i < ?n" for i
    using unat_frame_of[OF pi[OF that]] base idx that by (simp add: fa is_aligned_iff)
  ultimately show "free_frames free ?fa =
      {p. is_aligned p \<and> unat base \<le> unat p \<and> unat p < unat base + unat sz}"
    unfolding free_frames_def fa(2) image_def Bex_def by auto
qed

section \<open>Contiguous frames\<close>

definition Frame_pages :: "Frame \<Rightarrow> phys_addr set" where
  "Frame_pages f = (\<lambda>k. start_paddr f + of_nat k * PAGE_SIZE) ` {0..<unat (frame_count f)}"

lemma word_run:
  fixes i :: usize
  assumes "unat i + unat n \<le> unat BA_CAP"
  shows "(\<lambda>k. i + of_nat k) ` {0..<unat n} = {i..<i + n}"
proof -
  have u: "unat (i + n) = unat n + unat i"
    using assms by (simp add: unat_word_ariths)
  have "(\<lambda>k. i + of_nat k) ` {0..<unat n} = of_nat ` (\<lambda>k. unat i + k) ` {0..<unat n}"
    by (simp add: image_image del: image_add_atLeastLessThan)
  also have "\<dots> = of_nat ` {unat i..<unat (i + n)}"
    by (simp only: u image_add_atLeastLessThan add_0_left)
  also have "\<dots> = {i..<i + n}"
    by (rule word_interval_of_nat)
  finally show ?thesis .
qed

lemma frame_of_run:
  assumes "unat i + unat n \<le> unat BA_CAP"
  shows "frame_of fa ` {i..<i + n} = Frame_pages \<lparr>start_paddr = frame_of fa i, frame_count = n\<rparr>"
  unfolding word_run[OF assms, symmetric]
  by (simp add: Frame_pages_def image_image frame_of_def algebra_simps)

lemma fa_alloc_contiguous_Some:
  assumes "bit_alloc_spec ba free" "falloc_wf free fa"
    and a: "fa_alloc_contiguous ba fa n al = (fa', Some p)"
  defines "P \<equiv> Frame_pages \<lparr>start_paddr = p, frame_count = n\<rparr>"
  shows "P \<subseteq> free_frames free fa" "free_frames free fa' = free_frames free fa - P"
    "falloc_wf free fa'" "fa_base fa' = fa_base fa"
proof -
  obtain b i where i: "ba_alloc_contiguous ba (fa_inner fa) n al = (b, Some i)"
      "fa' = fa\<lparr>fa_inner := b\<rparr>" "p = frame_of fa i"
    using a by (auto simp: fa_alloc_contiguous_def frame_of_def split: prod.splits)
  note f = bit_alloc_specD(7)[OF assms(1) i(1)]
  then have P: "P = frame_of fa ` {i..<i + n}"
    using frame_of_run[of i n fa] by (simp add: P_def i)
  with f show "P \<subseteq> free_frames free fa"
    by (auto simp: free_frames_def)
  from f have sub: "free b \<subseteq> free (fa_inner fa)" "free (fa_inner fa) - free b = {i..<i + n}"
    by auto
  show "free_frames free fa' = free_frames free fa - P" "falloc_wf free fa'"
    using free_frames_update[OF assms(2) sub(1)] by (simp_all only: i(2) P sub(2))
  show "fa_base fa' = fa_base fa"
    by (simp add: i)
qed

lemma fold_dealloc:
  assumes "bit_alloc_spec ba free" "unat i + n \<le> unat BA_CAP"
    and "\<forall>k<n. i + of_nat k \<notin> free b"
  shows "free (fold (\<lambda>k b. ba_dealloc ba b (i + of_nat k)) [0..<n] b) =
           free b \<union> (\<lambda>k. i + of_nat k) ` {0..<n}"
  using assms(2,3)
proof (induction n)
  case (Suc n)
  have lt: "i + of_nat n < BA_CAP"
    using Suc.prems(1) by (simp add: word_less_nat_alt unat_word_ariths unat_of_nat)
  have ne: "of_nat n \<noteq> (of_nat k :: usize)" if "k < n" for k
    using that Suc.prems(1)
    by (simp add: word_unat_eq_iff[of "of_nat n" "of_nat k"] unat_of_nat)
  have "i + of_nat n \<notin> free b \<union> (\<lambda>k. i + of_nat k) ` {0..<n}"
    using Suc.prems(2) by (auto simp: ne)
  then show ?case
    using Suc bit_alloc_specD(8)[OF assms(1) lt] by (simp add: atLeastLessThanSuc)
qed simp

lemma fa_dealloc_contiguous_frames:
  assumes "bit_alloc_spec ba free" "falloc_wf free fa"
    and i: "pool_index fa i" "unat i + unat n \<le> unat BA_CAP"
    and pool: "\<forall>j \<in> {i..<i + n}. pool_index fa j"
    and nf: "Frame_pages \<lparr>start_paddr = frame_of fa i, frame_count = n\<rparr> \<inter> free_frames free fa = {}"
  shows "free_frames free (fa_dealloc_contiguous ba fa (frame_of fa i) n) =
           free_frames free fa \<union> Frame_pages \<lparr>start_paddr = frame_of fa i, frame_count = n\<rparr>"
    and "falloc_wf free (fa_dealloc_contiguous ba fa (frame_of fa i) n)"
    and "fa_base (fa_dealloc_contiguous ba fa (frame_of fa i) n) = fa_base fa"
proof -
  let ?b = "fold (\<lambda>k b. ba_dealloc ba b (i + of_nat k)) [0..<unat n] (fa_inner fa)"
  have fa': "fa_dealloc_contiguous ba fa (frame_of fa i) n = fa\<lparr>fa_inner := ?b\<rparr>"
    using i by (simp add: fa_dealloc_contiguous_def index_of_frame)
  note run = word_run[OF i(2)]
  have "{i..<i + n} \<inter> free (fa_inner fa) = {}"
    using nf unfolding frame_of_run[OF i(2), symmetric] free_frames_def by blast
  then have "\<forall>k<unat n. i + of_nat k \<notin> free (fa_inner fa)"
    unfolding run[symmetric] by (simp add: disjoint_iff)
  then have b: "free ?b = free (fa_inner fa) \<union> {i..<i + n}"
    using fold_dealloc[OF assms(1) i(2)] run by simp
  have same: "frame_of (fa\<lparr>fa_inner := ?b\<rparr>) = frame_of fa"
      "pool_index (fa\<lparr>fa_inner := ?b\<rparr>) = pool_index fa"
    by (simp_all add: frame_of_def pool_index_def fun_eq_iff)
  show "free_frames free (fa_dealloc_contiguous ba fa (frame_of fa i) n) =
      free_frames free fa \<union> Frame_pages \<lparr>start_paddr = frame_of fa i, frame_count = n\<rparr>"
    by (simp add: fa' free_frames_def same b frame_of_run[OF i(2), symmetric] image_Un)
  show "falloc_wf free (fa_dealloc_contiguous ba fa (frame_of fa i) n)"
    using assms(2) pool by (auto simp: fa' falloc_wf_def same b)
qed (simp add: fa_dealloc_contiguous_def)

section \<open>Frames\<close>

definition pmem_wf :: "('b \<Rightarrow> usize set) \<Rightarrow> 'b pmem \<Rightarrow> bool" where
  "pmem_wf free s \<longleftrightarrow> falloc_wf free (falloc s)"

abbreviation avail :: "('b \<Rightarrow> usize set) \<Rightarrow> 'b pmem \<Rightarrow> phys_addr set" where
  "avail free s \<equiv> free_frames free (falloc s)"

lemma Frame_new_not_Panic: "Frame_new ba s \<noteq> (s', Panic)" "Frame_new_zero ba s \<noteq> (s', Panic)"
  by (auto simp: Frame_new_zero_def Frame_new_def split: prod.splits option.splits)

lemma Frame_new_cases:
  assumes "bit_alloc_spec ba free" "pmem_wf free s"
  obtains (Ok) s' p where "Frame_new ba s = (s', Ok \<lparr>start_paddr = p, frame_count = 1\<rparr>)"
      "p \<in> avail free s" "avail free s' = avail free s - {p}" "pmem_wf free s'"
      "fa_base (falloc s') = fa_base (falloc s)" "tabs s' = tabs s"
  | (Err) s' where "Frame_new ba s = (s', Err ENOMEM)" "avail free s = {}" "avail free s' = {}"
      "pmem_wf free s'" "fa_base (falloc s') = fa_base (falloc s)" "tabs s' = tabs s"
proof (cases "fa_alloc ba (falloc s)")
  case (Pair fa r)
  note wf = assms(2)[unfolded pmem_wf_def]
  show thesis
  proof (cases r)
    case None
    note f = fa_alloc_None[OF assms(1) Pair[unfolded None]]
    moreover have "falloc_wf free fa"
      using wf f by (simp add: falloc_wf_def free_frames_def)
    ultimately show thesis
      by (intro Err[of "s\<lparr>falloc := fa\<rparr>"]) (simp_all add: Frame_new_def Pair None pmem_wf_def)
  next
    case (Some p)
    note f = fa_alloc_Some[OF assms(1) wf Pair[unfolded Some]]
    then show thesis
      by (intro Ok[of "s\<lparr>falloc := fa\<rparr>" p]) (simp_all add: Frame_new_def Pair Some pmem_wf_def)
  qed
qed

lemma Frame_fill_tabs:
  "tabs (Frame_fill f byte s) p = (if p \<in> Frame_pages f then \<lambda>_. byte_entry byte else tabs s p)"
  "falloc (Frame_fill f byte s) = falloc s"
  by (simp_all add: Frame_fill_def Frame_pages_def)

lemma Frame_pages_one: "Frame_pages \<lparr>start_paddr = p, frame_count = 1\<rparr> = {p}"
  by (simp add: Frame_pages_def)

lemma Frame_new_zero_cases:
  assumes "bit_alloc_spec ba free" "pmem_wf free s"
  obtains (Ok) s' p where "Frame_new_zero ba s = (s', Ok \<lparr>start_paddr = p, frame_count = 1\<rparr>)"
      "p \<in> avail free s" "avail free s' = avail free s - {p}" "pmem_wf free s'"
      "fa_base (falloc s') = fa_base (falloc s)" "tabs s' = (tabs s)(p := \<lambda>_. 0)"
  | (Err) s' where "Frame_new_zero ba s = (s', Err ENOMEM)" "avail free s = {}" "avail free s' = {}"
      "pmem_wf free s'" "fa_base (falloc s') = fa_base (falloc s)" "tabs s' = tabs s"
  using assms
proof (cases rule: Frame_new_cases)
  case (Ok s' p)
  let ?f = "\<lparr>start_paddr = p, frame_count = 1\<rparr>"
  have "tabs (Frame_zero ?f s') = (tabs s)(p := \<lambda>_. 0)"
    by (auto simp: fun_eq_iff Frame_zero_def Frame_fill_tabs Frame_pages_one byte_entry_def Ok)
  then show thesis
    using Ok by (intro that(1)[of "Frame_zero ?f s'" p])
      (simp_all add: Frame_new_zero_def Frame_zero_def Frame_fill_tabs(2) pmem_wf_def)
next
  case (Err s')
  then show thesis by (intro that(2)[of s']) (simp_all add: Frame_new_zero_def)
qed

lemma Frame_drop_single:
  assumes "bit_alloc_spec ba free" "pmem_wf free s" "pool_frame (falloc s) p" "p \<notin> avail free s"
  shows "avail free (Frame_drop ba \<lparr>start_paddr = p, frame_count = 1\<rparr> s) = insert p (avail free s)"
    "pmem_wf free (Frame_drop ba \<lparr>start_paddr = p, frame_count = 1\<rparr> s)"
    "fa_base (falloc (Frame_drop ba \<lparr>start_paddr = p, frame_count = 1\<rparr> s)) = fa_base (falloc s)"
    "tabs (Frame_drop ba \<lparr>start_paddr = p, frame_count = 1\<rparr> s) = tabs s"
  using fa_dealloc_frames[OF assms(1) assms(2)[unfolded pmem_wf_def] assms(3,4)]
  by (simp_all add: Frame_drop_def pmem_wf_def)

lemma Frame_drop_from_paddr: "Frame_from_paddr p = Ok f \<Longrightarrow> Frame_drop ba f s = s"
  by (auto simp: Frame_from_paddr_def Frame_drop_def split: if_splits)

lemma Frame_new_contiguous_drop:
  assumes "bit_alloc_spec ba free" "pmem_wf free s" "n \<noteq> 0"
    and a: "Frame_new_contiguous ba s n al = (s', Ok f)"
  shows "Frame_pages f \<subseteq> avail free s" "avail free s' = avail free s - Frame_pages f"
    "pmem_wf free s'" "tabs s' = tabs s" "avail free (Frame_drop ba f s') = avail free s"
    "unat ((start_paddr f - fa_base (falloc s)) div PAGE_SIZE) mod 2 ^ unat al = 0"
proof -
  obtain fa p where a: "fa_alloc_contiguous ba (falloc s) n al = (fa, Some p)"
      "s' = s\<lparr>falloc := fa\<rparr>" "f = \<lparr>start_paddr = p, frame_count = n\<rparr>"
    using a by (auto simp: Frame_new_contiguous_def split: prod.splits option.splits)
  note wf = assms(2)[unfolded pmem_wf_def]
  note f = fa_alloc_contiguous_Some[OF assms(1) wf a(1)]
  then show sub: "Frame_pages f \<subseteq> avail free s" "avail free s' = avail free s - Frame_pages f"
    "pmem_wf free s'" "tabs s' = tabs s"
    by (simp_all add: a pmem_wf_def)
  obtain b i where i: "ba_alloc_contiguous ba (fa_inner (falloc s)) n al = (b, Some i)"
      "fa = (falloc s)\<lparr>fa_inner := b\<rparr>" "p = frame_of (falloc s) i"
    using a by (auto simp: fa_alloc_contiguous_def frame_of_def split: prod.splits)
  note s = bit_alloc_specD(7)[OF assms(1) i(1)]
  have "i \<in> {i..<i + n}"
    using s assms(3) by (simp add: word_less_nat_alt unat_word_ariths unat_gt_0)
  then have pool: "pool_index (falloc s) i" "\<forall>j \<in> {i..<i + n}. pool_index (falloc s) j"
    using s wf by (auto simp: falloc_wf_def)
  then show "unat ((start_paddr f - fa_base (falloc s)) div PAGE_SIZE) mod 2 ^ unat al = 0"
    using s by (simp add: a i index_of_frame)
  have same: "frame_of fa = frame_of (falloc s)" "pool_index fa = pool_index (falloc s)"
    by (simp_all add: i frame_of_def pool_index_def fun_eq_iff)
  have pages: "free_frames free fa = avail free s - Frame_pages f"
    using sub a by simp
  show "avail free (Frame_drop ba f s') = avail free s"
  proof (cases "n = 1")
    case True
    have "p \<in> avail free s" "pool_frame fa p" "p \<notin> free_frames free fa"
      using sub(1) pages pool(1) by (auto simp: a True Frame_pages_one pool_frame_def same i(3))
    then show ?thesis
      using fa_dealloc_frames(1)[OF assms(1) f(3), of p] pages
      by (auto simp: Frame_drop_def a True Frame_pages_one)
  next
    case False
    have "free_frames free (fa_dealloc_contiguous ba fa (frame_of fa i) n) =
        free_frames free fa \<union> Frame_pages \<lparr>start_paddr = frame_of fa i, frame_count = n\<rparr>"
      by (rule fa_dealloc_contiguous_frames(1)[OF assms(1) f(3)])
        (use pool pages s in \<open>auto simp: same a i(3)\<close>)
    then show ?thesis
      using False assms(3) sub(1) pages by (auto simp: Frame_drop_def a same i(3))
  qed
qed


section \<open>Properties\<close>

text \<open>A small machine: eight free frames from 16 MiB on, all memory zero.\<close>

definition sample_mem :: "usize list pmem" where
  "sample_mem = \<lparr>falloc = fa_init list_alloc (fa_empty list_alloc) 0x1000000 0x8000,
                 tabs = (\<lambda>_ _. 0)\<rparr>"

lemma sample_mem_wf: "pmem_wf list_free sample_mem"
  using fa_init_frames(1)[OF list_alloc_spec, of "0x1000000" "0x8000"]
  by (simp add: pmem_wf_def sample_mem_def is_aligned_def page_offset_def rvm_const)

lemma sample_mem_avail: "avail list_free sample_mem =
    {p. is_aligned p \<and> 0x1000000 \<le> unat p \<and> unat p < 0x1008000}"
  using fa_init_frames(2)[OF list_alloc_spec, of "0x1000000" "0x8000"]
  by (simp add: sample_mem_def is_aligned_def page_offset_def rvm_const)

lemma sample_mem_eq: "sample_mem =
    \<lparr>falloc = \<lparr>fa_base = 0x1000000, fa_inner = [0, 1, 2, 3, 4, 5, 6, 7]\<rparr>, tabs = (\<lambda>_ _. 0)\<rparr>"
proof -
  have "[0..<8] = [0, 1, 2, 3, 4, 5, 6, 7 :: nat]" by (simp add: upt_rec)
  then show ?thesis
    by (simp add: sample_mem_def fa_init_def fa_empty_def list_alloc_def align_up_def rvm_const)
qed

text \<open>C18: A contiguous allocation hands out only frames that were free, exactly these leave the
  free set, memory contents are untouched, its first index is aligned as requested, and dropping
  the frame gives the free set it started from. A live frame is therefore never handed out again.\<close>

theorem contiguous_frame_exclusive:
  assumes "bit_alloc_spec ba free" "pmem_wf free s" "n \<noteq> 0"
    and "Frame_new_contiguous ba s n al = (s', Ok f)"
  shows "Frame_pages f \<subseteq> avail free s \<and> avail free s' = avail free s - Frame_pages f \<and>
    pmem_wf free s' \<and> tabs s' = tabs s \<and> avail free (Frame_drop ba f s') = avail free s \<and>
    unat ((start_paddr f - fa_base (falloc s)) div PAGE_SIZE) mod 2 ^ unat al = 0"
  using Frame_new_contiguous_drop[OF assms] by blast

theorem contiguous_frame_exclusive_witness:
  "\<exists>s' f. Frame_new_contiguous list_alloc sample_mem 3 1 = (s', Ok f) \<and>
     Frame_pages f \<subseteq> avail list_free sample_mem \<and>
     avail list_free (Frame_drop list_alloc f s') = avail list_free sample_mem"
proof -
  have "snd (Frame_new_contiguous list_alloc sample_mem 3 1) =
      Ok \<lparr>start_paddr = 0x1000000, frame_count = 3\<rparr>"
  proof -
    have "set [0..<3] = {0, 1, 2 :: nat}" by (simp add: upt_rec numeral_2_eq_2)
    then show ?thesis
      by (simp add: sample_mem_eq Frame_new_contiguous_def fa_alloc_contiguous_def list_alloc_def
          list_run_free_def rvm_const del: set_upt)
  qed
  then obtain s' f where "Frame_new_contiguous list_alloc sample_mem 3 1 = (s', Ok f)"
    by (metis prod.collapse)
  then show ?thesis
    using contiguous_frame_exclusive[OF list_alloc_spec sample_mem_wf, of 3 1 s' f] by auto
qed

end
