(* ===== verification/MemRegion.thy ===== *)
theory MemRegion
  imports PageEntry
begin

text \<open>
  Memory regions: \<^verbatim>\<open>MemoryRegion\<close> of \<^verbatim>\<open>src/src/memory/mm.rs\<close> and the mappers of
  \<^verbatim>\<open>src/src/memory/mapper.rs\<close>. Virtual addresses of every kind (host virtual, guest physical)
  convert to and from \<^verbatim>\<open>usize\<close> and are one type here. The address of the static
  \<^verbatim>\<open>EMPTY_PAGE\<close> is the argument \<open>empty_page\<close>.
\<close>

datatype Mapper = Offset usize | Fixed usize

primrec map_fn :: "Mapper \<Rightarrow> usize \<Rightarrow> phys_addr" where
  "map_fn (Offset off) vaddr = vaddr - off"
| "map_fn (Fixed paddr) vaddr = paddr"

record MemoryRegion =
  mr_start :: usize
  mr_size :: usize
  mr_flags :: u64
  mr_mapper :: Mapper

definition MemoryRegion_new :: "usize \<Rightarrow> usize \<Rightarrow> u64 \<Rightarrow> Mapper \<Rightarrow> MemoryRegion" where
  "MemoryRegion_new start sz flags mapper =
     \<lparr>mr_start = align_down start, mr_size = align_up sz, mr_flags = flags, mr_mapper = mapper\<rparr>"

definition is_overlap_with :: "MemoryRegion \<Rightarrow> MemoryRegion \<Rightarrow> bool" where
  "is_overlap_with self other =
     (let p0 = mr_start self; p1 = p0 + mr_size self;
          p2 = mr_start other; p3 = p2 + mr_size other
      in \<not> (p1 \<le> p2 \<or> p0 \<ge> p3))"

definition new_with_empty_mapper :: "usize \<Rightarrow> virt_addr \<Rightarrow> usize \<Rightarrow> usize \<Rightarrow> u64 \<Rightarrow> MemoryRegion" where
  "new_with_empty_mapper off empty_page start sz flags =
     MemoryRegion_new start sz flags (Fixed (virt_to_phys off empty_page))"

definition new_with_offset_mapper :: "usize \<Rightarrow> phys_addr \<Rightarrow> usize \<Rightarrow> u64 \<Rightarrow> MemoryRegion" where
  "new_with_offset_mapper start_vaddr start_paddr sz flags =
     (let start_vaddr = align_down start_vaddr;
          start_paddr = align_down start_paddr;
          phys_virt_offset = start_vaddr - start_paddr
      in MemoryRegion_new start_vaddr sz flags (Offset phys_virt_offset))"


section \<open>The addresses of a region\<close>

text \<open>
  A region is well formed when it is made of whole pages and does not run over the end of the
  address space. \<open>region_addrs\<close> are the addresses it covers.
\<close>

definition region_wf :: "MemoryRegion \<Rightarrow> bool" where
  "region_wf r \<longleftrightarrow> is_aligned (mr_start r) \<and> is_aligned (mr_size r) \<and>
     unat (mr_start r) + unat (mr_size r) < 2 ^ 64"

definition addr_range :: "usize \<Rightarrow> nat \<Rightarrow> usize set" where
  "addr_range v n = {u. unat v \<le> unat u \<and> unat u < unat v + n}"

definition region_addrs :: "MemoryRegion \<Rightarrow> usize set" where
  "region_addrs r = addr_range (mr_start r) (unat (mr_size r))"

lemma MemoryRegion_new_aligned:
  "is_aligned (mr_start (MemoryRegion_new start sz flags m))"
  "is_aligned (mr_size (MemoryRegion_new start sz flags m))"
  by (simp_all add: MemoryRegion_new_def is_aligned_align_down is_aligned_align_up)

lemma region_addrs_empty: "mr_size r = 0 \<Longrightarrow> region_addrs r = {}"
  by (auto simp: region_addrs_def addr_range_def)

lemma start_in_region: "mr_size r \<noteq> 0 \<Longrightarrow> mr_start r \<in> region_addrs r"
  by (simp add: region_addrs_def addr_range_def unat_gt_0)

text \<open>Without wrap-around the interval test is the disjointness of the address ranges.\<close>

lemma is_overlap_with_iff:
  assumes "region_wf a" "region_wf b" "mr_size a \<noteq> 0" "mr_size b \<noteq> 0"
  shows "is_overlap_with a b \<longleftrightarrow> region_addrs a \<inter> region_addrs b \<noteq> {}"
proof -
  have u: "unat (mr_start r + mr_size r) = unat (mr_start r) + unat (mr_size r)" if "region_wf r" for r
    using that by (simp add: region_wf_def unat_add_no_wrap)
  have ov: "is_overlap_with a b \<longleftrightarrow> unat (mr_start b) < unat (mr_start a) + unat (mr_size a) \<and>
      unat (mr_start a) < unat (mr_start b) + unat (mr_size b)"
    by (simp add: is_overlap_with_def Let_def word_le_nat_alt u assms not_le)
  show ?thesis
  proof
    assume o: "is_overlap_with a b"
    have "(if mr_start a \<le> mr_start b then mr_start b else mr_start a)
        \<in> region_addrs a \<inter> region_addrs b"
      using o assms(3,4) unfolding ov
      by (auto simp: region_addrs_def addr_range_def word_le_nat_alt unat_gt_0)
    then show "region_addrs a \<inter> region_addrs b \<noteq> {}" by blast
  next
    assume "region_addrs a \<inter> region_addrs b \<noteq> {}"
    then show "is_overlap_with a b"
      unfolding ov by (auto simp: region_addrs_def addr_range_def)
  qed
qed

end
