(* ===== verification/PageTable.thy ===== *)
theory PageTable
  imports FrameAlloc MemRegion
begin

text \<open>
  Four-level page tables: \<^verbatim>\<open>src/src/memory/paging.rs\<close>, for any entry type \<open>ops\<close> and any bitmap
  allocator \<open>ba\<close>. A \<^verbatim>\<open>&mut PTE\<close> is the location of the entry, the physical address of its
  table and its index; tables live in \<open>tabs\<close> of the physical memory, shared by all page
  tables. The operations that change a page table take and return the table with the memory.
\<close>

datatype PagingError = NoMemory | NotMapped | AlreadyMapped | MappedToHugePage

definition HvError_from_PagingError :: "PagingError \<Rightarrow> HvErrorNum" where
  "HvError_from_PagingError err = (case err of NoMemory \<Rightarrow> ENOMEM | _ \<Rightarrow> EFAULT)"

record PtPage =
  pg_vaddr :: usize
  pg_size :: PageSize

definition Page_new_aligned :: "usize \<Rightarrow> PageSize \<Rightarrow> PtPage" where
  "Page_new_aligned vaddr sz = \<lparr>pg_vaddr = vaddr, pg_size = sz\<rparr>"

definition ENTRY_COUNT :: usize where "ENTRY_COUNT = 512"

definition p4_index :: "usize \<Rightarrow> usize" where
  "p4_index vaddr = drop_bit (12 + 27) vaddr AND (ENTRY_COUNT - 1)"

definition p3_index :: "usize \<Rightarrow> usize" where
  "p3_index vaddr = drop_bit (12 + 18) vaddr AND (ENTRY_COUNT - 1)"

definition p2_index :: "usize \<Rightarrow> usize" where
  "p2_index vaddr = drop_bit (12 + 9) vaddr AND (ENTRY_COUNT - 1)"

definition p1_index :: "usize \<Rightarrow> usize" where
  "p1_index vaddr = drop_bit 12 vaddr AND (ENTRY_COUNT - 1)"

record Level4PageTableImmut =
  pt_root :: Frame

record Level4PageTable = Level4PageTableImmut +
  intrm_tables :: "Frame list"

type_synonym entry_loc = "phys_addr \<times> usize"
type_synonym 'b pt_state = "Level4PageTable \<times> 'b pmem"

definition root_paddr :: "'a Level4PageTableImmut_scheme \<Rightarrow> phys_addr" where
  "root_paddr pt = start_paddr (pt_root pt)"

definition entry_at :: "'b pmem \<Rightarrow> entry_loc \<Rightarrow> u64" where
  "entry_at s l = tabs s (fst l) (snd l)"

definition write_entry :: "entry_loc \<Rightarrow> u64 \<Rightarrow> 'b pmem \<Rightarrow> 'b pmem" where
  "write_entry l e s = s\<lparr>tabs := (tabs s)(fst l := (tabs s (fst l))(snd l := e))\<rparr>"


section \<open>Walking\<close>

definition next_table_mut :: "pte_ops \<Rightarrow> u64 \<Rightarrow> (phys_addr, PagingError) result" where
  "next_table_mut ops e =
     (if \<not> pte_is_present ops e then Err NotMapped
      else if pte_is_huge ops e then Err MappedToHugePage
      else Ok (pte_addr ops e))"

definition get_entry_mut :: "pte_ops \<Rightarrow> 'b pmem \<Rightarrow> 'a Level4PageTableImmut_scheme \<Rightarrow> usize
  \<Rightarrow> (entry_loc \<times> PageSize, PagingError) result" where
  "get_entry_mut ops s pt vaddr =
     (let p4e = (root_paddr pt, p4_index vaddr) in
      and_then (next_table_mut ops (entry_at s p4e)) (\<lambda>p3.
      let p3e = (p3, p3_index vaddr) in
      if pte_is_huge ops (entry_at s p3e) then Ok (p3e, Size1G) else
      and_then (next_table_mut ops (entry_at s p3e)) (\<lambda>p2.
      let p2e = (p2, p2_index vaddr) in
      if pte_is_huge ops (entry_at s p2e) then Ok (p2e, Size2M) else
      and_then (next_table_mut ops (entry_at s p2e)) (\<lambda>p1.
      Ok ((p1, p1_index vaddr), Size4K)))))"

definition query :: "pte_ops \<Rightarrow> 'b pmem \<Rightarrow> 'a Level4PageTableImmut_scheme \<Rightarrow> usize
  \<Rightarrow> (phys_addr \<times> u64 \<times> PageSize, PagingError) result" where
  "query ops s pt vaddr =
     and_then (get_entry_mut ops s pt vaddr) (\<lambda>(entry, sz).
       let e = entry_at s entry in
       if pte_is_unused ops e then Err NotMapped
       else Ok (pte_addr ops e + ps_page_offset sz vaddr, pte_flags ops e, sz))"

text \<open>
  \<^verbatim>\<open>walk\<close> calls \<^verbatim>\<open>func\<close> on the present entries in order; the model returns the calls. The
  recursion is on the levels left below \<open>level\<close>; the loop over the table is a recursion on
  the indices still to visit, with \<open>n\<close> the number of present entries seen.
\<close>

type_synonym walk_call = "nat \<times> nat \<times> usize \<times> u64"

fun walk :: "pte_ops \<Rightarrow> 'b pmem \<Rightarrow> usize \<Rightarrow> nat \<Rightarrow> phys_addr \<Rightarrow> usize \<Rightarrow> nat list \<Rightarrow> usize
  \<Rightarrow> (walk_call list, PagingError) result" where
  "walk ops s limit below table start_vaddr [] n = Ok []"
| "walk ops s limit below table start_vaddr (i # is) n =
     (let level = 3 - below;
          entry = entry_at s (table, of_nat i);
          vaddr = start_vaddr + push_bit (12 + below * 9) (of_nat i)
      in if pte_is_present ops entry then
           and_then
             (case below of 0 \<Rightarrow> Ok []
              | Suc below' \<Rightarrow>
                 (case next_table_mut ops entry of
                    Ok t \<Rightarrow> walk ops s limit below' t vaddr [0..<512] 0
                  | Err MappedToHugePage \<Rightarrow> Ok []
                  | _ \<Rightarrow> Panic)) (\<lambda>calls.
           if n + 1 \<ge> limit then Ok ((level, i, vaddr, entry) # calls)
           else and_then (walk ops s limit below table start_vaddr is (n + 1)) (\<lambda>rest.
             Ok ((level, i, vaddr, entry) # calls @ rest)))
         else walk ops s limit below table start_vaddr is n)"

definition dump :: "pte_ops \<Rightarrow> 'b pmem \<Rightarrow> 'a Level4PageTableImmut_scheme \<Rightarrow> usize
  \<Rightarrow> (walk_call list, PagingError) result" where
  "dump ops s pt limit = walk ops s limit 3 (root_paddr pt) 0 [0..<512] 0"


section \<open>Changing a table\<close>

definition Level4PageTableImmut_from_root :: "phys_addr \<Rightarrow> (Level4PageTableImmut, 'e) result" where
  "Level4PageTableImmut_from_root p = and_then (Frame_from_paddr p) (\<lambda>f. Ok \<lparr>pt_root = f\<rparr>)"

definition PageTable_from_root :: "phys_addr \<Rightarrow> (Level4PageTable, 'e) result" where
  "PageTable_from_root p =
     and_then (Frame_from_paddr p) (\<lambda>f. Ok \<lparr>pt_root = f, intrm_tables = []\<rparr>)"

text \<open>\<^verbatim>\<open>new\<close> panics (\<^verbatim>\<open>expect\<close>) when no frame is left for the root table.\<close>

definition PageTable_new :: "'b bit_alloc \<Rightarrow> 'b pmem \<Rightarrow> 'b pmem \<times> (Level4PageTable, 'e) result" where
  "PageTable_new ba s =
     (case Frame_new_zero ba s of
        (s, Ok f) \<Rightarrow> (s, Ok \<lparr>pt_root = f, intrm_tables = []\<rparr>)
      | (s, _) \<Rightarrow> (s, Panic))"

definition alloc_intrm_table :: "'b bit_alloc \<Rightarrow> 'b pt_state
  \<Rightarrow> 'b pt_state \<times> (phys_addr, HvErrorNum) result" where
  "alloc_intrm_table ba st =
     (case st of (pt, s) \<Rightarrow>
      (case Frame_new_zero ba s of
         (s, Ok frame) \<Rightarrow>
           ((pt\<lparr>intrm_tables := intrm_tables pt @ [frame]\<rparr>, s), Ok (start_paddr frame))
       | (s, Err e) \<Rightarrow> ((pt, s), Err e)
       | (s, Panic) \<Rightarrow> ((pt, s), Panic)))"

definition next_table_mut_or_create :: "'b bit_alloc \<Rightarrow> pte_ops \<Rightarrow> 'b pt_state \<Rightarrow> entry_loc
  \<Rightarrow> 'b pt_state \<times> (phys_addr, PagingError) result" where
  "next_table_mut_or_create ba ops st entry =
     (if pte_is_unused ops (entry_at (snd st) entry) then
        st_then (case alloc_intrm_table ba st of (st, r) \<Rightarrow> (st, map_err (\<lambda>_. NoMemory) r))
          (\<lambda>(pt, s) paddr.
            case pte_set_table ops (entry_at s entry) paddr of
              None \<Rightarrow> ((pt, s), Panic)
            | Some e \<Rightarrow> ((pt, write_entry entry e s), Ok paddr))
      else (st, next_table_mut ops (entry_at (snd st) entry)))"

definition get_entry_mut_or_create :: "'b bit_alloc \<Rightarrow> pte_ops \<Rightarrow> 'b pt_state \<Rightarrow> PtPage
  \<Rightarrow> 'b pt_state \<times> (entry_loc, PagingError) result" where
  "get_entry_mut_or_create ba ops st page =
     (let vaddr = pg_vaddr page;
          p4e = (root_paddr (fst st), p4_index vaddr) in
      st_then (next_table_mut_or_create ba ops st p4e) (\<lambda>st p3.
      let p3e = (p3, p3_index vaddr) in
      if pg_size page = Size1G then (st, Ok p3e) else
      st_then (next_table_mut_or_create ba ops st p3e) (\<lambda>st p2.
      let p2e = (p2, p2_index vaddr) in
      if pg_size page = Size2M then (st, Ok p2e) else
      st_then (next_table_mut_or_create ba ops st p2e) (\<lambda>st p1.
      (st, Ok (p1, p1_index vaddr))))))"

text \<open>\<^verbatim>\<open>entry.set_addr(paddr); entry.set_flags(flags, huge)\<close>, with their panics.\<close>

definition set_leaf :: "pte_ops \<Rightarrow> 'b pt_state \<Rightarrow> entry_loc \<Rightarrow> phys_addr \<Rightarrow> u64 \<Rightarrow> bool \<Rightarrow> 'a
  \<Rightarrow> 'b pt_state \<times> ('a, PagingError) result" where
  "set_leaf ops st entry paddr flags huge r =
     (case st of (pt, s) \<Rightarrow>
      (case pte_set_addr ops (entry_at s entry) paddr of
         None \<Rightarrow> ((pt, s), Panic)
       | Some e1 \<Rightarrow>
           (case pte_set_flags ops e1 flags huge of
              None \<Rightarrow> ((pt, write_entry entry e1 s), Panic)
            | Some e2 \<Rightarrow> ((pt, write_entry entry e2 s), Ok r))))"

definition map_page :: "'b bit_alloc \<Rightarrow> pte_ops \<Rightarrow> 'b pt_state \<Rightarrow> PtPage \<Rightarrow> phys_addr \<Rightarrow> u64
  \<Rightarrow> 'b pt_state \<times> (unit, PagingError) result" where
  "map_page ba ops st page paddr flags =
     st_then (get_entry_mut_or_create ba ops st page) (\<lambda>st entry.
       if \<not> pte_is_unused ops (entry_at (snd st) entry) then (st, Err AlreadyMapped)
       else set_leaf ops st entry (ps_align_down (pg_size page) paddr) flags
              (ps_is_huge (pg_size page)) ())"

definition unmap_page :: "pte_ops \<Rightarrow> 'b pt_state \<Rightarrow> usize
  \<Rightarrow> 'b pt_state \<times> (phys_addr \<times> PageSize, PagingError) result" where
  "unmap_page ops st vaddr =
     (case st of (pt, s) \<Rightarrow>
      st_then (st, get_entry_mut ops s pt vaddr) (\<lambda>(pt, s) (entry, sz).
        let e = entry_at s entry in
        if pte_is_unused ops e then ((pt, s), Err NotMapped)
        else ((pt, write_entry entry (pte_clear ops e) s), Ok (pte_addr ops e, sz))))"

definition update :: "pte_ops \<Rightarrow> 'b pt_state \<Rightarrow> usize \<Rightarrow> phys_addr \<Rightarrow> u64
  \<Rightarrow> 'b pt_state \<times> (PageSize, PagingError) result" where
  "update ops st vaddr paddr flags =
     (case st of (pt, s) \<Rightarrow>
      st_then (st, get_entry_mut ops s pt vaddr) (\<lambda>st (entry, sz).
        set_leaf ops st entry paddr flags (ps_is_huge sz) sz))"

definition clone_from :: "'b bit_alloc \<Rightarrow> 'b pmem \<Rightarrow> 'a Level4PageTableImmut_scheme
  \<Rightarrow> 'b pmem \<times> (Level4PageTable, 'e) result" where
  "clone_from ba s src =
     st_then (PageTable_new ba s) (\<lambda>s pt.
       (s\<lparr>tabs := (tabs s)(root_paddr pt := (\<lambda>i.
            if i < ENTRY_COUNT then tabs s (root_paddr src) i else tabs s (root_paddr pt) i))\<rparr>,
        Ok pt))"

definition PageTable_clone :: "'b bit_alloc \<Rightarrow> 'b pmem \<Rightarrow> Level4PageTable
  \<Rightarrow> 'b pmem \<times> (Level4PageTable, 'e) result" where
  "PageTable_clone ba s self = clone_from ba s self"

text \<open>Dropping a page table drops its root frame and the frames of its intermediate tables.\<close>

definition PageTable_drop :: "'b bit_alloc \<Rightarrow> Level4PageTable \<Rightarrow> 'b pmem \<Rightarrow> 'b pmem" where
  "PageTable_drop ba pt s = fold (Frame_drop ba) (pt_root pt # intrm_tables pt) s"


section \<open>Mapping regions\<close>

definition map_page_size :: "u64 \<Rightarrow> usize \<Rightarrow> phys_addr \<Rightarrow> usize \<Rightarrow> PageSize" where
  "map_page_size flags vaddr paddr sz =
     (if ps_is_aligned Size1G vaddr \<and> ps_is_aligned Size1G paddr \<and> sz \<ge> page_bytes Size1G \<and>
         \<not> contains flags MEM_NO_HUGEPAGES then Size1G
      else if ps_is_aligned Size2M vaddr \<and> ps_is_aligned Size2M paddr \<and> sz \<ge> page_bytes Size2M \<and>
         \<not> contains flags MEM_NO_HUGEPAGES then Size2M
      else Size4K)"

text \<open>
  The loop of \<^verbatim>\<open>map\<close>: \<^verbatim>\<open>size\<close> wraps below zero when it is not a multiple of the page size, so
  the loop is a partial function; it returns for the sizes a region has
  (\<open>map_region_returns\<close> below).
\<close>

partial_function (option) map_loop :: "'b bit_alloc \<Rightarrow> pte_ops \<Rightarrow> Mapper \<Rightarrow> u64 \<Rightarrow> 'b pt_state \<Rightarrow>
    usize \<Rightarrow> usize \<Rightarrow> ('b pt_state \<times> (unit, HvErrorNum) result) option" where
  "map_loop ba ops mapper flags st vaddr sz =
     (if sz = 0 then Some (st, Ok ())
      else let paddr = map_fn mapper vaddr;
               page_size = map_page_size flags vaddr paddr sz;
               page = Page_new_aligned vaddr page_size
           in (case map_page ba ops st page paddr flags of
                 (st, Ok _) \<Rightarrow> map_loop ba ops mapper flags st (vaddr + page_bytes page_size)
                                (sz - page_bytes page_size)
               | (st, Err e) \<Rightarrow> Some (st, Err (HvError_from_PagingError e))
               | (st, Panic) \<Rightarrow> Some (st, Panic)))"

definition map_region :: "'b bit_alloc \<Rightarrow> pte_ops \<Rightarrow> 'b pt_state \<Rightarrow> MemoryRegion
  \<Rightarrow> ('b pt_state \<times> (unit, HvErrorNum) result) option" where
  "map_region ba ops st region =
     map_loop ba ops (mr_mapper region) (mr_flags region) st (mr_start region) (mr_size region)"

lemma unat_sub_page_bytes:
  assumes "page_bytes ps \<le> sz"
  shows "unat (sz - page_bytes ps) = unat sz - 2 ^ page_shift ps" "2 ^ page_shift ps \<le> unat sz"
    "unat (sz - page_bytes ps) < unat sz"
proof -
  show u: "unat (sz - page_bytes ps) = unat sz - 2 ^ page_shift ps" "2 ^ page_shift ps \<le> unat sz"
    using assms by (simp_all add: unat_sub_no_wrap word_le_nat_alt unat_page_bytes)
  moreover have "0 < (2::nat) ^ page_shift ps" by simp
  ultimately show "unat (sz - page_bytes ps) < unat sz" by linarith
qed

text \<open>
  The loop of \<^verbatim>\<open>unmap\<close> ends because its second assertion keeps \<^verbatim>\<open>size\<close> from wrapping.
\<close>

function unmap_loop :: "pte_ops \<Rightarrow> 'b pt_state \<Rightarrow> usize \<Rightarrow> usize
  \<Rightarrow> 'b pt_state \<times> (unit, HvErrorNum) result" where
  "unmap_loop ops st vaddr sz =
     (if sz = 0 then (st, Ok ())
      else case unmap_page ops st vaddr of
         (st, Ok (_, page_size)) \<Rightarrow>
           if \<not> ps_is_aligned page_size vaddr then (st, Panic)
           else if \<not> page_bytes page_size \<le> sz then (st, Panic)
           else unmap_loop ops st (vaddr + page_bytes page_size) (sz - page_bytes page_size)
       | (st, Err e) \<Rightarrow> (st, Err (HvError_from_PagingError e))
       | (st, Panic) \<Rightarrow> (st, Panic))"
  by pat_completeness auto

termination
  by (relation "measure (\<lambda>(_, _, _, sz). unat sz)") (auto simp: unat_sub_page_bytes(3))

declare unmap_loop.simps [simp del]

definition unmap_region :: "pte_ops \<Rightarrow> 'b pt_state \<Rightarrow> MemoryRegion
  \<Rightarrow> 'b pt_state \<times> (unit, HvErrorNum) result" where
  "unmap_region ops st region = unmap_loop ops st (mr_start region) (mr_size region)"

end
