(* ===== verification/PageWalk.thy ===== *)
theory PageWalk
  imports PageTable
begin

text \<open>
  What a four-level table maps, said without the loops: the path of indices of an address, the
  table a path leads to, the terminal entry of an address for a page size, and the shape every
  tree of tables keeps. Writes of one entry are then changes of one path.
\<close>

section \<open>Indices\<close>

lemma index_take_bit:
  "p4_index v = take_bit 9 (drop_bit 39 v)" "p3_index v = take_bit 9 (drop_bit 30 v)"
  "p2_index v = take_bit 9 (drop_bit 21 v)" "p1_index v = take_bit 9 (drop_bit 12 v)"
proof -
  have "(ENTRY_COUNT - 1) = mask 9" by (simp add: ENTRY_COUNT_def mask_eq_exp_minus_1)
  then show "p4_index v = take_bit 9 (drop_bit 39 v)" "p3_index v = take_bit 9 (drop_bit 30 v)"
    "p2_index v = take_bit 9 (drop_bit 21 v)" "p1_index v = take_bit 9 (drop_bit 12 v)"
    unfolding p4_index_def p3_index_def p2_index_def p1_index_def by (simp_all add: take_bit_eq_mask)
qed

lemma take9_lt: "take_bit 9 (x :: usize) < 512"
  using take_bit_nat_less_exp[of 9 "unat x"] by (simp add: word_less_nat_alt unat_take_bit)

lemma index_lt: "p4_index v < ENTRY_COUNT" "p3_index v < ENTRY_COUNT"
  "p2_index v < ENTRY_COUNT" "p1_index v < ENTRY_COUNT"
  by (simp_all add: index_take_bit take9_lt ENTRY_COUNT_def)

text \<open>\<open>path_of sz v\<close>: the indices that lead to the terminal entry of \<open>v\<close> in a page of size \<open>sz\<close>.\<close>

primrec path_of :: "PageSize \<Rightarrow> usize \<Rightarrow> usize list" where
  "path_of Size1G v = [p4_index v, p3_index v]"
| "path_of Size2M v = [p4_index v, p3_index v, p2_index v]"
| "path_of Size4K v = [p4_index v, p3_index v, p2_index v, p1_index v]"

text \<open>The page number: the page of the 48 translated address bits.\<close>

definition page_no :: "PageSize \<Rightarrow> usize \<Rightarrow> usize" where
  "page_no sz v = drop_bit (page_shift sz) (take_bit 48 v)"

lemma length_path_of: "length (path_of sz v) = (case sz of Size1G \<Rightarrow> 2 | Size2M \<Rightarrow> 3 | Size4K \<Rightarrow> 4)"
  by (cases sz) simp_all

lemma path_of_ne [simp]: "path_of sz v \<noteq> []"
  by (cases sz) simp_all

lemma word_eq_bits: "x = (y :: 'a::len word) \<longleftrightarrow> (\<forall>n. bit x n = bit y n)"
  by (auto intro: bit_word_eqI)

lemma page_no_eq_bits: "page_no sz u = page_no sz v \<longleftrightarrow>
    (\<forall>n. page_shift sz \<le> n \<and> n < 48 \<longrightarrow> bit u n = bit v n)"
proof -
  have "page_no sz u = page_no sz v \<longleftrightarrow>
      (\<forall>k. page_shift sz + k < 48 \<longrightarrow> bit u (page_shift sz + k) = bit v (page_shift sz + k))"
    unfolding page_no_def word_eq_bits by (auto simp: bit_drop_bit_eq bit_take_bit_iff)
  also have "\<dots> \<longleftrightarrow> (\<forall>n. page_shift sz \<le> n \<and> n < 48 \<longrightarrow> bit u n = bit v n)"
    by (metis le_add1 le_add_diff_inverse)
  finally show ?thesis .
qed

lemma index_eq_bits:
  "take_bit 9 (drop_bit k u) = take_bit 9 (drop_bit k (v :: usize)) \<longleftrightarrow>
    (\<forall>n. k \<le> n \<and> n < k + 9 \<longrightarrow> bit u n = bit v n)"
proof -
  have "take_bit 9 (drop_bit k u) = take_bit 9 (drop_bit k v) \<longleftrightarrow>
      (\<forall>j<9. bit u (k + j) = bit v (k + j))"
    unfolding word_eq_bits by (auto simp: bit_drop_bit_eq bit_take_bit_iff)
  also have "\<dots> \<longleftrightarrow> (\<forall>n. k \<le> n \<and> n < k + 9 \<longrightarrow> bit u n = bit v n)"
    by (metis le_add1 le_add_diff_inverse nat_add_left_cancel_less)
  finally show ?thesis .
qed

lemma path_of_eq_iff: "path_of sz u = path_of sz v \<longleftrightarrow> page_no sz u = page_no sz v"
proof -
  have split: "(\<forall>n. a \<le> n \<and> n < c \<longrightarrow> P n) \<longleftrightarrow>
      (\<forall>n. a \<le> n \<and> n < b \<longrightarrow> P n) \<and> (\<forall>n. b \<le> n \<and> n < c \<longrightarrow> P n)" if "a \<le> b" "b \<le> c"
    for a b c :: nat and P
    using that by (meson le_less_trans less_le_trans not_le)
  show ?thesis
    unfolding page_no_eq_bits
    by (cases sz) (auto simp: index_take_bit index_eq_bits split[of 12 21 48] split[of 21 30 48]
        split[of 30 39 48])
qed

lemma path_of_neq_size: "path_of sz u = path_of sz' v \<Longrightarrow> sz = sz'"
  by (drule arg_cong[of _ _ length]) (simp add: length_path_of split: PageSize.splits)

lemma page_offset_same_page:
  "page_no sz u = page_no sz v \<Longrightarrow> ps_align_down sz (take_bit 48 u) = ps_align_down sz (take_bit 48 v)"
  unfolding page_no_eq_bits
  by (rule bit_word_eqI) (auto simp: ps_align_down_def page_bytes_mask bit_simps)


section \<open>Trees of tables\<close>

definition passable :: "pte_ops \<Rightarrow> u64 \<Rightarrow> bool" where
  "passable ops e \<longleftrightarrow> pte_is_present ops e \<and> \<not> pte_is_huge ops e"

fun walk_to :: "pte_ops \<Rightarrow> table_mem \<Rightarrow> phys_addr \<Rightarrow> usize list \<Rightarrow> phys_addr option" where
  "walk_to ops m t [] = Some t"
| "walk_to ops m t (i # is) =
     (if passable ops (m t i) then walk_to ops m (pte_addr ops (m t i)) is else None)"

lemma walk_to_append:
  "walk_to ops m t (p @ q) = (case walk_to ops m t p of None \<Rightarrow> None | Some t' \<Rightarrow> walk_to ops m t' q)"
  by (induction ops m t p rule: walk_to.induct) auto

lemma walk_to_snoc:
  "walk_to ops m t (p @ [i]) = (case walk_to ops m t p of None \<Rightarrow> None
     | Some t' \<Rightarrow> if passable ops (m t' i) then Some (pte_addr ops (m t' i)) else None)"
  by (simp add: walk_to_append split: option.splits)

text \<open>
  The shape of a tree with tables in \<open>T\<close>: no table is reached twice, and in the tables above
  the last level an entry is unused, a terminal huge page or a pointer to a table.
\<close>

definition tree :: "pte_ops \<Rightarrow> table_mem \<Rightarrow> phys_addr \<Rightarrow> phys_addr set \<Rightarrow> bool" where
  "tree ops m root T \<longleftrightarrow>
     (\<forall>p q t. length p \<le> 3 \<and> length q \<le> 3 \<and> walk_to ops m root p = Some t \<and>
        walk_to ops m root q = Some t \<longrightarrow> p = q) \<and>
     (\<forall>p t. length p \<le> 3 \<and> walk_to ops m root p = Some t \<longrightarrow> t \<in> T) \<and>
     (\<forall>p t i. length p \<le> 2 \<and> walk_to ops m root p = Some t \<longrightarrow>
        m t i = 0 \<or> passable ops (m t i) \<or> p \<noteq> [] \<and> pte_is_huge ops (m t i))"

lemma treeD:
  assumes "tree ops m root T"
  shows "walk_to ops m root p = Some t \<Longrightarrow> walk_to ops m root q = Some t \<Longrightarrow>
      length p \<le> 3 \<Longrightarrow> length q \<le> 3 \<Longrightarrow> p = q"
    and "walk_to ops m root p = Some t \<Longrightarrow> length p \<le> 3 \<Longrightarrow> t \<in> T"
    and "walk_to ops m root p = Some t \<Longrightarrow> length p \<le> 2 \<Longrightarrow>
      m t i = 0 \<or> passable ops (m t i) \<or> p \<noteq> [] \<and> pte_is_huge ops (m t i)"
  using assms unfolding tree_def by blast+

lemma treeI:
  assumes "\<And>p q t. length p \<le> 3 \<Longrightarrow> length q \<le> 3 \<Longrightarrow> walk_to ops m root p = Some t \<Longrightarrow>
      walk_to ops m root q = Some t \<Longrightarrow> p = q"
    and "\<And>p t. length p \<le> 3 \<Longrightarrow> walk_to ops m root p = Some t \<Longrightarrow> t \<in> T"
    and "\<And>p t i. length p \<le> 2 \<Longrightarrow> walk_to ops m root p = Some t \<Longrightarrow>
      m t i = 0 \<or> passable ops (m t i) \<or> p \<noteq> [] \<and> pte_is_huge ops (m t i)"
  shows "tree ops m root T"
  using assms unfolding tree_def by blast

lemma walk_to_cong:
  "(\<And>q t. length q < length p \<Longrightarrow> walk_to ops m root q = Some t \<Longrightarrow> m' t = m t) \<Longrightarrow>
     walk_to ops m' root p = walk_to ops m root p"
proof (induction p rule: rev_induct)
  case (snoc i p)
  have "walk_to ops m' root p = walk_to ops m root p"
    by (rule snoc.IH) (rule snoc.prems, simp_all)
  then show ?case
    using snoc.prems[of p] by (auto simp: walk_to_snoc split: option.splits)
qed simp

lemma tree_cong:
  assumes "tree ops m root T" "\<And>t. t \<in> T \<Longrightarrow> m' t = m t"
  shows "tree ops m' root T" "length p \<le> 3 \<Longrightarrow> walk_to ops m' root p = walk_to ops m root p"
proof -
  have w: "walk_to ops m' root p = walk_to ops m root p" if "length p \<le> 3" for p
  proof (rule walk_to_cong)
    fix q t assume "length q < length p" "walk_to ops m root q = Some t"
    with that show "m' t = m t"
      using assms(2) treeD(2)[OF assms(1), of q t] by simp
  qed
  show "length p \<le> 3 \<Longrightarrow> walk_to ops m' root p = walk_to ops m root p" by (rule w)
  show "tree ops m' root T"
  proof (rule treeI, goal_cases)
    case (1 p q t)
    then show ?case using treeD(1)[OF assms(1)] by (simp add: w)
  next
    case (2 p t)
    then show ?case using treeD(2)[OF assms(1)] by (simp add: w)
  next
    case (3 p t i)
    then have "walk_to ops m root p = Some t" by (simp add: w)
    then show ?case
      using 3 assms(2) treeD(2,3)[OF assms(1), of p t] by simp
  qed
qed

text \<open>
  A write to entry \<open>i\<close> of the table at path \<open>p\<close>, possibly after filling a table \<open>f\<close> that is not
  in the tree, changes no walk that does not start with \<open>p @ [i]\<close>.
\<close>

lemma walk_to_write:
  assumes tr: "tree ops m root T" and p: "walk_to ops m root p = Some t" "length p \<le> 3"
    and f: "\<And>t j. t \<in> T \<Longrightarrow> m' t j = (m(t0 := (m t0)(i := e))) t j" "t0 = t"
    and q: "length q \<le> 3" "\<nexists>r. q = p @ i # r"
  shows "walk_to ops m' root q = walk_to ops m root q"
  using q
proof (induction q rule: rev_induct)
  case (snoc j q)
  have "\<nexists>r. q = p @ i # r"
    using snoc.prems(2) by (metis append_Cons append_assoc)
  with snoc have IH: "walk_to ops m' root q = walk_to ops m root q" by simp
  show ?case
  proof (cases "walk_to ops m root q")
    case (Some t')
    then have "t' \<in> T" using treeD(2)[OF tr] snoc.prems by simp
    moreover have "t' = t \<Longrightarrow> j \<noteq> i"
      using treeD(1)[OF tr Some, of p] p snoc.prems by auto
    ultimately have "m' t' j = m t' j" using f by (auto simp: fun_upd_def)
    then show ?thesis by (simp add: walk_to_snoc IH Some)
  qed (simp add: walk_to_snoc IH)
qed simp

text \<open>The write of a terminal entry changes no walk at all.\<close>

lemma walk_to_write_leaf:
  assumes tr: "tree ops m root T" and p: "walk_to ops m root p = Some t" "length p \<le> 3"
    and e: "length p = 3 \<or> \<not> passable ops (m t i) \<and> \<not> passable ops e"
    and q: "length q \<le> 3"
  shows "walk_to ops (m(t := (m t)(i := e))) root q = walk_to ops m root q"
proof (cases "\<exists>r. q = p @ i # r")
  case False
  then show ?thesis using walk_to_write[OF tr p _ refl q] by simp
next
  case True
  then obtain r where r: "q = p @ i # r" by blast
  with q e have e: "\<not> passable ops (m t i)" "\<not> passable ops e" by auto
  have "walk_to ops (m(t := (m t)(i := e))) root p = walk_to ops m root p"
    using walk_to_write[OF tr p _ refl p(2)] by simp
  with e show ?thesis by (simp add: r walk_to_append p)
qed


section \<open>Terminal entries\<close>

definition leaf :: "pte_ops \<Rightarrow> table_mem \<Rightarrow> phys_addr \<Rightarrow> PageSize \<Rightarrow> usize \<Rightarrow> u64 option" where
  "leaf ops m root sz v =
     (case walk_to ops m root (butlast (path_of sz v)) of None \<Rightarrow> None
      | Some t \<Rightarrow> let e = m t (last (path_of sz v))
                  in if e \<noteq> 0 \<and> (sz = Size4K \<or> pte_is_huge ops e) then Some e else None)"

lemma get_entry_mut_Ok:
  "get_entry_mut ops s pt v = Ok (l, sz) \<longleftrightarrow>
     (\<exists>t. walk_to ops (tabs s) (root_paddr pt) (butlast (path_of sz v)) = Some t \<and>
        l = (t, last (path_of sz v)) \<and>
        (sz = Size4K \<or> pte_is_huge ops (tabs s t (last (path_of sz v)))))"
  by (cases sz) (auto simp: get_entry_mut_def next_table_mut_def passable_def entry_at_def Let_def
      split: if_splits)

lemma path_of_split: "butlast (path_of sz v) @ [last (path_of sz v)] = path_of sz v"
  by simp

lemma path_of_snoc: "path_of sz u = p @ [i] \<longleftrightarrow> butlast (path_of sz u) = p \<and> last (path_of sz u) = i"
  by (metis append_butlast_last_id butlast_snoc last_snoc path_of_ne)

lemma length_butlast_path: "length (butlast (path_of sz v)) \<le> 3"
  "length (butlast (path_of sz v)) = 3 \<longleftrightarrow> sz = Size4K" "butlast (path_of sz v) \<noteq> []"
  by (cases sz; simp)+

lemma get_entry_mut_tree:
  assumes "tree ops (tabs s) (root_paddr pt) T" "\<not> pte_is_present ops 0"
  shows "(\<exists>l sz. get_entry_mut ops s pt v = Ok (l, sz)) \<or> get_entry_mut ops s pt v = Err NotMapped"
proof -
  have "pte_is_huge ops (tabs s (root_paddr pt) (p4_index v)) \<Longrightarrow>
      \<not> pte_is_present ops (tabs s (root_paddr pt) (p4_index v))"
    using treeD(3)[OF assms(1), of "[]" "root_paddr pt" "p4_index v"] assms(2)
    by (auto simp: passable_def)
  then show ?thesis
    by (auto simp: get_entry_mut_def next_table_mut_def entry_at_def Let_def)
qed

lemma leaf_path_cong:
  assumes "path_of sz u = path_of sz v"
  shows "leaf ops m root sz u = leaf ops m root sz v"
  unfolding leaf_def assms ..

lemma leaf_walk_cong:
  assumes "walk_to ops m' root (butlast (path_of sz u)) = walk_to ops m root (butlast (path_of sz u))"
    and "\<And>t. walk_to ops m root (butlast (path_of sz u)) = Some t \<Longrightarrow>
      m' t (last (path_of sz u)) = m t (last (path_of sz u))"
  shows "leaf ops m' root sz u = leaf ops m root sz u"
  using assms by (simp add: leaf_def split: option.splits)

lemma tree_leaf_cong:
  assumes "tree ops m root T" "\<And>t. t \<in> T \<Longrightarrow> m' t = m t"
  shows "leaf ops m' root sz u = leaf ops m root sz u"
  using tree_cong(2)[OF assms length_butlast_path(1)] assms(2)
    treeD(2)[OF assms(1) _ length_butlast_path(1)]
  by (intro leaf_walk_cong) simp_all

lemma leaf_write:
  assumes tr: "tree ops m root T" and p: "walk_to ops m root p = Some t" "length p \<le> 3"
    and e: "length p = 3 \<or> \<not> passable ops (m t i) \<and> \<not> passable ops e"
  shows "leaf ops (m(t := (m t)(i := e))) root sz u =
      (if path_of sz u = p @ [i]
       then if e \<noteq> 0 \<and> (sz = Size4K \<or> pte_is_huge ops e) then Some e else None
       else leaf ops m root sz u)"
proof (cases "path_of sz u = p @ [i]")
  case True
  then show ?thesis
    using walk_to_write_leaf[OF tr p e length_butlast_path(1)[of sz u]] p(1)
    by (simp add: leaf_def)
next
  case False
  then have "leaf ops (m(t := (m t)(i := e))) root sz u = leaf ops m root sz u"
  proof (intro leaf_walk_cong walk_to_write_leaf[OF tr p e] length_butlast_path(1))
    fix t' assume "walk_to ops m root (butlast (path_of sz u)) = Some t'"
    then show "(m(t := (m t)(i := e))) t' (last (path_of sz u)) = m t' (last (path_of sz u))"
      using False treeD(1)[OF tr _ p(1) length_butlast_path(1) p(2)]
      by (auto simp: path_of_snoc fun_upd_def)
  qed
  with False show ?thesis by simp
qed

lemma tree_write:
  assumes tr: "tree ops m root T" and p: "walk_to ops m root p = Some t" "length p \<le> 3"
    and e: "length p = 3 \<or> \<not> passable ops (m t i) \<and> \<not> passable ops e \<and>
      (e = 0 \<or> p \<noteq> [] \<and> pte_is_huge ops e)"
  shows "tree ops (m(t := (m t)(i := e))) root T"
proof -
  have w: "walk_to ops (m(t := (m t)(i := e))) root q = walk_to ops m root q" if "length q \<le> 3" for q
    using walk_to_write_leaf[OF tr p _ that] e by blast
  show ?thesis
  proof (rule treeI, goal_cases)
    case (1 p q t)
    then show ?case using treeD(1)[OF tr] by (simp add: w)
  next
    case (2 p t)
    then show ?case using treeD(2)[OF tr] by (simp add: w)
  next
    case (3 q t' j)
    then have q: "walk_to ops m root q = Some t'" by (simp add: w)
    show ?case
    proof (cases "t' = t \<and> j = i")
      case True
      then have "q = p" using treeD(1)[OF tr q, of p] p 3 by simp
      with True e 3 show ?thesis by auto
    next
      case False
      then show ?thesis
        using treeD(3)[OF tr q 3(1), of j] by (auto simp: fun_upd_def)
    qed
  qed
qed


section \<open>A new table\<close>

lemma walk_to_create:
  assumes tr: "tree ops m root T" and p: "walk_to ops m root p = Some t" "length p \<le> 2"
    and z: "m t i = 0" "\<not> passable ops 0" and f: "f \<notin> T" and e: "passable ops e" "pte_addr ops e = f"
    and q: "length q \<le> 3"
  defines "m' \<equiv> m(f := \<lambda>_. 0, t := (m t)(i := e))"
  shows "walk_to ops m' root q = (if q = p @ [i] then Some f else walk_to ops m root q)"
proof -
  have t: "t \<in> T" using treeD(2)[OF tr p(1)] p(2) by simp
  with f have "t \<noteq> f" by auto
  have m': "t' \<in> T \<Longrightarrow> m' t' j = (m(t := (m t)(i := e))) t' j" for t' j
    using f by (auto simp: m'_def)
  have p3: "length p \<le> 3" using p(2) by simp
  have wp: "walk_to ops m' root p = Some t"
    using walk_to_write[OF tr p(1) p3 m' refl p3] p by simp
  show ?thesis
  proof (cases "\<exists>r. q = p @ i # r")
    case False
    then show ?thesis using walk_to_write[OF tr p(1) p3 m' refl q] by auto
  next
    case True
    then obtain r where r: "q = p @ i # r" by blast
    have "walk_to ops m root q = None"
      using z by (simp add: r walk_to_append p)
    moreover have "walk_to ops m' root q = walk_to ops m' f r"
      using e by (simp add: r walk_to_append wp) (simp add: m'_def)
    moreover have "r \<noteq> [] \<Longrightarrow> walk_to ops m' f r = None"
      using \<open>t \<noteq> f\<close> z(2) by (cases r) (auto simp: m'_def)
    ultimately show ?thesis by (auto simp: r)
  qed
qed

lemma tree_create:
  assumes tr: "tree ops m root T" and p: "walk_to ops m root p = Some t" "length p \<le> 2"
    and z: "m t i = 0" "\<not> passable ops 0" and f: "f \<notin> T"
    and e: "passable ops e" "pte_addr ops e = f"
  shows "tree ops (m(f := \<lambda>_. 0, t := (m t)(i := e))) root (insert f T)" (is "tree ops ?m' _ _")
proof -
  note w = walk_to_create[OF tr p z f e]
  have "t \<in> T" using treeD(2)[OF tr p(1)] p(2) by simp
  with f have "t \<noteq> f" by auto
  have inT: "t' \<in> T" "t' \<noteq> f" if "walk_to ops m root q = Some t'" "length q \<le> 3" for q t'
    using that treeD(2)[OF tr] f by auto
  show ?thesis
  proof (rule treeI, goal_cases)
    case (1 q q' t')
    then show ?case
      using treeD(1)[OF tr, of q t' q'] inT(2) by (auto simp: w split: if_splits)
  next
    case (2 q t')
    then show ?case using inT(1) by (auto simp: w split: if_splits)
  next
    case (3 q t' j)
    show ?case
    proof (cases "q = p @ [i]")
      case True
      then have "t' = f" using 3 by (simp add: w)
      then show ?thesis using \<open>t \<noteq> f\<close> by simp
    next
      case False
      then have q: "walk_to ops m root q = Some t'" using 3 by (simp add: w)
      then have "t' \<noteq> f" using inT(2)[OF q] 3 by simp
      then show ?thesis
        using treeD(3)[OF tr q 3(1), of j] e(1) by auto
    qed
  qed
qed

lemma leaf_create:
  assumes tr: "tree ops m root T" and p: "walk_to ops m root p = Some t" "length p \<le> 2"
    and z: "m t i = 0" "\<not> passable ops 0" and nh: "\<not> pte_is_huge ops 0" and f: "f \<notin> T"
    and e: "passable ops e" "pte_addr ops e = f"
  shows "leaf ops (m(f := \<lambda>_. 0, t := (m t)(i := e))) root sz u = leaf ops m root sz u"
    (is "leaf ops ?m' _ _ _ = _")
proof -
  note w = walk_to_create[OF tr p z f e]
  have "t \<in> T" using treeD(2)[OF tr p(1)] p(2) by simp
  with f have "t \<noteq> f" by auto
  consider "path_of sz u = p @ [i]" | "butlast (path_of sz u) = p @ [i]"
    | "path_of sz u \<noteq> p @ [i]" "butlast (path_of sz u) \<noteq> p @ [i]" by blast
  then show ?thesis
  proof cases
    case 1
    then have "sz \<noteq> Size4K" and pq: "butlast (path_of sz u) = p" "last (path_of sz u) = i"
      using p(2) length_butlast_path(2)[of sz u] by (auto simp: path_of_snoc)
    moreover have "walk_to ops ?m' root p = Some t" using w[of p] p by simp
    ultimately show ?thesis
      using z e(1) p(1) \<open>t \<noteq> f\<close> nh by (simp add: leaf_def passable_def)
  next
    case 2
    moreover have "walk_to ops m root (p @ [i]) = None"
      using z by (simp add: walk_to_snoc p)
    ultimately show ?thesis
      using w[of "p @ [i]"] p(2) \<open>t \<noteq> f\<close> by (simp add: leaf_def)
  next
    case 3
    show ?thesis
    proof (rule leaf_walk_cong)
      show "walk_to ops ?m' root (butlast (path_of sz u)) = walk_to ops m root (butlast (path_of sz u))"
        using w[OF length_butlast_path(1)] 3(2) by simp
      fix t' assume t': "walk_to ops m root (butlast (path_of sz u)) = Some t'"
      have "t' = t \<Longrightarrow> last (path_of sz u) \<noteq> i"
        using 3(1) treeD(1)[OF tr t', of p] p length_butlast_path(1)[of sz u]
        by (auto simp: path_of_snoc)
      moreover have "t' \<noteq> f"
        using treeD(2)[OF tr t' length_butlast_path(1)] f by auto
      ultimately show "?m' t' (last (path_of sz u)) = m t' (last (path_of sz u))" by auto
    qed
  qed
qed

end
