(* ===== verification/PageTableInv.thy ===== *)
theory PageTableInv
  imports PageWalk
begin

text \<open>
  The invariant of a page table and what one page operation does to the addresses it maps, for
  every entry type that keeps the contract \<open>generic_pte\<close>: tables are created on the way without
  changing any translation, a page that is mapped was free before and changes exactly its own
  addresses, an error changes nothing.
\<close>

section \<open>The invariant\<close>

definition pt_frames :: "Level4PageTable \<Rightarrow> Frame list" where
  "pt_frames pt = pt_root pt # intrm_tables pt"

definition owned :: "Level4PageTable \<Rightarrow> phys_addr set" where
  "owned pt = start_paddr ` set (pt_frames pt)"

definition pt_inv :: "pte_ops \<Rightarrow> ('b \<Rightarrow> usize set) \<Rightarrow> 'b pt_state \<Rightarrow> bool" where
  "pt_inv ops free st \<longleftrightarrow>
     (case st of (pt, s) \<Rightarrow>
        pmem_wf free s \<and> distinct (map start_paddr (pt_frames pt)) \<and>
        (\<forall>f \<in> set (pt_frames pt). frame_count f = 1 \<and> pool_frame (falloc s) (start_paddr f)) \<and>
        owned pt \<inter> avail free s = {} \<and> tree ops (tabs s) (root_paddr pt) (owned pt))"

text \<open>
  Between two states: the table only gains frames, they come out of the free set, and memory
  outside the table's own frames is untouched.
\<close>

definition pt_step :: "('b \<Rightarrow> usize set) \<Rightarrow> 'b pt_state \<Rightarrow> 'b pt_state \<Rightarrow> bool" where
  "pt_step free st st' \<longleftrightarrow>
     (case (st, st') of ((pt, s), (pt', s')) \<Rightarrow>
        pt_root pt' = pt_root pt \<and> owned pt \<subseteq> owned pt' \<and>
        avail free s' \<subseteq> avail free s \<and>
        owned pt' \<union> avail free s' = owned pt \<union> avail free s \<and>
        (\<forall>t. t \<notin> owned pt' \<longrightarrow> tabs s' t = tabs s t) \<and>
        fa_base (falloc s') = fa_base (falloc s))"

abbreviation pt_leaf :: "pte_ops \<Rightarrow> 'b pt_state \<Rightarrow> PageSize \<Rightarrow> usize \<Rightarrow> u64 option" where
  "pt_leaf ops st \<equiv> leaf ops (tabs (snd st)) (root_paddr (fst st))"

abbreviation pt_walk :: "pte_ops \<Rightarrow> 'b pt_state \<Rightarrow> usize list \<Rightarrow> phys_addr option" where
  "pt_walk ops st \<equiv> walk_to ops (tabs (snd st)) (root_paddr (fst st))"

abbreviation pt_query :: "pte_ops \<Rightarrow> 'b pt_state \<Rightarrow> usize
  \<Rightarrow> (phys_addr \<times> u64 \<times> PageSize, PagingError) result" where
  "pt_query ops st \<equiv> query ops (snd st) (fst st)"

text \<open>A page that was not mapped is now mapped to \<open>pa\<close>, and nothing else has changed.\<close>

definition page_mapped :: "pte_ops \<Rightarrow> 'b pt_state \<Rightarrow> 'b pt_state \<Rightarrow> PageSize \<Rightarrow> usize \<Rightarrow> phys_addr \<Rightarrow>
    u64 \<Rightarrow> bool" where
  "page_mapped ops st st' sz v pa fl \<longleftrightarrow>
     (\<forall>u. page_no sz u = page_no sz v \<longrightarrow> pt_query ops st u = Err NotMapped) \<and>
     (\<forall>u. pt_query ops st' u =
       (if page_no sz u = page_no sz v then Ok (pa + ps_page_offset sz u, fl, sz)
        else pt_query ops st u))"

definition pt_grow :: "pte_ops \<Rightarrow> ('b \<Rightarrow> usize set) \<Rightarrow> 'b pt_state \<Rightarrow> 'b pt_state \<Rightarrow> bool" where
  "pt_grow ops free st st' \<longleftrightarrow>
     pt_inv ops free st' \<and> pt_step free st st' \<and> pt_leaf ops st' = pt_leaf ops st \<and>
     (\<forall>q t. length q \<le> 3 \<and> pt_walk ops st q = Some t \<longrightarrow> pt_walk ops st' q = Some t)"

lemma pt_step_refl: "pt_step free st st"
  by (simp add: pt_step_def split: prod.splits)

lemma pt_step_trans: "pt_step free st st' \<Longrightarrow> pt_step free st' st'' \<Longrightarrow> pt_step free st st''"
  unfolding pt_step_def by (clarsimp split: prod.splits) blast

lemma pt_grow_refl: "pt_inv ops free st \<Longrightarrow> pt_grow ops free st st"
  by (simp add: pt_grow_def pt_step_refl)

lemma pt_grow_trans: "pt_grow ops free st st' \<Longrightarrow> pt_grow ops free st' st'' \<Longrightarrow> pt_grow ops free st st''"
  unfolding pt_grow_def using pt_step_trans by (metis (no_types, lifting))

lemma root_in_owned: "root_paddr pt \<in> owned pt"
  by (simp add: owned_def pt_frames_def root_paddr_def)

lemma pt_invD:
  assumes "pt_inv ops free st"
  shows "pmem_wf free (snd st)" "owned (fst st) \<inter> avail free (snd st) = {}"
    "tree ops (tabs (snd st)) (root_paddr (fst st)) (owned (fst st))"
    "f \<in> set (pt_frames (fst st)) \<Longrightarrow> frame_count f = 1 \<and> pool_frame (falloc (snd st)) (start_paddr f)"
    "distinct (map start_paddr (pt_frames (fst st)))"
  using assms by (auto simp: pt_inv_def split: prod.splits)

text \<open>Writing a terminal entry of the table keeps the invariant.\<close>

lemma pt_write_leaf:
  assumes inv: "pt_inv ops free (pt, s)"
    and p: "pt_walk ops (pt, s) p = Some t" "length p \<le> 3"
    and e: "length p = 3 \<or> \<not> passable ops (tabs s t i) \<and> \<not> passable ops e \<and>
      (e = 0 \<or> p \<noteq> [] \<and> pte_is_huge ops e)"
  shows "pt_inv ops free (pt, write_entry (t, i) e s)"
    and "pt_step free (pt, s) (pt, write_entry (t, i) e s)"
    and "pt_leaf ops (pt, write_entry (t, i) e s) sz u =
      (if path_of sz u = p @ [i]
       then if e \<noteq> 0 \<and> (sz = Size4K \<or> pte_is_huge ops e) then Some e else None
       else pt_leaf ops (pt, s) sz u)"
proof -
  note tr = pt_invD(3)[OF inv, simplified] and p' = p(1)[simplified]
  have "t \<in> owned pt" using treeD(2)[OF tr p' p(2)] .
  then show "pt_step free (pt, s) (pt, write_entry (t, i) e s)"
    by (simp add: pt_step_def write_entry_def)
  show "pt_inv ops free (pt, write_entry (t, i) e s)"
    using inv tree_write[OF tr p' p(2) e] by (simp add: pt_inv_def write_entry_def pmem_wf_def)
  show "pt_leaf ops (pt, write_entry (t, i) e s) sz u =
      (if path_of sz u = p @ [i]
       then if e \<noteq> 0 \<and> (sz = Size4K \<or> pte_is_huge ops e) then Some e else None
       else pt_leaf ops (pt, s) sz u)"
    using leaf_write[OF tr p' p(2), of i e sz u] e by (auto simp: write_entry_def)
qed


section \<open>Tables created on the way\<close>

declare walk_to.simps(2) [simp del]

context generic_pte
begin

lemma not_passable_0: "\<not> passable ops 0"
  by (simp add: passable_def not_present_0)

lemma query_Ok: "query ops s pt v = Ok (pa, fl, sz) \<longleftrightarrow>
    (\<exists>e. leaf ops (tabs s) (root_paddr pt) sz v = Some e \<and>
      pa = pte_addr ops e + ps_page_offset sz v \<and> fl = pte_flags ops e)"
proof -
  have "query ops s pt v = Ok (pa, fl, sz) \<longleftrightarrow>
    (\<exists>l. get_entry_mut ops s pt v = Ok (l, sz) \<and> entry_at s l \<noteq> 0 \<and>
      pa = pte_addr ops (entry_at s l) + ps_page_offset sz v \<and> fl = pte_flags ops (entry_at s l))"
    by (auto simp: query_def unused_iff Let_def split: if_splits prod.splits)
  also have "\<dots> \<longleftrightarrow> (\<exists>e. leaf ops (tabs s) (root_paddr pt) sz v = Some e \<and>
      pa = pte_addr ops e + ps_page_offset sz v \<and> fl = pte_flags ops e)"
    by (auto simp: get_entry_mut_Ok leaf_def entry_at_def Let_def split: option.splits if_splits)
  finally show ?thesis .
qed

lemma query_not_Ok:
  assumes "tree ops (tabs s) (root_paddr pt) T" "\<And>x. query ops s pt v \<noteq> Ok x"
  shows "query ops s pt v = Err NotMapped"
proof (cases "get_entry_mut ops s pt v = Err NotMapped")
  case False
  then obtain l sz where l: "get_entry_mut ops s pt v = Ok (l, sz)"
    using get_entry_mut_tree[OF assms(1) not_present_0, of v] by auto
  then have "pte_is_unused ops (entry_at s l)"
    using assms(2)[of "(pte_addr ops (entry_at s l) + ps_page_offset sz v,
        pte_flags ops (entry_at s l), sz)"] by (auto simp: query_def Let_def split: if_splits)
  with l show ?thesis by (simp add: query_def)
qed (simp add: query_def)

lemma query_eqI:
  assumes "pt_inv ops free st" "pt_inv ops free' st'"
    and "\<And>sz. pt_leaf ops st sz v = pt_leaf ops st' sz v"
  shows "pt_query ops st v = pt_query ops st' v"
proof (cases "\<exists>x. pt_query ops st v = Ok x")
  case True
  then obtain pa fl sz where "pt_query ops st v = Ok (pa, fl, sz)" by auto
  moreover from this have "pt_query ops st' v = Ok (pa, fl, sz)"
    using assms(3) by (simp add: query_Ok)
  ultimately show ?thesis by simp
next
  case False
  then have "\<nexists>x. pt_query ops st' v = Ok x"
    using assms(3) by (auto simp: query_Ok)
  then have "pt_query ops st' v = Err NotMapped"
    by (intro query_not_Ok[OF pt_invD(3)[OF assms(2)]]) blast
  moreover have "pt_query ops st v = Err NotMapped"
    using False by (intro query_not_Ok[OF pt_invD(3)[OF assms(1)]]) blast
  ultimately show ?thesis by simp
qed

lemma query_NotMapped: "pt_inv ops free st \<Longrightarrow>
    pt_query ops st v = Err NotMapped \<longleftrightarrow> (\<forall>sz. pt_leaf ops st sz v = None)"
  using query_not_Ok[OF pt_invD(3)]
  by (metis (no_types, lifting) not_Some_eq query_Ok result.distinct(1) surj_pair)

lemma pt_grow_query: "pt_inv ops free st \<Longrightarrow> pt_grow ops free st st' \<Longrightarrow> pt_query ops st' v = pt_query ops st v"
  by (rule query_eqI) (auto simp: pt_grow_def)


text \<open>A zeroed frame linked from an unused entry adds one table and no translation.\<close>

lemma link_table_grow:
  assumes inv: "pt_inv ops free (pt, s)" and p: "pt_walk ops (pt, s) p = Some t" "length p \<le> 2"
    and z: "tabs s t i = 0" and f: "f \<in> avail free s" and e: "passable ops e" "pte_addr ops e = f"
    and s1: "avail free s1 = avail free s - {f}" "pmem_wf free s1"
      "fa_base (falloc s1) = fa_base (falloc s)" "tabs s1 = (tabs s)(f := \<lambda>_. 0)"
  defines "st' \<equiv> (pt\<lparr>intrm_tables := intrm_tables pt @ [\<lparr>start_paddr = f, frame_count = 1\<rparr>]\<rparr>,
      write_entry (t, i) e s1)"
  shows "pt_grow ops free (pt, s) st'" "pt_walk ops st' (p @ [i]) = Some f"
proof -
  note tr = pt_invD(3)[OF inv, simplified] and p' = p(1)[simplified]
  have nf: "f \<notin> owned pt" using f pt_invD(2)[OF inv] by auto
  have "t \<in> owned pt" using treeD(2)[OF tr p'] p(2) by simp
  with nf have "t \<noteq> f" by auto
  then have m: "tabs (snd st') = (tabs s)(f := \<lambda>_. 0, t := (tabs s t)(i := e))"
    by (simp add: st'_def write_entry_def s1)
  have own: "owned (fst st') = insert f (owned pt)" and root: "root_paddr (fst st') = root_paddr pt"
    by (auto simp: st'_def owned_def pt_frames_def root_paddr_def)
  have pool: "pool_frame (falloc s1) = pool_frame (falloc s)"
    using s1 by (simp add: fun_eq_iff pool_frame_def pool_index_def frame_of_def)
  have "tree ops (tabs (snd st')) (root_paddr (fst st')) (owned (fst st'))"
    unfolding own root m by (rule tree_create[OF tr p' p(2) z not_passable_0 nf e])
  then have "pt_inv ops free st'"
    using inv nf s1 f free_frames_pool[of free "falloc s" f] unfolding pt_inv_def
    by (auto simp: st'_def pt_frames_def owned_def write_entry_def pmem_wf_def pool)
  moreover have "pt_step free (pt, s) st'"
    using own m s1 f \<open>t \<in> owned pt\<close> by (auto simp: pt_step_def st'_def write_entry_def)
  moreover have "pt_leaf ops st' = pt_leaf ops (pt, s)"
    using leaf_create[OF tr p' p(2) z not_passable_0 not_huge_0 nf e] by (simp add: fun_eq_iff root m)
  moreover have w: "pt_walk ops st' q = (if q = p @ [i] then Some f else pt_walk ops (pt, s) q)"
      if "length q \<le> 3" for q
    using walk_to_create[OF tr p' p(2) z not_passable_0 nf e that] by (simp add: root m)
  moreover have "pt_walk ops (pt, s) (p @ [i]) = None"
    using z not_passable_0 p' by (simp add: walk_to_snoc)
  ultimately show "pt_grow ops free (pt, s) st'" by (auto simp: pt_grow_def)
  show "pt_walk ops st' (p @ [i]) = Some f" using w p(2) by simp
qed

lemma next_table_mut_or_create_spec:
  assumes spec: "bit_alloc_spec ba free" and inv: "pt_inv ops free (pt, s)"
    and p: "pt_walk ops (pt, s) p = Some t" "length p \<le> 2"
    and run: "next_table_mut_or_create ba ops (pt, s) (t, i) = (st', r)"
  shows "pt_grow ops free (pt, s) st' \<and>
    ((\<exists>t'. r = Ok t' \<and> pt_walk ops st' (p @ [i]) = Some t') \<or>
     (r = Err NoMemory \<and> avail free s = {}) \<or>
     (\<exists>e. r = Err e \<and> e \<noteq> NoMemory \<and> p \<noteq> [] \<and> tabs s t i \<noteq> 0 \<and>
        pte_is_huge ops (tabs s t i)))"
proof (cases "tabs s t i = 0")
  case False
  note tr = pt_invD(3)[OF inv, simplified]
  have st': "st' = (pt, s)" "r = next_table_mut ops (tabs s t i)"
    using run False by (simp_all add: next_table_mut_or_create_def unused_iff entry_at_def)
  have "passable ops (tabs s t i) \<or> p \<noteq> [] \<and> pte_is_huge ops (tabs s t i)"
    using treeD(3)[OF tr p(1)[simplified] p(2)] False by auto
  then show ?thesis
    using False p(1) unfolding st'
    by (auto simp: pt_grow_refl[OF inv] next_table_mut_def passable_def walk_to_snoc)
next
  case True
  show ?thesis
  proof (cases rule: Frame_new_zero_cases[OF spec pt_invD(1)[OF inv, simplified]])
    case (2 s1)
    then have st': "st' = (pt, s1)" "r = Err NoMemory"
      using run True by (simp_all add: next_table_mut_or_create_def unused_iff entry_at_def
          alloc_intrm_table_def)
    have "pt_inv ops free (pt, s1)" "pt_step free (pt, s) (pt, s1)"
      using inv 2 by (simp_all add: pt_inv_def pt_step_def pool_frame_def pool_index_def frame_of_def)
    then show ?thesis using 2 by (simp add: st' pt_grow_def)
  next
    case (1 s1 f)
    have "phys_frame f"
      using 1 pool_frame_phys free_frames_pool pt_invD(1)[OF inv] by (metis pmem_wf_def snd_conv)
    then obtain e where e: "pte_set_table ops 0 f = Some e" "passable ops e" "pte_addr ops e = f"
      using set_table_ok[of f 0] by (auto simp: passable_def)
    have "t \<in> owned pt" using treeD(2)[OF pt_invD(3)[OF inv] p(1)] p(2) by simp
    then have "t \<noteq> f" using 1 pt_invD(2)[OF inv] by auto
    then have st': "st' = (pt\<lparr>intrm_tables := intrm_tables pt @ [\<lparr>start_paddr = f, frame_count = 1\<rparr>]\<rparr>,
        write_entry (t, i) e s1)" "r = Ok f"
      using run True 1 e by (simp_all add: next_table_mut_or_create_def unused_iff entry_at_def
          alloc_intrm_table_def)
    show ?thesis
      using link_table_grow[OF inv p True 1(2) e(2,3) 1(3-6)] unfolding st' by blast
  qed
qed

text \<open>
  The outcome of creating the tables down to some path for address \<open>v\<close>: the path is there, or
  memory ran out, or \<open>v\<close> lies in a huge page.
\<close>

lemma create_level:
  assumes spec: "bit_alloc_spec ba free" and inv: "pt_inv ops free st"
    and p: "pt_walk ops st p = Some t" "length p \<le> 2" "p @ i # r' = path_of Size4K v"
    and run: "next_table_mut_or_create ba ops st (t, i) = (st', r)"
  shows "pt_grow ops free st st' \<and>
    ((\<exists>t'. r = Ok t' \<and> pt_walk ops st' (p @ [i]) = Some t') \<or>
     (r = Err NoMemory \<and> avail free (snd st') = {}) \<or>
     (\<exists>e sz x. r = Err e \<and> e \<noteq> NoMemory \<and> pt_leaf ops st sz v = Some x))"
proof -
  obtain pt s where st: "st = (pt, s)" by (cases st)
  note n = next_table_mut_or_create_spec[OF spec inv[unfolded st] p(1)[unfolded st] p(2)
      run[unfolded st], folded st]
  have "pt_leaf ops st (if length p = 1 then Size1G else Size2M) v = Some (tabs s t i)"
    if "p \<noteq> []" "tabs s t i \<noteq> 0" "pte_is_huge ops (tabs s t i)"
  proof -
    have "length p = 1 \<and> path_of Size1G v = p @ [i] \<or> length p = 2 \<and> path_of Size2M v = p @ [i]"
      using p(2,3) that(1) by (auto simp: le_Suc_eq numeral_2_eq_2 length_Suc_conv Cons_eq_append_conv)
    then show ?thesis
      using that p(1) by (auto simp: leaf_def st path_of_snoc[symmetric] simp del: path_of.simps
          split: if_splits)
  qed
  moreover have "avail free s = {} \<Longrightarrow> pt_step free (pt, s) st' \<Longrightarrow> avail free (snd st') = {}"
    by (auto simp: pt_step_def split: prod.splits)
  ultimately show ?thesis
    using n by (auto simp: pt_grow_def st)
qed

lemma get_entry_mut_or_create_spec:
  assumes spec: "bit_alloc_spec ba free" and inv: "pt_inv ops free st"
    and run: "get_entry_mut_or_create ba ops st (Page_new_aligned v sz) = (st', r)"
  shows "pt_grow ops free st st' \<and>
    ((\<exists>t. r = Ok (t, last (path_of sz v)) \<and> pt_walk ops st' (butlast (path_of sz v)) = Some t) \<or>
     (r = Err NoMemory \<and> avail free (snd st') = {}) \<or>
     (\<exists>e sz' x. r = Err e \<and> e \<noteq> NoMemory \<and> pt_leaf ops st sz' v = Some x))"
proof -
  obtain st1 r1 where s1: "next_table_mut_or_create ba ops st (root_paddr (fst st), p4_index v) = (st1, r1)"
    by fastforce
  note l1 = create_level[OF spec inv _ _ _ s1, of "[]" "[p3_index v, p2_index v, p1_index v]" v, simplified]
  show ?thesis
  proof (cases r1)
    case (Ok p3)
    with l1 have g1: "pt_grow ops free st st1" and w1: "pt_walk ops st1 [p4_index v] = Some p3"
      by auto
    then have inv1: "pt_inv ops free st1" and leaf1: "pt_leaf ops st1 = pt_leaf ops st"
      by (simp_all add: pt_grow_def)
    obtain st2 r2 where s2: "next_table_mut_or_create ba ops st1 (p3, p3_index v) = (st2, r2)"
      by fastforce
    note l2 = create_level[OF spec inv1 w1 _ _ s2, of "[p2_index v, p1_index v]" v, simplified, unfolded leaf1]
    show ?thesis
    proof (cases "sz = Size1G")
      case True
      then show ?thesis using run s1 Ok g1 w1
        by (simp add: get_entry_mut_or_create_def Page_new_aligned_def Let_def)
    next
      case n1: False
      show ?thesis
      proof (cases r2)
        case Ok2: (Ok p2)
        with l2 have g2: "pt_grow ops free st1 st2" and w2: "pt_walk ops st2 [p4_index v, p3_index v] = Some p2"
          by auto
        then have inv2: "pt_inv ops free st2" and leaf2: "pt_leaf ops st2 = pt_leaf ops st"
          using leaf1 by (simp_all add: pt_grow_def)
        note g12 = pt_grow_trans[OF g1 g2]
        obtain st3 r3 where s3: "next_table_mut_or_create ba ops st2 (p2, p2_index v) = (st3, r3)"
          by fastforce
        note l3 = create_level[OF spec inv2 w2 _ _ s3, of "[p1_index v]" v, simplified, unfolded leaf2]
        show ?thesis
        proof (cases "sz = Size2M")
          case True
          then show ?thesis using run s1 Ok s2 Ok2 g12 w2
            by (simp add: get_entry_mut_or_create_def Page_new_aligned_def Let_def)
        next
          case False
          then have "sz = Size4K" using n1 by (cases sz) auto
          then show ?thesis using run s1 Ok s2 Ok2 s3 l3 pt_grow_trans[OF g12]
            by (cases r3) (auto simp: get_entry_mut_or_create_def Page_new_aligned_def Let_def)
        qed
      qed (use run s1 Ok s2 l2 n1 pt_grow_trans[OF g1] in
        \<open>auto simp: get_entry_mut_or_create_def Page_new_aligned_def Let_def\<close>)
    qed
  qed (use run s1 l1 in \<open>auto simp: get_entry_mut_or_create_def Page_new_aligned_def Let_def\<close>)
qed


section \<open>Operations on one page\<close>

lemma leaf_unique:
  assumes "leaf ops m root sz u = Some e" "leaf ops m root sz' u = Some e'"
  shows "sz = sz'"
proof -
  let ?s = "undefined\<lparr>tabs := m\<rparr> :: unit pmem" and ?pt = "\<lparr>pt_root = \<lparr>start_paddr = root, frame_count = 0\<rparr>\<rparr>"
  have "\<exists>pa fl. query ops ?s ?pt u = Ok (pa, fl, sz)" "\<exists>pa fl. query ops ?s ?pt u = Ok (pa, fl, sz')"
    using assms by (simp_all add: query_Ok root_paddr_def)
  then show ?thesis by auto
qed

lemma query_leaf: "pt_leaf ops st sz u = Some e \<Longrightarrow>
    pt_query ops st u = Ok (pte_addr ops e + ps_page_offset sz u, pte_flags ops e, sz)"
  by (simp add: query_Ok)

text \<open>The effect of writing the terminal entry \<open>e\<close> of the page of \<open>v\<close>.\<close>

lemma write_leaf_query:
  assumes inv: "pt_inv ops free (pt, s)"
    and w: "pt_walk ops (pt, s) (butlast (path_of sz v)) = Some t"
    and i: "i = last (path_of sz v)"
    and old: "sz = Size4K \<or> \<not> passable ops (tabs s t i)"
    and e: "e \<noteq> 0" "pte_is_huge ops e = ps_is_huge sz"
  defines "st' \<equiv> (pt, write_entry (t, i) e s)"
  shows "pt_inv ops free st' \<and> pt_step free (pt, s) st' \<and>
    (\<forall>u. pt_query ops st' u =
       (if page_no sz u = page_no sz v
        then Ok (pte_addr ops e + ps_page_offset sz u, pte_flags ops e, sz)
        else pt_query ops (pt, s) u))"
proof -
  let ?p = "butlast (path_of sz v)"
  have huge: "sz = Size4K \<or> pte_is_huge ops e"
    using e(2) by (cases sz) (simp_all add: ps_is_huge_def)
  have sh: "length ?p = 3 \<or> \<not> passable ops (tabs s t i) \<and> \<not> passable ops e \<and>
      (e = 0 \<or> ?p \<noteq> [] \<and> pte_is_huge ops e)"
    using old huge length_butlast_path(2,3)[of sz v] by (auto simp: passable_def)
  note wl = pt_write_leaf[OF inv w length_butlast_path(1) sh, folded st'_def]
  have eq: "path_of sz' u = ?p @ [i] \<longleftrightarrow> sz' = sz \<and> page_no sz u = page_no sz v" for sz' u
    using path_of_eq_iff[of sz u v] path_of_neq_size[of sz' u sz v] by (auto simp: i)
  have "pt_query ops st' u = (if page_no sz u = page_no sz v
      then Ok (pte_addr ops e + ps_page_offset sz u, pte_flags ops e, sz)
      else pt_query ops (pt, s) u)" for u
  proof (cases "page_no sz u = page_no sz v")
    case True
    then have "pt_leaf ops st' sz u = Some e"
      using wl(3)[of sz u] huge e(1) by (simp add: eq)
    then show ?thesis using True query_leaf by simp
  next
    case False
    then have "pt_query ops st' u = pt_query ops (pt, s) u"
      using wl(3) by (intro query_eqI[OF wl(1) inv]) (simp add: eq)
    with False show ?thesis by simp
  qed
  with wl(1,2) show ?thesis by blast
qed

lemma unused_page_NotMapped:
  assumes inv: "pt_inv ops free (pt, s)"
    and w: "pt_walk ops (pt, s) (butlast (path_of sz v)) = Some t"
    and z: "tabs s t (last (path_of sz v)) = 0"
    and u: "page_no sz u = page_no sz v"
  shows "pt_query ops (pt, s) u = Err NotMapped"
proof -
  have eq: "path_of sz u = path_of sz v" using u by (simp add: path_of_eq_iff)
  have "leaf ops (tabs s) (root_paddr pt) sz' u = None" for sz'
    using w[folded eq] z[folded eq] not_huge_0 not_present_0
    by (cases sz; cases sz')
      (auto simp: leaf_def walk_to.simps passable_def Let_def split: if_splits option.splits)
  then show ?thesis
    using query_NotMapped[OF inv, of u] by simp
qed

lemma map_page_spec:
  assumes spec: "bit_alloc_spec ba free" and inv: "pt_inv ops free st"
    and ok: "phys_frame (ps_align_down sz paddr)" "ok_flags flags"
    and run: "map_page ba ops st (Page_new_aligned v sz) paddr flags = (st', r)"
  shows "pt_inv ops free st' \<and> pt_step free st st' \<and>
    (r = Ok () \<and> page_mapped ops st st' sz v (ps_align_down sz paddr) (norm_flags flags) \<or>
     (\<exists>e. r = Err e \<and> pt_query ops st' = pt_query ops st \<and>
       (if e = NoMemory then avail free (snd st') = {}
        else sz = Size4K \<longrightarrow> pt_query ops st v \<noteq> Err NotMapped)))"
proof -
  obtain st1 r1 where g: "get_entry_mut_or_create ba ops st (Page_new_aligned v sz) = (st1, r1)"
    by fastforce
  note s1 = get_entry_mut_or_create_spec[OF spec inv g]
  obtain pt1 m1 where st1: "st1 = (pt1, m1)" by (cases st1)
  have g1: "pt_grow ops free st st1" using s1 by blast
  then have inv1: "pt_inv ops free st1" "pt_step free st st1"
    by (simp_all add: pt_grow_def)
  have q1: "pt_query ops st1 = pt_query ops st"
    using pt_grow_query[OF inv g1] by blast
  show ?thesis
  proof (cases "\<exists>t. r1 = Ok (t, last (path_of sz v))")
    case False
    then obtain e where e: "r1 = Err e" "e = NoMemory \<and> avail free (snd st1) = {} \<or>
        e \<noteq> NoMemory \<and> (\<exists>sz' x. pt_leaf ops st sz' v = Some x)"
      using s1 by blast
    then have "st' = st1" "r = Err e" using run g by (simp_all add: map_page_def)
    moreover have "e \<noteq> NoMemory \<Longrightarrow> pt_query ops st v \<noteq> Err NotMapped"
      using e(2) query_leaf[of st] by (metis result.distinct(1))
    ultimately show ?thesis
      using e(2) inv1 q1 by auto
  next
    case True
    then obtain t where t: "r1 = Ok (t, last (path_of sz v))"
        "pt_walk ops (pt1, m1) (butlast (path_of sz v)) = Some t"
      using s1 st1 by auto
    let ?i = "last (path_of sz v)"
    show ?thesis
    proof (cases "tabs m1 t ?i = 0")
      case False
      then have r: "st' = st1" "r = Err AlreadyMapped"
        using run g t(1) by (simp_all add: map_page_def unused_iff entry_at_def st1)
      have "sz = Size4K \<Longrightarrow> pt_leaf ops st1 sz v = Some (tabs m1 t ?i)"
        using t(2) False by (simp add: leaf_def st1 del: path_of.simps)
      then have "sz = Size4K \<Longrightarrow> pt_query ops st v \<noteq> Err NotMapped"
        using query_leaf q1 by (metis result.distinct(1))
      with r inv1 q1 show ?thesis by simp
    next
      case True
      obtain e1 e2 where e: "pte_set_addr ops 0 (ps_align_down sz paddr) = Some e1"
          "pte_set_flags ops e1 flags (ps_is_huge sz) = Some e2" "e2 \<noteq> 0"
          "pte_is_huge ops e2 = ps_is_huge sz" "pte_addr ops e2 = ps_align_down sz paddr"
          "pte_flags ops e2 = norm_flags flags"
        using set_leaf_ok[OF ok, of 0 "ps_is_huge sz"] by auto
      have r: "st' = (pt1, write_entry (t, ?i) e2 m1)" "r = Ok ()"
        using run g t(1) True e(1,2)
        by (simp_all add: map_page_def unused_iff entry_at_def st1 set_leaf_def Page_new_aligned_def)
      note wq = write_leaf_query[OF inv1(1)[unfolded st1] t(2) refl _ e(3,4), folded r(1), folded st1]
      show ?thesis
        using wq True not_passable_0 pt_step_trans[OF inv1(2)] q1 r(2) e(5,6)
          unused_page_NotMapped[OF inv1(1)[unfolded st1] t(2) True, folded st1]
        by (auto simp: page_mapped_def)
    qed
  qed
qed


lemma unmap_page_spec:
  assumes inv: "pt_inv ops free st" and run: "unmap_page ops st v = (st', r)"
  shows "pt_inv ops free st' \<and> pt_step free st st' \<and>
    ((\<exists>pa fl sz. r = Ok (pa, sz) \<and> pt_query ops st v = Ok (pa + ps_page_offset sz v, fl, sz) \<and>
       (\<forall>u. pt_query ops st' u =
         (if page_no sz u = page_no sz v then Err NotMapped else pt_query ops st u))) \<or>
     r = Err NotMapped \<and> st' = st \<and> pt_query ops st v = Err NotMapped)"
proof (cases "\<exists>sz e. pt_leaf ops st sz v = Some e")
  case False
  then have q: "pt_query ops st v = Err NotMapped"
    using query_NotMapped[OF inv, of v] by auto
  then have "st' = st \<and> r = Err NotMapped"
    using run get_entry_mut_tree[OF pt_invD(3)[OF inv] not_present_0, of v]
    by (auto simp: unmap_page_def query_def Let_def split: prod.splits if_splits)
  with q inv pt_step_refl[of free st] show ?thesis by auto
next
  case True
  then obtain sz e where lf: "pt_leaf ops st sz v = Some e" by blast
  obtain pt s where st: "st = (pt, s)" by (cases st)
  let ?p = "butlast (path_of sz v)" and ?i = "last (path_of sz v)"
  obtain t where t: "pt_walk ops (pt, s) ?p = Some t" "tabs s t ?i = e" "e \<noteq> 0"
      "sz = Size4K \<or> pte_is_huge ops e"
    using lf by (auto simp: leaf_def st Let_def split: option.splits if_splits)
  then have "get_entry_mut ops s pt v = Ok ((t, ?i), sz)"
    by (auto simp: get_entry_mut_Ok)
  then have r: "st' = (pt, write_entry (t, ?i) 0 s)" "r = Ok (pte_addr ops e, sz)"
    using run t by (simp_all add: unmap_page_def st entry_at_def unused_iff clear_0)
  have "length ?p = 3 \<or> \<not> passable ops (tabs s t ?i) \<and> \<not> passable ops 0 \<and> (0 = (0::u64) \<or> ?p \<noteq> [] \<and> pte_is_huge ops 0)"
    using t length_butlast_path(2)[of sz v] not_passable_0 by (auto simp: passable_def)
  note wl = pt_write_leaf[OF inv[unfolded st] t(1) length_butlast_path(1) this, folded r(1), folded st, simplified]
  have "pt_query ops st' u = (if page_no sz u = page_no sz v then Err NotMapped else pt_query ops st u)" for u
  proof (cases "page_no sz u = page_no sz v")
    case True
    then have eq: "path_of sz u = path_of sz v" by (simp add: path_of_eq_iff)
    then have "pt_leaf ops st sz u = Some e" using lf leaf_path_cong by metis
    then have "pt_leaf ops st' sz' u = None" for sz'
      using wl(3)[of sz' u] leaf_unique[of "tabs (snd st)" "root_paddr (fst st)" sz u e sz'] eq
      by (cases "sz' = sz"; cases "pt_leaf ops st sz' u") (auto dest: path_of_neq_size)
    with True show ?thesis using query_NotMapped[OF wl(1), of u] by simp
  next
    case False
    then have "path_of sz' u \<noteq> path_of sz v" for sz'
      using path_of_eq_iff[of sz u v] path_of_neq_size[of sz' u sz v] by auto
    then have "pt_query ops st' u = pt_query ops st u"
      using wl(3) by (intro query_eqI[OF wl(1) inv]) simp
    with False show ?thesis by simp
  qed
  with wl(1,2) r(2) query_leaf[OF lf] show ?thesis by blast
qed

lemma update_spec:
  assumes inv: "pt_inv ops free st" and ok: "phys_frame paddr" "ok_flags flags"
    and run: "update ops st v paddr flags = (st', r)"
  shows "pt_inv ops free st' \<and> pt_step free st st' \<and>
    ((\<exists>sz. r = Ok sz \<and> (\<forall>u. pt_query ops st' u =
         (if page_no sz u = page_no sz v then Ok (paddr + ps_page_offset sz u, norm_flags flags, sz)
          else pt_query ops st u))) \<or>
     r = Err NotMapped \<and> st' = st \<and> pt_query ops st v = Err NotMapped)"
proof -
  obtain pt s where st: "st = (pt, s)" by (cases st)
  consider l sz where "get_entry_mut ops s pt v = Ok (l, sz)" | "get_entry_mut ops s pt v = Err NotMapped"
    using get_entry_mut_tree[OF pt_invD(3)[OF inv, unfolded st, simplified] not_present_0, of v] by auto
  then show ?thesis
  proof cases
    case 2
    then have "st' = st" "r = Err NotMapped" "pt_query ops st v = Err NotMapped"
      using run by (auto simp add: update_def st query_def)
    then show ?thesis using inv pt_step_refl[of free st] by simp
  next
    case (1 l sz)
    then obtain t where t: "pt_walk ops (pt, s) (butlast (path_of sz v)) = Some t"
        "l = (t, last (path_of sz v))" "sz = Size4K \<or> pte_is_huge ops (tabs s t (last (path_of sz v)))"
      by (auto simp: get_entry_mut_Ok)
    obtain e1 e2 where e: "pte_set_addr ops (entry_at s l) paddr = Some e1"
        "pte_set_flags ops e1 flags (ps_is_huge sz) = Some e2" "e2 \<noteq> 0"
        "pte_is_huge ops e2 = ps_is_huge sz" "pte_addr ops e2 = paddr" "pte_flags ops e2 = norm_flags flags"
      using set_leaf_ok[OF ok, of "entry_at s l" "ps_is_huge sz"] by auto
    have r: "st' = (pt, write_entry (t, last (path_of sz v)) e2 s)" "r = Ok sz"
      using run 1 e(1,2) t(2) by (simp_all add: update_def st set_leaf_def)
    have "sz = Size4K \<or> \<not> passable ops (tabs s t (last (path_of sz v)))"
      using t(3) by (auto simp: passable_def)
    from write_leaf_query[OF inv[unfolded st] t(1) refl this e(3,4), folded r(1), folded st]
    show ?thesis using e(5,6) r(2) by auto
  qed
qed


section \<open>Other tables\<close>

text \<open>
  A step of one table changes nothing of a table with other frames, whatever its entry type.
\<close>

lemma pt_inv_mem_cong:
  assumes inv: "pt_inv ops free (pt, s)" and s': "pmem_wf free s'" "avail free s' \<subseteq> avail free s"
      "fa_base (falloc s') = fa_base (falloc s)" and same: "\<And>t. t \<in> owned pt \<Longrightarrow> tabs s' t = tabs s t"
  shows "pt_inv ops free (pt, s')" "pt_query ops (pt, s') = pt_query ops (pt, s)"
proof -
  note tr = pt_invD(3)[OF inv, simplified]
  have pool: "pool_frame (falloc s') = pool_frame (falloc s)"
    using s'(3) by (simp add: fun_eq_iff pool_frame_def pool_index_def frame_of_def)
  show inv': "pt_inv ops free (pt, s')"
    using inv tree_cong(1)[OF tr same] s'(1,2) by (auto simp: pt_inv_def pool)
  show "pt_query ops (pt, s') = pt_query ops (pt, s)"
    using tree_leaf_cong[OF tr same] query_eqI[OF inv' inv] by (auto simp: fun_eq_iff)
qed

lemma pt_step_isolation:
  assumes step: "pt_step free (pt1, s) (pt1', s')" and inv1: "pt_inv ops1 free (pt1', s')"
    and inv: "pt_inv ops free (pt, s)" and dis: "owned pt1 \<inter> owned pt = {}"
  shows "pt_inv ops free (pt, s')" "owned pt1' \<inter> owned pt = {}"
    "pt_query ops (pt, s') = pt_query ops (pt, s)"
proof -
  have own: "owned pt1' \<subseteq> owned pt1 \<union> avail free s" "avail free s' \<subseteq> avail free s"
      "fa_base (falloc s') = fa_base (falloc s)"
    using step by (auto simp: pt_step_def)
  with dis pt_invD(2)[OF inv] show dis': "owned pt1' \<inter> owned pt = {}" by auto
  then have "t \<in> owned pt \<Longrightarrow> tabs s' t = tabs s t" for t
    using step by (auto simp: pt_step_def)
  from pt_inv_mem_cong[OF inv _ own(2,3) this] pt_invD(1)[OF inv1]
  show "pt_inv ops free (pt, s')" "pt_query ops (pt, s') = pt_query ops (pt, s)"
    by simp_all
qed


section \<open>Creating, cloning and dropping\<close>

lemma PageTable_new_spec:
  assumes "bit_alloc_spec ba free" "pmem_wf free s" and run: "PageTable_new ba s = (s', r)"
  shows "(\<exists>pt. r = Ok pt \<and> pt_inv ops free (pt, s') \<and> owned pt \<subseteq> avail free s \<and>
       avail free s' = avail free s - owned pt \<and> (\<forall>t. t \<notin> owned pt \<longrightarrow> tabs s' t = tabs s t) \<and>
       fa_base (falloc s') = fa_base (falloc s) \<and>
       tabs s' (root_paddr pt) = (\<lambda>_. 0) \<and> owned pt = {root_paddr pt} \<and>
       (\<forall>v. pt_query ops (pt, s') v = Err NotMapped)) \<or>
    r = Panic \<and> avail free s = {}"
proof (cases rule: Frame_new_zero_cases[OF assms(1,2)])
  case (2 s1)
  then show ?thesis using run by (simp add: PageTable_new_def)
next
  case (1 s1 p)
  let ?pt = "\<lparr>pt_root = \<lparr>start_paddr = p, frame_count = 1\<rparr>, intrm_tables = []\<rparr>"
  have r: "s' = s1" "r = Ok ?pt" using run 1 by (simp_all add: PageTable_new_def)
  have w: "walk_to ops (tabs s1) p q = (if q = [] then Some p else None)" for q
    by (cases q) (simp_all add: 1 walk_to.simps not_passable_0)
  have "tree ops (tabs s1) p {p}"
    by (rule treeI) (auto simp: w 1(6)[THEN fun_cong, of p, simplified] split: if_splits)
  moreover have "pool_frame (falloc s1) p"
    using free_frames_pool[OF _ 1(2)] assms(2) 1(5)
    by (simp add: pmem_wf_def pool_frame_def pool_index_def frame_of_def)
  ultimately have inv: "pt_inv ops free (?pt, s1)"
    using 1 by (simp add: pt_inv_def pt_frames_def owned_def root_paddr_def)
  have "leaf ops (tabs s1) p sz v = None" for sz v
    using length_butlast_path(3)[of sz v] by (simp add: leaf_def w)
  then have "pt_query ops (?pt, s1) v = Err NotMapped" for v
    using query_NotMapped[OF inv, of v] by (simp add: root_paddr_def)
  with inv 1 show ?thesis
    by (simp add: r owned_def pt_frames_def root_paddr_def)
qed

lemma clone_query:
  assumes inv: "pt_inv ops free (src, s)" and "f \<notin> owned src" and r: "root_paddr pt = f"
    and m: "\<And>t. t \<in> owned src \<Longrightarrow> tabs s' t = tabs s t"
      "\<And>i. i < ENTRY_COUNT \<Longrightarrow> tabs s' f i = tabs s (root_paddr src) i"
  shows "query ops s' pt v = query ops s src v"
proof -
  note tr = pt_invD(3)[OF inv, simplified]
  have c: "and_then r g = and_then r g'" if "\<And>a. r = Ok a \<Longrightarrow> g a = g' a" for r g g'
    using that by (cases r) auto
  have nt: "next_table_mut ops (tabs s t i) = Ok t' \<longleftrightarrow> walk_to ops (tabs s) t [i] = Some t'" for t i t'
    by (auto simp: next_table_mut_def walk_to.simps passable_def split: if_splits)
  have 1: "walk_to ops (tabs s) (root_paddr src) [a] = Some t \<Longrightarrow> t \<in> owned src" for a t
    using treeD(2)[OF tr, of "[a]"] by simp
  have 2: "walk_to ops (tabs s) (root_paddr src) [a] = Some t \<Longrightarrow> walk_to ops (tabs s) t [b] = Some t2 \<Longrightarrow>
      t2 \<in> owned src \<and> walk_to ops (tabs s) (root_paddr src) [a, b] = Some t2" for a b t t2
    using treeD(2)[OF tr, of "[a, b]"] by (auto simp: walk_to.simps split: if_splits)
  have 3: "walk_to ops (tabs s) (root_paddr src) [a, b] = Some t2 \<Longrightarrow> walk_to ops (tabs s) t2 [c] = Some t3 \<Longrightarrow>
      t3 \<in> owned src" for a b c t2 t3
    using treeD(2)[OF tr, of "[a, b, c]"] by (auto simp: walk_to.simps split: if_splits)
  have g: "get_entry_mut ops s' pt v = get_entry_mut ops s src v"
    unfolding get_entry_mut_def Let_def entry_at_def fst_conv snd_conv r m(2)[OF index_lt(1)]
    by (intro c) (use 1 2 3 m(1) in \<open>auto simp: nt intro!: c\<close>)
  have "fst l \<in> owned src" if "get_entry_mut ops s src v = Ok (l, sz)" for l sz
    using that treeD(2)[OF tr _ length_butlast_path(1)]
    by (auto simp: get_entry_mut_Ok simp del: path_of.simps)
  then show ?thesis
    unfolding query_def g entry_at_def by (intro c) (auto simp: m(1))
qed

end


lemma fold_Frame_drop:
  assumes "bit_alloc_spec ba free" "pmem_wf free s" "distinct (map start_paddr fs)"
    and "\<forall>f \<in> set fs. frame_count f = 1 \<and> pool_frame (falloc s) (start_paddr f) \<and>
      start_paddr f \<notin> avail free s"
  shows "avail free (fold (Frame_drop ba) fs s) = avail free s \<union> start_paddr ` set fs \<and>
    pmem_wf free (fold (Frame_drop ba) fs s) \<and> tabs (fold (Frame_drop ba) fs s) = tabs s"
  using assms(2-)
proof (induction fs arbitrary: s)
  case (Cons f fs)
  have f: "f = \<lparr>start_paddr = start_paddr f, frame_count = 1\<rparr>" using Cons.prems(3) by simp
  note d = Frame_drop_single[OF assms(1) Cons.prems(1), of "start_paddr f", folded f]
  have pool: "pool_frame (falloc (Frame_drop ba f s)) = pool_frame (falloc s)"
    using d(3) Cons.prems(3) by (simp add: fun_eq_iff pool_frame_def pool_index_def frame_of_def)
  have "\<forall>f' \<in> set fs. start_paddr f' \<noteq> start_paddr f"
    using Cons.prems(2) by (auto simp: image_iff)
  then show ?case
    using Cons.IH[of "Frame_drop ba f s"] d Cons.prems by (simp add: pool)
qed simp

lemma PageTable_drop_spec:
  assumes "bit_alloc_spec ba free" "pt_inv ops free (pt, s)"
  shows "avail free (PageTable_drop ba pt s) = avail free s \<union> owned pt"
    "pmem_wf free (PageTable_drop ba pt s)" "tabs (PageTable_drop ba pt s) = tabs s"
proof -
  note i = pt_invD[OF assms(2), simplified]
  have "start_paddr f \<notin> avail free s" if "f \<in> set (pt_frames pt)" for f
    using that i(2) by (auto simp: owned_def)
  with fold_Frame_drop[OF assms(1) i(1) i(5)] i(4)
  show "avail free (PageTable_drop ba pt s) = avail free s \<union> owned pt"
    "pmem_wf free (PageTable_drop ba pt s)" "tabs (PageTable_drop ba pt s) = tabs s"
    by (simp_all add: PageTable_drop_def owned_def pt_frames_def[symmetric])
qed

end
