(* ===== verification/PageTableMap.thy ===== *)
theory PageTableMap
  imports PageTableInv
begin

text \<open>
  The loops of \<^verbatim>\<open>map\<close> and \<^verbatim>\<open>unmap\<close> over a region: they return, they change only the addresses of
  the region, after a successful \<^verbatim>\<open>map\<close> every address of the region is translated as the region's
  mapper says, and \<^verbatim>\<open>unmap\<close> undoes it.
\<close>

section \<open>Pages and ranges\<close>

text \<open>Only the low 48 bits of an address are translated.\<close>

definition aliases :: "usize \<Rightarrow> usize set \<Rightarrow> bool" where
  "aliases u R \<longleftrightarrow> take_bit 48 u \<in> take_bit 48 ` R"

abbreviation page_range :: "PageSize \<Rightarrow> usize \<Rightarrow> usize set" where
  "page_range sz v \<equiv> addr_range v (2 ^ page_shift sz)"

lemma aliases_mono: "aliases u R \<Longrightarrow> R \<subseteq> S \<Longrightarrow> aliases u S"
  by (auto simp: aliases_def)

lemma aliases_self: "u \<in> R \<Longrightarrow> aliases u R"
  by (auto simp: aliases_def)

lemma page_range_page_no:
  assumes "ps_is_aligned sz v" "u \<in> page_range sz v"
  shows "page_no sz u = page_no sz v" "ps_align_down sz u = v"
proof -
  obtain k where k: "unat v = 2 ^ page_shift sz * k"
    using assms(1) by (auto simp: ps_is_aligned_iff elim: dvdE)
  have div: "unat u div 2 ^ page_shift sz = k"
    using assms(2) k by (intro div_nat_eqI) (auto simp: addr_range_def)
  then have "drop_bit (page_shift sz) u = drop_bit (page_shift sz) v"
    using k by (simp add: word_unat_eq_iff unat_drop_bit)
  then have "bit u (page_shift sz + n) = bit v (page_shift sz + n)" for n
    by (metis bit_drop_bit_eq comp_apply)
  then have "bit u n = bit v n" if "page_shift sz \<le> n" for n
    using that le_add_diff_inverse by metis
  then show "page_no sz u = page_no sz v" by (simp add: page_no_eq_bits)
  show "ps_align_down sz u = v"
    by (simp add: word_unat_eq_iff unat_ps_align_down minus_mod_eq_mult_div div k)
qed

lemma ps_in_page: "u \<in> page_range sz (ps_align_down sz u)"
proof -
  have "unat u mod 2 ^ page_shift sz \<le> unat u" "unat u mod 2 ^ page_shift sz < 2 ^ page_shift sz"
    by simp_all
  then show ?thesis unfolding addr_range_def mem_Collect_eq unat_ps_align_down by linarith
qed

lemma page_no_aliases:
  assumes "ps_is_aligned sz v" "unat v + 2 ^ page_shift sz \<le> 2 ^ 64" "page_no sz u = page_no sz v"
  shows "aliases u (page_range sz v)"
proof -
  let ?w = "v + ps_page_offset sz u"
  have off: "unat (ps_page_offset sz u) < 2 ^ page_shift sz"
    by (rule ps_page_offset_lt)
  then have "unat v + unat (ps_page_offset sz u) < 2 ^ 64" using assms(2) by linarith
  then have w: "?w \<in> page_range sz v"
    using off by (simp add: addr_range_def unat_add_no_wrap)
  then have pn: "page_no sz ?w = page_no sz u"
    using page_range_page_no(1)[OF assms(1) w] assms(3) by simp
  have "v + ps_page_offset sz ?w = ?w"
    using ps_align_down_plus_offset[of sz ?w] page_range_page_no(2)[OF assms(1) w] by simp
  then have "take_bit (page_shift sz) ?w = take_bit (page_shift sz) u"
    by (simp add: ps_page_offset_take_bit)
  then have lo: "n < page_shift sz \<Longrightarrow> bit ?w n = bit u n" for n
    by (metis bit_take_bit_iff)
  have "bit ?w n = bit u n" if "n < 48" for n
    using lo[of n] pn that by (cases "n < page_shift sz") (simp_all add: page_no_eq_bits)
  then have "take_bit 48 ?w = take_bit 48 u"
    by (intro bit_word_eqI) (auto simp: bit_take_bit_iff)
  with w show ?thesis unfolding aliases_def by (metis imageI)
qed

lemma page_no_aliases_iff:
  assumes "ps_is_aligned sz v" "unat v + 2 ^ page_shift sz \<le> 2 ^ 64"
  shows "aliases u (page_range sz v) \<longleftrightarrow> page_no sz u = page_no sz v"
proof
  assume "aliases u (page_range sz v)"
  then obtain w where w: "w \<in> page_range sz v" "take_bit 48 u = take_bit 48 w"
    by (auto simp: aliases_def)
  then have "page_no sz u = page_no sz w" by (simp add: page_no_def)
  with page_range_page_no(1)[OF assms(1) w(1)] show "page_no sz u = page_no sz v" by simp
qed (rule page_no_aliases[OF assms])

text \<open>A range of at most \<open>2 ^ 48\<close> bytes has no two addresses with the same translated bits.\<close>

lemma take48_inj:
  assumes "u \<in> addr_range v n" "w \<in> addr_range v n" "n \<le> 2 ^ 48" "take_bit 48 u = take_bit 48 w"
  shows "u = w"
proof -
  have "unat u mod 2 ^ 48 = unat w mod 2 ^ 48"
    using arg_cong[OF assms(4), of unat, unfolded unat_take_bit] by (simp add: take_bit_eq_mod)
  moreover have "unat u < unat w + 2 ^ 48" "unat w < unat u + 2 ^ 48"
    using assms(1-3) by (auto simp: addr_range_def)
  moreover have "x = y" if "x mod M = y mod M" "x < y + M" "y \<le> x" for x y M :: nat
  proof -
    have "M dvd x - y" using that mod_eq_dvd_iff_nat[of y x M] by simp
    then have "x - y = 0" using that by (metis add.commute less_diff_conv2 dvd_imp_le not_gr0 not_le)
    with that(3) show ?thesis by simp
  qed
  ultimately have "unat u = unat w" by (metis nat_le_linear)
  then show ?thesis by (simp add: word_unat_eq_iff)
qed

lemma page_no_neq:
  assumes "ps_is_aligned sz v" "unat v + 2 ^ page_shift sz \<le> 2 ^ 64"
    and "u \<in> addr_range v n" "u \<notin> page_range sz v" "page_range sz v \<subseteq> addr_range v n" "n \<le> 2 ^ 48"
  shows "page_no sz u \<noteq> page_no sz v"
proof
  assume "page_no sz u = page_no sz v"
  then obtain w where "w \<in> page_range sz v" "take_bit 48 u = take_bit 48 w"
    using page_no_aliases[OF assms(1,2)] by (auto simp: aliases_def)
  then show False using take48_inj[OF assms(3) _ assms(6), of w] assms(4,5) by auto
qed

section \<open>Mapping\<close>

lemma map_page_size_aligned: "is_aligned v \<Longrightarrow> ps_is_aligned (map_page_size flags v pa n) v"
  by (simp add: map_page_size_def is_aligned_4K)

lemma map_page_size_le:
  assumes "n \<noteq> 0" "is_aligned n"
  shows "page_bytes (map_page_size flags v pa n) \<le> n"
proof -
  have "0 < unat n" using assms(1) by (simp add: unat_gt_0)
  with assms(2) have "4096 \<le> unat n" by (simp add: is_aligned_iff dvd_imp_le)
  then have "page_bytes Size4K \<le> n" by (simp add: word_le_nat_alt)
  then show ?thesis by (simp add: map_page_size_def)
qed

text \<open>
  The pages chosen for addresses of \<open>R\<close> have valid frames, and each address of such a page is
  translated to \<open>tgt\<close>.
\<close>

definition mapper_ok :: "Mapper \<Rightarrow> u64 \<Rightarrow> usize set \<Rightarrow> (usize \<Rightarrow> phys_addr) \<Rightarrow> bool" where
  "mapper_ok mapper flags R tgt \<longleftrightarrow>
     (\<forall>v \<in> R. \<forall>n. is_aligned v \<longrightarrow>
        (let sz = map_page_size flags v (map_fn mapper v) n; pa = ps_align_down sz (map_fn mapper v)
         in phys_frame pa \<and> (\<forall>u \<in> page_range sz v. pa + ps_page_offset sz u = tgt u)))"

lemma mapper_okD:
  assumes "mapper_ok mapper flags R tgt" "v \<in> R" "is_aligned v"
    and "map_page_size flags v (map_fn mapper v) n = sz"
  shows "phys_frame (ps_align_down sz (map_fn mapper v))"
    "\<forall>u \<in> page_range sz v. ps_align_down sz (map_fn mapper v) + ps_page_offset sz u = tgt u"
  using assms unfolding mapper_ok_def Let_def by blast+

text \<open>\<open>R\<close> consists of whole pages that are mapped to \<open>tgt\<close>.\<close>

definition covered :: "pte_ops \<Rightarrow> 'b pt_state \<Rightarrow> usize set \<Rightarrow> (usize \<Rightarrow> phys_addr) \<Rightarrow> u64 \<Rightarrow> bool" where
  "covered ops st R tgt fl \<longleftrightarrow>
     (\<forall>u \<in> R. \<exists>sz. pt_query ops st u = Ok (tgt u, fl, sz) \<and> page_range sz (ps_align_down sz u) \<subseteq> R)"

definition map_outcome :: "pte_ops \<Rightarrow> 'b pt_state \<Rightarrow> 'b pt_state \<Rightarrow> usize set \<Rightarrow>
    (usize \<Rightarrow> phys_addr) \<Rightarrow> u64 \<Rightarrow> (unit, HvErrorNum) result \<Rightarrow> bool" where
  "map_outcome ops st st' R tgt fl r \<longleftrightarrow>
     (\<forall>u. \<not> aliases u R \<longrightarrow> pt_query ops st' u = pt_query ops st u) \<and>
     (\<forall>u. pt_query ops st u \<noteq> Err NotMapped \<longrightarrow> pt_query ops st' u = pt_query ops st u) \<and>
     (r = Ok () \<and> covered ops st' R tgt fl \<and> (\<forall>u \<in> R. pt_query ops st u = Err NotMapped) \<or>
      r = Err ENOMEM \<or> r = Err EFAULT)"

lemma map_outcome_step:
  assumes m: "page_mapped ops st st1 sz v pa fl"
    and al: "ps_is_aligned sz v" "unat v + 2 ^ page_shift sz \<le> 2 ^ 64"
    and tgt: "\<forall>u \<in> page_range sz v. pa + ps_page_offset sz u = tgt u"
    and out: "map_outcome ops st1 st' R1 tgt fl r" and R: "R = page_range sz v \<union> R1"
  shows "map_outcome ops st st' R tgt fl r"
proof -
  have nal: "\<not> aliases u R \<Longrightarrow> page_no sz u \<noteq> page_no sz v \<and> \<not> aliases u R1" for u
    using page_no_aliases[OF al, of u] aliases_mono[of u _ R] by (auto simp: R)
  have page: "pt_query ops st1 u = Ok (tgt u, fl, sz)" "pt_query ops st' u = pt_query ops st1 u"
      "pt_query ops st u = Err NotMapped" "ps_align_down sz u = v" if "u \<in> page_range sz v" for u
    using m out tgt page_range_page_no[OF al(1) that] that
    by (auto simp: page_mapped_def map_outcome_def)
  have nm: "pt_query ops st1 u = Err NotMapped \<Longrightarrow> pt_query ops st u = Err NotMapped" for u
    using m by (auto simp: page_mapped_def split: if_splits)
  have "pt_query ops st' u = pt_query ops st u" if "\<not> aliases u R" for u
    using nal[OF that] m out by (simp add: page_mapped_def map_outcome_def)
  moreover have "pt_query ops st' u = pt_query ops st u" if "pt_query ops st u \<noteq> Err NotMapped" for u
    using that m out by (auto simp: page_mapped_def map_outcome_def)
  moreover have "covered ops st' R tgt fl" if "covered ops st' R1 tgt fl"
    using that page by (auto simp: covered_def R) blast
  ultimately show ?thesis
    using out nm page(3) unfolding map_outcome_def R by blast
qed


text \<open>The addresses of \<open>R\<close> are mapped by pages that lie in \<open>R\<close>.\<close>

definition paged :: "(usize \<Rightarrow> (phys_addr \<times> u64 \<times> PageSize, PagingError) result) \<Rightarrow> usize set \<Rightarrow> bool"
  where
  "paged q R \<longleftrightarrow> (\<forall>u \<in> R. \<exists>pa fl sz. q u = Ok (pa, fl, sz) \<and>
     page_range sz (ps_align_down sz u) \<subseteq> R)"

lemma covered_paged: "covered ops st R tgt fl \<Longrightarrow> paged (pt_query ops st) R"
  unfolding covered_def paged_def by blast

lemma next_range:
  assumes "page_bytes sz \<le> n" "unat v + unat n < 2 ^ 64" "is_aligned v" "is_aligned n"
  shows "unat (v + page_bytes sz) = unat v + 2 ^ page_shift sz"
    "unat (n - page_bytes sz) = unat n - 2 ^ page_shift sz" "2 ^ page_shift sz \<le> unat n"
    "is_aligned (v + page_bytes sz)" "is_aligned (n - page_bytes sz)"
    "unat (v + page_bytes sz) + unat (n - page_bytes sz) < 2 ^ 64"
    "addr_range v (unat n) = page_range sz v \<union> addr_range (v + page_bytes sz) (unat (n - page_bytes sz))"
proof -
  note u = unat_sub_page_bytes[OF assms(1)]
  show v: "unat (v + page_bytes sz) = unat v + 2 ^ page_shift sz"
    using assms(2) u(2) by (simp add: unat_add_no_wrap unat_page_bytes)
  show n: "unat (n - page_bytes sz) = unat n - 2 ^ page_shift sz" "2 ^ page_shift sz \<le> unat n"
    using u by simp_all
  show "unat (v + page_bytes sz) + unat (n - page_bytes sz) < 2 ^ 64"
    using v n assms(2) by simp
  have "4096 dvd (2::nat) ^ page_shift sz"
    using page_shift_bounds(1)[of sz] le_imp_power_dvd[of 12 "page_shift sz" "2::nat"] by simp
  then show "is_aligned (v + page_bytes sz)" "is_aligned (n - page_bytes sz)"
    using assms(3,4) unfolding is_aligned_iff v n(1) by (simp_all add: dvd_diff_nat)
  show "addr_range v (unat n) =
      page_range sz v \<union> addr_range (v + page_bytes sz) (unat (n - page_bytes sz))"
    using n(2) unfolding addr_range_def v n(1) by auto
qed

context generic_pte
begin

lemma map_loop_spec:
  assumes spec: "bit_alloc_spec ba free" and fl: "ok_flags flags"
    and mp: "mapper_ok mapper flags R tgt"
  shows "pt_inv ops free st \<Longrightarrow> is_aligned v \<Longrightarrow> is_aligned n \<Longrightarrow> unat v + unat n < 2 ^ 64 \<Longrightarrow>
    addr_range v (unat n) \<subseteq> R \<Longrightarrow>
    \<exists>st' r. map_loop ba ops mapper flags st v n = Some (st', r) \<and> pt_inv ops free st' \<and>
      pt_step free st st' \<and> map_outcome ops st st' (addr_range v (unat n)) tgt (norm_flags flags) r"
proof (induction "unat n" arbitrary: st v n rule: less_induct)
  case less
  show ?case
  proof (cases "n = 0")
    case True
    then show ?thesis
      using less.prems(1) by (auto simp: map_loop.simps pt_step_refl map_outcome_def covered_def addr_range_def)
  next
    case False
    let ?pa = "map_fn mapper v"
    let ?sz = "map_page_size flags v ?pa n"
    note le = map_page_size_le[OF False less.prems(3), of flags v ?pa]
    note nx = next_range[OF le less.prems(4,2,3)]
    have al: "ps_is_aligned ?sz v" "unat v + 2 ^ page_shift ?sz \<le> 2 ^ 64"
      using map_page_size_aligned[OF less.prems(2)] nx(3) less.prems(4) by simp_all
    have "v \<in> R" using less.prems(5) False by (auto simp: addr_range_def unat_gt_0)
    then have ok: "phys_frame (ps_align_down ?sz ?pa)"
        "\<forall>u \<in> page_range ?sz v. ps_align_down ?sz ?pa + ps_page_offset ?sz u = tgt u"
      using mapper_okD[OF mp _ less.prems(2) refl] by blast+
    obtain st1 r1 where run: "map_page ba ops st (Page_new_aligned v ?sz) ?pa flags = (st1, r1)"
      by fastforce
    note ps = map_page_spec[OF spec less.prems(1) ok(1) fl run]
    show ?thesis
    proof (cases r1)
      case (Ok x)
      with ps have s1: "pt_inv ops free st1" "pt_step free st st1"
          "page_mapped ops st st1 ?sz v (ps_align_down ?sz ?pa) (norm_flags flags)" by auto
      obtain st' r where ih: "map_loop ba ops mapper flags st1 (v + page_bytes ?sz) (n - page_bytes ?sz) = Some (st', r)"
          "pt_inv ops free st'" "pt_step free st1 st'"
          "map_outcome ops st1 st' (addr_range (v + page_bytes ?sz) (unat (n - page_bytes ?sz))) tgt (norm_flags flags) r"
        using less.hyps[OF _ s1(1) nx(4,5,6)] less.prems(5) nx(7) unat_sub_page_bytes(3)[OF le] by auto
      have "map_loop ba ops mapper flags st v n = Some (st', r)"
        using ih(1) False run Ok by (subst map_loop.simps) (simp add: Let_def)
      then show ?thesis
        using ih(2) pt_step_trans[OF s1(2) ih(3)] map_outcome_step[OF s1(3) al ok(2) ih(4) nx(7)] by blast
    next
      case (Err e)
      with ps have s1: "pt_inv ops free st1" "pt_step free st st1" "pt_query ops st1 = pt_query ops st"
        by auto
      have "map_loop ba ops mapper flags st v n = Some (st1, Err (HvError_from_PagingError e))"
        using False run Err by (subst map_loop.simps) (simp add: Let_def)
      moreover have "HvError_from_PagingError e \<in> {ENOMEM, EFAULT}"
        by (simp add: HvError_from_PagingError_def split: PagingError.split)
      ultimately show ?thesis using s1 by (auto simp: map_outcome_def)
    next
      case Panic
      then show ?thesis using ps by auto
    qed
  qed
qed


text \<open>
  With 4 KiB pages only, mapping a region that is free fails only when no frame is left for a
  table.
\<close>

lemma map_loop_4K:
  assumes spec: "bit_alloc_spec ba free" and fl: "ok_flags flags" "contains flags MEM_NO_HUGEPAGES"
    and mp: "mapper_ok mapper flags R tgt"
  shows "pt_inv ops free st \<Longrightarrow> is_aligned v \<Longrightarrow> is_aligned n \<Longrightarrow> unat v + unat n < 2 ^ 64 \<Longrightarrow>
    unat n \<le> 2 ^ 48 \<Longrightarrow> addr_range v (unat n) \<subseteq> R \<Longrightarrow>
    \<forall>u \<in> addr_range v (unat n). pt_query ops st u = Err NotMapped \<Longrightarrow>
    map_loop ba ops mapper flags st v n = Some (st', r) \<Longrightarrow>
    r = Ok () \<or> r = Err ENOMEM \<and> avail free (snd st') = {}"
proof (induction "unat n" arbitrary: st v n rule: less_induct)
  case less
  show ?case
  proof (cases "n = 0")
    case True
    then show ?thesis using less.prems(8) by (simp add: map_loop.simps)
  next
    case False
    let ?pa = "map_fn mapper v"
    have sz: "map_page_size flags v ?pa n = Size4K" using fl(2) by (simp add: map_page_size_def)
    have le: "page_bytes Size4K \<le> n"
      using map_page_size_le[OF False less.prems(3), of flags v ?pa] by (simp only: sz)
    note nx = next_range[OF le less.prems(4,2,3)]
    have al: "ps_is_aligned Size4K v" "unat v + 2 ^ page_shift Size4K \<le> 2 ^ 64"
      using less.prems(2,4) nx(3) by (simp_all add: is_aligned_4K)
    have v: "v \<in> addr_range v (unat n)" using False by (auto simp: addr_range_def unat_gt_0)
    then have ok: "phys_frame (ps_align_down Size4K ?pa)"
      using mapper_okD(1)[OF mp _ less.prems(2) sz] less.prems(6) by blast
    obtain st1 r1 where run: "map_page ba ops st (Page_new_aligned v Size4K) ?pa flags = (st1, r1)"
      by fastforce
    note ps = map_page_spec[OF spec less.prems(1) ok fl(1) run]
    note loop = less.prems(8)[unfolded map_loop.simps[of ba ops mapper flags st v n]]
    show ?thesis
    proof (cases r1)
      case (Ok x)
      with ps have s1: "pt_inv ops free st1"
          "page_mapped ops st st1 Size4K v (ps_align_down Size4K ?pa) (norm_flags flags)" by auto
      have rest: "pt_query ops st1 u = Err NotMapped"
        if "u \<in> addr_range (v + page_bytes Size4K) (unat (n - page_bytes Size4K))" for u
      proof -
        have "u \<in> addr_range v (unat n)" "u \<notin> page_range Size4K v" "page_range Size4K v \<subseteq> addr_range v (unat n)"
          using that nx(1,7) by (auto simp: addr_range_def)
        from page_no_neq[OF al this less.prems(5)] this(1) less.prems(7) s1(2)
        show ?thesis by (simp add: page_mapped_def)
      qed
      have "map_loop ba ops mapper flags st1 (v + page_bytes Size4K) (n - page_bytes Size4K) = Some (st', r)"
        using loop False run Ok sz by (simp add: Let_def)
      from less.hyps[OF unat_sub_page_bytes(3)[OF le] s1(1) nx(4,5,6) _ _ _ this] show ?thesis
        using rest less.prems(5,6) nx(2,7) by auto
    next
      case (Err e)
      then have "e = NoMemory" "avail free (snd st1) = {}"
        using ps less.prems(7) v by (auto split: if_splits)
      then show ?thesis
        using loop False run Err sz by (auto simp: Let_def HvError_from_PagingError_def)
    next
      case Panic
      then show ?thesis using ps by auto
    qed
  qed
qed


section \<open>Unmapping\<close>

lemma query_same_page:
  assumes "pt_query ops st v = Ok (pa, fl, sz)" "page_no sz w = page_no sz v"
  shows "\<exists>pa'. pt_query ops st w = Ok (pa', fl, sz)"
proof -
  have eq: "path_of sz w = path_of sz v" using assms(2) by (simp add: path_of_eq_iff)
  then have "pt_leaf ops st sz w = pt_leaf ops st sz v" by (rule leaf_path_cong)
  then show ?thesis using assms(1) by (auto simp: query_Ok)
qed

lemma page_start:
  assumes sub: "page_range sz (ps_align_down sz v) \<subseteq> addr_range v (unat n)"
    and lt: "unat v + unat n < 2 ^ 64"
  shows "ps_is_aligned sz v" "page_bytes sz \<le> n"
proof -
  have "ps_align_down sz v \<in> page_range sz (ps_align_down sz v)" by (simp add: addr_range_def)
  with sub have "unat v \<le> unat (ps_align_down sz v)" by (auto simp: addr_range_def)
  then have a: "ps_align_down sz v = v"
    by (simp add: word_unat_eq_iff unat_ps_align_down)
  then show "ps_is_aligned sz v" using ps_align_down_aligned ps_is_aligned_align_down by metis
  have "2 ^ page_shift sz \<le> unat n"
  proof (rule ccontr)
    assume "\<not> 2 ^ page_shift sz \<le> unat n"
    moreover have "unat (v + n) = unat v + unat n" using lt by (simp add: unat_add_no_wrap)
    ultimately have "v + n \<in> page_range sz v - addr_range v (unat n)"
      by (auto simp: addr_range_def)
    with sub a show False by auto
  qed
  then show "page_bytes sz \<le> n" by (simp add: word_le_nat_alt unat_page_bytes)
qed

lemma paged_rest:
  assumes pg: "paged (pt_query ops st) (page_range sz v \<union> R1)" and q: "pt_query ops st v = Ok (pa, fl, sz)"
    and al: "ps_is_aligned sz v"
    and q1: "\<And>u. pt_query ops st1 u =
      (if page_no sz u = page_no sz v then Err NotMapped else pt_query ops st u)"
    and ne: "\<And>u. u \<in> R1 \<Longrightarrow> page_no sz u \<noteq> page_no sz v"
  shows "paged (pt_query ops st1) R1"
  unfolding paged_def
proof
  fix u assume u: "u \<in> R1"
  then have "\<exists>pa' fl' sz'. pt_query ops st u = Ok (pa', fl', sz') \<and>
      page_range sz' (ps_align_down sz' u) \<subseteq> page_range sz v \<union> R1"
    using pg unfolding paged_def by blast
  then obtain pa' fl' sz' where q': "pt_query ops st u = Ok (pa', fl', sz')"
      and sub': "page_range sz' (ps_align_down sz' u) \<subseteq> page_range sz v \<union> R1"
    by blast
  have "w \<notin> page_range sz v" if w: "w \<in> page_range sz' (ps_align_down sz' u)" for w
  proof
    assume "w \<in> page_range sz v"
    then have 1: "page_no sz w = page_no sz v" using page_range_page_no(1)[OF al] by blast
    have "page_no sz' w = page_no sz' (ps_align_down sz' u)"
      "page_no sz' u = page_no sz' (ps_align_down sz' u)"
      using page_range_page_no(1)[OF ps_is_aligned_align_down] w ps_in_page by blast+
    then show False
      using query_same_page[OF q 1] query_same_page[OF q', of w] 1 ne[OF u] by auto
  qed
  then have "page_range sz' (ps_align_down sz' u) \<subseteq> R1" using sub' by blast
  then show "\<exists>pa fl sz. pt_query ops st1 u = Ok (pa, fl, sz) \<and> page_range sz (ps_align_down sz u) \<subseteq> R1"
    using q' q1[of u] ne[OF u] by auto
qed

lemma unmap_loop_spec:
  "pt_inv ops free st \<Longrightarrow> is_aligned v \<Longrightarrow> is_aligned n \<Longrightarrow> unat v + unat n < 2 ^ 64 \<Longrightarrow>
    unat n \<le> 2 ^ 48 \<Longrightarrow> paged (pt_query ops st) (addr_range v (unat n)) \<Longrightarrow>
    \<exists>st'. unmap_loop ops st v n = (st', Ok ()) \<and> pt_inv ops free st' \<and> pt_step free st st' \<and>
      (\<forall>u. pt_query ops st' u =
         (if aliases u (addr_range v (unat n)) then Err NotMapped else pt_query ops st u))"
proof (induction "unat n" arbitrary: st v n rule: less_induct)
  case less
  show ?case
  proof (cases "n = 0")
    case True
    then show ?thesis using less.prems(1)
      by (auto simp: unmap_loop.simps pt_step_refl addr_range_def aliases_def)
  next
    case False
    let ?R = "addr_range v (unat n)"
    have "v \<in> ?R" using False by (auto simp: addr_range_def unat_gt_0)
    then obtain pa fl sz where q: "pt_query ops st v = Ok (pa, fl, sz)"
        and sub: "page_range sz (ps_align_down sz v) \<subseteq> ?R"
      using less.prems(6) by (auto simp: paged_def)
    note a = page_start[OF sub less.prems(4)]
    note nx = next_range[OF a(2) less.prems(4,2,3)]
    have al: "unat v + 2 ^ page_shift sz \<le> 2 ^ 64" using nx(3) less.prems(4) by simp
    let ?R1 = "addr_range (v + page_bytes sz) (unat (n - page_bytes sz))"
    obtain st1 r1 where run: "unmap_page ops st v = (st1, r1)" by fastforce
    from unmap_page_spec[OF less.prems(1) run] q obtain pa1 where
        s1: "pt_inv ops free st1" "pt_step free st st1" "r1 = Ok (pa1, sz)"
        "\<And>u. pt_query ops st1 u = (if page_no sz u = page_no sz v then Err NotMapped else pt_query ops st u)"
      by auto
    have ne: "page_no sz u \<noteq> page_no sz v" if "u \<in> ?R1" for u
      by (rule page_no_neq[OF a(1) al _ _ _ less.prems(5)]) (use that nx(1,7) in \<open>auto simp: addr_range_def\<close>)
    have "paged (pt_query ops st1) ?R1"
      using paged_rest[OF less.prems(6)[unfolded nx(7)] q a(1) s1(4) ne] by blast
    moreover have "unat (n - page_bytes sz) \<le> 2 ^ 48" using nx(2) less.prems(5) by simp
    ultimately obtain st' where ih: "unmap_loop ops st1 (v + page_bytes sz) (n - page_bytes sz) = (st', Ok ())"
        "pt_inv ops free st'" "pt_step free st1 st'"
        "\<And>u. pt_query ops st' u = (if aliases u ?R1 then Err NotMapped else pt_query ops st1 u)"
      using less.hyps[OF unat_sub_page_bytes(3)[OF a(2)] s1(1) nx(4,5,6)] by blast
    have "unmap_loop ops st v n = (st', Ok ())"
      using ih(1) False run s1(3) a by (subst unmap_loop.simps) simp
    moreover have "aliases u ?R \<longleftrightarrow> aliases u ?R1 \<or> page_no sz u = page_no sz v" for u
      using page_no_aliases_iff[OF a(1) al, of u] nx(7) by (auto simp: aliases_def)
    ultimately show ?thesis
      using ih pt_step_trans[OF s1(2)] s1(4) by auto
  qed
qed

end


section \<open>The two mappers\<close>

lemma phys_frameI: "is_aligned p \<Longrightarrow> unat p < 2 ^ 52 \<Longrightarrow> phys_frame p"
  by (simp add: phys_frame_iff)

lemma is_aligned_diff:
  assumes "is_aligned a" "is_aligned b"
  shows "is_aligned (a - b)"
proof -
  have u: "is_aligned x \<longleftrightarrow> 4096 dvd uint x" for x
    unfolding is_aligned_iff
    using int_dvd_int_iff[of 4096 "unat x"] by simp
  have "4096 dvd uint (a - b)"
    using assms by (simp add: u uint_word_ariths dvd_mod_iff)
  then show ?thesis by (simp add: u)
qed

lemma mapper_ok_Offset:
  assumes "is_aligned off" "\<forall>u \<in> R. unat (u - off) < 2 ^ 52"
  shows "mapper_ok (Offset off) flags R (\<lambda>u. u - off)"
  unfolding mapper_ok_def Let_def
proof (intro ballI allI impI conjI)
  fix v n assume v: "v \<in> R" "is_aligned v"
  let ?sz = "map_page_size flags v (map_fn (Offset off) v) n"
  have a: "is_aligned (v - off)" using v(2) assms(1) by (rule is_aligned_diff)
  then have "ps_is_aligned ?sz (v - off)"
    by (simp add: map_page_size_def is_aligned_4K)
  then have d: "ps_align_down ?sz (map_fn (Offset off) v) = v - off"
    by (simp add: ps_align_down_aligned)
  show "phys_frame (ps_align_down ?sz (map_fn (Offset off) v))"
    unfolding d using a v(1) assms(2) by (intro phys_frameI) auto
  fix u assume "u \<in> page_range ?sz v"
  then have "v + ps_page_offset ?sz u = u"
    using page_range_page_no(2)[OF map_page_size_aligned[OF v(2)]] ps_align_down_plus_offset[of ?sz u] by simp
  then show "ps_align_down ?sz (map_fn (Offset off) v) + ps_page_offset ?sz u = u - off"
    unfolding d by (simp add: algebra_simps)
qed

lemma mapper_ok_Fixed:
  assumes "unat p < 2 ^ 52" "contains flags MEM_NO_HUGEPAGES \<or> \<not> ps_is_aligned Size2M p"
  shows "mapper_ok (Fixed p) flags R (\<lambda>u. align_down p + page_offset u)"
proof -
  have "ps_is_aligned Size1G p \<Longrightarrow> ps_is_aligned Size2M p"
    by (auto simp: ps_is_aligned_iff intro: dvd_trans[of "2 ^ 21" "2 ^ 30"])
  then have "map_page_size flags v p n = Size4K" for v n
    using assms(2) by (auto simp: map_page_size_def)
  moreover have "phys_frame (ps_align_down Size4K p)"
    using assms(1) unat_ps_align_down[of Size4K p]
    by (intro phys_frameI) (auto simp: is_aligned_4K ps_is_aligned_align_down)
  ultimately show ?thesis
    by (simp add: mapper_ok_def align_down_4K page_offset_4K)
qed

text \<open>
  Canonical addresses, where bits 47 to 63 are equal: for them translating 48 bits loses nothing.
\<close>

definition canonical :: "usize \<Rightarrow> bool" where
  "canonical v \<longleftrightarrow> unat v < 2 ^ 47 \<or> 2 ^ 64 - 2 ^ 47 \<le> unat v"

lemma canonical_alias:
  assumes "canonical u" "\<forall>v \<in> R. canonical v"
  shows "aliases u R \<longleftrightarrow> u \<in> R"
proof
  assume "aliases u R"
  then obtain v where v: "v \<in> R" "take_bit 48 u = take_bit 48 v" by (auto simp: aliases_def)
  have "unat u mod 2 ^ 48 = unat v mod 2 ^ 48"
    using arg_cong[OF v(2), of unat, unfolded unat_take_bit] by (simp add: take_bit_eq_mod)
  moreover have m: "unat w mod 2 ^ 48 = (if unat w < 2 ^ 47 then unat w else unat w - (2 ^ 64 - 2 ^ 48))"
    if "canonical w" for w
  proof (cases "unat w < 2 ^ 47")
    case False
    then have w: "2 ^ 64 - 2 ^ 47 \<le> unat w" using that by (simp add: canonical_def)
    define k where "k = unat w - (2 ^ 64 - 2 ^ 48)"
    have k: "k < 2 ^ 48" "unat w = k + 65535 * 2 ^ 48"
      using w unat_lt_2p64[of w] by (simp_all add: k_def)
    have "unat w mod 2 ^ 48 = k" unfolding k(2) by (simp only: mod_mult_self1 mod_less[OF k(1)])
    with False show ?thesis by (simp add: k_def)
  qed simp
  have cu: "unat u < 2 ^ 47 \<or> 2 ^ 64 - 2 ^ 47 \<le> unat u" "unat v < 2 ^ 47 \<or> 2 ^ 64 - 2 ^ 47 \<le> unat v"
    "unat u < 2 ^ 64" "unat v < 2 ^ 64"
    using assms v(1) unat_lt_2p64 by (auto simp: canonical_def)
  ultimately have "unat u = unat v"
    using m[OF assms(1)] m[of v] assms(2) v(1) by (auto split: if_splits)
  then show "u \<in> R" using v(1) by (simp add: word_unat_eq_iff[symmetric])
qed (rule aliases_self)

end
