(* ===== verification/MemorySet.thy ===== *)
theory MemorySet
  imports PageTableMap
begin

text \<open>
  Address spaces: \<^verbatim>\<open>MemorySet\<close> of \<^verbatim>\<open>src/src/memory/mm.rs\<close>, a page table together with the regions
  mapped in it. The set is generic in the page table, so the operations take the page table's
  \<^verbatim>\<open>map\<close> and \<^verbatim>\<open>unmap\<close>, and \<open>ms_pt\<close> is the state these work on. The \<^verbatim>\<open>BTreeMap\<close> of regions is an
  association list in key order. The locale \<open>generic_page_table\<close> is the contract of the
  \<^verbatim>\<open>GenericPageTable\<close> trait; the lemmas of this theory hold for every implementation of it.
\<close>

section \<open>Ordered maps\<close>

type_synonym region_map = "(usize \<times> MemoryRegion) list"

fun bt_insert :: "usize \<Rightarrow> MemoryRegion \<Rightarrow> region_map \<Rightarrow> region_map" where
  "bt_insert k r [] = [(k, r)]"
| "bt_insert k r ((k', r') # m) =
     (if k < k' then (k, r) # (k', r') # m
      else if k = k' then (k, r) # m
      else (k', r') # bt_insert k r m)"

definition bt_remove :: "usize \<Rightarrow> region_map \<Rightarrow> region_map" where
  "bt_remove k m = filter (\<lambda>(k', _). k' \<noteq> k) m"

text \<open>\<^verbatim>\<open>range(..k).last()\<close> and \<^verbatim>\<open>range(k..).next()\<close>.\<close>

definition bt_last_below :: "usize \<Rightarrow> region_map \<Rightarrow> MemoryRegion option" where
  "bt_last_below k m =
     (case filter (\<lambda>(k', _). k' < k) m of [] \<Rightarrow> None | xs \<Rightarrow> Some (snd (last xs)))"

definition bt_first_from :: "usize \<Rightarrow> region_map \<Rightarrow> MemoryRegion option" where
  "bt_first_from k m =
     (case filter (\<lambda>(k', _). k \<le> k') m of [] \<Rightarrow> None | x # _ \<Rightarrow> Some (snd x))"


section \<open>The operations\<close>

record 'st MemorySet =
  ms_regions :: region_map
  ms_pt :: 'st

type_synonym 'st map_fun = "'st \<Rightarrow> MemoryRegion \<Rightarrow> ('st \<times> (unit, HvErrorNum) result) option"
type_synonym 'st unmap_fun = "'st \<Rightarrow> MemoryRegion \<Rightarrow> 'st \<times> (unit, HvErrorNum) result"

definition MemorySet_new :: "'st \<Rightarrow> 'st MemorySet" where
  "MemorySet_new pt = \<lparr>ms_regions = [], ms_pt = pt\<rparr>"

definition MemorySet_clone :: "'st \<Rightarrow> 'st MemorySet \<Rightarrow> 'st MemorySet" where
  "MemorySet_clone cloned ms = \<lparr>ms_regions = ms_regions ms, ms_pt = cloned\<rparr>"

definition test_free_area :: "region_map \<Rightarrow> MemoryRegion \<Rightarrow> bool" where
  "test_free_area m other =
     (if case bt_last_below (mr_start other) m of
           Some before \<Rightarrow> is_overlap_with before other | None \<Rightarrow> False then False
      else if case bt_first_from (mr_start other) m of
           Some after \<Rightarrow> is_overlap_with after other | None \<Rightarrow> False then False
      else True)"

definition MemorySet_insert :: "'st map_fun \<Rightarrow> 'st MemorySet \<Rightarrow> MemoryRegion
  \<Rightarrow> ('st MemorySet \<times> (unit, HvErrorNum) result) option" where
  "MemorySet_insert mapf ms region =
     (if mr_size region = 0 then Some (ms, Ok ())
      else if \<not> test_free_area (ms_regions ms) region then Some (ms, Err EINVAL)
      else case mapf (ms_pt ms) region of
        None \<Rightarrow> None
      | Some (pt, Ok _) \<Rightarrow>
          Some (\<lparr>ms_regions = bt_insert (mr_start region) region (ms_regions ms), ms_pt = pt\<rparr>, Ok ())
      | Some (pt, Err e) \<Rightarrow> Some (ms\<lparr>ms_pt := pt\<rparr>, Err e)
      | Some (pt, Panic) \<Rightarrow> Some (ms\<lparr>ms_pt := pt\<rparr>, Panic))"

definition MemorySet_delete :: "'st unmap_fun \<Rightarrow> 'st MemorySet \<Rightarrow> usize
  \<Rightarrow> 'st MemorySet \<times> (unit, HvErrorNum) result" where
  "MemorySet_delete unmapf ms start =
     (case map_of (ms_regions ms) start of
        None \<Rightarrow> (ms, Err EINVAL)
      | Some region \<Rightarrow>
          (case unmapf (ms_pt ms) region of
             (pt, Ok _) \<Rightarrow> (\<lparr>ms_regions = bt_remove start (ms_regions ms), ms_pt = pt\<rparr>, Ok ())
           | (pt, Err e) \<Rightarrow> (ms\<lparr>ms_pt := pt\<rparr>, Err e)
           | (pt, Panic) \<Rightarrow> (ms\<lparr>ms_pt := pt\<rparr>, Panic)))"

text \<open>\<^verbatim>\<open>clear\<close> unwraps the result of every \<^verbatim>\<open>unmap\<close>: an error is a panic.\<close>

fun clear_loop :: "'st unmap_fun \<Rightarrow> 'st \<Rightarrow> MemoryRegion list \<Rightarrow> 'st \<times> (unit, HvErrorNum) result" where
  "clear_loop unmapf pt [] = (pt, Ok ())"
| "clear_loop unmapf pt (region # rest) =
     (case unmapf pt region of
        (pt, Ok _) \<Rightarrow> clear_loop unmapf pt rest
      | (pt, _) \<Rightarrow> (pt, Panic))"

definition MemorySet_clear :: "'st unmap_fun \<Rightarrow> 'st MemorySet
  \<Rightarrow> 'st MemorySet \<times> (unit, HvErrorNum) result" where
  "MemorySet_clear unmapf ms =
     (case clear_loop unmapf (ms_pt ms) (map snd (ms_regions ms)) of
        (pt, Ok _) \<Rightarrow> (\<lparr>ms_regions = [], ms_pt = pt\<rparr>, Ok ())
      | (pt, r) \<Rightarrow> (ms\<lparr>ms_pt := pt\<rparr>, r))"

text \<open>\<^verbatim>\<open>drop\<close> clears the set; the page table, a field of it, is dropped after that.\<close>

definition MemorySet_drop :: "'st unmap_fun \<Rightarrow> 'st MemorySet
  \<Rightarrow> 'st MemorySet \<times> (unit, HvErrorNum) result" where
  "MemorySet_drop unmapf ms = MemorySet_clear unmapf ms"


section \<open>Well-formed region maps\<close>

definition regions_wf :: "region_map \<Rightarrow> bool" where
  "regions_wf m \<longleftrightarrow> sorted_wrt (<) (map fst m) \<and>
     (\<forall>(k, r) \<in> set m. k = mr_start r \<and> region_wf r \<and> mr_size r \<noteq> 0) \<and>
     (\<forall>(k, r) \<in> set m. \<forall>(k', r') \<in> set m. k \<noteq> k' \<longrightarrow> region_addrs r \<inter> region_addrs r' = {})"

lemma set_bt_insert:
  "k \<notin> fst ` set m \<Longrightarrow> set (bt_insert k r m) = insert (k, r) (set m)"
  by (induction k r m rule: bt_insert.induct) auto

lemma sorted_bt_insert:
  "sorted_wrt (<) (map fst m) \<Longrightarrow> k \<notin> fst ` set m \<Longrightarrow> sorted_wrt (<) (map fst (bt_insert k r m))"
proof (induction k r m rule: bt_insert.induct)
  case (2 k r k' r' m)
  then show ?case by (auto simp: set_bt_insert)
qed simp

lemma set_bt_remove: "set (bt_remove k m) = {x \<in> set m. fst x \<noteq> k}"
  by (auto simp: bt_remove_def)

lemma sorted_bt_remove: "sorted_wrt (<) (map fst m) \<Longrightarrow> sorted_wrt (<) (map fst (bt_remove k m))"
  by (induction m) (auto simp: bt_remove_def)

lemma sorted_keys_distinct:
  fixes m :: region_map
  shows "sorted_wrt (<) (map fst m) \<Longrightarrow> distinct (map fst m)"
  using strict_sorted_iff by blast

lemma map_of_sorted:
  fixes m :: region_map
  shows "sorted_wrt (<) (map fst m) \<Longrightarrow> map_of m k = Some r \<longleftrightarrow> (k, r) \<in> set m"
  using sorted_keys_distinct map_of_eq_Some_iff by metis

lemma sorted_last_max:
  fixes m :: region_map
  shows "sorted_wrt (<) (map fst m) \<Longrightarrow> x \<in> set m \<Longrightarrow> fst x \<le> fst (last m)"
  by (induction m) (auto intro: less_imp_le)

lemma sorted_filter_keys:
  fixes m :: region_map
  shows "sorted_wrt (<) (map fst m) \<Longrightarrow> sorted_wrt (<) (map fst (filter P m))"
  by (induction m) auto

lemma bt_last_below_None: "bt_last_below k m = None \<Longrightarrow> (k', r') \<in> set m \<Longrightarrow> k \<le> k'"
  by (force simp: bt_last_below_def filter_empty_conv split: list.splits)

lemma bt_last_below_Some:
  assumes "sorted_wrt (<) (map fst m)" "bt_last_below k m = Some r"
  shows "\<exists>k0. (k0, r) \<in> set m \<and> k0 < k \<and> (\<forall>(k', r') \<in> set m. k' < k \<longrightarrow> k' \<le> k0)"
proof -
  let ?f = "filter (\<lambda>(k', _). k' < k) m"
  have ne: "?f \<noteq> []" "r = snd (last ?f)"
    using assms(2) by (auto simp: bt_last_below_def split: list.splits)
  have "last ?f \<in> set ?f" using ne(1) by (rule last_in_set)
  moreover have "fst x \<le> fst (last ?f)" if "x \<in> set ?f" for x
    using sorted_last_max[OF sorted_filter_keys[OF assms(1)] that] .
  ultimately show ?thesis
    by (intro exI[of _ "fst (last ?f)"]) (auto simp: ne(2))
qed

lemma bt_first_from_None: "bt_first_from k m = None \<Longrightarrow> (k', r') \<in> set m \<Longrightarrow> k' < k"
  by (force simp: bt_first_from_def filter_empty_conv split: list.splits)

lemma bt_first_from_Some:
  assumes "sorted_wrt (<) (map fst m)" "bt_first_from k m = Some r"
  shows "\<exists>k0. (k0, r) \<in> set m \<and> k \<le> k0 \<and> (\<forall>(k', r') \<in> set m. k \<le> k' \<longrightarrow> k0 \<le> k')"
proof -
  let ?f = "filter (\<lambda>(k', _). k \<le> k') m"
  obtain x xs where f: "?f = x # xs" "r = snd x"
    using assms(2) by (auto simp: bt_first_from_def split: list.splits)
  have "x \<in> set ?f" unfolding f by simp
  moreover have "fst x \<le> fst y" if "y \<in> set ?f" for y
    using sorted_filter_keys[OF assms(1), of "\<lambda>(k', _). k \<le> k'"] that unfolding f by auto
  ultimately show ?thesis
    by (intro exI[of _ "fst x"]) (auto simp: f(2))
qed

text \<open>Looking at the two neighbours is enough: the new region is disjoint from all.\<close>

lemma disjoint_order:
  assumes "region_addrs a \<inter> region_addrs b = {}" "mr_size b \<noteq> 0"
    and "unat (mr_start a) \<le> unat (mr_start b)"
  shows "unat (mr_start a) + unat (mr_size a) \<le> unat (mr_start b)"
proof (rule ccontr)
  assume "\<not> ?thesis"
  then have "mr_start b \<in> region_addrs a \<inter> region_addrs b"
    using assms(2,3) by (auto simp: region_addrs_def addr_range_def unat_gt_0)
  with assms(1) show False by blast
qed

lemma region_below_disjoint:
  assumes "unat (mr_start a) + unat (mr_size a) \<le> unat (mr_start b)"
  shows "region_addrs a \<inter> region_addrs b = {}"
  using assms by (auto simp: region_addrs_def addr_range_def)

lemma regions_wfD:
  assumes "regions_wf m"
  shows "sorted_wrt (<) (map fst m)" "(k, r) \<in> set m \<Longrightarrow> k = mr_start r \<and> region_wf r \<and> mr_size r \<noteq> 0"
    "(k, r) \<in> set m \<Longrightarrow> (k', r') \<in> set m \<Longrightarrow> k \<noteq> k' \<Longrightarrow> region_addrs r \<inter> region_addrs r' = {}"
    "(k, r) \<in> set m \<Longrightarrow> (k, r') \<in> set m \<Longrightarrow> r = r'"
proof -
  show so: "sorted_wrt (<) (map fst m)" using assms by (simp add: regions_wf_def)
  show "(k, r) \<in> set m \<Longrightarrow> k = mr_start r \<and> region_wf r \<and> mr_size r \<noteq> 0"
    using assms by (auto simp: regions_wf_def)
  show "(k, r) \<in> set m \<Longrightarrow> (k', r') \<in> set m \<Longrightarrow> k \<noteq> k' \<Longrightarrow> region_addrs r \<inter> region_addrs r' = {}"
    using assms unfolding regions_wf_def by fast
  show "(k, r) \<in> set m \<Longrightarrow> (k, r') \<in> set m \<Longrightarrow> r = r'"
    using map_of_sorted[OF so, of k] by (metis option.inject)
qed

lemma regions_wfI:
  assumes "sorted_wrt (<) (map fst m)"
    and "\<And>k r. (k, r) \<in> set m \<Longrightarrow> k = mr_start r \<and> region_wf r \<and> mr_size r \<noteq> 0"
    and "\<And>k r k' r'. (k, r) \<in> set m \<Longrightarrow> (k', r') \<in> set m \<Longrightarrow> k \<noteq> k' \<Longrightarrow>
      region_addrs r \<inter> region_addrs r' = {}"
  shows "regions_wf m"
  using assms unfolding regions_wf_def by fast

lemma regions_wf_insert:
  assumes wf: "regions_wf m" and r: "region_wf r" "mr_size r \<noteq> 0"
    and dj: "\<And>k r'. (k, r') \<in> set m \<Longrightarrow> region_addrs r' \<inter> region_addrs r = {}"
  shows "regions_wf (bt_insert (mr_start r) r m)"
    "set (bt_insert (mr_start r) r m) = insert (mr_start r, r) (set m)"
proof -
  note w = regions_wfD[OF wf]
  have new: "mr_start r \<notin> fst ` set m"
  proof
    assume "mr_start r \<in> fst ` set m"
    then obtain r' where "(mr_start r, r') \<in> set m" by force
    with dj w(2) start_in_region[OF r(2)] start_in_region[of r'] show False by fastforce
  qed
  show st: "set (bt_insert (mr_start r) r m) = insert (mr_start r, r) (set m)"
    by (rule set_bt_insert[OF new])
  show "regions_wf (bt_insert (mr_start r) r m)"
  proof (rule regions_wfI)
    fix k a k' b
    assume "(k, a) \<in> set (bt_insert (mr_start r) r m)" "(k', b) \<in> set (bt_insert (mr_start r) r m)" "k \<noteq> k'"
    then show "region_addrs a \<inter> region_addrs b = {}"
      using dj w(3)[of k a k' b] unfolding st by blast
  qed (use sorted_bt_insert[OF w(1) new] w(2) r st in auto)
qed

lemma regions_wf_remove: "regions_wf m \<Longrightarrow> regions_wf (bt_remove k m)"
  by (rule regions_wfI) (auto simp: set_bt_remove dest: regions_wfD sorted_bt_remove)

lemma test_free_area_iff:
  assumes wf: "regions_wf m" and other: "region_wf other" "mr_size other \<noteq> 0"
  shows "test_free_area m other \<longleftrightarrow> (\<forall>(k, r) \<in> set m. region_addrs r \<inter> region_addrs other = {})"
proof -
  note w = regions_wfD[OF wf]
  have ov: "is_overlap_with r other \<longleftrightarrow> region_addrs r \<inter> region_addrs other \<noteq> {}" if "(k, r) \<in> set m" for k r
    using is_overlap_with_iff[OF _ other(1) _ other(2)] w(2)[OF that] by blast
  show ?thesis
  proof
    assume "\<forall>(k, r) \<in> set m. region_addrs r \<inter> region_addrs other = {}"
    then have "\<not> is_overlap_with r other" if "(k, r) \<in> set m" for k r
      using ov[OF that] that by blast
    then show "test_free_area m other"
      using bt_last_below_Some[OF w(1), of "mr_start other"] bt_first_from_Some[OF w(1), of "mr_start other"]
      by (auto simp: test_free_area_def split: option.splits)
  next
    assume t: "test_free_area m other"
    have "region_addrs r \<inter> region_addrs other = {}" if r: "(k, r) \<in> set m" for k r
    proof (cases "k < mr_start other")
      case True
      then obtain b where "bt_last_below (mr_start other) m = Some b"
        using bt_last_below_None[OF _ r] by (cases "bt_last_below (mr_start other) m") fastforce+
      moreover from bt_last_below_Some[OF w(1) this] obtain k0
        where b: "(k0, b) \<in> set m" "k0 < mr_start other" "k \<le> k0" using r True by blast
      ultimately have nb: "region_addrs b \<inter> region_addrs other = {}"
        using t ov by (auto simp: test_free_area_def split: if_splits)
      show ?thesis
      proof (cases "k = k0")
        case False
        have "unat (mr_start r) + unat (mr_size r) \<le> unat (mr_start b)"
          using disjoint_order[OF w(3)[OF r b(1) False]] w(2)[OF r] w(2)[OF b(1)] b(3)
          by (simp add: word_le_nat_alt)
        then show ?thesis
          using b(2) w(2)[OF b(1)] by (intro region_below_disjoint) (simp add: word_less_nat_alt)
      qed (use nb w(4)[OF r, of b] b(1) in auto)
    next
      case ge: False
      then obtain a where "bt_first_from (mr_start other) m = Some a"
        using bt_first_from_None[OF _ r] by (cases "bt_first_from (mr_start other) m") fastforce+
      moreover from bt_first_from_Some[OF w(1) this] obtain k0
        where a: "(k0, a) \<in> set m" "mr_start other \<le> k0" "k0 \<le> k" using r ge by fastforce
      ultimately have na: "region_addrs other \<inter> region_addrs a = {}"
        using t ov by (auto simp: test_free_area_def split: if_splits)
      have "unat (mr_start other) + unat (mr_size other) \<le> unat (mr_start a)"
        using disjoint_order[OF na] w(2)[OF a(1)] a(2) by (simp add: word_le_nat_alt)
      then have "region_addrs other \<inter> region_addrs r = {}"
        using a(3) w(2)[OF a(1)] w(2)[OF r] by (intro region_below_disjoint) (simp add: word_le_nat_alt)
      then show ?thesis by blast
    qed
    then show "\<forall>(k, r) \<in> set m. region_addrs r \<inter> region_addrs other = {}" by blast
  qed
qed


section \<open>The page table contract\<close>

text \<open>What a mapper gives for an address, when its pages are not shared by a huge page.\<close>

definition region_target :: "MemoryRegion \<Rightarrow> usize \<Rightarrow> phys_addr" where
  "region_target r u =
     (case mr_mapper r of Offset off \<Rightarrow> u - off | Fixed p \<Rightarrow> align_down p + page_offset u)"

locale generic_page_table =
  fixes mapf :: "'st map_fun" and unmapf :: "'st unmap_fun"
    and qry :: "'st \<Rightarrow> usize \<Rightarrow> (phys_addr \<times> u64 \<times> PageSize, PagingError) result"
    and ptok :: "'st \<Rightarrow> bool" and okr :: "MemoryRegion \<Rightarrow> bool" and nf :: "u64 \<Rightarrow> u64"
  assumes okr_wf: "okr r \<Longrightarrow> region_wf r \<and> (\<forall>v \<in> region_addrs r. canonical v)"
    and map_law: "ptok st \<Longrightarrow> okr r \<Longrightarrow> \<exists>st' x. mapf st r = Some (st', x) \<and> ptok st' \<and>
      (\<forall>v. canonical v \<and> v \<notin> region_addrs r \<longrightarrow> qry st' v = qry st v) \<and>
      (\<forall>v. qry st v \<noteq> Err NotMapped \<longrightarrow> qry st' v = qry st v) \<and>
      (x = Ok () \<and> paged (qry st') (region_addrs r) \<and>
        (\<forall>v \<in> region_addrs r. \<exists>sz. qry st' v = Ok (region_target r v, nf (mr_flags r), sz)) \<or>
       x = Err ENOMEM \<or> x = Err EFAULT)"
    and unmap_law: "ptok st \<Longrightarrow> okr r \<Longrightarrow> paged (qry st) (region_addrs r) \<Longrightarrow>
      \<exists>st'. unmapf st r = (st', Ok ()) \<and> ptok st' \<and>
      (\<forall>v. canonical v \<longrightarrow> qry st' v = (if v \<in> region_addrs r then Err NotMapped else qry st v))"

text \<open>
  The set's invariant: its regions are well formed and disjoint, and the table translates every
  address of every region as the region says. A set is exact when nothing else is mapped.
\<close>

definition ms_inv :: "('st \<Rightarrow> usize \<Rightarrow> (phys_addr \<times> u64 \<times> PageSize, PagingError) result) \<Rightarrow>
    ('st \<Rightarrow> bool) \<Rightarrow> (MemoryRegion \<Rightarrow> bool) \<Rightarrow> (u64 \<Rightarrow> u64) \<Rightarrow> 'st MemorySet \<Rightarrow> bool" where
  "ms_inv qry ptok okr nf ms \<longleftrightarrow> regions_wf (ms_regions ms) \<and> ptok (ms_pt ms) \<and>
     (\<forall>(k, r) \<in> set (ms_regions ms). okr r \<and> paged (qry (ms_pt ms)) (region_addrs r) \<and>
        (\<forall>v \<in> region_addrs r. \<exists>sz. qry (ms_pt ms) v = Ok (region_target r v, nf (mr_flags r), sz)))"

definition ms_exact :: "('st \<Rightarrow> usize \<Rightarrow> (phys_addr \<times> u64 \<times> PageSize, PagingError) result) \<Rightarrow>
    'st MemorySet \<Rightarrow> bool" where
  "ms_exact qry ms \<longleftrightarrow>
     (\<forall>v. canonical v \<and> (\<forall>(k, r) \<in> set (ms_regions ms). v \<notin> region_addrs r) \<longrightarrow>
        qry (ms_pt ms) v = Err NotMapped)"

lemma paged_cong: "(\<And>v. v \<in> R \<Longrightarrow> q' v = q v) \<Longrightarrow> paged q' R = paged q R"
  by (simp add: paged_def)

context generic_page_table
begin

text \<open>A change of the table that keeps what its regions map keeps the invariant.\<close>

lemma ms_inv_pt:
  assumes "ms_inv qry ptok okr nf ms" "ptok pt'"
    and "\<And>k r v. (k, r) \<in> set (ms_regions ms) \<Longrightarrow> v \<in> region_addrs r \<Longrightarrow> qry pt' v = qry (ms_pt ms) v"
  shows "ms_inv qry ptok okr nf (ms\<lparr>ms_pt := pt'\<rparr>)"
proof -
  have "paged (qry pt') (region_addrs r) = paged (qry (ms_pt ms)) (region_addrs r)"
    if "(k, r) \<in> set (ms_regions ms)" for k r
    using assms(3)[OF that] by (rule paged_cong)
  then show ?thesis
    using assms unfolding ms_inv_def by (auto split: prod.splits)
qed

lemma insert_new_region:
  assumes ms: "ms_inv qry ptok okr nf ms" and r: "okr r" "mr_size r \<noteq> 0"
    and free: "test_free_area (ms_regions ms) r"
  obtains (Ok) pt' where
      "MemorySet_insert mapf ms r =
         Some (\<lparr>ms_regions = bt_insert (mr_start r) r (ms_regions ms), ms_pt = pt'\<rparr>, Ok ())"
      "ms_inv qry ptok okr nf \<lparr>ms_regions = bt_insert (mr_start r) r (ms_regions ms), ms_pt = pt'\<rparr>"
      "ms_exact qry ms \<Longrightarrow>
         ms_exact qry \<lparr>ms_regions = bt_insert (mr_start r) r (ms_regions ms), ms_pt = pt'\<rparr>"
      "set (bt_insert (mr_start r) r (ms_regions ms)) = insert (mr_start r, r) (set (ms_regions ms))"
  | (Err) pt' e where "MemorySet_insert mapf ms r = Some (ms\<lparr>ms_pt := pt'\<rparr>, Err e)"
      "e = ENOMEM \<or> e = EFAULT" "ms_inv qry ptok okr nf (ms\<lparr>ms_pt := pt'\<rparr>)"
proof -
  have wf: "regions_wf (ms_regions ms)" "ptok (ms_pt ms)" using ms by (simp_all add: ms_inv_def)
  note w = regions_wfD[OF wf(1)]
  have rw: "region_wf r" using okr_wf[OF r(1)] by blast
  have dj: "region_addrs r' \<inter> region_addrs r = {}" if "(k, r') \<in> set (ms_regions ms)" for k r'
    using free test_free_area_iff[OF wf(1) rw r(2)] that by blast
  obtain pt' x where m: "mapf (ms_pt ms) r = Some (pt', x)" "ptok pt'"
      "\<And>v. canonical v \<Longrightarrow> v \<notin> region_addrs r \<Longrightarrow> qry pt' v = qry (ms_pt ms) v"
      "x = Ok () \<and> paged (qry pt') (region_addrs r) \<and>
        (\<forall>v \<in> region_addrs r. \<exists>sz. qry pt' v = Ok (region_target r v, nf (mr_flags r), sz)) \<or>
       x = Err ENOMEM \<or> x = Err EFAULT"
    using map_law[OF wf(2) r(1)] by blast
  have old: "qry pt' v = qry (ms_pt ms) v" if "(k, r') \<in> set (ms_regions ms)" "v \<in> region_addrs r'" for k r' v
  proof -
    have "okr r'" using ms that(1) by (auto simp: ms_inv_def)
    then show ?thesis using m(3)[of v] okr_wf dj[OF that(1)] that(2) by blast
  qed
  have ms': "ms_inv qry ptok okr nf (ms\<lparr>ms_pt := pt'\<rparr>)"
    by (rule ms_inv_pt[OF ms m(2) old])
  show thesis
  proof (cases "x = Ok ()")
    case False
    then obtain e where "x = Err e" "e = ENOMEM \<or> e = EFAULT" using m(4) by blast
    with m(1) r(2) free ms' show thesis
      by (intro Err[of pt' e]) (auto simp: MemorySet_insert_def)
  next
    case True
    let ?ms = "\<lparr>ms_regions = bt_insert (mr_start r) r (ms_regions ms), ms_pt = pt'\<rparr>"
    note st = regions_wf_insert[OF wf(1) rw r(2) dj]
    have "okr r'" "paged (qry pt') (region_addrs r')"
        "\<forall>v \<in> region_addrs r'. \<exists>sz. qry pt' v = Ok (region_target r' v, nf (mr_flags r'), sz)"
      if "(k, r') \<in> set (ms_regions ?ms)" for k r'
      using that ms' m(4) True r(1) by (auto simp: ms_inv_def st(2))
    then have "ms_inv qry ptok okr nf ?ms"
      using m(2) st(1) unfolding ms_inv_def by auto
    moreover have "ms_exact qry ?ms" if "ms_exact qry ms"
      using that m(3) unfolding ms_exact_def by (simp add: st(2))
    ultimately show thesis
      using m(1) True r(2) free st(2) by (intro Ok[of pt']) (auto simp: MemorySet_insert_def)
  qed
qed


lemma insert_cases:
  assumes ms: "ms_inv qry ptok okr nf ms" and r: "okr r"
  shows "mr_size r = 0 \<Longrightarrow> MemorySet_insert mapf ms r = Some (ms, Ok ())"
    and "mr_size r \<noteq> 0 \<Longrightarrow> (k, r') \<in> set (ms_regions ms) \<Longrightarrow> region_addrs r' \<inter> region_addrs r \<noteq> {} \<Longrightarrow>
      MemorySet_insert mapf ms r = Some (ms, Err EINVAL)"
proof -
  show "mr_size r = 0 \<Longrightarrow> MemorySet_insert mapf ms r = Some (ms, Ok ())"
    by (simp add: MemorySet_insert_def)
  assume "mr_size r \<noteq> 0" "(k, r') \<in> set (ms_regions ms)" "region_addrs r' \<inter> region_addrs r \<noteq> {}"
  moreover have "regions_wf (ms_regions ms)" "region_wf r"
    using ms okr_wf[OF r] by (simp_all add: ms_inv_def)
  ultimately have "\<not> test_free_area (ms_regions ms) r"
    using test_free_area_iff[of "ms_regions ms" r] by blast
  with \<open>mr_size r \<noteq> 0\<close> show "MemorySet_insert mapf ms r = Some (ms, Err EINVAL)"
    by (simp add: MemorySet_insert_def)
qed

lemma delete_region:
  assumes ms: "ms_inv qry ptok okr nf ms" and k: "(k, r) \<in> set (ms_regions ms)"
  obtains pt' where
    "MemorySet_delete unmapf ms k = (\<lparr>ms_regions = bt_remove k (ms_regions ms), ms_pt = pt'\<rparr>, Ok ())"
    "ms_inv qry ptok okr nf \<lparr>ms_regions = bt_remove k (ms_regions ms), ms_pt = pt'\<rparr>"
    "\<And>v. canonical v \<Longrightarrow> qry pt' v = (if v \<in> region_addrs r then Err NotMapped else qry (ms_pt ms) v)"
proof -
  have wf: "regions_wf (ms_regions ms)" "ptok (ms_pt ms)" "okr r" "paged (qry (ms_pt ms)) (region_addrs r)"
    using ms k by (auto simp: ms_inv_def)
  note w = regions_wfD[OF wf(1)]
  obtain pt' where u: "unmapf (ms_pt ms) r = (pt', Ok ())" "ptok pt'"
      "\<And>v. canonical v \<Longrightarrow> qry pt' v = (if v \<in> region_addrs r then Err NotMapped else qry (ms_pt ms) v)"
    using unmap_law[OF wf(2-4)] by blast
  let ?ms = "\<lparr>ms_regions = bt_remove k (ms_regions ms), ms_pt = pt'\<rparr>"
  have del: "MemorySet_delete unmapf ms k = (?ms, Ok ())"
    using u(1) k map_of_sorted[OF w(1), of k r] by (simp add: MemorySet_delete_def)
  let ?m1 = "ms\<lparr>ms_regions := bt_remove k (ms_regions ms)\<rparr>"
  have m1: "ms_inv qry ptok okr nf ?m1"
    using ms regions_wf_remove[OF wf(1)] by (auto simp: ms_inv_def set_bt_remove)
  have keep: "qry pt' v = qry (ms_pt ?m1) v" if "(k', r') \<in> set (ms_regions ?m1)" "v \<in> region_addrs r'" for k' r' v
  proof -
    have r': "(k', r') \<in> set (ms_regions ms)" "k' \<noteq> k" using that(1) by (simp_all add: set_bt_remove)
    then have "okr r'" using ms by (auto simp: ms_inv_def)
    then show ?thesis using u(3)[of v] okr_wf w(3)[OF r'(1) k r'(2)] that(2) by auto
  qed
  have "ms_inv qry ptok okr nf (?m1\<lparr>ms_pt := pt'\<rparr>)"
    by (rule ms_inv_pt[OF m1 u(2)]) (rule keep)
  then have "ms_inv qry ptok okr nf ?ms" by (cases ms) simp
  with del u(3) show thesis by (intro that)
qed

lemma delete_exact:
  assumes "ms_inv qry ptok okr nf ms" "ms_exact qry ms" "(k, r) \<in> set (ms_regions ms)"
    and "\<And>v. canonical v \<Longrightarrow> qry pt' v = (if v \<in> region_addrs r then Err NotMapped else qry (ms_pt ms) v)"
  shows "ms_exact qry \<lparr>ms_regions = bt_remove k (ms_regions ms), ms_pt = pt'\<rparr>"
proof -
  have uniq: "r' = r" if "(k, r') \<in> set (ms_regions ms)" for r'
    using regions_wfD(4)[of "ms_regions ms" k r' r] that assms(1,3) by (simp add: ms_inv_def)
  have "qry pt' v = Err NotMapped"
    if v: "canonical v" "\<forall>(k', r') \<in> set (bt_remove k (ms_regions ms)). v \<notin> region_addrs r'" for v
  proof (cases "v \<in> region_addrs r")
    case False
    have "\<forall>(k', r') \<in> set (ms_regions ms). v \<notin> region_addrs r'"
      using v(2) False uniq by (auto simp: set_bt_remove)
    with assms(2,4) v(1) False show ?thesis by (simp add: ms_exact_def)
  qed (use assms(4) v(1) in simp)
  then show ?thesis by (simp add: ms_exact_def)
qed

lemma delete_absent:
  assumes "ms_inv qry ptok okr nf ms" "k \<notin> fst ` set (ms_regions ms)"
  shows "MemorySet_delete unmapf ms k = (ms, Err EINVAL)"
proof -
  have "map_of (ms_regions ms) k = None" using assms(2) by (simp add: map_of_eq_None_iff)
  then show ?thesis by (simp add: MemorySet_delete_def)
qed

lemma clear_loop_spec:
  assumes "ptok pt" "\<And>r. r \<in> set rs \<Longrightarrow> okr r \<and> paged (qry pt) (region_addrs r)"
    and "distinct rs" "\<And>r r'. r \<in> set rs \<Longrightarrow> r' \<in> set rs \<Longrightarrow> r \<noteq> r' \<Longrightarrow> region_addrs r \<inter> region_addrs r' = {}"
  shows "\<exists>pt'. clear_loop unmapf pt rs = (pt', Ok ()) \<and> ptok pt' \<and>
    (\<forall>v. canonical v \<longrightarrow> qry pt' v =
      (if \<exists>r \<in> set rs. v \<in> region_addrs r then Err NotMapped else qry pt v))"
  using assms
proof (induction rs arbitrary: pt)
  case (Cons r rs)
  obtain pt1 where u: "unmapf pt r = (pt1, Ok ())" "ptok pt1"
      "\<And>v. canonical v \<Longrightarrow> qry pt1 v = (if v \<in> region_addrs r then Err NotMapped else qry pt v)"
    using unmap_law[OF Cons.prems(1), of r] Cons.prems(2)[of r] by auto
  have "okr r' \<and> paged (qry pt1) (region_addrs r')" if r': "r' \<in> set rs" for r'
  proof -
    have ok: "okr r'" "paged (qry pt) (region_addrs r')" using Cons.prems(2)[of r'] r' by auto
    have "region_addrs r \<inter> region_addrs r' = {}" using Cons.prems(3,4) r' by auto
    then have "qry pt1 v = qry pt v" if "v \<in> region_addrs r'" for v
      using u(3)[of v] okr_wf[OF ok(1)] that by auto
    with ok show ?thesis using paged_cong[of "region_addrs r'" "qry pt1" "qry pt"] by simp
  qed
  then obtain pt' where ih: "clear_loop unmapf pt1 rs = (pt', Ok ())" "ptok pt'"
      "\<And>v. canonical v \<Longrightarrow> qry pt' v = (if \<exists>r \<in> set rs. v \<in> region_addrs r then Err NotMapped else qry pt1 v)"
    using Cons.IH[OF u(2)] Cons.prems(3,4) by force
  show ?case using ih u by auto
qed simp

lemma clear_spec:
  assumes ms: "ms_inv qry ptok okr nf ms"
  shows "\<exists>pt'. MemorySet_clear unmapf ms = (\<lparr>ms_regions = [], ms_pt = pt'\<rparr>, Ok ()) \<and> ptok pt' \<and>
    (\<forall>v. canonical v \<longrightarrow> qry pt' v =
      (if \<exists>(k, r) \<in> set (ms_regions ms). v \<in> region_addrs r then Err NotMapped else qry (ms_pt ms) v))"
proof -
  have wf: "regions_wf (ms_regions ms)" "ptok (ms_pt ms)" using ms by (simp_all add: ms_inv_def)
  note w = regions_wfD[OF wf(1)]
  have "inj_on snd (set (ms_regions ms))"
    using w(2) unfolding inj_on_def by (metis prod.collapse)
  moreover have "distinct (ms_regions ms)" using sorted_keys_distinct[OF w(1)] by (simp add: distinct_map)
  ultimately have d: "distinct (map snd (ms_regions ms))" by (simp add: distinct_map)
  have dj: "region_addrs r \<inter> region_addrs r' = {}"
    if r: "r \<in> set (map snd (ms_regions ms))" "r' \<in> set (map snd (ms_regions ms))" "r \<noteq> r'" for r r'
  proof -
    obtain k k' where "(k, r) \<in> set (ms_regions ms)" "(k', r') \<in> set (ms_regions ms)"
      using r by auto
    with w(3,4) r(3) show ?thesis by metis
  qed
  have ok: "okr r \<and> paged (qry (ms_pt ms)) (region_addrs r)" if "r \<in> set (map snd (ms_regions ms))" for r
    using that ms by (auto simp: ms_inv_def)
  have "(\<exists>r \<in> set (map snd (ms_regions ms)). v \<in> region_addrs r) \<longleftrightarrow>
      (\<exists>(k, r) \<in> set (ms_regions ms). v \<in> region_addrs r)" for v
    by force
  with clear_loop_spec[OF wf(2) ok d dj] obtain pt' where
      "clear_loop unmapf (ms_pt ms) (map snd (ms_regions ms)) = (pt', Ok ())" "ptok pt'"
      "\<forall>v. canonical v \<longrightarrow> qry pt' v = (if \<exists>(k, r) \<in> set (ms_regions ms). v \<in> region_addrs r
        then Err NotMapped else qry (ms_pt ms) v)"
    by auto
  then show ?thesis by (simp add: MemorySet_clear_def)
qed

end

end
