(* ===== verification/PageTableProps.thy ===== *)
theory PageTableProps
  imports PageTableMap
begin

text \<open>
  The properties of page tables, for the three entry formats of the code: x86-64 entries of the
  hypervisor's own table, Intel EPT entries and AMD nested page table entries.
\<close>

section \<open>Entry formats and regions\<close>

text \<open>
  An entry format with the flags it can make visible and the flags a mapping reads back with.
\<close>

definition entry_format :: "pte_ops \<Rightarrow> (u64 \<Rightarrow> bool) \<Rightarrow> (u64 \<Rightarrow> u64) \<Rightarrow> bool" where
  "entry_format ops ok nf \<longleftrightarrow>
     ops = PTEntry_ops \<and> ok = (\<lambda>f. f \<noteq> 0) \<and> nf = x86_norm_flags \<or>
     ops = EPTEntry_ops \<and> ok = (\<lambda>_. True) \<and> nf = ept_norm_flags \<or>
     ops = NPTEntry_ops \<and> ok = (\<lambda>_. True) \<and> nf = npt_norm_flags"

lemma entry_format_generic: "entry_format ops ok nf \<Longrightarrow> generic_pte ops ok nf"
  using x86.generic_pte_axioms ept.generic_pte_axioms npt.generic_pte_axioms
  by (auto simp: entry_format_def)

lemmas fmt_map = generic_pte.map_loop_spec[OF entry_format_generic]
  and fmt_map_4K = generic_pte.map_loop_4K[OF entry_format_generic]
  and fmt_unmap = generic_pte.unmap_loop_spec[OF entry_format_generic]
  and fmt_isolation = generic_pte.pt_step_isolation[OF entry_format_generic]
  and fmt_new = generic_pte.PageTable_new_spec[OF entry_format_generic]
  and fmt_clone = generic_pte.clone_query[OF entry_format_generic]
  and fmt_update = generic_pte.update_spec[OF entry_format_generic]
  and fmt_NotMapped = generic_pte.query_NotMapped[OF entry_format_generic]
  and fmt_mem_cong = generic_pte.pt_inv_mem_cong[OF entry_format_generic]
  and fmt_unmap_page = generic_pte.unmap_page_spec[OF entry_format_generic]

text \<open>A region with an offset mapper whose physical addresses are below \<open>2 ^ 52\<close>.\<close>

definition offset_region :: "usize \<Rightarrow> MemoryRegion \<Rightarrow> bool" where
  "offset_region off r \<longleftrightarrow> region_wf r \<and> mr_mapper r = Offset off \<and> is_aligned off \<and>
     unat (mr_start r - off) + unat (mr_size r) \<le> 2 ^ 52"

lemma offset_region_mapper:
  assumes "offset_region off r"
  shows "mapper_ok (mr_mapper r) (mr_flags r) (region_addrs r) (\<lambda>u. u - off)"
proof -
  have "unat (u - off) < 2 ^ 52" if u: "u \<in> region_addrs r" for u
  proof -
    have "unat (u - mr_start r) < unat (mr_size r)"
      using u by (auto simp: region_addrs_def addr_range_def unat_sub_no_wrap word_le_nat_alt)
    moreover have "u - off = (mr_start r - off) + (u - mr_start r)" by simp
    then have "unat (u - off) \<le> unat (mr_start r - off) + unat (u - mr_start r)"
      by (metis mod_less_eq_dividend unat_word_ariths(1))
    ultimately show ?thesis using assms by (simp add: offset_region_def)
  qed
  then show ?thesis
    using assms mapper_ok_Offset[of off "region_addrs r" "mr_flags r"] by (simp add: offset_region_def)
qed

lemma new_with_offset_mapper_offset_region:
  assumes "unat (align_down va) + unat (align_up n) < 2 ^ 64" "unat (align_down pa) + unat (align_up n) \<le> 2 ^ 52"
  shows "offset_region (align_down va - align_down pa) (new_with_offset_mapper va pa n fl)"
  using assms is_aligned_align_down is_aligned_align_up
  by (simp add: offset_region_def new_with_offset_mapper_def MemoryRegion_new_def region_wf_def Let_def
      is_aligned_diff align_down_aligned)

lemma query_alias:
  assumes "entry_format ops ok nf" "pt_inv ops free st" "take_bit 48 u = take_bit 48 w"
  shows "pt_query ops st u = Err NotMapped \<longleftrightarrow> pt_query ops st w = Err NotMapped"
proof -
  have "path_of sz u = path_of sz w" for sz
    using assms(3) by (simp add: path_of_eq_iff page_no_def)
  then have "pt_leaf ops st sz u = pt_leaf ops st sz w" for sz
    by (rule leaf_path_cong)
  then show ?thesis using fmt_NotMapped[OF assms(1,2)] by simp
qed


section \<open>A sample table\<close>

text \<open>The table made from the sample memory, and a region of one page in it.\<close>

definition sample_pt :: Level4PageTable where
  "sample_pt = \<lparr>pt_root = \<lparr>start_paddr = 0x1000000, frame_count = 1\<rparr>, intrm_tables = []\<rparr>"

definition sample_mem1 :: "usize list pmem" where
  "sample_mem1 = \<lparr>falloc = \<lparr>fa_base = 0x1000000, fa_inner = [1, 2, 3, 4, 5, 6, 7]\<rparr>,
                  tabs = (\<lambda>_ _. 0)\<rparr>"

definition sample_region :: MemoryRegion where
  "sample_region = \<lparr>mr_start = 0x400000, mr_size = 0x1000,
     mr_flags = MEM_READ OR MEM_WRITE OR MEM_NO_HUGEPAGES, mr_mapper = Offset 0x200000\<rparr>"

lemma sample_pt_new: "PageTable_new list_alloc sample_mem = (sample_mem1, Ok sample_pt)"
  by (simp add: PageTable_new_def Frame_new_zero_def Frame_new_def fa_alloc_def sample_mem_eq
      list_alloc_def sample_mem1_def sample_pt_def rvm_const Frame_zero_def Frame_fill_def
      byte_entry_def fun_eq_iff)

lemma x86_format: "entry_format PTEntry_ops (\<lambda>f. f \<noteq> 0) x86_norm_flags"
  by (simp add: entry_format_def)

lemma sample_pt_inv: "pt_inv PTEntry_ops list_free (sample_pt, sample_mem1)"
  "pt_query PTEntry_ops (sample_pt, sample_mem1) v = Err NotMapped"
  using fmt_new[OF x86_format list_alloc_spec sample_mem_wf sample_pt_new] by auto

lemma sample_region_flags: "mr_flags sample_region \<noteq> 0"
  "contains (mr_flags sample_region) MEM_NO_HUGEPAGES"
  by (simp_all add: sample_region_def MEM_READ_def MEM_WRITE_def MEM_NO_HUGEPAGES_def contains_def)

lemma sample_region_ok: "offset_region 0x200000 sample_region"
  by (simp add: offset_region_def sample_region_def region_wf_def is_aligned_def page_offset_def rvm_const)

lemma sample_map_Ok:
  obtains st' where "map_region list_alloc PTEntry_ops (sample_pt, sample_mem1) sample_region = Some (st', Ok ())"
proof -
  have "snd (the (map_region list_alloc PTEntry_ops (sample_pt, sample_mem1) sample_region)) = Ok ()"
    by (simp add: map_region_def sample_region_def map_loop.simps[of _ _ _ _ _ "0x400000"]
        map_loop.simps[of _ _ _ _ _ "0x401000"] map_page_size_def ps_is_aligned_def
        ps_page_offset_def map_page_def get_entry_mut_or_create_def Page_new_aligned_def Let_def
        root_paddr_def sample_pt_def index_take_bit next_table_mut_or_create_def PTEntry_ops_def
        entry_at_def sample_mem1_def alloc_intrm_table_def Frame_new_zero_def Frame_new_def
        fa_alloc_def list_alloc_def rvm_const Frame_zero_def Frame_fill_def byte_entry_def
        write_entry_def PTEntry_set_table_def PHYS_ADDR_MASK_def PTF_PRESENT_def PTF_WRITABLE_def
        PTF_USER_ACCESSIBLE_def set_leaf_def sample_region_flags(2)[unfolded sample_region_def, simplified])
  moreover obtain st' r where "map_region list_alloc PTEntry_ops (sample_pt, sample_mem1) sample_region = Some (st', r)"
    using fmt_map[OF x86_format list_alloc_spec sample_region_flags(1) offset_region_mapper[OF sample_region_ok]
        sample_pt_inv(1), of "mr_start sample_region" "mr_size sample_region"] sample_region_ok
    by (auto simp: map_region_def offset_region_def region_wf_def region_addrs_def)
  ultimately show thesis using that by auto
qed

text \<open>A second table, with EPT entries, beside the first one.\<close>

definition sample_ept :: Level4PageTable where
  "sample_ept = \<lparr>pt_root = \<lparr>start_paddr = 0x1001000, frame_count = 1\<rparr>, intrm_tables = []\<rparr>"

definition sample_mem2 :: "usize list pmem" where
  "sample_mem2 = \<lparr>falloc = \<lparr>fa_base = 0x1000000, fa_inner = [2, 3, 4, 5, 6, 7]\<rparr>,
                  tabs = (\<lambda>_ _. 0)\<rparr>"

lemma ept_format: "entry_format EPTEntry_ops (\<lambda>_. True) ept_norm_flags"
  by (simp add: entry_format_def)

lemma sample_ept_new: "PageTable_new list_alloc sample_mem1 = (sample_mem2, Ok sample_ept)"
  by (simp add: PageTable_new_def Frame_new_zero_def Frame_new_def fa_alloc_def sample_mem1_def
      list_alloc_def sample_mem2_def sample_ept_def rvm_const Frame_zero_def Frame_fill_def
      byte_entry_def fun_eq_iff)

lemma sample_ept_inv: "pt_inv EPTEntry_ops list_free (sample_ept, sample_mem2)"
  "pt_inv PTEntry_ops list_free (sample_pt, sample_mem2)" "owned sample_pt \<inter> owned sample_ept = {}"
proof -
  have wf: "pmem_wf list_free sample_mem1" using pt_invD(1)[OF sample_pt_inv(1)] by simp
  note n = fmt_new[OF ept_format list_alloc_spec wf sample_ept_new]
  show "pt_inv EPTEntry_ops list_free (sample_ept, sample_mem2)" using n by auto
  then have "pmem_wf list_free sample_mem2" using pt_invD(1) by fastforce
  then show "pt_inv PTEntry_ops list_free (sample_pt, sample_mem2)"
    using fmt_mem_cong(1)[OF x86_format sample_pt_inv(1)] n by (auto simp: sample_mem1_def sample_mem2_def)
  show "owned sample_pt \<inter> owned sample_ept = {}"
    by (simp add: owned_def pt_frames_def sample_pt_def sample_ept_def)
qed


section \<open>Histories of a table\<close>

text \<open>Everything a caller can do to a page table, in any order and with any outcome.\<close>

definition map_request :: "(u64 \<Rightarrow> bool) \<Rightarrow> MemoryRegion \<Rightarrow> bool" where
  "map_request ok rg \<longleftrightarrow> region_wf rg \<and> ok (mr_flags rg) \<and>
     (\<exists>tgt. mapper_ok (mr_mapper rg) (mr_flags rg) (region_addrs rg) tgt)"

inductive pt_history :: "'b bit_alloc \<Rightarrow> pte_ops \<Rightarrow> (u64 \<Rightarrow> bool) \<Rightarrow> 'b pt_state \<Rightarrow> 'b pt_state \<Rightarrow> bool"
  for ba ops ok st where
  start: "pt_history ba ops ok st st"
| map: "pt_history ba ops ok st st1 \<Longrightarrow> map_request ok rg \<Longrightarrow>
    map_region ba ops st1 rg = Some (st2, r) \<Longrightarrow> pt_history ba ops ok st st2"
| unmap: "pt_history ba ops ok st st1 \<Longrightarrow> unmap_region ops st1 rg = (st2, r) \<Longrightarrow>
    pt_history ba ops ok st st2"
| update: "pt_history ba ops ok st st1 \<Longrightarrow> phys_frame pa \<Longrightarrow> ok fl \<Longrightarrow>
    update ops st1 v pa fl = (st2, r') \<Longrightarrow> pt_history ba ops ok st st2"

lemma offset_region_request: "offset_region off rg \<Longrightarrow> ok (mr_flags rg) \<Longrightarrow> map_request ok rg"
  using offset_region_mapper by (auto simp: map_request_def offset_region_def)

lemma sample_request: "map_request (\<lambda>f. f \<noteq> 0) sample_region"
  by (rule offset_region_request[OF sample_region_ok]) (rule sample_region_flags(1))

lemma map_region_step:
  assumes "entry_format ops ok nf" "bit_alloc_spec ba free" "pt_inv ops free st" "map_request ok rg"
    and "map_region ba ops st rg = Some (st', r)"
  shows "pt_inv ops free st' \<and> pt_step free st st'"
proof -
  obtain tgt where rq: "ok (mr_flags rg)" "mapper_ok (mr_mapper rg) (mr_flags rg) (region_addrs rg) tgt"
      "is_aligned (mr_start rg)" "is_aligned (mr_size rg)"
      "unat (mr_start rg) + unat (mr_size rg) < 2 ^ 64"
    using assms(4) by (auto simp: map_request_def region_wf_def)
  from fmt_map[OF assms(1,2) rq(1,2) assms(3) rq(3-5)] assms(5) show ?thesis
    by (auto simp: map_region_def region_addrs_def)
qed

lemma unmap_loop_step:
  assumes "entry_format ops ok nf"
  shows "pt_inv ops free st \<Longrightarrow> unmap_loop ops st v n = (st', r) \<Longrightarrow>
    pt_inv ops free st' \<and> pt_step free st st'"
proof (induction "unat n" arbitrary: st v n rule: less_induct)
  case less
  obtain st1 r1 where run: "unmap_page ops st v = (st1, r1)" by fastforce
  have s1: "pt_inv ops free st1" "pt_step free st st1"
    using fmt_unmap_page[OF assms less.prems(1) run] by auto
  note loop = less.prems(2)[unfolded unmap_loop.simps[of ops st v n]]
  consider "n = 0" | pa sz where "n \<noteq> 0" "r1 = Ok (pa, sz)" "ps_is_aligned sz v" "page_bytes sz \<le> n"
    | "n \<noteq> 0" "st' = st1"
    using loop run by (cases r1) (auto split: if_splits)
  then show ?case
  proof cases
    case 1
    then show ?thesis using loop less.prems(1) pt_step_refl[of free st] by simp
  next
    case 2
    then have "unmap_loop ops st1 (v + page_bytes sz) (n - page_bytes sz) = (st', r)"
      using loop run by simp
    from less.hyps[OF unat_sub_page_bytes(3)[OF 2(4)] s1(1) this] show ?thesis
      using pt_step_trans[OF s1(2)] by blast
  next
    case 3
    then show ?thesis using s1 by simp
  qed
qed

lemma pt_history_step:
  assumes "entry_format ops ok nf" "bit_alloc_spec ba free"
  shows "pt_history ba ops ok st st' \<Longrightarrow> pt_inv ops free st \<Longrightarrow> pt_inv ops free st' \<and> pt_step free st st'"
proof (induction rule: pt_history.induct)
  case start
  then show ?case by (simp add: pt_step_refl)
next
  case (map st1 rg st2 r)
  then show ?case
    using map_region_step[OF assms _ map.hyps(2,3)] pt_step_trans[of free st st1] by blast
next
  case (unmap st1 rg st2 r)
  then show ?case
    using unmap_loop_step[OF assms(1) _ unmap.hyps(2)[unfolded unmap_region_def]]
      pt_step_trans[of free st st1] by blast
next
  case (update st1 pa fl v st2 r')
  then have s1: "pt_inv ops free st1" "pt_step free st st1" by auto
  with fmt_update[OF assms(1) s1(1) update.hyps(2-4)] show ?case
    using pt_step_trans[OF s1(2)] by blast
qed


section \<open>Properties\<close>

text \<open>C1: Mapping a region of whole pages with an offset mapper always returns, keeps the shape of
  the table and never touches memory outside the table's own frames. On success every address of
  the region was unmapped before and is now translated by the offset, with the region's flags. In
  every case, errors included, addresses outside the region and addresses that were already
  mapped keep their translation, and the only errors are ENOMEM and EFAULT.\<close>

theorem map_region_correct:
  assumes "entry_format ops ok nf" "bit_alloc_spec ba free" "pt_inv ops free st"
    and "offset_region off rg" "ok (mr_flags rg)"
  shows "\<exists>st' r. map_region ba ops st rg = Some (st', r) \<and> pt_inv ops free st' \<and>
    pt_step free st st' \<and>
    (\<forall>u. \<not> aliases u (region_addrs rg) \<or> pt_query ops st u \<noteq> Err NotMapped \<longrightarrow>
       pt_query ops st' u = pt_query ops st u) \<and>
    (r = Ok () \<and>
      (\<forall>u \<in> region_addrs rg. pt_query ops st u = Err NotMapped \<and>
         (\<exists>sz. pt_query ops st' u = Ok (u - off, nf (mr_flags rg), sz))) \<or>
     r = Err ENOMEM \<or> r = Err EFAULT)"
proof -
  have wf: "is_aligned (mr_start rg)" "is_aligned (mr_size rg)"
      "unat (mr_start rg) + unat (mr_size rg) < 2 ^ 64"
    using assms(4) by (simp_all add: offset_region_def region_wf_def)
  from fmt_map[OF assms(1,2,5) offset_region_mapper[OF assms(4)] assms(3) wf]
  show ?thesis
    unfolding map_region_def region_addrs_def map_outcome_def covered_def by blast
qed

theorem map_region_correct_witness:
  "\<exists>st' r. map_region list_alloc PTEntry_ops (sample_pt, sample_mem1) sample_region = Some (st', r) \<and>
     pt_inv PTEntry_ops list_free st' \<and> r = Ok () \<and>
     (\<exists>sz. pt_query PTEntry_ops st' 0x400123 = Ok (0x200123, x86_norm_flags (mr_flags sample_region), sz))"
proof -
  obtain st' where m: "map_region list_alloc PTEntry_ops (sample_pt, sample_mem1) sample_region = Some (st', Ok ())"
    by (rule sample_map_Ok)
  have "(0x400123 :: usize) \<in> region_addrs sample_region"
    by (simp add: region_addrs_def addr_range_def sample_region_def)
  with m map_region_correct[OF x86_format list_alloc_spec sample_pt_inv(1) sample_region_ok sample_region_flags(1)]
  show ?thesis by force
qed

text \<open>C13: With 4 KiB pages, mapping a region none of whose addresses is mapped succeeds, unless
  the frame allocator has no frame left.\<close>

theorem map_region_complete:
  assumes "entry_format ops ok nf" "bit_alloc_spec ba free" "pt_inv ops free st"
    and "offset_region off rg" "ok (mr_flags rg)" "contains (mr_flags rg) MEM_NO_HUGEPAGES"
    and "unat (mr_size rg) \<le> 2 ^ 48" "\<forall>u \<in> region_addrs rg. pt_query ops st u = Err NotMapped"
  shows "\<exists>st' r. map_region ba ops st rg = Some (st', r) \<and>
    (r = Ok () \<or> r = Err ENOMEM \<and> avail free (snd st') = {})"
proof -
  have wf: "is_aligned (mr_start rg)" "is_aligned (mr_size rg)"
      "unat (mr_start rg) + unat (mr_size rg) < 2 ^ 64"
    using assms(4) by (simp_all add: offset_region_def region_wf_def)
  note mp = offset_region_mapper[OF assms(4)]
  obtain st' r where m: "map_region ba ops st rg = Some (st', r)"
    using fmt_map[OF assms(1,2,5) mp assms(3) wf] by (auto simp: map_region_def region_addrs_def)
  with fmt_map_4K[OF assms(1,2,5,6) mp assms(3) wf assms(7) _ _ m[unfolded map_region_def]] assms(8)
  show ?thesis by (simp add: region_addrs_def)
qed

theorem map_region_complete_witness:
  "\<exists>st' r. map_region list_alloc PTEntry_ops (sample_pt, sample_mem1) sample_region = Some (st', r) \<and>
    (r = Ok () \<or> r = Err ENOMEM \<and> avail list_free (snd st') = {})"
  by (rule map_region_complete[OF x86_format list_alloc_spec sample_pt_inv(1) sample_region_ok
        sample_region_flags]) (simp_all add: sample_region_def sample_pt_inv(2)[simplified])

text \<open>C9: Unmapping a region that has just been mapped succeeds, without hitting either assertion
  of the loop, and gives back every translation of the table as it was before the mapping.\<close>

theorem unmap_undoes_map:
  assumes "entry_format ops ok nf" "bit_alloc_spec ba free" "pt_inv ops free st"
    and "offset_region off rg" "ok (mr_flags rg)" "unat (mr_size rg) \<le> 2 ^ 48"
    and "map_region ba ops st rg = Some (st', Ok ())"
  shows "\<exists>st''. unmap_region ops st' rg = (st'', Ok ()) \<and> pt_inv ops free st'' \<and>
    pt_step free st st'' \<and> (\<forall>u. pt_query ops st'' u = pt_query ops st u)"
proof -
  let ?R = "region_addrs rg"
  have wf: "is_aligned (mr_start rg)" "is_aligned (mr_size rg)"
      "unat (mr_start rg) + unat (mr_size rg) < 2 ^ 64"
    using assms(4) by (simp_all add: offset_region_def region_wf_def)
  from fmt_map[OF assms(1,2,5) offset_region_mapper[OF assms(4)] assms(3) wf] assms(7)
  have m: "pt_inv ops free st'" "pt_step free st st'"
      "map_outcome ops st st' ?R (\<lambda>u. u - off) (nf (mr_flags rg)) (Ok ())"
    by (auto simp: map_region_def region_addrs_def)
  then have cov: "paged (pt_query ops st') ?R" "\<And>u. u \<in> ?R \<Longrightarrow> pt_query ops st u = Err NotMapped"
      "\<And>u. \<not> aliases u ?R \<Longrightarrow> pt_query ops st' u = pt_query ops st u"
    by (auto simp: map_outcome_def intro: covered_paged)
  obtain st'' where u: "unmap_region ops st' rg = (st'', Ok ())" "pt_inv ops free st''" "pt_step free st' st''"
      "\<And>u. pt_query ops st'' u = (if aliases u ?R then Err NotMapped else pt_query ops st' u)"
    using fmt_unmap[OF assms(1) m(1) wf assms(6) cov(1)[unfolded region_addrs_def]]
    by (auto simp: unmap_region_def region_addrs_def)
  have "pt_query ops st u = Err NotMapped" if "aliases u ?R" for u
  proof -
    obtain w where "w \<in> ?R" "take_bit 48 u = take_bit 48 w" using \<open>aliases u ?R\<close> by (auto simp: aliases_def)
    then show ?thesis using query_alias[OF assms(1,3), of u w] cov(2)[of w] by blast
  qed
  then have "pt_query ops st'' u = pt_query ops st u" for u
    using u(4)[of u] cov(3)[of u] by (cases "aliases u ?R") simp_all
  then show ?thesis
    using u(1,2) pt_step_trans[OF m(2) u(3)] by blast
qed

theorem unmap_undoes_map_witness:
  "\<exists>st' st''. map_region list_alloc PTEntry_ops (sample_pt, sample_mem1) sample_region = Some (st', Ok ()) \<and>
     unmap_region PTEntry_ops st' sample_region = (st'', Ok ()) \<and>
     (\<forall>u. pt_query PTEntry_ops st'' u = Err NotMapped)"
proof -
  obtain st' where m: "map_region list_alloc PTEntry_ops (sample_pt, sample_mem1) sample_region = Some (st', Ok ())"
    by (rule sample_map_Ok)
  have sz: "unat (mr_size sample_region) \<le> 2 ^ 48" by (simp add: sample_region_def)
  from unmap_undoes_map[OF x86_format list_alloc_spec sample_pt_inv(1) sample_region_ok
      sample_region_flags(1) sz m] m sample_pt_inv(2)
  show ?thesis by auto
qed


text \<open>C4: Two page tables with different frames do not interfere: whatever is done to one of
  them, in any order and with any errors, the other one, of the same or another entry format,
  keeps its shape, its frames and all its translations.\<close>

theorem page_tables_isolated:
  assumes "entry_format ops1 ok1 nf1" "entry_format ops2 ok2 nf2" "bit_alloc_spec ba free"
    and "pt_inv ops1 free (pt1, s)" "pt_inv ops2 free (pt2, s)" "owned pt1 \<inter> owned pt2 = {}"
    and "pt_history ba ops1 ok1 (pt1, s) (pt1', s')"
  shows "pt_inv ops2 free (pt2, s') \<and> owned pt1' \<inter> owned pt2 = {} \<and>
    (\<forall>v. query ops2 s' pt2 v = query ops2 s pt2 v)"
proof -
  have h: "pt_inv ops1 free (pt1', s')" "pt_step free (pt1, s) (pt1', s')"
    using pt_history_step[OF assms(1,3,7,4)] by auto
  from fmt_isolation[OF assms(2) h(2,1) assms(5,6)] show ?thesis
    by (simp add: fun_eq_iff)
qed

theorem page_tables_isolated_witness:
  "\<exists>pt1' s'. pt_history list_alloc PTEntry_ops (\<lambda>f. f \<noteq> 0) (sample_pt, sample_mem2) (pt1', s') \<and>
     (\<exists>r. map_region list_alloc PTEntry_ops (sample_pt, sample_mem2) sample_region = Some ((pt1', s'), r)) \<and>
     (\<forall>v. query EPTEntry_ops s' sample_ept v = query EPTEntry_ops sample_mem2 sample_ept v)"
proof -
  have wf: "is_aligned (mr_start sample_region)" "is_aligned (mr_size sample_region)"
      "unat (mr_start sample_region) + unat (mr_size sample_region) < 2 ^ 64"
    using sample_region_ok by (simp_all add: offset_region_def region_wf_def)
  obtain pt1' s' r where m: "map_region list_alloc PTEntry_ops (sample_pt, sample_mem2) sample_region = Some ((pt1', s'), r)"
    using fmt_map[OF x86_format list_alloc_spec sample_region_flags(1)
        offset_region_mapper[OF sample_region_ok] sample_ept_inv(2) wf]
    by (auto simp: map_region_def region_addrs_def)
  have h: "pt_history list_alloc PTEntry_ops (\<lambda>f. f \<noteq> 0) (sample_pt, sample_mem2) (pt1', s')"
    by (rule pt_history.map[OF pt_history.start sample_request m])
  from page_tables_isolated[OF x86_format ept_format list_alloc_spec sample_ept_inv(2,1,3) h] h m
  show ?thesis by blast
qed

text \<open>C14: No frame is lost: creating a page table, using it in any way and dropping it gives back
  the set of free frames there was before.\<close>

theorem page_table_no_leak:
  assumes "entry_format ops ok nf" "bit_alloc_spec ba free" "pmem_wf free s"
    and "PageTable_new ba s = (s1, Ok pt)" "pt_history ba ops ok (pt, s1) (pt', s2)"
  shows "pmem_wf free (PageTable_drop ba pt' s2) \<and> avail free (PageTable_drop ba pt' s2) = avail free s"
proof -
  have n: "pt_inv ops free (pt, s1)" "owned pt \<subseteq> avail free s" "avail free s1 = avail free s - owned pt"
    using fmt_new[OF assms(1-4)] by auto
  have h: "pt_inv ops free (pt', s2)" "pt_step free (pt, s1) (pt', s2)"
    using pt_history_step[OF assms(1,2,5) n(1)] by auto
  then have "owned pt' \<union> avail free s2 = owned pt \<union> avail free s1" by (simp add: pt_step_def)
  with n PageTable_drop_spec[OF assms(2) h(1)] show ?thesis by auto
qed

theorem page_table_no_leak_witness:
  "\<exists>pt' s2. pt_history list_alloc PTEntry_ops (\<lambda>f. f \<noteq> 0) (sample_pt, sample_mem1) (pt', s2) \<and>
     map_region list_alloc PTEntry_ops (sample_pt, sample_mem1) sample_region = Some ((pt', s2), Ok ()) \<and>
     avail list_free (PageTable_drop list_alloc pt' s2) = avail list_free sample_mem"
proof -
  obtain pt' s2 where m: "map_region list_alloc PTEntry_ops (sample_pt, sample_mem1) sample_region = Some ((pt', s2), Ok ())"
    using sample_map_Ok by (metis surj_pair)
  have h: "pt_history list_alloc PTEntry_ops (\<lambda>f. f \<noteq> 0) (sample_pt, sample_mem1) (pt', s2)"
    by (rule pt_history.map[OF pt_history.start sample_request m])
  from page_table_no_leak[OF x86_format list_alloc_spec sample_mem_wf sample_pt_new h] h m
  show ?thesis by blast
qed

text \<open>C15: A clone translates every address as its original, and making it does not change the
  original.\<close>

theorem clone_same_translation:
  assumes "entry_format ops ok nf" "bit_alloc_spec ba free" "pt_inv ops free (src, s)"
    and "PageTable_clone ba s src = (s', Ok pt :: (Level4PageTable, 'e) result)"
  shows "query ops s' pt v = query ops s src v \<and> query ops s' src v = query ops s src v \<and>
    pt_inv ops free (src, s')"
proof -
  obtain s1 where n: "PageTable_new ba s = (s1, Ok pt :: (Level4PageTable, 'e) result)"
    and s': "s' = s1\<lparr>tabs := (tabs s1)(root_paddr pt := (\<lambda>i. if i < ENTRY_COUNT
        then tabs s1 (root_paddr src) i else tabs s1 (root_paddr pt) i))\<rparr>"
    using assms(4) unfolding PageTable_clone_def clone_from_def st_then_Ok by auto
  have f: "owned pt = {root_paddr pt}" "owned pt \<subseteq> avail free s" "avail free s1 = avail free s - owned pt"
      "\<And>t. t \<notin> owned pt \<Longrightarrow> tabs s1 t = tabs s t" "fa_base (falloc s1) = fa_base (falloc s)"
      "pmem_wf free s1"
    using fmt_new[OF assms(1,2) _ n] pt_invD(1)[OF assms(3)] by (auto simp: pt_inv_def)
  then have dis: "root_paddr pt \<notin> owned src" using pt_invD(2)[OF assms(3)] by auto
  then have same: "t \<in> owned src \<Longrightarrow> tabs s' t = tabs s t" for t
    using f(1,4) by (auto simp: s')
  have root: "tabs s' (root_paddr pt) i = tabs s (root_paddr src) i" if "i < ENTRY_COUNT" for i
  proof -
    have "root_paddr src \<notin> owned pt" using dis f(1) root_in_owned[of src] by auto
    then have "tabs s1 (root_paddr src) = tabs s (root_paddr src)" by (rule f(4))
    with that show ?thesis by (simp add: s')
  qed
  have "query ops s' pt v = query ops s src v"
    by (rule fmt_clone[OF assms(1,3) dis refl same root])
  moreover have "pt_inv ops free (src, s')" "pt_query ops (src, s') = pt_query ops (src, s)"
    using fmt_mem_cong[OF assms(1,3) _ _ _ same] f(3,5,6) by (simp_all add: s' pmem_wf_def)
  ultimately show ?thesis by (simp add: fun_eq_iff)
qed


theorem clone_same_translation_witness:
  "\<exists>s' pt. PageTable_clone list_alloc sample_mem1 sample_pt = (s', Ok pt :: (Level4PageTable, unit) result) \<and>
     query PTEntry_ops s' pt 0x400000 = query PTEntry_ops sample_mem1 sample_pt 0x400000"
proof -
  obtain s' where c: "PageTable_clone list_alloc sample_mem1 sample_pt =
      (s', Ok sample_ept :: (Level4PageTable, unit) result)"
    by (simp add: PageTable_clone_def clone_from_def sample_ept_new)
  from clone_same_translation[OF x86_format list_alloc_spec sample_pt_inv(1) c] c
  show ?thesis by blast
qed

text \<open>C16: Updating the entry of an address gives its whole page the new frame and flags, keeps the
  page's size and leaves every address outside the page alone; it fails with NotMapped exactly when
  the tables down to the entry are missing, and then changes nothing.\<close>

theorem update_translation:
  assumes "entry_format ops ok nf" "pt_inv ops free st" "phys_frame paddr" "ok flags"
    and "update ops st v paddr flags = (st', r)"
  shows "pt_inv ops free st' \<and> pt_step free st st' \<and>
    ((\<exists>sz. r = Ok sz \<and> (\<forall>u. pt_query ops st' u =
         (if page_no sz u = page_no sz v then Ok (paddr + ps_page_offset sz u, nf flags, sz)
          else pt_query ops st u))) \<or>
     r = Err NotMapped \<and> st' = st \<and> pt_query ops st v = Err NotMapped)"
  using fmt_update[OF assms(1,2,3,4,5)] .

theorem update_translation_witness:
  "\<exists>st st' sz. map_region list_alloc PTEntry_ops (sample_pt, sample_mem1) sample_region = Some (st, Ok ()) \<and>
     update PTEntry_ops st 0x400000 0x600000 MEM_READ = (st', Ok sz) \<and>
     pt_query PTEntry_ops st' 0x400000 =
       Ok (0x600000 + ps_page_offset sz 0x400000, x86_norm_flags MEM_READ, sz)"
proof -
  obtain st where m: "map_region list_alloc PTEntry_ops (sample_pt, sample_mem1) sample_region = Some (st, Ok ())"
    by (rule sample_map_Ok)
  have inv: "pt_inv PTEntry_ops list_free st"
    using map_region_step[OF x86_format list_alloc_spec sample_pt_inv(1) sample_request m] by simp
  have wf: "is_aligned (mr_start sample_region)" "is_aligned (mr_size sample_region)"
      "unat (mr_start sample_region) + unat (mr_size sample_region) < 2 ^ 64"
    using sample_region_ok by (simp_all add: offset_region_def region_wf_def)
  have "(0x400000 :: usize) \<in> addr_range (mr_start sample_region) (unat (mr_size sample_region))"
    by (simp add: addr_range_def sample_region_def)
  with fmt_map[OF x86_format list_alloc_spec sample_region_flags(1)
        offset_region_mapper[OF sample_region_ok] sample_pt_inv(1) wf] m
  have "pt_query PTEntry_ops st 0x400000 \<noteq> Err NotMapped"
    by (force simp: map_region_def region_addrs_def map_outcome_def covered_def)
  moreover obtain st' r where u: "update PTEntry_ops st 0x400000 0x600000 MEM_READ = (st', r)"
    by fastforce
  moreover have "phys_frame 0x600000" "MEM_READ \<noteq> 0"
    by (simp_all add: phys_frame_def PHYS_ADDR_MASK_def MEM_READ_def)
  ultimately obtain sz where "r = Ok sz" "pt_query PTEntry_ops st' 0x400000 =
       Ok (0x600000 + ps_page_offset sz 0x400000, x86_norm_flags MEM_READ, sz)"
    using update_translation[OF x86_format inv, of "0x600000" MEM_READ "0x400000" st' r] by auto
  with m u show ?thesis by blast
qed

end
