(* ===== verification/MemorySetProps.thy ===== *)
theory MemorySetProps
  imports MemorySet PageTableProps
begin

text \<open>
  Level-4 page tables keep the contract of the \<^verbatim>\<open>GenericPageTable\<close> trait, for each entry format
  of the code, and with it the properties of the address spaces built on them.
\<close>

section \<open>The contract\<close>

text \<open>
  The regions for which it holds: canonical addresses, flags that are visible in the entry format
  and physical addresses an entry can hold.
\<close>

definition l4_region :: "(u64 \<Rightarrow> bool) \<Rightarrow> MemoryRegion \<Rightarrow> bool" where
  "l4_region ok r \<longleftrightarrow> region_wf r \<and> ok (mr_flags r) \<and>
     (unat (mr_start r) + unat (mr_size r) \<le> 2 ^ 47 \<or> 2 ^ 64 - 2 ^ 47 \<le> unat (mr_start r)) \<and>
     (case mr_mapper r of
        Offset off \<Rightarrow> is_aligned off \<and> unat (mr_start r - off) + unat (mr_size r) \<le> 2 ^ 52
      | Fixed p \<Rightarrow> unat p < 2 ^ 52 \<and>
          (contains (mr_flags r) MEM_NO_HUGEPAGES \<or> \<not> ps_is_aligned Size2M p))"

lemma l4_regionD:
  assumes "l4_region ok r"
  shows "region_wf r" "ok (mr_flags r)" "\<forall>v \<in> region_addrs r. canonical v"
    "unat (mr_size r) \<le> 2 ^ 48"
    "mapper_ok (mr_mapper r) (mr_flags r) (region_addrs r) (region_target r)"
proof -
  show wf: "region_wf r" "ok (mr_flags r)" using assms by (simp_all add: l4_region_def)
  show "\<forall>v \<in> region_addrs r. canonical v" "unat (mr_size r) \<le> 2 ^ 48"
    using assms by (auto simp: l4_region_def region_addrs_def addr_range_def canonical_def region_wf_def)
  show "mapper_ok (mr_mapper r) (mr_flags r) (region_addrs r) (region_target r)"
  proof (cases "mr_mapper r")
    case (Offset off)
    then have "region_target r = (\<lambda>u. u - off)" by (simp add: region_target_def fun_eq_iff)
    moreover have "offset_region off r" using assms Offset wf by (simp add: l4_region_def offset_region_def)
    ultimately show ?thesis using offset_region_mapper by metis
  next
    case (Fixed p)
    then have "region_target r = (\<lambda>u. align_down p + page_offset u)"
      by (simp add: region_target_def fun_eq_iff)
    with Fixed assms mapper_ok_Fixed[of p "mr_flags r" "region_addrs r"] show ?thesis
      by (simp add: l4_region_def)
  qed
qed

lemma level4_contract:
  assumes fmt: "entry_format ops ok nf"
  shows "generic_page_table (map_region ba ops) (unmap_region ops) (pt_query ops)
    (\<lambda>st. bit_alloc_spec ba free \<and> pt_inv ops free st) (l4_region ok) nf"
proof
  show "region_wf r \<and> (\<forall>v \<in> region_addrs r. canonical v)" if "l4_region ok r" for r
    using l4_regionD[OF that] by blast
next
  fix st r assume st: "bit_alloc_spec ba free \<and> pt_inv ops free st" and r: "l4_region ok r"
  note d = l4_regionD[OF r]
  have wf: "is_aligned (mr_start r)" "is_aligned (mr_size r)" "unat (mr_start r) + unat (mr_size r) < 2 ^ 64"
    using d(1) by (simp_all add: region_wf_def)
  obtain st' x where m: "map_region ba ops st r = Some (st', x)" "pt_inv ops free st'"
      "map_outcome ops st st' (region_addrs r) (region_target r) (nf (mr_flags r)) x"
    using fmt_map[OF fmt _ d(2) d(5) _ wf, of ba free st] st
    by (auto simp: map_region_def region_addrs_def)
  have "canonical v \<and> v \<notin> region_addrs r \<longrightarrow> pt_query ops st' v = pt_query ops st v" for v
    using m(3) canonical_alias[OF _ d(3), of v] by (auto simp: map_outcome_def)
  moreover have "covered ops st' (region_addrs r) (region_target r) (nf (mr_flags r)) \<Longrightarrow>
      paged (pt_query ops st') (region_addrs r) \<and>
      (\<forall>v \<in> region_addrs r. \<exists>sz. pt_query ops st' v = Ok (region_target r v, nf (mr_flags r), sz))"
    using covered_paged unfolding covered_def by blast
  ultimately show "\<exists>st' x. map_region ba ops st r = Some (st', x) \<and>
      (bit_alloc_spec ba free \<and> pt_inv ops free st') \<and>
      (\<forall>v. canonical v \<and> v \<notin> region_addrs r \<longrightarrow> pt_query ops st' v = pt_query ops st v) \<and>
      (\<forall>v. pt_query ops st v \<noteq> Err NotMapped \<longrightarrow> pt_query ops st' v = pt_query ops st v) \<and>
      (x = Ok () \<and> paged (pt_query ops st') (region_addrs r) \<and>
        (\<forall>v \<in> region_addrs r. \<exists>sz. pt_query ops st' v = Ok (region_target r v, nf (mr_flags r), sz)) \<or>
       x = Err ENOMEM \<or> x = Err EFAULT)"
    using m st unfolding map_outcome_def by blast
next
  fix st r assume st: "bit_alloc_spec ba free \<and> pt_inv ops free st" and r: "l4_region ok r"
    and pg: "paged (pt_query ops st) (region_addrs r)"
  note d = l4_regionD[OF r]
  have wf: "is_aligned (mr_start r)" "is_aligned (mr_size r)" "unat (mr_start r) + unat (mr_size r) < 2 ^ 64"
    using d(1) by (simp_all add: region_wf_def)
  obtain st' where u: "unmap_region ops st r = (st', Ok ())" "pt_inv ops free st'"
      "\<And>v. pt_query ops st' v = (if aliases v (region_addrs r) then Err NotMapped else pt_query ops st v)"
    using fmt_unmap[OF fmt _ wf d(4) pg[unfolded region_addrs_def], of free] st
    by (auto simp: unmap_region_def region_addrs_def)
  then show "\<exists>st'. unmap_region ops st r = (st', Ok ()) \<and> (bit_alloc_spec ba free \<and> pt_inv ops free st') \<and>
      (\<forall>v. canonical v \<longrightarrow> pt_query ops st' v =
        (if v \<in> region_addrs r then Err NotMapped else pt_query ops st v))"
    using st canonical_alias[OF _ d(3)] by auto
qed

lemma npt_format: "entry_format NPTEntry_ops (\<lambda>_. True) npt_norm_flags"
  by (simp add: entry_format_def)

interpretation host_pt: generic_page_table "map_region ba PTEntry_ops" "unmap_region PTEntry_ops"
  "pt_query PTEntry_ops" "\<lambda>st. bit_alloc_spec ba free \<and> pt_inv PTEntry_ops free st"
  "l4_region (\<lambda>f. f \<noteq> 0)" x86_norm_flags for ba free
  by (rule level4_contract[OF x86_format])

interpretation ept_pt: generic_page_table "map_region ba EPTEntry_ops" "unmap_region EPTEntry_ops"
  "pt_query EPTEntry_ops" "\<lambda>st. bit_alloc_spec ba free \<and> pt_inv EPTEntry_ops free st"
  "l4_region (\<lambda>_. True)" ept_norm_flags for ba free
  by (rule level4_contract[OF ept_format])

interpretation npt_pt: generic_page_table "map_region ba NPTEntry_ops" "unmap_region NPTEntry_ops"
  "pt_query NPTEntry_ops" "\<lambda>st. bit_alloc_spec ba free \<and> pt_inv NPTEntry_ops free st"
  "l4_region (\<lambda>_. True)" npt_norm_flags for ba free
  by (rule level4_contract[OF npt_format])


section \<open>Properties\<close>

text \<open>The invariant of an address space with a level-4 table.\<close>

abbreviation l4_inv :: "'b bit_alloc \<Rightarrow> ('b \<Rightarrow> usize set) \<Rightarrow> pte_ops \<Rightarrow> (u64 \<Rightarrow> bool) \<Rightarrow> (u64 \<Rightarrow> u64) \<Rightarrow>
    'b pt_state MemorySet \<Rightarrow> bool" where
  "l4_inv ba free ops ok nf \<equiv>
     ms_inv (pt_query ops) (\<lambda>st. bit_alloc_spec ba free \<and> pt_inv ops free st) (l4_region ok) nf"

abbreviation l4_exact :: "pte_ops \<Rightarrow> 'b pt_state MemorySet \<Rightarrow> bool" where
  "l4_exact ops \<equiv> ms_exact (pt_query ops)"

text \<open>The region that contains an address, and what it says about it.\<close>

definition ms_lookup :: "region_map \<Rightarrow> usize \<Rightarrow> MemoryRegion option" where
  "ms_lookup m v = map_option snd (find (\<lambda>(k, r). v \<in> region_addrs r) m)"

lemma ms_lookup_Some:
  assumes "regions_wf m"
  shows "ms_lookup m v = Some r \<longleftrightarrow> (\<exists>k. (k, r) \<in> set m \<and> v \<in> region_addrs r)"
proof
  assume "ms_lookup m v = Some r"
  then show "\<exists>k. (k, r) \<in> set m \<and> v \<in> region_addrs r"
    by (auto simp: ms_lookup_def find_Some_iff) (metis nth_mem)
next
  assume "\<exists>k. (k, r) \<in> set m \<and> v \<in> region_addrs r"
  then obtain k where k: "(k, r) \<in> set m" "v \<in> region_addrs r" by blast
  then obtain x where x: "find (\<lambda>(k, r). v \<in> region_addrs r) m = Some x"
    by (cases "find (\<lambda>(k, r). v \<in> region_addrs r) m") (auto simp: find_None_iff)
  then have "x \<in> set m" "v \<in> region_addrs (snd x)"
    by (auto simp: find_Some_iff case_prod_unfold)
  then have "snd x = r"
    using regions_wfD(3,4)[OF assms] k by (metis disjoint_iff prod.collapse)
  then show "ms_lookup m v = Some r" using x by (simp add: ms_lookup_def)
qed

lemma ms_lookup_None: "ms_lookup m v = None \<longleftrightarrow> (\<forall>(k, r) \<in> set m. v \<notin> region_addrs r)"
  by (auto simp: ms_lookup_def find_None_iff)

text \<open>A sample address space: the empty one of the sample table, and one with a region.\<close>

definition sample_ms :: "usize list pt_state MemorySet" where
  "sample_ms = MemorySet_new (sample_pt, sample_mem1)"

lemma sample_ms_inv: "l4_inv list_alloc list_free PTEntry_ops (\<lambda>f. f \<noteq> 0) x86_norm_flags sample_ms"
  "l4_exact PTEntry_ops sample_ms"
  using sample_pt_inv list_alloc_spec
  by (simp_all add: ms_inv_def ms_exact_def sample_ms_def MemorySet_new_def regions_wf_def)

lemma sample_l4_region: "l4_region (\<lambda>f. f \<noteq> 0) sample_region"
  using sample_region_ok sample_region_flags(1)
  by (simp add: l4_region_def offset_region_def) (simp add: sample_region_def)

lemma sample_region_size: "mr_size sample_region \<noteq> 0"
  by (simp add: sample_region_def)

lemma sample_insert_Ok:
  obtains ms' where "MemorySet_insert (map_region list_alloc PTEntry_ops) sample_ms sample_region = Some (ms', Ok ())"
    "l4_inv list_alloc list_free PTEntry_ops (\<lambda>f. f \<noteq> 0) x86_norm_flags ms'"
    "l4_exact PTEntry_ops ms'" "ms_regions ms' = [(0x400000, sample_region)]"
proof -
  have rg: "ms_regions sample_ms = []" "ms_pt sample_ms = (sample_pt, sample_mem1)"
    by (simp_all add: sample_ms_def MemorySet_new_def)
  have free: "test_free_area (ms_regions sample_ms) sample_region"
    by (simp add: rg test_free_area_def bt_last_below_def bt_first_from_def)
  obtain st' where m: "map_region list_alloc PTEntry_ops (sample_pt, sample_mem1) sample_region = Some (st', Ok ())"
    by (rule sample_map_Ok)
  show thesis
  proof (cases rule: host_pt.insert_new_region[OF sample_ms_inv(1) sample_l4_region sample_region_size free])
    case (1 pt')
    then show thesis
      using sample_ms_inv(2) by (intro that) (simp_all add: rg, simp add: sample_region_def)
  next
    case (2 pt' e)
    then show thesis using m free sample_region_size by (simp add: MemorySet_insert_def rg)
  qed
qed



text \<open>C10: Inserting a region: an empty region is ignored, a region that overlaps another one is
  refused with EINVAL and changes nothing, and for any other region either it is added, with
  everything else kept and exactness preserved, or mapping it ran out of memory or met a mapping,
  and the regions of the set keep their translations.\<close>

theorem memory_set_insert:
  assumes "entry_format ops ok nf" "l4_inv ba free ops ok nf ms" "l4_region ok r"
  shows "if mr_size r = 0 then MemorySet_insert (map_region ba ops) ms r = Some (ms, Ok ())
    else if \<exists>(k, r') \<in> set (ms_regions ms). region_addrs r' \<inter> region_addrs r \<noteq> {}
    then MemorySet_insert (map_region ba ops) ms r = Some (ms, Err EINVAL)
    else \<exists>ms' x. MemorySet_insert (map_region ba ops) ms r = Some (ms', x) \<and>
      l4_inv ba free ops ok nf ms' \<and>
      (x = Ok () \<and> set (ms_regions ms') = insert (mr_start r, r) (set (ms_regions ms)) \<and>
         (l4_exact ops ms \<longrightarrow> l4_exact ops ms') \<or>
       (x = Err ENOMEM \<or> x = Err EFAULT) \<and> ms_regions ms' = ms_regions ms)"
proof -
  note ct = level4_contract[OF assms(1), of ba free]
  note ins = generic_page_table.insert_cases[OF ct assms(2,3)]
    and new = generic_page_table.insert_new_region[OF ct assms(2,3)]
  have wf: "regions_wf (ms_regions ms)" using assms(2) by (simp add: ms_inv_def)
  show ?thesis
  proof (cases "mr_size r = 0 \<or> (\<exists>(k, r') \<in> set (ms_regions ms). region_addrs r' \<inter> region_addrs r \<noteq> {})")
    case True
    then show ?thesis using ins by auto
  next
    case False
    then have "test_free_area (ms_regions ms) r"
      using test_free_area_iff[OF wf] l4_regionD(1)[OF assms(3)] by auto
    moreover have "mr_size r \<noteq> 0" using False by blast
    ultimately have "\<exists>ms' x. MemorySet_insert (map_region ba ops) ms r = Some (ms', x) \<and>
      l4_inv ba free ops ok nf ms' \<and>
      (x = Ok () \<and> set (ms_regions ms') = insert (mr_start r, r) (set (ms_regions ms)) \<and>
         (l4_exact ops ms \<longrightarrow> l4_exact ops ms') \<or>
       (x = Err ENOMEM \<or> x = Err EFAULT) \<and> ms_regions ms' = ms_regions ms)"
      by (cases rule: new) auto
    with False show ?thesis by simp
  qed
qed


theorem memory_set_insert_witness:
  "\<exists>ms'. MemorySet_insert (map_region list_alloc PTEntry_ops) sample_ms sample_region = Some (ms', Ok ()) \<and>
     l4_exact PTEntry_ops ms' \<and>
     MemorySet_insert (map_region list_alloc PTEntry_ops) ms' sample_region = Some (ms', Err EINVAL)"
proof -
  obtain ms where ms: "MemorySet_insert (map_region list_alloc PTEntry_ops) sample_ms sample_region = Some (ms, Ok ())"
    "l4_inv list_alloc list_free PTEntry_ops (\<lambda>f. f \<noteq> 0) x86_norm_flags ms"
    "l4_exact PTEntry_ops ms" "ms_regions ms = [(0x400000, sample_region)]"
    by (rule sample_insert_Ok)
  have "region_addrs sample_region \<noteq> {}" using start_in_region[OF sample_region_size] by blast
  then have "MemorySet_insert (map_region list_alloc PTEntry_ops) ms sample_region = Some (ms, Err EINVAL)"
    using memory_set_insert[OF x86_format ms(2) sample_l4_region] sample_region_size by (simp add: ms(4))
  with ms(1,3) show ?thesis by blast
qed

text \<open>C12: Deleting the region that starts at an address unmaps exactly its addresses, keeps all
  other regions and keeps the set exact; without such a region it is refused with EINVAL and
  nothing changes.\<close>

theorem memory_set_delete:
  assumes "entry_format ops ok nf" "l4_inv ba free ops ok nf ms"
  shows "case map_of (ms_regions ms) k of
      None \<Rightarrow> MemorySet_delete (unmap_region ops) ms k = (ms, Err EINVAL)
    | Some r \<Rightarrow> \<exists>ms'. MemorySet_delete (unmap_region ops) ms k = (ms', Ok ()) \<and>
        l4_inv ba free ops ok nf ms' \<and> ms_regions ms' = bt_remove k (ms_regions ms) \<and>
        (l4_exact ops ms \<longrightarrow> l4_exact ops ms') \<and>
        (\<forall>v. canonical v \<longrightarrow> pt_query ops (ms_pt ms') v =
           (if v \<in> region_addrs r then Err NotMapped else pt_query ops (ms_pt ms) v))"
proof (cases "map_of (ms_regions ms) k")
  case None
  then have "k \<notin> fst ` set (ms_regions ms)" by (simp add: map_of_eq_None_iff)
  from generic_page_table.delete_absent[OF level4_contract[OF assms(1)] assms(2) this] None
  show ?thesis by simp
next
  case (Some r)
  note ct = level4_contract[OF assms(1), of ba free]
  have k: "(k, r) \<in> set (ms_regions ms)" using Some by (rule map_of_SomeD)
  show ?thesis
  proof (rule generic_page_table.delete_region[OF ct assms(2) k], goal_cases)
    case (1 pt')
    from generic_page_table.delete_exact[OF ct assms(2) _ k 1(3)] 1 Some show ?case by auto
  qed
qed

theorem memory_set_delete_witness:
  "\<exists>ms ms'. MemorySet_insert (map_region list_alloc PTEntry_ops) sample_ms sample_region = Some (ms, Ok ()) \<and>
     MemorySet_delete (unmap_region PTEntry_ops) ms 0x400000 = (ms', Ok ()) \<and> ms_regions ms' = [] \<and>
     l4_exact PTEntry_ops ms'"
proof -
  obtain ms where ms: "MemorySet_insert (map_region list_alloc PTEntry_ops) sample_ms sample_region = Some (ms, Ok ())"
    "l4_inv list_alloc list_free PTEntry_ops (\<lambda>f. f \<noteq> 0) x86_norm_flags ms"
    "l4_exact PTEntry_ops ms" "ms_regions ms = [(0x400000, sample_region)]"
    by (rule sample_insert_Ok)
  from memory_set_delete[OF x86_format ms(2), of "0x400000"] ms(1,3,4) show ?thesis
    by (auto simp: bt_remove_def)
qed

text \<open>C11: Clearing an address space, which is also what dropping it does, never panics: none of its
  unmap calls fails. It leaves no region, and in an exact set nothing stays mapped.\<close>

theorem memory_set_clear:
  assumes "entry_format ops ok nf" "l4_inv ba free ops ok nf ms"
  shows "\<exists>ms'. MemorySet_drop (unmap_region ops) ms = (ms', Ok ()) \<and> ms_regions ms' = [] \<and>
    l4_inv ba free ops ok nf ms' \<and>
    (\<forall>v. canonical v \<longrightarrow> pt_query ops (ms_pt ms') v =
       (if \<exists>(k, r) \<in> set (ms_regions ms). v \<in> region_addrs r then Err NotMapped
        else pt_query ops (ms_pt ms) v)) \<and>
    (l4_exact ops ms \<longrightarrow> l4_exact ops ms')"
proof -
  obtain pt' where c: "MemorySet_clear (unmap_region ops) ms = (\<lparr>ms_regions = [], ms_pt = pt'\<rparr>, Ok ())"
      "bit_alloc_spec ba free \<and> pt_inv ops free pt'"
      "\<forall>v. canonical v \<longrightarrow> pt_query ops pt' v =
        (if \<exists>(k, r) \<in> set (ms_regions ms). v \<in> region_addrs r then Err NotMapped
         else pt_query ops (ms_pt ms) v)"
    using generic_page_table.clear_spec[OF level4_contract[OF assms(1)] assms(2)] by blast
  then have "l4_inv ba free ops ok nf \<lparr>ms_regions = [], ms_pt = pt'\<rparr>"
    by (simp add: ms_inv_def regions_wf_def)
  moreover have "l4_exact ops \<lparr>ms_regions = [], ms_pt = pt'\<rparr>" if "l4_exact ops ms"
    using that c(3) unfolding ms_exact_def by auto
  ultimately show ?thesis using c(1,3) by (auto simp: MemorySet_drop_def)
qed

theorem memory_set_clear_witness:
  "\<exists>ms ms'. MemorySet_insert (map_region list_alloc PTEntry_ops) sample_ms sample_region = Some (ms, Ok ()) \<and>
     MemorySet_drop (unmap_region PTEntry_ops) ms = (ms', Ok ()) \<and> l4_exact PTEntry_ops ms'"
proof -
  obtain ms where ms: "MemorySet_insert (map_region list_alloc PTEntry_ops) sample_ms sample_region = Some (ms, Ok ())"
    "l4_inv list_alloc list_free PTEntry_ops (\<lambda>f. f \<noteq> 0) x86_norm_flags ms"
    "l4_exact PTEntry_ops ms" "ms_regions ms = [(0x400000, sample_region)]"
    by (rule sample_insert_Ok)
  from memory_set_clear[OF x86_format ms(2)] ms(1,3) show ?thesis by blast
qed

end
