(* ===== verification/RootCell.thy ===== *)
theory RootCell
  imports HvConfig MemorySetProps
begin

text \<open>
  What the primary CPU builds from the configuration: the offset between physical and virtual
  addresses and the frame pool (\<^verbatim>\<open>init_heap\<close>, \<^verbatim>\<open>frame::init\<close>), the hypervisor's own address space
  (\<^verbatim>\<open>init_hv_page_table\<close> of \<^verbatim>\<open>src/src/memory/mod.rs\<close>) and the guest-physical address space of the root
  cell (\<^verbatim>\<open>src/src/cell.rs\<close>). \<open>off\<close> is \<^verbatim>\<open>PHYS_VIRT_OFFSET\<close>, \<open>empty_page\<close> the address of \<^verbatim>\<open>EMPTY_PAGE\<close>, and
  \<open>ops\<close> the entry format of the vendor's nested page table.
\<close>


section \<open>Construction\<close>

definition init_heap_offset :: "bytes \<Rightarrow> usize \<Rightarrow> usize" where
  "init_heap_offset mem cfg = HV_BASE - hr_phys_start (hypervisor_memory mem cfg)"

definition frame_init :: "'b bit_alloc \<Rightarrow> usize \<Rightarrow> bytes \<Rightarrow> usize \<Rightarrow> HvHeader \<Rightarrow> 'b FrameAllocator \<Rightarrow> 'b FrameAllocator" where
  "frame_init ba off mem core_end h fa =
     (let mem_pool_start = free_memory_start mem core_end h;
          mem_pool_end = align_down (hv_end mem core_end h);
          mem_pool_size = mem_pool_end - mem_pool_start
      in fa_init ba fa (virt_to_phys off mem_pool_start) mem_pool_size)"

text \<open>One \<^verbatim>\<open>insert(..)?\<close> after the other; \<open>None\<close> is an insertion that does not return.\<close>

primrec insert_all :: "'st map_fun \<Rightarrow> 'st MemorySet \<Rightarrow> MemoryRegion list
    \<Rightarrow> ('st MemorySet \<times> (unit, HvErrorNum) result) option" where
  "insert_all mapf ms [] = Some (ms, Ok ())"
| "insert_all mapf ms (r # rs) =
     (case MemorySet_insert mapf ms r of
        None \<Rightarrow> None
      | Some (ms, Ok _) \<Rightarrow> insert_all mapf ms rs
      | Some (ms, Err e) \<Rightarrow> Some (ms, Err e)
      | Some (ms, Panic) \<Rightarrow> Some (ms, Panic))"

text \<open>A set that goes out of scope is cleared, and its page table gives its frames back.\<close>

definition address_space_drop :: "'b bit_alloc \<Rightarrow> pte_ops \<Rightarrow> 'b pt_state MemorySet
    \<Rightarrow> 'b pmem \<times> (unit, HvErrorNum) result" where
  "address_space_drop ba ops ms =
     (case MemorySet_drop (unmap_region ops) ms of
        (ms, Ok _) \<Rightarrow> (PageTable_drop ba (fst (ms_pt ms)) (snd (ms_pt ms)), Ok ())
      | (ms, _) \<Rightarrow> (snd (ms_pt ms), Panic))"

text \<open>
  \<^verbatim>\<open>MemorySet::new()\<close> and the insertions; on success the set with the memory it lives in, on an error
  the set is dropped.
\<close>

definition build_set :: "'b bit_alloc \<Rightarrow> pte_ops \<Rightarrow> ('b pt_state MemorySet
      \<Rightarrow> ('b pt_state MemorySet \<times> (unit, HvErrorNum) result) option) \<Rightarrow> 'b pmem
    \<Rightarrow> ('b pmem \<times> ('b pt_state MemorySet, HvErrorNum) result) option" where
  "build_set ba ops fill s =
     (case PageTable_new ba s :: 'b pmem \<times> (Level4PageTable, HvErrorNum) result of
        (s, Ok pt) \<Rightarrow>
          (case fill (MemorySet_new (pt, s)) of
             None \<Rightarrow> None
           | Some (ms, Ok _) \<Rightarrow> Some (snd (ms_pt ms), Ok ms)
           | Some (ms, Err e) \<Rightarrow>
               (case address_space_drop ba ops ms of
                  (s, Ok _) \<Rightarrow> Some (s, Err e)
                | (s, _) \<Rightarrow> Some (s, Panic))
           | Some (ms, Panic) \<Rightarrow> Some (snd (ms_pt ms), Panic))
      | (s, _) \<Rightarrow> Some (s, Panic))"

definition hv_empty_region :: "usize \<Rightarrow> virt_addr \<Rightarrow> bytes \<Rightarrow> usize \<Rightarrow> MemoryRegion" where
  "hv_empty_region off empty_page mem cfg =
     new_with_empty_mapper off empty_page (hr_phys_start (hypervisor_memory mem cfg))
       (hr_size (hypervisor_memory mem cfg)) (MEM_READ OR MEM_NO_HUGEPAGES)"

definition cell_region :: "HvMemoryRegion \<Rightarrow> MemoryRegion" where
  "cell_region r = new_with_offset_mapper (hr_virt_start r) (hr_phys_start r) (hr_size r) (hr_flags r)"

definition cell_regions :: "bytes \<Rightarrow> usize \<Rightarrow> MemoryRegion list" where
  "cell_regions mem cfg = map cell_region (mem_regions mem (root_cell_ptr cfg))"

definition new_root :: "'b bit_alloc \<Rightarrow> pte_ops \<Rightarrow> usize \<Rightarrow> virt_addr \<Rightarrow> bytes \<Rightarrow> usize \<Rightarrow> 'b pmem
    \<Rightarrow> ('b pmem \<times> ('b pt_state MemorySet, HvErrorNum) result) option" where
  "new_root ba ops off empty_page mem cfg =
     build_set ba ops (\<lambda>gpm. insert_all (map_region ba ops) gpm
       (hv_empty_region off empty_page mem cfg # cell_regions mem cfg))"

text \<open>\<^verbatim>\<open>cell::init\<close>, after the vendor's feature check, whose result is the first argument.\<close>

definition cell_init :: "(unit, HvErrorNum) result \<Rightarrow> 'b bit_alloc \<Rightarrow> pte_ops \<Rightarrow> usize \<Rightarrow> virt_addr \<Rightarrow> bytes \<Rightarrow> usize
    \<Rightarrow> 'b pmem \<Rightarrow> ('b pmem \<times> ('b pt_state MemorySet, HvErrorNum) result) option" where
  "cell_init feature ba ops off empty_page mem cfg s =
     (case feature of
        Ok _ \<Rightarrow> new_root ba ops off empty_page mem cfg s
      | Err e \<Rightarrow> Some (s, Err e)
      | Panic \<Rightarrow> Some (s, Panic))"

text \<open>The hypervisor's own address space: its image, its data, and the guest's RAM.\<close>

primrec map_guest_ram :: "'st map_fun \<Rightarrow> usize \<Rightarrow> HvMemoryRegion list \<Rightarrow> 'st MemorySet
    \<Rightarrow> ('st MemorySet \<times> (unit, HvErrorNum) result) option" where
  "map_guest_ram mapf off [] ms = Some (ms, Ok ())"
| "map_guest_ram mapf off (r # rs) ms =
     (if contains (hr_flags r) MEM_DMA then
        if phys_to_virt off (hr_virt_start r) < hr_virt_start r then Some (ms, Err EINVAL)
        else (case MemorySet_insert mapf ms (new_with_offset_mapper (phys_to_virt off (hr_virt_start r))
                     (hr_phys_start r) (hr_size r) (MEM_READ OR MEM_WRITE)) of
            None \<Rightarrow> None
          | Some (ms, Ok _) \<Rightarrow> map_guest_ram mapf off rs ms
          | Some (ms, Err e) \<Rightarrow> Some (ms, Err e)
          | Some (ms, Panic) \<Rightarrow> Some (ms, Panic))
      else map_guest_ram mapf off rs ms)"

definition hv_regions :: "HvHeader \<Rightarrow> bytes \<Rightarrow> usize \<Rightarrow> MemoryRegion list" where
  "hv_regions h mem cfg =
     (let hv_phys_start = hr_phys_start (hypervisor_memory mem cfg);
          hv_phys_size = hr_size (hypervisor_memory mem cfg) in
      [new_with_offset_mapper HV_BASE hv_phys_start (hh_core_size h) (MEM_READ OR MEM_WRITE OR MEM_EXECUTE),
       new_with_offset_mapper (HV_BASE + hh_core_size h) (hv_phys_start + hh_core_size h)
         (hv_phys_size - hh_core_size h) (MEM_READ OR MEM_WRITE)])"

definition init_hv_page_table :: "'b bit_alloc \<Rightarrow> usize \<Rightarrow> HvHeader \<Rightarrow> bytes \<Rightarrow> usize \<Rightarrow> 'b pmem
    \<Rightarrow> ('b pmem \<times> ('b pt_state MemorySet, HvErrorNum) result) option" where
  "init_hv_page_table ba off h mem cfg =
     build_set ba PTEntry_ops (\<lambda>hv_pt.
       case insert_all (map_region ba PTEntry_ops) hv_pt (hv_regions h mem cfg) of
         None \<Rightarrow> None
       | Some (hv_pt, Ok _) \<Rightarrow>
           map_guest_ram (map_region ba PTEntry_ops) off (mem_regions mem (root_cell_ptr cfg)) hv_pt
       | Some (hv_pt, Err e) \<Rightarrow> Some (hv_pt, Err e)
       | Some (hv_pt, Panic) \<Rightarrow> Some (hv_pt, Panic))"

text \<open>
  \<^verbatim>\<open>primary_init_early\<close> of \<^verbatim>\<open>src/src/main.rs\<close>: the offset, the check of the configuration, the frame pool and the
  two address spaces, in this order. Both live in the same memory at the end.
\<close>

definition primary_init_early :: "(unit, HvErrorNum) result \<Rightarrow> 'b bit_alloc \<Rightarrow> pte_ops \<Rightarrow> virt_addr \<Rightarrow> usize \<Rightarrow> HvHeader
    \<Rightarrow> bytes \<Rightarrow> 'b pmem \<Rightarrow> ('b pmem \<times> ('b pt_state MemorySet \<times> 'b pt_state MemorySet, HvErrorNum) result) option" where
  "primary_init_early feature ba ops empty_page core_end h mem s =
     (let cfg = hv_config_ptr core_end h; off = init_heap_offset mem cfg in
      case HvSystemConfig_check mem cfg of
        Err e \<Rightarrow> Some (s, Err e)
      | Panic \<Rightarrow> Some (s, Panic)
      | Ok _ \<Rightarrow>
     (case init_hv_page_table ba off h mem cfg (s\<lparr>falloc := frame_init ba off mem core_end h (falloc s)\<rparr>) of
        None \<Rightarrow> None
      | Some (s, Err e) \<Rightarrow> Some (s, Err e)
      | Some (s, Panic) \<Rightarrow> Some (s, Panic)
      | Some (s, Ok hv_pt) \<Rightarrow>
     (case cell_init feature ba ops off empty_page mem cfg s of
        None \<Rightarrow> None
      | Some (s, Err e) \<Rightarrow> Some (s, Err e)
      | Some (s, Panic) \<Rightarrow> Some (s, Panic)
      | Some (s, Ok gpm) \<Rightarrow> Some (s, Ok (hv_pt\<lparr>ms_pt := (fst (ms_pt hv_pt), s)\<rparr>, gpm)))))"


section \<open>Filling an address space\<close>

lemma insert_ok_cases:
  assumes fmt: "entry_format ops ok nf" and inv: "l4_inv ba free ops ok nf ms" and r: "l4_region ok r"
  obtains (Ok) ms' where "MemorySet_insert (map_region ba ops) ms r = Some (ms', Ok ())"
      "l4_inv ba free ops ok nf ms'" "l4_exact ops ms \<Longrightarrow> l4_exact ops ms'"
      "set (ms_regions ms') = set (ms_regions ms) \<union> (if mr_size r = 0 then {} else {(mr_start r, r)})"
  | (Err) ms' e where "MemorySet_insert (map_region ba ops) ms r = Some (ms', Err e)"
      "l4_inv ba free ops ok nf ms'"
proof -
  note ct = level4_contract[OF fmt, of ba free]
  consider "mr_size r = 0" | "mr_size r \<noteq> 0" "\<not> test_free_area (ms_regions ms) r"
    | "mr_size r \<noteq> 0" "test_free_area (ms_regions ms) r" by blast
  then show thesis
  proof cases
    case 1
    then show thesis using inv by (intro Ok[of ms]) (simp_all add: MemorySet_insert_def)
  next
    case 2
    then show thesis using inv by (intro Err[of ms EINVAL]) (simp_all add: MemorySet_insert_def)
  next
    case 3
    show thesis
    proof (cases rule: generic_page_table.insert_new_region[OF ct inv r 3])
      case (1 pt')
      then show thesis using 3 by (intro Ok[OF 1(1,2)]) auto
    next
      case (2 pt' e)
      then show thesis by (intro Err[OF 2(1,3)])
    qed
  qed
qed

definition filled :: "MemoryRegion list \<Rightarrow> (usize \<times> MemoryRegion) set" where
  "filled rs = {(mr_start r, r) | r. r \<in> set rs \<and> mr_size r \<noteq> 0}"

lemma insert_all_spec:
  assumes fmt: "entry_format ops ok nf"
  shows "l4_inv ba free ops ok nf ms \<Longrightarrow> l4_exact ops ms \<Longrightarrow> \<forall>r \<in> set rs. l4_region ok r \<Longrightarrow>
    \<exists>ms' x. insert_all (map_region ba ops) ms rs = Some (ms', x) \<and> l4_inv ba free ops ok nf ms' \<and>
      (x = Ok () \<and> l4_exact ops ms' \<and> set (ms_regions ms') = set (ms_regions ms) \<union> filled rs \<or> (\<exists>e. x = Err e))"
proof (induction rs arbitrary: ms)
  case Nil
  then show ?case by (simp add: filled_def)
next
  case (Cons r rs)
  from Cons.prems(3) have r: "l4_region ok r" by simp
  show ?case
  proof (cases rule: insert_ok_cases[OF fmt Cons.prems(1) r])
    case (1 ms')
    from Cons.IH[OF 1(2) 1(3)[OF Cons.prems(2)]] Cons.prems(3)
    obtain ms2 x where "insert_all (map_region ba ops) ms' rs = Some (ms2, x)" "l4_inv ba free ops ok nf ms2"
      "x = Ok () \<and> l4_exact ops ms2 \<and> set (ms_regions ms2) = set (ms_regions ms') \<union> filled rs \<or> (\<exists>e. x = Err e)"
      by auto
    moreover have "set (ms_regions ms') \<union> filled rs = set (ms_regions ms) \<union> filled (r # rs)"
      using 1(4) by (auto simp: filled_def)
    ultimately show ?thesis using 1(1) by auto
  next
    case (2 ms' e)
    then show ?thesis by auto
  qed
qed

text \<open>Building a set from a list of regions always returns.\<close>

lemma address_space_drop_Ok:
  assumes "entry_format ops ok nf" "l4_inv ba free ops ok nf ms"
  shows "\<exists>s. address_space_drop ba ops ms = (s, Ok ())"
  using generic_page_table.clear_spec[OF level4_contract[OF assms(1)] assms(2)]
  by (auto simp: address_space_drop_def MemorySet_drop_def)

lemma build_set_spec:
  assumes fmt: "entry_format ops ok nf" and mem: "bit_alloc_spec ba free" "pmem_wf free s"
    and rs: "\<forall>r \<in> set rs. l4_region ok r"
  obtains (Ok) s' ms where "build_set ba ops (\<lambda>ms. insert_all (map_region ba ops) ms rs) s = Some (s', Ok ms)"
      "l4_inv ba free ops ok nf ms" "l4_exact ops ms" "set (ms_regions ms) = filled rs"
  | (Err) s' e where "build_set ba ops (\<lambda>ms. insert_all (map_region ba ops) ms rs) s = Some (s', Err e)"
  | (Panic) s' where "build_set ba ops (\<lambda>ms. insert_all (map_region ba ops) ms rs) s = Some (s', Panic)"
      "avail free s = {}"
proof -
  obtain s1 r where new: "PageTable_new ba s = (s1, r :: (Level4PageTable, HvErrorNum) result)" by fastforce
  from fmt_new[OF fmt mem new] consider pt where "r = Ok pt" "pt_inv ops free (pt, s1)"
      "\<forall>v. pt_query ops (pt, s1) v = Err NotMapped" | "r = Panic" "avail free s = {}" by blast
  then show thesis
  proof cases
    case 1
    let ?ms = "MemorySet_new (pt, s1)"
    have "l4_inv ba free ops ok nf ?ms" "l4_exact ops ?ms"
      using 1 mem(1) by (simp_all add: ms_inv_def ms_exact_def MemorySet_new_def regions_wf_def)
    from insert_all_spec[OF fmt this rs] obtain ms' x where f:
      "insert_all (map_region ba ops) ?ms rs = Some (ms', x)" "l4_inv ba free ops ok nf ms'"
      "x = Ok () \<and> l4_exact ops ms' \<and> set (ms_regions ms') = set (ms_regions ?ms) \<union> filled rs \<or> (\<exists>e. x = Err e)"
      by blast
    from f(3) show thesis
    proof (elim disjE exE conjE)
      assume "x = Ok ()" "l4_exact ops ms'" "set (ms_regions ms') = set (ms_regions ?ms) \<union> filled rs"
      then show thesis using f(1,2) new 1(1)
        by (intro Ok[of "snd (ms_pt ms')" ms']) (simp_all add: build_set_def, simp add: MemorySet_new_def)
    next
      fix e assume "x = Err e"
      then show thesis using f(1) new 1(1) address_space_drop_Ok[OF fmt f(2)]
        by (auto simp: build_set_def intro: Err)
    qed
  next
    case 2
    then show thesis using new by (intro Panic[of s1]) (simp_all add: build_set_def)
  qed
qed


section \<open>The root cell\<close>

lemma region_target_hv: "region_target (hv_empty_region off ep mem cfg) v =
    align_down (virt_to_phys off ep) + page_offset v"
  "mr_flags (hv_empty_region off ep mem cfg) = MEM_READ OR MEM_NO_HUGEPAGES"
  by (simp_all add: region_target_def hv_empty_region_def new_with_empty_mapper_def MemoryRegion_new_def)

lemma filled_query:
  assumes "l4_inv ba free ops ok nf ms" "set (ms_regions ms) = filled rs" "r \<in> set rs" "v \<in> region_addrs r"
  shows "\<exists>sz. pt_query ops (ms_pt ms) v = Ok (region_target r v, nf (mr_flags r), sz)"
proof -
  have "mr_size r \<noteq> 0" using assms(4) region_addrs_empty by auto
  then have "(mr_start r, r) \<in> set (ms_regions ms)" using assms(2,3) by (auto simp: filled_def)
  then show ?thesis using assms(1,4) by (auto simp: ms_inv_def)
qed

lemma filled_unmapped:
  assumes "l4_exact ops ms" "set (ms_regions ms) = filled rs" "canonical v" "\<forall>r \<in> set rs. v \<notin> region_addrs r"
  shows "pt_query ops (ms_pt ms) v = Err NotMapped"
  using assms by (auto simp: ms_exact_def filled_def)

lemma read_only_flags:
  assumes "entry_format ops ok nf"
  shows "\<not> bit (nf (MEM_READ OR MEM_NO_HUGEPAGES)) 1" "\<not> bit (nf (MEM_READ OR MEM_NO_HUGEPAGES)) 2"
  using assms by (auto simp: entry_format_def x86_norm_flags_def ept_norm_flags_def npt_norm_flags_def
      bit_or_iff bit_and_iff pte_simps)

text \<open>C3: Building the guest-physical address space of the root cell always returns; it panics only when
  there is no free frame at all. On success every canonical guest-physical address is translated as
  the configuration says: an address of the hypervisor's memory to the empty page, an address of a
  configured region to its physical address with the region's rights, and any other address not at
  all.\<close>

theorem root_cell_map:
  assumes "entry_format ops ok nf" "bit_alloc_spec ba free" "pmem_wf free s"
    and "l4_region ok (hv_empty_region off ep mem cfg)" "\<forall>r \<in> set (cell_regions mem cfg). l4_region ok r"
  shows "case new_root ba ops off ep mem cfg s of
      None \<Rightarrow> False
    | Some (s', Panic) \<Rightarrow> avail free s = {}
    | Some (s', Err e) \<Rightarrow> True
    | Some (s', Ok gpm) \<Rightarrow> l4_inv ba free ops ok nf gpm \<and> (\<forall>v. canonical v \<longrightarrow>
        (if v \<in> region_addrs (hv_empty_region off ep mem cfg)
         then \<exists>sz. pt_query ops (ms_pt gpm) v =
           Ok (align_down (virt_to_phys off ep) + page_offset v, nf (MEM_READ OR MEM_NO_HUGEPAGES), sz)
         else case find (\<lambda>r. v \<in> region_addrs r) (cell_regions mem cfg) of
           Some r \<Rightarrow> \<exists>sz. pt_query ops (ms_pt gpm) v = Ok (region_target r v, nf (mr_flags r), sz)
         | None \<Rightarrow> pt_query ops (ms_pt gpm) v = Err NotMapped))"
proof -
  let ?hv = "hv_empty_region off ep mem cfg" and ?rs = "cell_regions mem cfg"
  have rs: "\<forall>r \<in> set (?hv # ?rs). l4_region ok r" using assms(4,5) by simp
  show ?thesis
  proof (cases rule: build_set_spec[OF assms(1-3) rs])
    case (1 s' gpm)
    note q = filled_query[OF 1(2,4)] and n = filled_unmapped[OF 1(3,4)]
    have "if v \<in> region_addrs ?hv
         then \<exists>sz. pt_query ops (ms_pt gpm) v =
           Ok (align_down (virt_to_phys off ep) + page_offset v, nf (MEM_READ OR MEM_NO_HUGEPAGES), sz)
         else case find (\<lambda>r. v \<in> region_addrs r) ?rs of
           Some r \<Rightarrow> \<exists>sz. pt_query ops (ms_pt gpm) v = Ok (region_target r v, nf (mr_flags r), sz)
         | None \<Rightarrow> pt_query ops (ms_pt gpm) v = Err NotMapped" if v: "canonical v" for v
    proof (cases "find (\<lambda>r. v \<in> region_addrs r) ?rs")
      case None
      then have "\<forall>r \<in> set ?rs. v \<notin> region_addrs r" by (auto simp: find_None_iff)
      then show ?thesis using None q[of ?hv v] n[OF v] by (simp add: region_target_hv)
    next
      case (Some r)
      then have "r \<in> set ?rs" "v \<in> region_addrs r" by (auto simp: find_Some_iff)
      then show ?thesis using Some q[of ?hv v] q[of r v] by (simp add: region_target_hv)
    qed
    with 1(1,2) show ?thesis by (simp add: new_root_def)
  next
    case (2 s' e)
    then show ?thesis by (simp add: new_root_def)
  next
    case (3 s')
    then show ?thesis by (simp add: new_root_def)
  qed
qed

text \<open>C2: The guest cannot reach the hypervisor's memory: when no configured region gives access to a set
  of physical addresses, such as the hypervisor's memory, a guest-physical address is translated into
  this set only if it is the empty page, and then without the right to write or execute.\<close>

theorem guest_confined_to_cell:
  assumes "entry_format ops ok nf" "bit_alloc_spec ba free" "pmem_wf free s"
    and "l4_region ok (hv_empty_region off ep mem cfg)" "\<forall>r \<in> set (cell_regions mem cfg). l4_region ok r"
    and "\<forall>r \<in> set (cell_regions mem cfg). \<forall>v \<in> region_addrs r. region_target r v \<notin> P"
    and "new_root ba ops off ep mem cfg s = Some (s', Ok gpm)"
    and "canonical v" "pt_query ops (ms_pt gpm) v = Ok (p, f, sz)" "p \<in> P"
  shows "v \<in> region_addrs (hv_empty_region off ep mem cfg) \<and>
    p = align_down (virt_to_phys off ep) + page_offset v \<and> \<not> bit f 1 \<and> \<not> bit f 2"
proof -
  let ?hv = "hv_empty_region off ep mem cfg" and ?rs = "cell_regions mem cfg"
  have rs: "\<forall>r \<in> set (?hv # ?rs). l4_region ok r" using assms(4,5) by simp
  have gpm: "l4_inv ba free ops ok nf gpm" "l4_exact ops gpm" "set (ms_regions gpm) = filled (?hv # ?rs)"
    using assms(7) by (cases rule: build_set_spec[OF assms(1-3) rs]; simp add: new_root_def)+
  have "v \<notin> region_addrs r" if "r \<in> set ?rs" for r
    using filled_query[OF gpm(1,3), of r v] that assms(6,9,10) by auto
  then have "v \<in> region_addrs ?hv"
    using filled_unmapped[OF gpm(2,3) assms(8)] assms(9) by auto
  with filled_query[OF gpm(1,3), of ?hv v] assms(9) read_only_flags[OF assms(1)] show ?thesis
    by (auto simp: region_target_hv)
qed


section \<open>The hypervisor's own address space\<close>

definition ram_region :: "usize \<Rightarrow> HvMemoryRegion \<Rightarrow> MemoryRegion" where
  "ram_region off r = new_with_offset_mapper (phys_to_virt off (hr_virt_start r)) (hr_phys_start r) (hr_size r)
     (MEM_READ OR MEM_WRITE)"

lemma map_guest_ram_insert_all:
  assumes "\<forall>r \<in> set rs. contains (hr_flags r) MEM_DMA \<longrightarrow> hr_virt_start r \<le> phys_to_virt off (hr_virt_start r)"
  shows "map_guest_ram mapf off rs ms =
    insert_all mapf ms (map (ram_region off) (filter (\<lambda>r. contains (hr_flags r) MEM_DMA) rs))"
  using assms
proof (induction rs arbitrary: ms)
  case (Cons r rs)
  then show ?case
    by (cases "contains (hr_flags r) MEM_DMA")
      (auto simp: ram_region_def not_less[symmetric] split: option.splits prod.splits result.splits)
qed simp

lemma insert_all_append:
  "insert_all mapf ms (xs @ ys) =
    (case insert_all mapf ms xs of
       None \<Rightarrow> None
     | Some (ms, Ok _) \<Rightarrow> insert_all mapf ms ys
     | Some (ms, Err e) \<Rightarrow> Some (ms, Err e)
     | Some (ms, Panic) \<Rightarrow> Some (ms, Panic))"
  by (induction xs arbitrary: ms) (auto split: option.splits prod.splits result.splits)

definition hv_all_regions :: "usize \<Rightarrow> HvHeader \<Rightarrow> bytes \<Rightarrow> usize \<Rightarrow> MemoryRegion list" where
  "hv_all_regions off h mem cfg = hv_regions h mem cfg @
     map (ram_region off) (filter (\<lambda>r. contains (hr_flags r) MEM_DMA) (mem_regions mem (root_cell_ptr cfg)))"

lemma init_hv_page_table_insert_all:
  assumes "\<forall>r \<in> set (mem_regions mem (root_cell_ptr cfg)). contains (hr_flags r) MEM_DMA \<longrightarrow>
      hr_virt_start r \<le> phys_to_virt off (hr_virt_start r)"
  shows "init_hv_page_table ba off h mem cfg =
    build_set ba PTEntry_ops (\<lambda>ms. insert_all (map_region ba PTEntry_ops) ms (hv_all_regions off h mem cfg))"
  unfolding init_hv_page_table_def hv_all_regions_def insert_all_append map_guest_ram_insert_all[OF assms] ..

lemma region_target_offset:
  "region_target (new_with_offset_mapper v p sz fl) u = u - (align_down v - align_down p)"
  by (simp add: region_target_def new_with_offset_mapper_def MemoryRegion_new_def Let_def)

lemma hv_region_target:
  assumes "is_aligned (hr_phys_start (hypervisor_memory mem cfg))" "is_aligned (hh_core_size h)"
    and "\<forall>r \<in> set (mem_regions mem (root_cell_ptr cfg)). contains (hr_flags r) MEM_DMA \<longrightarrow>
      hr_phys_start r = hr_virt_start r \<and> is_aligned (hr_virt_start r)"
    and "r \<in> set (hv_all_regions (init_heap_offset mem cfg) h mem cfg)"
  shows "region_target r u = virt_to_phys (init_heap_offset mem cfg) u"
proof -
  let ?p = "hr_phys_start (hypervisor_memory mem cfg)" and ?off = "init_heap_offset mem cfg"
  have add: "is_aligned (a + b)" if "is_aligned a" "is_aligned b" for a b
    using is_aligned_diff[OF that(1) is_aligned_diff[OF _ that(2), of 0]] by (simp add: is_aligned_iff)
  have base: "is_aligned HV_BASE" by (simp add: HV_BASE_def is_aligned_def page_offset_def rvm_const)
  have off: "?off = HV_BASE - ?p" "is_aligned ?off"
    using is_aligned_diff[OF base assms(1)] by (simp_all add: init_heap_offset_def)
  note down = align_down_aligned[OF base] align_down_aligned[OF assms(1)]
    align_down_aligned[OF add[OF base assms(2)]] align_down_aligned[OF add[OF assms(1,2)]]
  consider "r \<in> set (hv_regions h mem cfg)" | q where "q \<in> set (mem_regions mem (root_cell_ptr cfg))"
    "contains (hr_flags q) MEM_DMA" "r = ram_region ?off q"
    using assms(4) unfolding hv_all_regions_def by auto
  then show ?thesis
  proof cases
    case 1
    then show ?thesis
      by (auto simp: hv_regions_def Let_def region_target_offset down virt_to_phys_def off(1))
  next
    case (2 q)
    then have q: "hr_phys_start q = hr_virt_start q" "is_aligned (hr_virt_start q)" using assms(3) by auto
    then have "align_down (phys_to_virt ?off (hr_virt_start q)) - align_down (hr_phys_start q) = ?off"
      using align_down_aligned[OF q(2)] align_down_aligned[OF add[OF q(2) off(2)]] by (simp add: phys_to_virt_def)
    then show ?thesis by (simp add: 2(3) ram_region_def region_target_offset virt_to_phys_def)
  qed
qed

text \<open>C8: The hypervisor's own page table agrees with the address arithmetic of the code: when its creation
  succeeds, \<^verbatim>\<open>virt_to_phys\<close> gives the physical address of every address of the image, of the hypervisor's
  data and of the guest RAM that is mapped one to one; so a physical address turned into a pointer by
  \<^verbatim>\<open>phys_to_virt\<close> refers to the memory it names.\<close>

theorem hv_page_table_linear:
  assumes "bit_alloc_spec ba free" "pmem_wf free s"
    and "\<forall>r \<in> set (hv_all_regions (init_heap_offset mem cfg) h mem cfg). l4_region (\<lambda>f. f \<noteq> 0) r"
    and "is_aligned (hr_phys_start (hypervisor_memory mem cfg))" "is_aligned (hh_core_size h)"
    and "\<forall>r \<in> set (mem_regions mem (root_cell_ptr cfg)). contains (hr_flags r) MEM_DMA \<longrightarrow>
      hr_phys_start r = hr_virt_start r \<and> is_aligned (hr_virt_start r) \<and>
      hr_virt_start r \<le> phys_to_virt (init_heap_offset mem cfg) (hr_virt_start r)"
    and "init_hv_page_table ba (init_heap_offset mem cfg) h mem cfg s = Some (s', Ok hv_pt)"
    and "r \<in> set (hv_all_regions (init_heap_offset mem cfg) h mem cfg)" "v \<in> region_addrs r"
  shows "\<exists>f sz. pt_query PTEntry_ops (ms_pt hv_pt) v = Ok (virt_to_phys (init_heap_offset mem cfg) v, f, sz)"
proof -
  let ?off = "init_heap_offset mem cfg"
  have eq: "init_hv_page_table ba ?off h mem cfg =
      build_set ba PTEntry_ops (\<lambda>ms. insert_all (map_region ba PTEntry_ops) ms (hv_all_regions ?off h mem cfg))"
    using assms(6) by (intro init_hv_page_table_insert_all) blast
  have pt: "l4_inv ba free PTEntry_ops (\<lambda>f. f \<noteq> 0) x86_norm_flags hv_pt" "set (ms_regions hv_pt) = filled (hv_all_regions ?off h mem cfg)"
    using assms(7) by (cases rule: build_set_spec[OF x86_format assms(1-3)]; simp add: eq)+
  have "region_target r v = virt_to_phys ?off v"
    using assms(6) by (intro hv_region_target[OF assms(4,5) _ assms(8)]) blast
  with filled_query[OF pt assms(8,9)] show ?thesis by auto
qed

definition sample_config :: bytes where
  "sample_config a = (if a = 0x100e then 0x40 else if a = 0x101d then 0x10 else if a = 0x113e then 1
     else if a = 0x118b then 0x10 else if a = 0x118c then 0x40 else if a = 0x1193 then 0x10
     else if a = 0x1194 then 0x40 else if a = 0x119b then 0x10 else if a = 0x11a2 then 0xb
     else if a = 0x11a3 then 1 else 0)"

lemmas config_layouts = HvConsole_layout_def HvCellDesc_layout_def HvMemoryRegion_layout_def HvIommu_layout_def
  ArchPlatformInfo_layout_def PlatformInfo_layout_def HvSystemConfig_layout_def HV_CELL_NAME_MAXLEN_def
  HV_MAX_IOMMU_UNITS_def packed_def packed_size_def

lemma read_le_numeral: "read_le mem a (numeral k) = ucast (mem a) OR push_bit 8 (read_le mem (a + 1) (pred_numeral k))"
  by (simp only: numeral_eq_Suc read_le.simps)

lemma region_fields:
  "field_ptr HvMemoryRegion_layout ''phys_start'' p = p" "field_ptr HvMemoryRegion_layout ''virt_start'' p = p + 8"
  "field_ptr HvMemoryRegion_layout ''size'' p = p + 16" "field_ptr HvMemoryRegion_layout ''flags'' p = p + 24"
  by (simp_all add: field_ptr_def HvMemoryRegion_layout_def)

lemma read_region_eq:
  "read_region mem p = \<lparr>hr_phys_start = read_le mem p 8, hr_virt_start = read_le mem (p + 8) 8,
     hr_size = read_le mem (p + 16) 8, hr_flags = read_le mem (p + 24) 8\<rparr>"
  by (simp add: read_region_def get_field_def region_fields) (simp add: HvMemoryRegion_layout_def)

lemma sample_config_ptrs:
  "field_ptr HvSystemConfig_layout ''hypervisor_memory'' 0x1000 = 0x100c" "root_cell_ptr 0x1000 = 0x110a"
  "get_field HvCellDesc_layout ''cpu_set_size'' mem 0x110a = read_le mem 0x113a 4"
  "get_field HvCellDesc_layout ''num_memory_regions'' mem 0x110a = read_le mem 0x113e 4"
  by (simp_all add: root_cell_ptr_def get_field_def field_ptr_def config_layouts)

lemma sample_config_eval:
  "hypervisor_memory sample_config 0x1000 =
     \<lparr>hr_phys_start = 0x400000, hr_virt_start = 0, hr_size = 0x1000, hr_flags = 0\<rparr>"
  "mem_regions sample_config (root_cell_ptr 0x1000) =
     [\<lparr>hr_phys_start = 0x401000, hr_virt_start = 0x401000, hr_size = 0x1000, hr_flags = 0x10b\<rparr>]"
  by (simp_all add: hypervisor_memory_def sample_config_ptrs read_region_eq mem_regions_def
      mem_regions_slice_def cpu_set_slice_def config_ptr_def size_of_def packed_sizes
      read_le_numeral sample_config_def)


definition sample_hv :: MemoryRegion where
  "sample_hv = \<lparr>mr_start = 0x400000, mr_size = 0x1000, mr_flags = MEM_READ OR MEM_NO_HUGEPAGES,
     mr_mapper = Fixed 0x400000\<rparr>"

definition sample_ram :: MemoryRegion where
  "sample_ram = \<lparr>mr_start = 0x401000, mr_size = 0x1000, mr_flags = 0x10b, mr_mapper = Offset 0\<rparr>"

lemma sample_regions:
  "hv_empty_region (init_heap_offset sample_config 0x1000) HV_BASE sample_config 0x1000 = sample_hv"
  "cell_regions sample_config 0x1000 = [sample_ram]"
  by (simp_all add: hv_empty_region_def sample_config_eval new_with_empty_mapper_def MemoryRegion_new_def
      init_heap_offset_def HV_BASE_def virt_to_phys_def sample_hv_def cell_regions_def cell_region_def
      new_with_offset_mapper_def sample_ram_def align_down_def align_up_def rvm_const)

lemma sample_cell_ok: "l4_region (\<lambda>_. True) sample_hv" "l4_region (\<lambda>_. True) sample_ram"
  by (simp_all add: l4_region_def region_wf_def sample_hv_def sample_ram_def is_aligned_def page_offset_def rvm_const
      contains_def MEM_READ_def MEM_NO_HUGEPAGES_def)

lemma sample_no_huge: "contains (MEM_READ OR MEM_NO_HUGEPAGES) MEM_NO_HUGEPAGES" "contains 0x10b MEM_NO_HUGEPAGES"
  by (simp_all add: contains_def MEM_READ_def MEM_NO_HUGEPAGES_def)

lemma sample_insert_all:
  "snd (the (insert_all (map_region list_alloc NPTEntry_ops) (MemorySet_new (sample_pt, sample_mem1)) [sample_hv, sample_ram])) = Ok ()"
    by (simp add: MemorySet_insert_def test_free_area_def MemorySet_new_def bt_last_below_def bt_first_from_def
        map_region_def sample_hv_def sample_ram_def map_loop.simps[of _ _ _ _ _ "0x402000"] map_loop.simps[of _ _ _ _ _ "0x400000"]
        map_loop.simps[of _ _ _ _ _ "0x401000"] map_page_size_def ps_is_aligned_def
        ps_page_offset_def map_page_def get_entry_mut_or_create_def Page_new_aligned_def Let_def
        root_paddr_def sample_pt_def index_take_bit next_table_mut_or_create_def NPTEntry_ops_def PTEntry_ops_def PTEntry_set_table_def PTF_PRESENT_def PTF_WRITABLE_def
        PTF_USER_ACCESSIBLE_def
        entry_at_def sample_mem1_def alloc_intrm_table_def Frame_new_zero_def Frame_new_def
        fa_alloc_def list_alloc_def rvm_const Frame_zero_def Frame_fill_def byte_entry_def
        write_entry_def PHYS_ADDR_MASK_def set_leaf_def sample_no_huge NPTEntry_set_flags_def PTEntry_set_addr_def PTEntry_addr_def
        ps_align_down_def is_overlap_with_def next_table_mut_def contains_def truncate_flags_def PTF_ALL_def PTF_HUGE_PAGE_def
        MEM_NO_HUGEPAGES_def MEM_READ_def)


abbreviation sample_off :: usize where
  "sample_off \<equiv> init_heap_offset sample_config 0x1000"

lemma sample_build_Ok:
  assumes "entry_format ops ok nf" "\<forall>r \<in> set rs. l4_region ok r"
    and "snd (the (insert_all (map_region list_alloc ops) (MemorySet_new (sample_pt, sample_mem1)) rs)) = Ok ()"
  obtains s' ms where "build_set list_alloc ops (\<lambda>ms. insert_all (map_region list_alloc ops) ms rs) sample_mem = Some (s', Ok ms)"
    "l4_inv list_alloc list_free ops ok nf ms" "set (ms_regions ms) = filled rs"
proof -
  let ?b = "build_set list_alloc ops (\<lambda>ms. insert_all (map_region list_alloc ops) ms rs) sample_mem"
    and ?f = "insert_all (map_region list_alloc ops) (MemorySet_new (sample_pt, sample_mem1)) rs"
  note b = build_set_def[of list_alloc ops "\<lambda>ms. insert_all (map_region list_alloc ops) ms rs" sample_mem,
      unfolded sample_pt_new prod.case result.case]
  have "?b \<noteq> None"
    by (cases rule: build_set_spec[OF assms(1) list_alloc_spec sample_mem_wf assms(2)]) simp_all
  then obtain ms where "?f = Some (ms, Ok ())"
    using assms(3) unfolding b by (cases ?f) auto
  then have ok: "?b = Some (snd (ms_pt ms), Ok ms)" unfolding b by simp
  show thesis
    by (cases rule: build_set_spec[OF assms(1) list_alloc_spec sample_mem_wf assms(2)]) (use ok that in auto)
qed

lemma sample_root:
  obtains s' gpm where "new_root list_alloc NPTEntry_ops sample_off HV_BASE sample_config 0x1000 sample_mem = Some (s', Ok gpm)"
    "l4_inv list_alloc list_free NPTEntry_ops (\<lambda>_. True) npt_norm_flags gpm"
    "set (ms_regions gpm) = filled [sample_hv, sample_ram]"
proof -
  have rs: "\<forall>r \<in> set [sample_hv, sample_ram]. l4_region (\<lambda>_. True) r" using sample_cell_ok by simp
  show thesis
    by (rule sample_build_Ok[OF npt_format rs sample_insert_all], rule that) (simp_all only: new_root_def sample_regions)
qed

theorem root_cell_map_witness:
  "\<exists>s' gpm. new_root list_alloc NPTEntry_ops sample_off HV_BASE sample_config 0x1000 sample_mem = Some (s', Ok gpm) \<and>
     (\<exists>sz. pt_query NPTEntry_ops (ms_pt gpm) 0x401456 = Ok (0x401456, npt_norm_flags 0x10b, sz)) \<and>
     pt_query NPTEntry_ops (ms_pt gpm) 0x500000 = Err NotMapped"
proof -
  obtain s' gpm where r: "new_root list_alloc NPTEntry_ops sample_off HV_BASE sample_config 0x1000 sample_mem = Some (s', Ok gpm)"
    by (rule sample_root)
  have v: "0x401456 \<notin> region_addrs sample_hv" "0x401456 \<in> region_addrs sample_ram"
    "0x500000 \<notin> region_addrs sample_hv" "0x500000 \<notin> region_addrs sample_ram" "canonical 0x401456" "canonical 0x500000"
    "region_target sample_ram 0x401456 = 0x401456" "mr_flags sample_ram = 0x10b"
    by (simp_all add: region_addrs_def addr_range_def sample_hv_def sample_ram_def canonical_def region_target_def)
  have rs: "l4_region (\<lambda>_. True) (hv_empty_region sample_off HV_BASE sample_config 0x1000)"
    "\<forall>r \<in> set (cell_regions sample_config 0x1000). l4_region (\<lambda>_. True) r"
    using sample_cell_ok by (simp_all add: sample_regions)
  note q = root_cell_map[OF npt_format list_alloc_spec sample_mem_wf rs,
      unfolded r sample_regions option.case prod.case result.case, THEN conjunct2, THEN spec, THEN mp]
  show ?thesis using r v(7,8) q[OF v(5)] q[OF v(6)] by (simp add: v(1-4))
qed

theorem guest_confined_to_cell_witness:
  "\<exists>s' gpm p f sz. new_root list_alloc NPTEntry_ops sample_off HV_BASE sample_config 0x1000 sample_mem = Some (s', Ok gpm) \<and>
     pt_query NPTEntry_ops (ms_pt gpm) 0x400123 = Ok (p, f, sz) \<and> p = 0x400123 \<and> \<not> bit f 1"
proof -
  obtain s' gpm where r: "new_root list_alloc NPTEntry_ops sample_off HV_BASE sample_config 0x1000 sample_mem = Some (s', Ok gpm)"
    "l4_inv list_alloc list_free NPTEntry_ops (\<lambda>_. True) npt_norm_flags gpm"
    "set (ms_regions gpm) = filled [sample_hv, sample_ram]"
    by (rule sample_root)
  have v: "0x400123 \<in> region_addrs sample_hv" "canonical 0x400123" "region_target sample_hv 0x400123 = 0x400123"
    "align_down (virt_to_phys sample_off HV_BASE) + page_offset 0x400123 = 0x400123"
    by (simp_all add: region_addrs_def addr_range_def sample_hv_def canonical_def region_target_def page_offset_def
        align_down_def rvm_const virt_to_phys_def init_heap_offset_def HV_BASE_def sample_config_eval)
  obtain sz where q: "pt_query NPTEntry_ops (ms_pt gpm) 0x400123 = Ok (0x400123, npt_norm_flags (mr_flags sample_hv), sz)"
    using filled_query[OF r(2,3), of sample_hv "0x400123"] v by auto
  have P: "\<forall>r \<in> set (cell_regions sample_config 0x1000). \<forall>v \<in> region_addrs r. region_target r v \<notin> addr_range 0x400000 0x1000"
    by (simp add: sample_regions) (simp add: sample_ram_def region_addrs_def addr_range_def region_target_def)
  have "0x400123 \<in> addr_range 0x400000 0x1000" by (simp add: addr_range_def)
  from guest_confined_to_cell[OF npt_format list_alloc_spec sample_mem_wf _ _ P r(1) v(2) q this] r(1) q show ?thesis
    by (auto simp: sample_regions sample_cell_ok)
qed


definition sample_header :: HvHeader where
  "sample_header = HEADER_STUFF 0x1000 0"

definition sample_hv_map :: "MemoryRegion list" where
  "sample_hv_map =
     [\<lparr>mr_start = 0xffffff0000000000, mr_size = 0x1000, mr_flags = MEM_READ OR MEM_WRITE OR MEM_EXECUTE,
       mr_mapper = Offset 0xfffffeffffc00000\<rparr>,
      \<lparr>mr_start = 0xffffff0000001000, mr_size = 0, mr_flags = MEM_READ OR MEM_WRITE,
       mr_mapper = Offset 0xfffffeffffc00000\<rparr>,
      \<lparr>mr_start = 0xffffff0000001000, mr_size = 0x1000, mr_flags = MEM_READ OR MEM_WRITE,
       mr_mapper = Offset 0xfffffeffffc00000\<rparr>]"

lemma sample_hv_regions: "hv_all_regions sample_off sample_header sample_config 0x1000 = sample_hv_map"
  by (simp add: hv_all_regions_def hv_regions_def sample_config_eval ram_region_def Let_def sample_header_def
      HEADER_STUFF_def new_with_offset_mapper_def MemoryRegion_new_def align_down_def align_up_def rvm_const
      HV_BASE_def init_heap_offset_def phys_to_virt_def sample_hv_map_def contains_def MEM_DMA_def)

lemma sample_hv_ok: "\<forall>r \<in> set sample_hv_map. l4_region (\<lambda>f. f \<noteq> 0) r"
  by (simp add: sample_hv_map_def l4_region_def region_wf_def is_aligned_def page_offset_def rvm_const
      MEM_READ_def MEM_WRITE_def MEM_EXECUTE_def)

lemma sample_hv_insert_all:
  "snd (the (insert_all (map_region list_alloc PTEntry_ops) (MemorySet_new (sample_pt, sample_mem1)) sample_hv_map)) = Ok ()"
    by (simp add: MemorySet_insert_def test_free_area_def MemorySet_new_def bt_last_below_def bt_first_from_def
        map_region_def sample_hv_map_def map_loop.simps[of _ _ _ _ _ "0xffffff0000000000"]
        map_loop.simps[of _ _ _ _ _ "0xffffff0000001000"] map_loop.simps[of _ _ _ _ _ "0xffffff0000002000"]
        map_page_size_def ps_is_aligned_def
        ps_page_offset_def map_page_def get_entry_mut_or_create_def Page_new_aligned_def Let_def
        root_paddr_def sample_pt_def index_take_bit next_table_mut_or_create_def PTEntry_ops_def PTEntry_set_table_def
        PTF_PRESENT_def PTF_WRITABLE_def PTF_USER_ACCESSIBLE_def
        entry_at_def sample_mem1_def alloc_intrm_table_def Frame_new_zero_def Frame_new_def
        fa_alloc_def list_alloc_def rvm_const Frame_zero_def Frame_fill_def byte_entry_def
        write_entry_def PHYS_ADDR_MASK_def set_leaf_def PTEntry_set_addr_def PTEntry_addr_def
        ps_align_down_def is_overlap_with_def next_table_mut_def contains_def truncate_flags_def PTF_ALL_def PTF_HUGE_PAGE_def
        MEM_NO_HUGEPAGES_def MEM_READ_def MEM_WRITE_def MEM_EXECUTE_def)

theorem hv_page_table_linear_witness:
  "\<exists>s' hv_pt f sz. init_hv_page_table list_alloc sample_off sample_header sample_config 0x1000 sample_mem = Some (s', Ok hv_pt) \<and>
     pt_query PTEntry_ops (ms_pt hv_pt) 0xffffff0000001234 = Ok (0x401234, f, sz)"
proof -
  have dma: "\<forall>r \<in> set (mem_regions sample_config (root_cell_ptr 0x1000)). contains (hr_flags r) MEM_DMA \<longrightarrow>
      hr_phys_start r = hr_virt_start r \<and> is_aligned (hr_virt_start r) \<and>
      hr_virt_start r \<le> phys_to_virt sample_off (hr_virt_start r)"
    by (simp add: sample_config_eval is_aligned_def page_offset_def rvm_const phys_to_virt_def init_heap_offset_def HV_BASE_def)
  have al: "is_aligned (hr_phys_start (hypervisor_memory sample_config 0x1000))" "is_aligned (hh_core_size sample_header)"
    by (simp_all add: sample_config_eval sample_header_def HEADER_STUFF_def is_aligned_def page_offset_def rvm_const)
  have ok: "\<forall>r \<in> set (hv_all_regions sample_off sample_header sample_config 0x1000). l4_region (\<lambda>f. f \<noteq> 0) r"
    using sample_hv_ok by (simp only: sample_hv_regions)
  have eq: "init_hv_page_table list_alloc sample_off sample_header sample_config 0x1000 =
      build_set list_alloc PTEntry_ops (\<lambda>ms. insert_all (map_region list_alloc PTEntry_ops) ms sample_hv_map)"
    by (rule init_hv_page_table_insert_all[where off = sample_off and h = sample_header and mem = sample_config
        and cfg = "0x1000", unfolded sample_hv_regions]) (use dma in blast)
  obtain s' hv_pt where i: "init_hv_page_table list_alloc sample_off sample_header sample_config 0x1000 sample_mem = Some (s', Ok hv_pt)"
    by (rule sample_build_Ok[OF x86_format sample_hv_ok sample_hv_insert_all, folded eq])
  have r: "last sample_hv_map \<in> set (hv_all_regions sample_off sample_header sample_config 0x1000)"
    unfolding sample_hv_regions by (rule last_in_set) (simp add: sample_hv_map_def)
  have v: "0xffffff0000001234 \<in> region_addrs (last sample_hv_map)"
    by (simp add: sample_hv_map_def region_addrs_def addr_range_def)
  have "virt_to_phys sample_off 0xffffff0000001234 = 0x401234"
    by (simp add: virt_to_phys_def init_heap_offset_def HV_BASE_def sample_config_eval)
  with hv_page_table_linear[OF list_alloc_spec sample_mem_wf ok al dma i r v] i show ?thesis by auto
qed

end
