(* ===== verification/Boot.thy ===== *)
theory Boot
  imports HvConfig
begin

text \<open>
  The boot protocol of \<^verbatim>\<open>src/src/main.rs\<close>, which every CPU runs, together with \<^verbatim>\<open>PerCpu::new\<close> and
  \<^verbatim>\<open>activate_vmm\<close> of \<^verbatim>\<open>src/src/percpu.rs\<close>. The CPUs share five atomic counters; one step of a CPU is one
  atomic access or one call that other CPUs do not observe, and the steps of the CPUs interleave in any
  order. The results of the calls that other theories model (\<^verbatim>\<open>primary_init_early\<close>, \<^verbatim>\<open>PerCpu::init\<close>,
  \<^verbatim>\<open>Vcpu::enter\<close>) are the fields of \<open>boot_env\<close>, so that every outcome is covered.
\<close>


section \<open>State\<close>

record boot_globals =
  bg_entered :: u32
  bg_inited :: u32
  bg_early_ok :: u32
  bg_late_ok :: u32
  bg_activated :: u32
  bg_error_num :: "32 word"

record boot_env =
  be_max_cpus :: u32
  be_online_cpus :: u32
  be_early :: "(unit, HvErrorNum) result"
  be_init :: "u32 \<Rightarrow> (unit, HvErrorNum) result"
  be_enter :: "u32 \<Rightarrow> (unit, HvErrorNum) result"

text \<open>
  Where a CPU is. The four calls of \<^verbatim>\<open>wait_for\<close> have three places: the load of \<^verbatim>\<open>ERROR_NUM\<close> and the load
  of the counter in the loop, and the load of \<^verbatim>\<open>ERROR_NUM\<close> behind it. From \<open>Failed\<close> on the flag says whether the
  error was raised after the increment of \<^verbatim>\<open>INITED_CPUS\<close>.
\<close>

datatype wait_point = W_Entered | W_Early | W_Inited | W_Late
datatype wait_phase = Poll | Load | Recheck

datatype boot_pc =
    Outside
  | Checked
  | Rejected
  | Wait wait_point wait_phase u32
  | Early u32
  | Init u32
  | Inited u32
  | Late u32
  | Activate u32
  | Entering u32
  | Guest u32
  | Failed bool u32 HvErrorNum
  | Returning bool u32
  | Left bool u32 "32 word"
  | Panicked bool u32


section \<open>Steps\<close>

definition has_err :: "boot_globals \<Rightarrow> bool" where
  "has_err g \<longleftrightarrow> bg_error_num g \<noteq> 0"

text \<open>The counter a call of \<^verbatim>\<open>wait_for\<close> or \<^verbatim>\<open>wait_for_counter\<close> watches, and the value it waits for.\<close>

primrec wait_counter :: "boot_globals \<Rightarrow> wait_point \<Rightarrow> u32" where
  "wait_counter g W_Entered = bg_entered g"
| "wait_counter g W_Early = bg_early_ok g"
| "wait_counter g W_Inited = bg_inited g"
| "wait_counter g W_Late = bg_late_ok g"

primrec wait_max :: "boot_env \<Rightarrow> wait_point \<Rightarrow> u32" where
  "wait_max e W_Entered = be_online_cpus e"
| "wait_max e W_Early = 1"
| "wait_max e W_Inited = be_online_cpus e"
| "wait_max e W_Late = 1"

text \<open>Where \<^verbatim>\<open>main\<close> goes on after a successful wait.\<close>

primrec main_after :: "wait_point \<Rightarrow> u32 \<Rightarrow> boot_pc" where
  "main_after W_Entered k = (if k = 0 then Early k else Wait W_Early Poll k)"
| "main_after W_Early k = Init k"
| "main_after W_Inited k = (if k = 0 then Late k else Wait W_Late Poll k)"
| "main_after W_Late k = Activate k"

primrec wait_inited :: "wait_point \<Rightarrow> bool" where
  "wait_inited W_Entered = False"
| "wait_inited W_Early = False"
| "wait_inited W_Inited = True"
| "wait_inited W_Late = True"

definition wait_for :: "boot_env \<Rightarrow> boot_globals \<Rightarrow> wait_point \<Rightarrow> wait_phase \<Rightarrow> u32 \<Rightarrow> boot_pc" where
  "wait_for e g w ph k =
     (case ph of
        Poll \<Rightarrow> if has_err g then Wait w Recheck k else Wait w Load k
      | Load \<Rightarrow> if wait_counter g w < wait_max e w then Wait w Poll k else Wait w Recheck k
      | Recheck \<Rightarrow> if has_err g then Failed (wait_inited w) k EBUSY else main_after w k)"

definition PerCpu_new_check :: "boot_env \<Rightarrow> boot_globals \<Rightarrow> boot_pc" where
  "PerCpu_new_check e g = (if bg_entered g \<ge> be_max_cpus e then Rejected else Checked)"

text \<open>The data of the CPU with number \<open>k\<close>; the array starts at the end of the image.\<close>

definition PerCpu_new_vaddr :: "usize \<Rightarrow> u32 \<Rightarrow> virt_addr" where
  "PerCpu_new_vaddr core_end k = core_end + ucast k * PER_CPU_SIZE"

definition on_result :: "bool \<Rightarrow> u32 \<Rightarrow> (unit, HvErrorNum) result \<Rightarrow> boot_globals \<Rightarrow> boot_globals \<Rightarrow> boot_pc
    \<Rightarrow> boot_globals \<times> boot_pc" where
  "on_result c k r g g' p =
     (case r of Ok _ \<Rightarrow> (g', p) | Err e \<Rightarrow> (g, Failed c k e) | Panic \<Rightarrow> (g, Panicked c k))"

fun cpu_step :: "boot_env \<Rightarrow> boot_globals \<Rightarrow> boot_pc \<Rightarrow> (boot_globals \<times> boot_pc) option" where
  "cpu_step e g Outside = Some (g, PerCpu_new_check e g)"
| "cpu_step e g Checked = Some (g\<lparr>bg_entered := bg_entered g + 1\<rparr>, Wait W_Entered Poll (bg_entered g))"
| "cpu_step e g (Wait w ph k) = Some (g, wait_for e g w ph k)"
| "cpu_step e g (Early k) = Some (on_result False k (be_early e) g (g\<lparr>bg_early_ok := 1\<rparr>) (Init k))"
| "cpu_step e g (Init k) = Some (on_result False k (be_init e k) g g (Inited k))"
| "cpu_step e g (Inited k) = Some (g\<lparr>bg_inited := bg_inited g + 1\<rparr>, Wait W_Inited Poll k)"
| "cpu_step e g (Late k) = Some (g\<lparr>bg_late_ok := 1\<rparr>, Activate k)"
| "cpu_step e g (Activate k) = Some (g\<lparr>bg_activated := bg_activated g + 1\<rparr>, Entering k)"
| "cpu_step e g (Entering k) = Some (on_result True k (be_enter e k) g g (Guest k))"
| "cpu_step e g (Failed c k err) = Some (g\<lparr>bg_error_num := err_code err\<rparr>, Returning c k)"
| "cpu_step e g (Returning c k) = Some (g, Left c k (bg_error_num g))"
| "cpu_step e g Rejected = None"
| "cpu_step e g (Guest k) = None"
| "cpu_step e g (Left c k code) = None"
| "cpu_step e g (Panicked c k) = None"

text \<open>The system: one of the \<open>n\<close> CPUs takes a step.\<close>

type_synonym boot_state = "boot_globals \<times> (nat \<Rightarrow> boot_pc)"

inductive boot_step :: "boot_env \<Rightarrow> nat \<Rightarrow> boot_state \<Rightarrow> boot_state \<Rightarrow> bool" for e n where
  cpu: "i < n \<Longrightarrow> cpu_step e g (P i) = Some (g', p') \<Longrightarrow> boot_step e n (g, P) (g', P(i := p'))"

definition boot_start :: boot_state where
  "boot_start = (\<lparr>bg_entered = 0, bg_inited = 0, bg_early_ok = 0, bg_late_ok = 0, bg_activated = 0,
     bg_error_num = 0\<rparr>, (\<lambda>_. Outside))"

definition boot_reachable :: "boot_env \<Rightarrow> nat \<Rightarrow> boot_state \<Rightarrow> bool" where
  "boot_reachable e n = (boot_step e n)\<^sup>*\<^sup>* boot_start"


section \<open>Invariant\<close>

fun cpu_id :: "boot_pc \<Rightarrow> u32 option" where
  "cpu_id (Wait w ph k) = Some k"
| "cpu_id (Early k) = Some k"
| "cpu_id (Init k) = Some k"
| "cpu_id (Inited k) = Some k"
| "cpu_id (Late k) = Some k"
| "cpu_id (Activate k) = Some k"
| "cpu_id (Entering k) = Some k"
| "cpu_id (Guest k) = Some k"
| "cpu_id (Failed c k err) = Some k"
| "cpu_id (Returning c k) = Some k"
| "cpu_id (Left c k code) = Some k"
| "cpu_id (Panicked c k) = Some k"
| "cpu_id _ = None"

text \<open>The CPUs that have counted themselves as initialised.\<close>

fun counted :: "boot_pc \<Rightarrow> bool" where
  "counted (Wait w ph k) = wait_inited w"
| "counted (Late k) = True"
| "counted (Activate k) = True"
| "counted (Entering k) = True"
| "counted (Guest k) = True"
| "counted (Failed c k err) = c"
| "counted (Returning c k) = c"
| "counted (Left c k code) = c"
| "counted (Panicked c k) = c"
| "counted _ = False"

text \<open>The waits that lie behind a CPU.\<close>

fun behind :: "boot_pc \<Rightarrow> wait_point set" where
  "behind (Wait W_Entered ph k) = {}"
| "behind (Wait W_Early ph k) = {W_Entered}"
| "behind (Early k) = {W_Entered}"
| "behind (Init k) = {W_Entered, W_Early}"
| "behind (Inited k) = {W_Entered, W_Early}"
| "behind (Wait W_Inited ph k) = {W_Entered, W_Early}"
| "behind (Wait W_Late ph k) = {W_Entered, W_Early, W_Inited}"
| "behind (Late k) = {W_Entered, W_Early, W_Inited}"
| "behind (Activate k) = {W_Entered, W_Early, W_Inited, W_Late}"
| "behind (Entering k) = {W_Entered, W_Early, W_Inited, W_Late}"
| "behind (Guest k) = {W_Entered, W_Early, W_Inited, W_Late}"
| "behind _ = {}"

definition opened :: "boot_env \<Rightarrow> boot_globals \<Rightarrow> wait_point \<Rightarrow> bool" where
  "opened e g w \<longleftrightarrow> wait_max e w \<le> wait_counter g w"

fun primary_ok :: "boot_pc \<Rightarrow> bool" where
  "primary_ok (Early k) = (k = 0)"
| "primary_ok (Late k) = (k = 0)"
| "primary_ok _ = True"

fun recheck_ok :: "boot_env \<Rightarrow> boot_globals \<Rightarrow> boot_pc \<Rightarrow> bool" where
  "recheck_ok e g (Wait w Recheck k) = (has_err g \<or> opened e g w)"
| "recheck_ok e g _ = True"

definition pc_ok :: "boot_env \<Rightarrow> boot_globals \<Rightarrow> boot_pc \<Rightarrow> bool" where
  "pc_ok e g p \<longleftrightarrow> (\<forall>w \<in> behind p. opened e g w) \<and> primary_ok p \<and> recheck_ok e g p \<and>
     (\<forall>k. cpu_id p = Some k \<longrightarrow> k < bg_entered g)"

definition boot_inv :: "boot_env \<Rightarrow> nat \<Rightarrow> boot_state \<Rightarrow> bool" where
  "boot_inv e n s \<longleftrightarrow> (case s of (g, P) \<Rightarrow>
     unat (bg_entered g) = card {i. i < n \<and> cpu_id (P i) \<noteq> None} \<and>
     unat (bg_inited g) = card {i. i < n \<and> counted (P i)} \<and>
     bg_early_ok g \<le> 1 \<and> bg_late_ok g \<le> 1 \<and>
     (\<forall>i < n. pc_ok e g (P i)) \<and>
     (\<forall>i < n. \<forall>j < n. cpu_id (P i) \<noteq> None \<and> cpu_id (P i) = cpu_id (P j) \<longrightarrow> i = j))"

lemma count_upd:
  assumes "i < (n :: nat)" "Q (P i) \<Longrightarrow> Q p"
  shows "card {j. j < n \<and> Q ((P(i := p)) j)} = card {j. j < n \<and> Q (P j)} + (if Q p \<and> \<not> Q (P i) then 1 else 0)"
proof (cases "Q p \<and> \<not> Q (P i)")
  case True
  then have "{j. j < n \<and> Q ((P(i := p)) j)} = insert i {j. j < n \<and> Q (P j)}" using assms(1) by auto
  moreover have "finite {j. j < n \<and> Q (P j)}" by (rule finite_subset[of _ "{..<n}"]) auto
  ultimately show ?thesis using True by (simp only: card_insert_if) simp
next
  case False
  then have "{j. j < n \<and> Q ((P(i := p)) j)} = {j. j < n \<and> Q (P j)}" using assms by auto
  then show ?thesis using False by auto
qed

lemma card_below: "card {j. j < n \<and> Q j} \<le> (n :: nat)"
  using card_mono[of "{j. j < n}" "{j. j < n \<and> Q j}"] by auto

lemma card_below_less: "i < n \<Longrightarrow> \<not> Q i \<Longrightarrow> card {j. j < n \<and> Q j} < (n :: nat)"
  using psubset_card_mono[of "{j. j < n}" "{j. j < n \<and> Q j}"] by auto

definition grows :: "boot_globals \<Rightarrow> boot_globals \<Rightarrow> bool" where
  "grows g g' \<longleftrightarrow> (\<forall>w. wait_counter g w \<le> wait_counter g' w) \<and> (has_err g \<longrightarrow> has_err g')"

lemma wait_point_all: "(\<forall>w. R w) \<longleftrightarrow> R W_Entered \<and> R W_Early \<and> R W_Inited \<and> R W_Late"
  by (metis wait_point.exhaust)

lemma opened_grows: "grows g g' \<Longrightarrow> opened e g w \<Longrightarrow> opened e g' w"
  unfolding grows_def opened_def using order_trans by blast

lemma pc_ok_grows:
  assumes "grows g g'" "pc_ok e g p"
  shows "pc_ok e g' p"
proof -
  have "bg_entered g \<le> bg_entered g'" using assms(1) by (simp add: grows_def wait_point_all)
  moreover have "recheck_ok e g p \<Longrightarrow> recheck_ok e g' p"
    using assms(1) opened_grows[OF assms(1)] by (cases "(e, g, p)" rule: recheck_ok.cases) (auto simp: grows_def)
  ultimately show ?thesis
    using assms opened_grows[OF assms(1)] unfolding pc_ok_def by (meson order_less_le_trans)
qed

text \<open>What one step does to the counters and to the place of its CPU.\<close>

lemma cpu_step_counters:
  assumes "cpu_step e g p = Some (g', p')"
  shows "bg_entered g' = bg_entered g + (if p = Checked then 1 else 0)"
    "bg_inited g' = bg_inited g + (if \<exists>k. p = Inited k then 1 else 0)"
    "bg_early_ok g' = bg_early_ok g \<or> bg_early_ok g' = 1" "bg_late_ok g' = bg_late_ok g \<or> bg_late_ok g' = 1"
    "has_err g \<longrightarrow> has_err g'"
  using assms
  by (cases "(e, g, p)" rule: cpu_step.cases;
      auto simp: on_result_def has_err_def err_code_nonzero split: result.splits)+

lemma wait_for_id: "cpu_id (wait_for e g w ph k) = Some k"
  by (cases w; cases ph) (auto simp: wait_for_def)

lemma wait_for_counted: "counted (wait_for e g w ph k) = wait_inited w"
  by (cases w; cases ph) (auto simp: wait_for_def)

lemma on_result_place:
  "cpu_id (snd (on_result c k r g g' p)) = (case r of Ok _ \<Rightarrow> cpu_id p | _ \<Rightarrow> Some k)"
  "counted (snd (on_result c k r g g' p)) = (case r of Ok _ \<Rightarrow> counted p | _ \<Rightarrow> c)"
  by (cases r; simp add: on_result_def)+

lemma PerCpu_new_check_place: "cpu_id (PerCpu_new_check e g) = None" "\<not> counted (PerCpu_new_check e g)"
  by (simp_all add: PerCpu_new_check_def)

lemma cpu_step_place:
  assumes "cpu_step e g p = Some (g', p')"
  shows "cpu_id p' = (if p = Checked then Some (bg_entered g) else cpu_id p)"
    "counted p' \<longleftrightarrow> counted p \<or> (\<exists>k. p = Inited k)"
proof -
  have p': "p' = snd (the (cpu_step e g p))" using assms by simp
  show "cpu_id p' = (if p = Checked then Some (bg_entered g) else cpu_id p)"
    using assms unfolding p' by (cases p)
      (simp_all add: wait_for_id on_result_place PerCpu_new_check_place split: result.split)
  show "counted p' \<longleftrightarrow> counted p \<or> (\<exists>k. p = Inited k)"
    using assms unfolding p' by (cases p)
      (simp_all add: wait_for_counted on_result_place PerCpu_new_check_place split: result.split)
qed

lemma wait_for_opened:
  "wait_for e g w ph k =
     (case ph of
        Poll \<Rightarrow> if has_err g then Wait w Recheck k else Wait w Load k
      | Load \<Rightarrow> if opened e g w then Wait w Recheck k else Wait w Poll k
      | Recheck \<Rightarrow> if has_err g then Failed (wait_inited w) k EBUSY else main_after w k)"
  by (cases ph) (auto simp: wait_for_def opened_def)

lemma wait_for_ok:
  assumes "pc_ok e g (Wait w ph k)"
  shows "pc_ok e g (wait_for e g w ph k)"
  using assms by (cases w; cases ph) (auto simp: pc_ok_def wait_for_opened)

lemma opened_flags: "opened e (g\<lparr>bg_early_ok := 1\<rparr>) W_Early" "opened e (g\<lparr>bg_late_ok := 1\<rparr>) W_Late"
  by (simp_all add: opened_def)

lemma pc_ok_end:
  "pc_ok e g (Failed c k err) \<longleftrightarrow> k < bg_entered g" "pc_ok e g (Panicked c k) \<longleftrightarrow> k < bg_entered g"
  "pc_ok e g Rejected" "pc_ok e g Checked"
  by (simp_all add: pc_ok_def)

lemma on_result_ok:
  assumes "on_result c k r g g1 p = (g', p')" "pc_ok e g1 p" "k < bg_entered g"
  shows "pc_ok e g' p'"
  using assms by (cases r) (auto simp: on_result_def pc_ok_end)

lemma cpu_step_ok:
  assumes "cpu_step e g p = Some (g', p')" "grows g g'" "pc_ok e g p" "p = Checked \<Longrightarrow> bg_entered g < bg_entered g + 1"
  shows "pc_ok e g' p'"
proof -
  have ok: "pc_ok e g' p" by (rule pc_ok_grows[OF assms(2,3)])
  show ?thesis
  proof (cases p)
    case Outside
    then show ?thesis using assms(1) by (auto simp: PerCpu_new_check_def pc_ok_end)
  next
    case (Wait w ph k)
    then show ?thesis using assms(1,3) wait_for_ok by auto
  next
    case (Early k)
    have "pc_ok e (g\<lparr>bg_early_ok := 1\<rparr>) (Init k)"
      using assms(3) Early by (auto simp: pc_ok_def opened_flags) (simp add: opened_def)
    moreover have "k < bg_entered g" using assms(3) Early by (auto simp: pc_ok_def)
    ultimately show ?thesis using assms(1) Early on_result_ok by auto
  next
    case (Init k)
    have "pc_ok e g (Inited k)" using assms(3) Init by (simp add: pc_ok_def)
    moreover have "k < bg_entered g" using assms(3) Init by (simp add: pc_ok_def)
    ultimately show ?thesis using assms(1) Init on_result_ok by auto
  next
    case (Entering k)
    have "pc_ok e g (Guest k)" using assms(3) Entering by (simp add: pc_ok_def)
    moreover have "k < bg_entered g" using assms(3) Entering by (simp add: pc_ok_def)
    ultimately show ?thesis using assms(1) Entering on_result_ok by auto
  next
    case (Late k)
    then show ?thesis using assms(1) ok opened_flags(2)[of e g] by (auto simp: pc_ok_def)
  qed (use assms(1,4) ok in \<open>auto simp: pc_ok_def\<close>)
qed

lemma cpu_step_grows:
  assumes "cpu_step e g p = Some (g', p')" "bg_early_ok g \<le> 1" "bg_late_ok g \<le> 1"
    and "p = Checked \<Longrightarrow> bg_entered g < bg_entered g + 1" "\<And>k. p = Inited k \<Longrightarrow> bg_inited g < bg_inited g + 1"
  shows "grows g g'"
proof -
  have "bg_entered g \<le> bg_entered g'" "bg_inited g \<le> bg_inited g'"
    using cpu_step_counters(1,2)[OF assms(1)] assms(4,5) by (auto intro: order_less_imp_le)
  moreover have "bg_early_ok g \<le> bg_early_ok g'" "bg_late_ok g \<le> bg_late_ok g'"
    using cpu_step_counters(3,4)[OF assms(1)] assms(2,3) by auto
  ultimately show ?thesis
    using cpu_step_counters(5)[OF assms(1)] by (simp add: grows_def wait_point_all)
qed

lemma u32_succ: "unat (a :: u32) < 2 ^ 32 - 1 \<Longrightarrow> a < a + 1 \<and> unat (a + 1) = unat a + 1"
  by (simp add: word_less_nat_alt unat_word_ariths)

lemma boot_inv_step:
  assumes "boot_step e n s s'" "boot_inv e n s" "n < 2 ^ 32"
  shows "boot_inv e n s'"
  using assms(1)
proof cases
  case (cpu i g P g' p')
  let ?P = "P(i := p')"
  note inv = assms(2)[unfolded cpu(1) boot_inv_def prod.case]
  note st = cpu(4) and co = cpu_step_counters[OF cpu(4)] and pl = cpu_step_place[OF cpu(4)]
  have ent: "unat (bg_entered g) < 2 ^ 32 - 1" if "P i = Checked"
    using inv card_below_less[OF cpu(3), of "\<lambda>i. cpu_id (P i) \<noteq> None"] that assms(3) by simp
  have ini: "unat (bg_inited g) < 2 ^ 32 - 1" if "P i = Inited k" for k
    using inv card_below_less[OF cpu(3), of "\<lambda>i. counted (P i)"] that assms(3) by simp
  have gr: "grows g g'"
    using inv u32_succ[OF ent] u32_succ[OF ini] by (intro cpu_step_grows[OF st]) auto
  have pre: "pc_ok e g (P j)" if "j < n" for j using inv that by blast
  have "pc_ok e g' p'"
    using u32_succ[OF ent] by (intro cpu_step_ok[OF st gr pre[OF cpu(3)]]) blast
  then have ok: "\<forall>j < n. pc_ok e g' (?P j)" using pre pc_ok_grows[OF gr] by auto
  have c1: "unat (bg_entered g') = card {j. j < n \<and> cpu_id (?P j) \<noteq> None}"
    using inv count_upd[OF cpu(3), of "\<lambda>q. cpu_id q \<noteq> None" P p'] pl(1) co(1) u32_succ[OF ent]
    by (cases "P i = Checked") auto
  have c2: "unat (bg_inited g') = card {j. j < n \<and> counted (?P j)}"
    using inv count_upd[OF cpu(3), of counted P p'] pl(2) co(2) u32_succ[OF ini]
    by (cases "\<exists>k. P i = Inited k") auto
  have fresh: "P i = Checked \<Longrightarrow> l < n \<Longrightarrow> cpu_id (P l) \<noteq> Some (bg_entered g)" for l
    using pre[of l] by (auto simp: pc_ok_def)
  have old: "cpu_id (P j) \<noteq> None \<Longrightarrow> cpu_id (P j) = cpu_id (P k) \<Longrightarrow> j < n \<Longrightarrow> k < n \<Longrightarrow> j = k" for j k
    using inv by blast
  have c3: "\<forall>j < n. \<forall>k < n. cpu_id (?P j) \<noteq> None \<and> cpu_id (?P j) = cpu_id (?P k) \<longrightarrow> j = k"
  proof (intro allI impI, elim conjE)
    fix j k assume "j < n" "k < n" "cpu_id (?P j) \<noteq> None" "cpu_id (?P j) = cpu_id (?P k)"
    then show "j = k"
      using old[of j k] fresh[of j] fresh[of k] pl(1) by (cases "j = i"; cases "k = i"; cases "P i = Checked") auto
  qed
  have c4: "bg_early_ok g' \<le> 1" "bg_late_ok g' \<le> 1" using inv co(3,4) by auto
  show ?thesis
    unfolding cpu(2) boot_inv_def prod.case using c1 c2 c3 c4 ok by (intro conjI)
qed

lemma boot_reachable_inv:
  assumes "boot_reachable e n s" "n < 2 ^ 32"
  shows "boot_inv e n s"
  using assms(1) unfolding boot_reachable_def
proof (induction rule: rtranclp_induct)
  case base
  show ?case by (simp add: boot_inv_def boot_start_def pc_ok_def)
next
  case (step s s')
  then show ?case using boot_inv_step assms(2) by blast
qed

lemma boot_invD:
  assumes "boot_inv e n (g, P)"
  shows "unat (bg_entered g) = card {i. i < n \<and> cpu_id (P i) \<noteq> None}" "unat (bg_inited g) = card {i. i < n \<and> counted (P i)}"
    "bg_early_ok g \<le> 1" "bg_late_ok g \<le> 1" "i < n \<Longrightarrow> pc_ok e g (P i)"
    "i < n \<Longrightarrow> j < n \<Longrightarrow> cpu_id (P i) = Some k \<Longrightarrow> cpu_id (P j) = Some k \<Longrightarrow> j = i"
  using assms unfolding boot_inv_def prod.case by (blast, blast, blast, blast, blast, metis option.distinct(1))

lemma all_counted:
  assumes "card {j. j < n \<and> Q j} \<ge> (n :: nat)" "j < n"
  shows "Q j"
  using card_below_less[of j n Q] assms by auto


text \<open>A run along a given order of CPUs.\<close>

fun boot_run :: "boot_env \<Rightarrow> nat list \<Rightarrow> boot_state \<Rightarrow> boot_state option" where
  "boot_run e [] s = Some s"
| "boot_run e (i # is) (g, P) =
     (case cpu_step e g (P i) of None \<Rightarrow> None | Some (g', p') \<Rightarrow> boot_run e is (g', P(i := p')))"

lemma boot_run_steps: "boot_run e is s = Some s' \<Longrightarrow> \<forall>i \<in> set is. i < n \<Longrightarrow> (boot_step e n)\<^sup>*\<^sup>* s s'"
proof (induction e "is" s rule: boot_run.induct)
  case (2 e i "is" g P)
  from 2(2) obtain g' p' where st: "cpu_step e g (P i) = Some (g', p')" "boot_run e is (g', P(i := p')) = Some s'"
    by (auto split: option.splits)
  have "boot_step e n (g, P) (g', P(i := p'))" using 2(3) st(1) by (intro boot_step.cpu) simp_all
  moreover have "(boot_step e n)\<^sup>*\<^sup>* (g', P(i := p')) s'" using 2(1)[OF st(1) refl st(2)] 2(3) by simp
  ultimately show ?case by (rule converse_rtranclp_into_rtranclp)
qed simp

lemma boot_run_reachable:
  "boot_run e is boot_start = Some s \<Longrightarrow> \<forall>i \<in> set is. i < n \<Longrightarrow> boot_reachable e n s"
  unfolding boot_reachable_def by (rule boot_run_steps)

definition sample_boot_env :: boot_env where
  "sample_boot_env = \<lparr>be_max_cpus = 2, be_online_cpus = 2, be_early = Ok (), be_init = (\<lambda>_. Ok ()), be_enter = (\<lambda>_. Ok ())\<rparr>"

definition sample_schedule :: "nat list" where
  "sample_schedule = [0, 1, 0, 1, 0, 0, 0, 0, 0, 0, 1, 1, 1, 1, 1, 1, 1, 1, 0, 0, 0, 0]"

lemma sample_boot:
  obtains g P where "boot_run sample_boot_env sample_schedule boot_start = Some (g, P)" "P 0 = Activate 0"
    "P 1 = Wait W_Inited Poll 1" "boot_reachable sample_boot_env 2 (g, P)"
proof -
  have r: "\<exists>g P. boot_run sample_boot_env sample_schedule boot_start = Some (g, P) \<and> P 0 = Activate 0 \<and>
      P 1 = Wait W_Inited Poll 1"
    by (simp add: sample_schedule_def sample_boot_env_def boot_start_def PerCpu_new_check_def wait_for_def has_err_def
        on_result_def)
  then show thesis
    using that boot_run_reachable[of sample_boot_env sample_schedule _ 2] by (auto simp: sample_schedule_def)
qed


lemma unat_ucast_u32: "unat (ucast (q :: u32) :: u64) = unat q"
  using unsigned_less[of q, where 'a = nat] by (simp add: unsigned_ucast_eq take_bit_nat_eq_self)


section \<open>Properties\<close>

text \<open>C6: No CPU enters its virtual machine before every CPU has initialised: when a CPU has reached the
  activation or runs its guest, the primary's early and late initialisation are complete, all CPUs have
  entered, and each of them has passed its own initialisation. In particular, when one CPU fails
  before that point, no CPU ever activates the hypervisor.\<close>

theorem boot_barrier:
  assumes "boot_reachable e n (g, P)" "n < 2 ^ 32" "be_online_cpus e = of_nat n"
    and "i < n" "P i \<in> {Activate k, Entering k, Guest k}"
  shows "bg_early_ok g = 1 \<and> bg_late_ok g = 1 \<and> unat (bg_entered g) = n \<and> (\<forall>j < n. counted (P j))"
proof -
  note inv = boot_invD[OF boot_reachable_inv[OF assms(1,2)]]
  have op: "opened e g W_Entered" "opened e g W_Early" "opened e g W_Inited" "opened e g W_Late"
    using inv(5)[OF assms(4)] assms(5) by (auto simp: pc_ok_def)
  have n: "unat (of_nat n :: u32) = n" using assms(2) by (simp add: unat_of_nat)
  have le: "n \<le> unat (bg_entered g)" "n \<le> unat (bg_inited g)"
    using op(1,3) n by (simp_all add: opened_def assms(3) word_le_nat_alt)
  have "unat (bg_entered g) = n"
    using le(1) inv(1) card_below[of n "\<lambda>i. cpu_id (P i) \<noteq> None"] by simp
  moreover have "\<forall>j < n. counted (P j)"
    using le(2) all_counted[of n "\<lambda>j. counted (P j)"] unfolding inv(2) by blast
  moreover have "bg_early_ok g = 1" using inv(3) op(2) by (simp add: opened_def)
  moreover have "bg_late_ok g = 1" using inv(4) op(4) by (simp add: opened_def)
  ultimately show ?thesis by blast
qed

theorem boot_barrier_witness:
  "\<exists>g P. boot_reachable sample_boot_env 2 (g, P) \<and> P 0 = Activate 0 \<and> bg_late_ok g = 1 \<and> counted (P 1)"
proof -
  obtain g P where r: "boot_reachable sample_boot_env 2 (g, P)" "P 0 = Activate 0" using sample_boot by metis
  have "bg_late_ok g = 1 \<and> (\<forall>j < 2. counted (P j))"
    using boot_barrier[OF r(1), of 0 0] r(2) by (simp add: sample_boot_env_def)
  then have "bg_late_ok g = 1" "counted (P 1)" by simp_all
  with r show ?thesis by blast
qed

text \<open>C7: Every CPU gets a number of its own: the numbers of two CPUs differ and are smaller than the number
  of CPUs, so at most one CPU is the primary one, and only the primary CPU runs the early and the late
  initialisation.\<close>

theorem boot_cpu_ids:
  assumes "boot_reachable e n (g, P)" "n < 2 ^ 32" "i < n" "cpu_id (P i) = Some k"
  shows "unat k < n \<and> (\<forall>j < n. cpu_id (P j) = Some k \<longrightarrow> j = i) \<and> (P i \<in> {Early k, Late k} \<longrightarrow> k = 0)"
proof -
  note inv = boot_invD[OF boot_reachable_inv[OF assms(1,2)]]
  have ok: "pc_ok e g (P i)" by (rule inv(5)[OF assms(3)])
  then have "unat k < unat (bg_entered g)" using assms(4) by (simp add: pc_ok_def word_less_nat_alt)
  then have "unat k < n" using inv(1) card_below[of n "\<lambda>i. cpu_id (P i) \<noteq> None"] by simp
  moreover have "\<forall>j < n. cpu_id (P j) = Some k \<longrightarrow> j = i" using inv(6)[OF assms(3) _ assms(4)] by blast
  moreover have "P i \<in> {Early k, Late k} \<longrightarrow> k = 0" using ok by (auto simp: pc_ok_def)
  ultimately show ?thesis by blast
qed

theorem boot_cpu_ids_witness:
  "\<exists>g P. boot_reachable sample_boot_env 2 (g, P) \<and> cpu_id (P 1) = Some 1 \<and> cpu_id (P 0) \<noteq> Some 1"
proof -
  obtain g P where r: "boot_reachable sample_boot_env 2 (g, P)" "P 1 = Wait W_Inited Poll 1" using sample_boot by metis
  have "\<forall>j < 2. cpu_id (P j) = Some 1 \<longrightarrow> j = 1"
    using boot_cpu_ids[OF r(1), of 1 1] r(2) by simp
  then have "cpu_id (P 0) \<noteq> Some 1" "cpu_id (P 1) = Some 1" using r(2) by fastforce+
  with r(1) show ?thesis by blast
qed

text \<open>C36: The per-CPU areas lie between the image and the configuration and do not overlap, as long as no
  more CPUs call the hypervisor than the header allows.\<close>

theorem percpu_areas:
  assumes "boot_reachable e n (g, P)" "n \<le> unat (hh_max_cpus h)"
    and "unat core_end + unat (hh_max_cpus h) * 0x80000 < 2 ^ 64"
    and "i < n" "cpu_id (P i) = Some k" "j < n" "cpu_id (P j) = Some l" "i \<noteq> j"
  shows "core_end \<le> PerCpu_new_vaddr core_end k \<and>
    unat (PerCpu_new_vaddr core_end k) + 0x80000 \<le> unat (hv_config_ptr core_end h) \<and>
    (unat (PerCpu_new_vaddr core_end k) + 0x80000 \<le> unat (PerCpu_new_vaddr core_end l) \<or>
     unat (PerCpu_new_vaddr core_end l) + 0x80000 \<le> unat (PerCpu_new_vaddr core_end k))"
proof -
  have n: "n < 2 ^ 32" using assms(2) unsigned_less[of "hh_max_cpus h", where 'a = nat] by simp
  note inv = boot_invD[OF boot_reachable_inv[OF assms(1) n]]
  have le: "unat q < n" if "a < n" "cpu_id (P a) = Some q" for a q
    using inv(5)[OF that(1)] that(2) inv(1) card_below[of n "\<lambda>i. cpu_id (P i) \<noteq> None"]
    by (simp add: pc_ok_def word_less_nat_alt)
  have va: "unat (core_end + ucast q * PER_CPU_SIZE) = unat core_end + unat q * 0x80000"
    if "unat q \<le> unat (hh_max_cpus h)" for q :: u32
  proof -
    have "unat q * 0x80000 \<le> unat (hh_max_cpus h) * 0x80000" using that by simp
    then have b: "unat core_end + unat q * 0x80000 < 2 ^ 64" using assms(3) by linarith
    have "unat (ucast q * PER_CPU_SIZE) = unat q * 0x80000"
      using b by (intro unat_mult_le) (simp_all add: PER_CPU_SIZE_def unat_ucast_u32)
    then show ?thesis using b by (intro unat_add_le) simp_all
  qed
  have kl: "unat k < n" "unat l < n" using le assms(4-7) by blast+
  have "k \<noteq> l" using inv(6)[OF assms(4,6,5)] assms(7,8) by auto
  then have ne: "unat k < unat l \<or> unat l < unat k" by (metis linorder_less_linear unsigned_word_eqI)
  show ?thesis
    unfolding PerCpu_new_vaddr_def hv_config_ptr_def word_le_nat_alt
    using va[of k] va[of l] va[of "hh_max_cpus h"] kl ne assms(2) by auto
qed

theorem percpu_areas_witness:
  "\<exists>g P. boot_reachable sample_boot_env 2 (g, P) \<and> cpu_id (P 0) = Some 0 \<and> cpu_id (P 1) = Some 1 \<and>
     unat (PerCpu_new_vaddr 0x100000 0) + 0x80000 \<le> unat (hv_config_ptr 0x100000 ((HEADER_STUFF 0 0)\<lparr>hh_max_cpus := 2\<rparr>))"
proof -
  obtain g P where r: "boot_reachable sample_boot_env 2 (g, P)" "P 0 = Activate 0" "P 1 = Wait W_Inited Poll 1"
    using sample_boot by metis
  then have k: "cpu_id (P 0) = Some 0" "cpu_id (P 1) = Some 1" by simp_all
  have h: "(2 :: nat) \<le> unat (hh_max_cpus ((HEADER_STUFF 0 0)\<lparr>hh_max_cpus := 2\<rparr>))"
    "unat (0x100000 :: usize) + unat (hh_max_cpus ((HEADER_STUFF 0 0)\<lparr>hh_max_cpus := 2\<rparr>)) * 0x80000 < 2 ^ 64"
    by simp_all
  from percpu_areas[OF r(1) h, of 0 0 1 1] k r(1) show ?thesis by auto
qed

text \<open>C37: The check of the number of CPUs is not atomic with the increment: two CPUs that enter at the same
  time can both pass it when the header allows a single CPU, and the second one takes for its own data
  the memory where the configuration is.\<close>

theorem percpu_check_race:
  "\<exists>g P. boot_reachable (sample_boot_env\<lparr>be_max_cpus := 1\<rparr>) 2 (g, P) \<and> cpu_id (P 1) = Some 1 \<and>
     PerCpu_new_vaddr core_end 1 = hv_config_ptr core_end ((HEADER_STUFF core_size entry)\<lparr>hh_max_cpus := 1\<rparr>)"
proof -
  let ?e = "sample_boot_env\<lparr>be_max_cpus := 1\<rparr>"
  obtain g P where r: "boot_run ?e [0, 1, 0, 1] boot_start = Some (g, P)" "cpu_id (P 1) = Some 1"
    by (simp add: sample_boot_env_def boot_start_def PerCpu_new_check_def)
  then have "boot_reachable ?e 2 (g, P)" by (intro boot_run_reachable[OF r(1)]) simp
  with r(2) show ?thesis by (auto simp: PerCpu_new_vaddr_def hv_config_ptr_def)
qed

end
