(* ===== verification/GuestAccess.thy ===== *)
theory GuestAccess
  imports HvConfig PageTableProps
begin

text \<open>
  Access to guest memory: \<^verbatim>\<open>GuestPtr\<close> of \<^verbatim>\<open>src/src/memory/gaccess.rs\<close>. A pointer is an address and the
  guest's page table, given by its \<^verbatim>\<open>query\<close>; the type it points to is given by its size and alignment.
  Memory is read and written at host-physical addresses, which \<^verbatim>\<open>phys_to_virt\<close> maps. The locale
  \<open>guest_pt\<close> is what the copying loops rely on: the bytes of a page are translated to consecutive
  addresses.
\<close>

type_synonym guest_query = "usize \<Rightarrow> (phys_addr \<times> u64 \<times> PageSize, PagingError) result"

definition check_gpaddr :: "phys_addr \<Rightarrow> (unit, HvErrorNum) result" where
  "check_gpaddr gpaddr = Ok ()"

definition check_raw :: "usize \<Rightarrow> usize \<Rightarrow> (unit, HvErrorNum) result" where
  "check_raw align addr = (if addr = 0 then Err EFAULT else if addr mod align \<noteq> 0 then Err EINVAL else Ok ())"

definition as_guest_paddr :: "guest_query \<Rightarrow> usize \<Rightarrow> (phys_addr, HvErrorNum) result" where
  "as_guest_paddr q gvaddr =
     and_then (map_err HvError_from_PagingError (q gvaddr)) (\<lambda>(gpaddr, _, _).
     and_then (check_gpaddr gpaddr) (\<lambda>_. Ok gpaddr))"

text \<open>The size of the next piece.\<close>

definition piece :: "PageSize \<Rightarrow> usize \<Rightarrow> usize \<Rightarrow> usize" where
  "piece pg gvaddr sz = min (page_bytes pg - ps_page_offset pg gvaddr) sz"

lemma page_bytes_unat: "unat (page_bytes pg) = 2 ^ page_shift pg"
  by (cases pg) simp_all

lemma piece_unat: "unat (piece pg v sz) = min (2 ^ page_shift pg - unat v mod 2 ^ page_shift pg) (unat sz)"
proof -
  have "unat (ps_page_offset pg v) \<le> unat (page_bytes pg)"
    using ps_page_offset_lt[of pg v] by (simp add: page_bytes_unat)
  then have "unat (page_bytes pg - ps_page_offset pg v) = 2 ^ page_shift pg - unat v mod 2 ^ page_shift pg"
    by (simp add: unat_sub page_bytes_unat unat_ps_page_offset word_le_nat_alt)
  then show ?thesis by (simp add: piece_def min_def word_le_nat_alt)
qed

lemma piece_in_page: "unat (piece pg v sz) + unat v mod 2 ^ page_shift pg \<le> 2 ^ page_shift pg"
proof -
  have "unat v mod 2 ^ page_shift pg < 2 ^ page_shift pg" by simp
  moreover have "unat (piece pg v sz) \<le> 2 ^ page_shift pg - unat v mod 2 ^ page_shift pg"
    by (simp add: piece_unat)
  ultimately show ?thesis by linarith
qed

lemma piece_pos: "sz \<noteq> 0 \<Longrightarrow> 0 < unat (piece pg v sz)"
  by (simp add: piece_unat unat_gt_0)

lemma piece_le: "unat (piece pg v sz) \<le> unat sz" "unat (sz - piece pg v sz) = unat sz - unat (piece pg v sz)"
proof -
  show le: "unat (piece pg v sz) \<le> unat sz" by (simp add: piece_unat)
  show "unat (sz - piece pg v sz) = unat sz - unat (piece pg v sz)"
    using le by (simp add: unat_sub word_le_nat_alt)
qed

function read_loop :: "guest_query \<Rightarrow> bytes \<Rightarrow> usize \<Rightarrow> usize \<Rightarrow> (u8 list, HvErrorNum) result" where
  "read_loop q mem gvaddr sz =
     (if sz = 0 then Ok []
      else case q gvaddr of
        Err e \<Rightarrow> Err (HvError_from_PagingError e)
      | Panic \<Rightarrow> Panic
      | Ok (gpaddr, fl, pg) \<Rightarrow>
          and_then (check_gpaddr gpaddr) (\<lambda>_.
          and_then (read_loop q mem (gvaddr + piece pg gvaddr sz) (sz - piece pg gvaddr sz)) (\<lambda>bs.
          Ok (read_bytes mem gpaddr (unat (piece pg gvaddr sz)) @ bs))))"
  by pat_completeness auto
termination
proof (relation "measure (\<lambda>(q, mem, v, sz). unat sz)")
  fix mem :: bytes and v sz :: usize and q :: guest_query and x fl pg p y
  assume "sz \<noteq> 0"
  then show "((q, mem, v + piece pg v sz, sz - piece pg v sz), q, mem, v, sz) \<in> measure (\<lambda>(q, mem, v, sz). unat sz)"
    using piece_pos[of sz pg v] piece_le(2)[of sz pg v] unat_gt_0[of sz] by simp
qed simp

declare read_loop.simps [simp del]

definition GuestPtr_read :: "guest_query \<Rightarrow> bytes \<Rightarrow> usize \<Rightarrow> usize \<Rightarrow> usize \<Rightarrow> (u8 list, HvErrorNum) result" where
  "GuestPtr_read q mem align sz gvaddr = and_then (check_raw align gvaddr) (\<lambda>_. read_loop q mem gvaddr sz)"

definition write_bytes :: "bytes \<Rightarrow> usize \<Rightarrow> u8 list \<Rightarrow> bytes" where
  "write_bytes mem a bs = fold (\<lambda>(i, b) m. m(a + of_nat i := b)) (enumerate 0 bs) mem"

text \<open>A write that fails has written the pages before the failing one.\<close>

function write_loop :: "guest_query \<Rightarrow> u8 list \<Rightarrow> usize \<Rightarrow> usize \<Rightarrow> bytes \<Rightarrow> bytes \<times> (unit, HvErrorNum) result" where
  "write_loop q src gvaddr sz mem =
     (if sz = 0 then (mem, Ok ())
      else case q gvaddr of
        Err e \<Rightarrow> (mem, Err (HvError_from_PagingError e))
      | Panic \<Rightarrow> (mem, Panic)
      | Ok (gpaddr, fl, pg) \<Rightarrow>
          (case check_gpaddr gpaddr of
             Err e \<Rightarrow> (mem, Err e)
           | Panic \<Rightarrow> (mem, Panic)
           | Ok _ \<Rightarrow>
              write_loop q (drop (unat (piece pg gvaddr sz)) src) (gvaddr + piece pg gvaddr sz)
                (sz - piece pg gvaddr sz) (write_bytes mem gpaddr (take (unat (piece pg gvaddr sz)) src))))"
  by pat_completeness auto
termination
proof (relation "measure (\<lambda>(q, src, v, sz, mem). unat sz)")
  fix mem :: bytes and v sz :: usize and q :: guest_query and src :: "u8 list" and x y fl p pg z
  assume "sz \<noteq> 0"
  then show "((q, drop (unat (piece pg v sz)) src, v + piece pg v sz, sz - piece pg v sz,
      write_bytes mem p (take (unat (piece pg v sz)) src)), q, src, v, sz, mem) \<in> measure (\<lambda>(q, src, v, sz, mem). unat sz)"
    using piece_pos[of sz pg v] piece_le(2)[of sz pg v] unat_gt_0[of sz] by simp
qed simp

declare write_loop.simps [simp del]

definition GuestPtr_write :: "guest_query \<Rightarrow> usize \<Rightarrow> u8 list \<Rightarrow> usize \<Rightarrow> bytes \<Rightarrow> bytes \<times> (unit, HvErrorNum) result" where
  "GuestPtr_write q align data gvaddr mem =
     (case check_raw align gvaddr of
        Ok _ \<Rightarrow> write_loop q data gvaddr (of_nat (length data)) mem
      | Err e \<Rightarrow> (mem, Err e)
      | Panic \<Rightarrow> (mem, Panic))"

text \<open>\<^verbatim>\<open>as_ref\<close> and \<^verbatim>\<open>as_mut\<close> give the host-virtual address of the object.\<close>

definition GuestPtr_as_ref :: "usize \<Rightarrow> guest_query \<Rightarrow> usize \<Rightarrow> usize \<Rightarrow> usize \<Rightarrow> (virt_addr, HvErrorNum) result" where
  "GuestPtr_as_ref off q align sz gvaddr =
     and_then (check_raw align gvaddr) (\<lambda>_.
     and_then (map_err HvError_from_PagingError (q gvaddr)) (\<lambda>(gpaddr, _, pg).
     and_then (check_gpaddr gpaddr) (\<lambda>_.
     if page_offset gpaddr + sz > page_bytes pg then Err EINVAL else Ok (phys_to_virt off gpaddr))))"

definition gpaddr_to_ref_mut :: "usize \<Rightarrow> usize \<Rightarrow> phys_addr \<Rightarrow> (virt_addr, HvErrorNum) result" where
  "gpaddr_to_ref_mut off align gpaddr =
     and_then (check_raw align gpaddr) (\<lambda>_.
     and_then (check_gpaddr gpaddr) (\<lambda>_. Ok (phys_to_virt off gpaddr)))"


section \<open>Byte by byte\<close>

text \<open>The reference: each byte is translated on its own.\<close>

primrec read_bytewise :: "guest_query \<Rightarrow> bytes \<Rightarrow> usize \<Rightarrow> nat \<Rightarrow> (u8 list, HvErrorNum) result" where
  "read_bytewise q mem v 0 = Ok []"
| "read_bytewise q mem v (Suc n) =
     (case q v of
        Err e \<Rightarrow> Err (HvError_from_PagingError e)
      | Panic \<Rightarrow> Panic
      | Ok (p, fl, pg) \<Rightarrow> and_then (read_bytewise q mem (v + 1) n) (\<lambda>bs. Ok (mem p # bs)))"

primrec write_bytewise :: "guest_query \<Rightarrow> u8 list \<Rightarrow> usize \<Rightarrow> bytes \<Rightarrow> bytes \<times> (unit, HvErrorNum) result" where
  "write_bytewise q [] v mem = (mem, Ok ())"
| "write_bytewise q (b # bs) v mem =
     (case q v of
        Err e \<Rightarrow> (mem, Err (HvError_from_PagingError e))
      | Panic \<Rightarrow> (mem, Panic)
      | Ok (p, fl, pg) \<Rightarrow> write_bytewise q bs (v + 1) (mem(p := b)))"

lemma succ_in_page:
  assumes "unat (v :: usize) mod 2 ^ page_shift pg + 1 < 2 ^ page_shift pg"
  shows "unat (v + 1) = unat v + 1" "unat (v + 1) mod 2 ^ page_shift pg = unat v mod 2 ^ page_shift pg + 1"
    "unat (v + 1) div 2 ^ page_shift pg = unat v div 2 ^ page_shift pg"
proof -
  have "unat v \<noteq> 2 ^ 64 - 1" using assms by (cases pg) auto
  moreover have "unat v < 2 ^ 64" using unsigned_less[of v, where 'a = nat] by simp
  ultimately have "unat v + unat (1 :: usize) < 2 ^ 64" by simp
  then show u: "unat (v + 1) = unat v + 1" by (simp add: unat_add_no_wrap)
  show "unat (v + 1) mod 2 ^ page_shift pg = unat v mod 2 ^ page_shift pg + 1"
    using assms by (simp add: u mod_Suc)
  show "unat (v + 1) div 2 ^ page_shift pg = unat v div 2 ^ page_shift pg"
    using assms by (simp add: u div_Suc mod_Suc)
qed

lemma read_bytes_Suc: "read_bytes mem p (Suc k) = mem p # read_bytes mem (p + 1) k"
  by (simp add: read_bytes_def map_upt_Suc add.assoc del: upt_Suc)

lemma write_bytes_Cons: "write_bytes mem p (b # bs) = write_bytes (mem(p := b)) (p + 1) bs"
proof -
  have "fold (\<lambda>(i, b) m. m(p + of_nat i := b)) (enumerate (Suc n) bs) mem
      = fold (\<lambda>(i, b) m. m(p + 1 + of_nat i := b)) (enumerate n bs) mem" for n mem
    by (induction bs arbitrary: n mem) (simp_all add: add.assoc)
  then show ?thesis by (simp add: write_bytes_def)
qed

locale guest_pt =
  fixes q :: guest_query
  assumes next_byte: "q v = Ok (p, fl, pg) \<Longrightarrow> unat v mod 2 ^ page_shift pg + 1 < 2 ^ page_shift pg \<Longrightarrow>
    q (v + 1) = Ok (p + 1, fl, pg)"
begin

lemma read_in_page:
  "q v = Ok (p, fl, pg) \<Longrightarrow> k + unat v mod 2 ^ page_shift pg \<le> 2 ^ page_shift pg \<Longrightarrow>
    read_bytewise q mem v (k + n) =
      and_then (read_bytewise q mem (v + of_nat k) n) (\<lambda>bs. Ok (read_bytes mem p k @ bs))"
proof (induction k arbitrary: v p)
  case 0
  then show ?case by (cases "read_bytewise q mem v n") (simp_all add: read_bytes_def)
next
  case (Suc k)
  show ?case
  proof (cases k)
    case 0
    then show ?thesis using Suc.prems by (simp add: read_bytes_def)
  next
    case (Suc j)
    have lt: "unat v mod 2 ^ page_shift pg + 1 < 2 ^ page_shift pg" using Suc.prems(2) Suc by simp
    have q1: "q (v + 1) = Ok (p + 1, fl, pg)" by (rule next_byte[OF Suc.prems(1) lt])
    have "unat (v + 1) mod 2 ^ page_shift pg = unat v mod 2 ^ page_shift pg + 1"
      using succ_in_page(2)[OF lt] .
    then have "k + unat (v + 1) mod 2 ^ page_shift pg \<le> 2 ^ page_shift pg" using Suc.prems(2) by simp
    from Suc.IH[OF q1 this] Suc.prems(1) show ?thesis
      by (cases "read_bytewise q mem (v + (1 + of_nat k)) n")
        (simp_all add: read_bytes_Suc add.assoc)
  qed
qed

lemma write_in_page:
  "q v = Ok (p, fl, pg) \<Longrightarrow> length bs + unat v mod 2 ^ page_shift pg \<le> 2 ^ page_shift pg \<Longrightarrow>
    write_bytewise q (bs @ cs) v mem = write_bytewise q cs (v + of_nat (length bs)) (write_bytes mem p bs)"
proof (induction bs arbitrary: v p mem)
  case Nil
  then show ?case by (simp add: write_bytes_def)
next
  case (Cons b bs)
  show ?case
  proof (cases bs)
    case Nil
    then show ?thesis using Cons.prems by (simp add: write_bytes_def fun_upd_def)
  next
    case (Cons c ds)
    have lt: "unat v mod 2 ^ page_shift pg + 1 < 2 ^ page_shift pg" using Cons.prems(2) Cons by simp
    have q1: "q (v + 1) = Ok (p + 1, fl, pg)" by (rule next_byte[OF Cons.prems(1) lt])
    have "length bs + unat (v + 1) mod 2 ^ page_shift pg \<le> 2 ^ page_shift pg"
      using Cons.prems(2) succ_in_page(2)[OF lt] by simp
    from Cons.IH[OF q1 this] Cons.prems(1) show ?thesis
      by (simp add: write_bytes_Cons add.assoc fun_upd_def)
  qed
qed

lemma read_loop_bytewise: "read_loop q mem v sz = read_bytewise q mem v (unat sz)"
proof (induction "unat sz" arbitrary: v sz rule: less_induct)
  case less
  show ?case
  proof (cases "sz = 0 \<or> (\<forall>p fl pg. q v \<noteq> Ok (p, fl, pg))")
    case True
    then show ?thesis
      by (cases "unat sz"; cases "q v") (auto simp: read_loop.simps unat_eq_0)
  next
    case False
    then obtain p fl pg where q: "q v = Ok (p, fl, pg)" and sz: "sz \<noteq> 0" by blast
    let ?k = "piece pg v sz"
    have k: "0 < unat ?k" "unat ?k \<le> unat sz" "unat (sz - ?k) = unat sz - unat ?k"
      using piece_pos[OF sz] piece_le by blast+
    have "unat ?k + unat v mod 2 ^ page_shift pg \<le> 2 ^ page_shift pg" by (rule piece_in_page)
    from read_in_page[OF q this, of mem "unat sz - unat ?k"] k
    have "read_bytewise q mem v (unat sz) =
        and_then (read_bytewise q mem (v + ?k) (unat sz - unat ?k)) (\<lambda>bs. Ok (read_bytes mem p (unat ?k) @ bs))"
      by simp
    then show ?thesis
      using less[of "sz - ?k" "v + ?k"] k q sz by (simp add: read_loop.simps[of q mem v] check_gpaddr_def)
  qed
qed

lemma write_loop_bytewise:
  "unat sz = length src \<Longrightarrow> write_loop q src v sz mem = write_bytewise q src v mem"
proof (induction "unat sz" arbitrary: v sz src mem rule: less_induct)
  case less
  show ?case
  proof (cases "sz = 0 \<or> (\<forall>p fl pg. q v \<noteq> Ok (p, fl, pg))")
    case True
    then show ?thesis
      using less.prems by (cases src; cases "q v") (auto simp: write_loop.simps unat_eq_0)
  next
    case False
    then obtain p fl pg where q: "q v = Ok (p, fl, pg)" and sz: "sz \<noteq> 0" by blast
    let ?k = "piece pg v sz"
    let ?m = "write_bytes mem p (take (unat ?k) src)"
    have k: "0 < unat ?k" "unat ?k \<le> unat sz" "unat (sz - ?k) = unat sz - unat ?k"
      using piece_pos[OF sz] piece_le by blast+
    then have len: "length (take (unat ?k) src) = unat ?k" using less.prems by simp
    have "unat ?k + unat v mod 2 ^ page_shift pg \<le> 2 ^ page_shift pg" by (rule piece_in_page)
    from write_in_page[OF q, of "take (unat ?k) src" "drop (unat ?k) src" mem] this len
    have "write_bytewise q src v mem = write_bytewise q (drop (unat ?k) src) (v + ?k) ?m" by simp
    moreover have "write_loop q (drop (unat ?k) src) (v + ?k) (sz - ?k) ?m
        = write_bytewise q (drop (unat ?k) src) (v + ?k) ?m"
      using less.hyps[of "sz - ?k" "drop (unat ?k) src" "v + ?k" ?m] less.prems k by simp
    ultimately show ?thesis
      using q sz by (simp add: write_loop.simps[of q src v sz] check_gpaddr_def)
  qed
qed

end


section \<open>The guest's own page table\<close>

interpretation guest: guest_pt "query PTEntry_ops s pt" for s pt
proof
  fix v p fl pg
  assume q: "query PTEntry_ops s pt v = Ok (p, fl, pg)" and lt: "unat v mod 2 ^ page_shift pg + 1 < 2 ^ page_shift pg"
  note u = succ_in_page[OF lt]
  have "drop_bit (page_shift pg) (v + 1) = drop_bit (page_shift pg) v"
    using u(3) unfolding word_unat_eq_iff unat_drop_bit .
  then have "bit (drop_bit (page_shift pg) (v + 1)) j = bit (drop_bit (page_shift pg) v) j" for j by simp
  then have "bit (v + 1) n = bit v n" if "page_shift pg \<le> n" for n
    using that unfolding bit_drop_bit_eq o_def by (metis le_add_diff_inverse)
  then have "path_of pg (v + 1) = path_of pg v"
    unfolding path_of_eq_iff page_no_eq_bits by blast
  moreover have "ps_page_offset pg (v + 1) = ps_page_offset pg v + 1"
  proof -
    have "unat (ps_page_offset pg v) + unat (1 :: usize) < 2 ^ 64"
      using ps_page_offset_lt[of pg v] by (cases pg) simp_all
    then have "unat (ps_page_offset pg v + 1) = unat (ps_page_offset pg v) + 1" by (simp add: unat_add_no_wrap)
    then show ?thesis using u(2) by (simp only: word_unat_eq_iff unat_ps_page_offset)
  qed
  ultimately show "query PTEntry_ops s pt (v + 1) = Ok (p + 1, fl, pg)"
    using leaf_path_cong[of pg "v + 1" v] q by (auto simp: x86.query_Ok)
qed


text \<open>The check of \<^verbatim>\<open>as_ref\<close> accepts an object that runs over the end of a large page.\<close>

lemma as_ref_crosses_page:
  "GuestPtr_as_ref 0 (\<lambda>v. Ok (v, 0, Size2M)) 1 0x10 0x1ffff8 = Ok 0x1ffff8"
  by (simp add: GuestPtr_as_ref_def check_raw_def check_gpaddr_def page_offset_def rvm_const phys_to_virt_def)

end
