(* ===== verification/VmcsFields.thy ===== *)
theory VmcsFields
  imports Prelude
begin

text \<open>
  The VMCS field enumerations of \<^verbatim>\<open>crates/libvmm/src/x86_64/vmx/vmcs.rs\<close>, each with its
  encodings, and the access attributes the \<^verbatim>\<open>vmcs_access\<close> macro of
  \<^verbatim>\<open>crates/libvmm/libvmm_macros/src/vmcs.rs\<close> gives it. The main result is that the attributes
  agree with the encodings: the processor reads width, kind and access type of a field off its
  encoding.
\<close>


section \<open>The enumerations\<close>

datatype VmcsField16Control =
    C16_VIRTUAL_PROCESSOR_ID | C16_POSTED_INTR_NV | C16_EPTP_INDEX

primrec c16_enc :: "VmcsField16Control \<Rightarrow> u32" where
  "c16_enc C16_VIRTUAL_PROCESSOR_ID = 0x00000000"
| "c16_enc C16_POSTED_INTR_NV = 0x00000002"
| "c16_enc C16_EPTP_INDEX = 0x00000004"

datatype VmcsField16Guest =
    G16_ES_SELECTOR | G16_CS_SELECTOR | G16_SS_SELECTOR | G16_DS_SELECTOR | G16_FS_SELECTOR
  | G16_GS_SELECTOR | G16_LDTR_SELECTOR | G16_TR_SELECTOR | G16_INTR_STATUS | G16_PML_INDEX

primrec g16_enc :: "VmcsField16Guest \<Rightarrow> u32" where
  "g16_enc G16_ES_SELECTOR = 0x00000800"
| "g16_enc G16_CS_SELECTOR = 0x00000802"
| "g16_enc G16_SS_SELECTOR = 0x00000804"
| "g16_enc G16_DS_SELECTOR = 0x00000806"
| "g16_enc G16_FS_SELECTOR = 0x00000808"
| "g16_enc G16_GS_SELECTOR = 0x0000080a"
| "g16_enc G16_LDTR_SELECTOR = 0x0000080c"
| "g16_enc G16_TR_SELECTOR = 0x0000080e"
| "g16_enc G16_INTR_STATUS = 0x00000810"
| "g16_enc G16_PML_INDEX = 0x00000812"

datatype VmcsField16Host =
    H16_ES_SELECTOR | H16_CS_SELECTOR | H16_SS_SELECTOR | H16_DS_SELECTOR | H16_FS_SELECTOR
  | H16_GS_SELECTOR | H16_TR_SELECTOR

primrec h16_enc :: "VmcsField16Host \<Rightarrow> u32" where
  "h16_enc H16_ES_SELECTOR = 0x00000c00"
| "h16_enc H16_CS_SELECTOR = 0x00000c02"
| "h16_enc H16_SS_SELECTOR = 0x00000c04"
| "h16_enc H16_DS_SELECTOR = 0x00000c06"
| "h16_enc H16_FS_SELECTOR = 0x00000c08"
| "h16_enc H16_GS_SELECTOR = 0x00000c0a"
| "h16_enc H16_TR_SELECTOR = 0x00000c0c"

datatype VmcsField32Control =
    C32_PIN_BASED_VM_EXEC_CONTROL | C32_PROC_BASED_VM_EXEC_CONTROL | C32_EXCEPTION_BITMAP
  | C32_PAGE_FAULT_ERROR_CODE_MASK | C32_PAGE_FAULT_ERROR_CODE_MATCH | C32_CR3_TARGET_COUNT
  | C32_VM_EXIT_CONTROLS | C32_VM_EXIT_MSR_STORE_COUNT | C32_VM_EXIT_MSR_LOAD_COUNT
  | C32_VM_ENTRY_CONTROLS | C32_VM_ENTRY_MSR_LOAD_COUNT | C32_VM_ENTRY_INTR_INFO_FIELD
  | C32_VM_ENTRY_EXCEPTION_ERROR_CODE | C32_VM_ENTRY_INSTRUCTION_LEN | C32_TPR_THRESHOLD
  | C32_SECONDARY_VM_EXEC_CONTROL | C32_PLE_GAP | C32_PLE_WINDOW

primrec c32_enc :: "VmcsField32Control \<Rightarrow> u32" where
  "c32_enc C32_PIN_BASED_VM_EXEC_CONTROL = 0x00004000"
| "c32_enc C32_PROC_BASED_VM_EXEC_CONTROL = 0x00004002"
| "c32_enc C32_EXCEPTION_BITMAP = 0x00004004"
| "c32_enc C32_PAGE_FAULT_ERROR_CODE_MASK = 0x00004006"
| "c32_enc C32_PAGE_FAULT_ERROR_CODE_MATCH = 0x00004008"
| "c32_enc C32_CR3_TARGET_COUNT = 0x0000400a"
| "c32_enc C32_VM_EXIT_CONTROLS = 0x0000400c"
| "c32_enc C32_VM_EXIT_MSR_STORE_COUNT = 0x0000400e"
| "c32_enc C32_VM_EXIT_MSR_LOAD_COUNT = 0x00004010"
| "c32_enc C32_VM_ENTRY_CONTROLS = 0x00004012"
| "c32_enc C32_VM_ENTRY_MSR_LOAD_COUNT = 0x00004014"
| "c32_enc C32_VM_ENTRY_INTR_INFO_FIELD = 0x00004016"
| "c32_enc C32_VM_ENTRY_EXCEPTION_ERROR_CODE = 0x00004018"
| "c32_enc C32_VM_ENTRY_INSTRUCTION_LEN = 0x0000401a"
| "c32_enc C32_TPR_THRESHOLD = 0x0000401c"
| "c32_enc C32_SECONDARY_VM_EXEC_CONTROL = 0x0000401e"
| "c32_enc C32_PLE_GAP = 0x00004020"
| "c32_enc C32_PLE_WINDOW = 0x00004022"

datatype VmcsField32ReadOnly =
    R32_VM_INSTRUCTION_ERROR | R32_VM_EXIT_REASON | R32_VM_EXIT_INTR_INFO
  | R32_VM_EXIT_INTR_ERROR_CODE | R32_IDT_VECTORING_INFO_FIELD | R32_IDT_VECTORING_ERROR_CODE
  | R32_VM_EXIT_INSTRUCTION_LEN | R32_VMX_INSTRUCTION_INFO

primrec r32_enc :: "VmcsField32ReadOnly \<Rightarrow> u32" where
  "r32_enc R32_VM_INSTRUCTION_ERROR = 0x00004400"
| "r32_enc R32_VM_EXIT_REASON = 0x00004402"
| "r32_enc R32_VM_EXIT_INTR_INFO = 0x00004404"
| "r32_enc R32_VM_EXIT_INTR_ERROR_CODE = 0x00004406"
| "r32_enc R32_IDT_VECTORING_INFO_FIELD = 0x00004408"
| "r32_enc R32_IDT_VECTORING_ERROR_CODE = 0x0000440a"
| "r32_enc R32_VM_EXIT_INSTRUCTION_LEN = 0x0000440c"
| "r32_enc R32_VMX_INSTRUCTION_INFO = 0x0000440e"

datatype (plugins only: code size) VmcsField32Guest =
    G32_ES_LIMIT | G32_CS_LIMIT | G32_SS_LIMIT | G32_DS_LIMIT | G32_FS_LIMIT | G32_GS_LIMIT
  | G32_LDTR_LIMIT | G32_TR_LIMIT | G32_GDTR_LIMIT | G32_IDTR_LIMIT | G32_ES_AR_BYTES
  | G32_CS_AR_BYTES | G32_SS_AR_BYTES | G32_DS_AR_BYTES | G32_FS_AR_BYTES | G32_GS_AR_BYTES
  | G32_LDTR_AR_BYTES | G32_TR_AR_BYTES | G32_INTERRUPTIBILITY_INFO | G32_ACTIVITY_STATE
  | G32_SYSENTER_CS | G32_VMX_PREEMPTION_TIMER_VALUE

primrec g32_enc :: "VmcsField32Guest \<Rightarrow> u32" where
  "g32_enc G32_ES_LIMIT = 0x00004800"
| "g32_enc G32_CS_LIMIT = 0x00004802"
| "g32_enc G32_SS_LIMIT = 0x00004804"
| "g32_enc G32_DS_LIMIT = 0x00004806"
| "g32_enc G32_FS_LIMIT = 0x00004808"
| "g32_enc G32_GS_LIMIT = 0x0000480a"
| "g32_enc G32_LDTR_LIMIT = 0x0000480c"
| "g32_enc G32_TR_LIMIT = 0x0000480e"
| "g32_enc G32_GDTR_LIMIT = 0x00004810"
| "g32_enc G32_IDTR_LIMIT = 0x00004812"
| "g32_enc G32_ES_AR_BYTES = 0x00004814"
| "g32_enc G32_CS_AR_BYTES = 0x00004816"
| "g32_enc G32_SS_AR_BYTES = 0x00004818"
| "g32_enc G32_DS_AR_BYTES = 0x0000481a"
| "g32_enc G32_FS_AR_BYTES = 0x0000481c"
| "g32_enc G32_GS_AR_BYTES = 0x0000481e"
| "g32_enc G32_LDTR_AR_BYTES = 0x00004820"
| "g32_enc G32_TR_AR_BYTES = 0x00004822"
| "g32_enc G32_INTERRUPTIBILITY_INFO = 0x00004824"
| "g32_enc G32_ACTIVITY_STATE = 0x00004826"
| "g32_enc G32_SYSENTER_CS = 0x0000482a"
| "g32_enc G32_VMX_PREEMPTION_TIMER_VALUE = 0x0000482e"

datatype VmcsField32Host =
    H32_IA32_SYSENTER_CS

primrec h32_enc :: "VmcsField32Host \<Rightarrow> u32" where
  "h32_enc H32_IA32_SYSENTER_CS = 0x00004c00"

datatype (plugins only: code size) VmcsField64Control =
    C64_IO_BITMAP_A | C64_IO_BITMAP_B | C64_MSR_BITMAP | C64_VM_EXIT_MSR_STORE_ADDR
  | C64_VM_EXIT_MSR_LOAD_ADDR | C64_VM_ENTRY_MSR_LOAD_ADDR | C64_PML_ADDRESS | C64_TSC_OFFSET
  | C64_VIRTUAL_APIC_PAGE_ADDR | C64_APIC_ACCESS_ADDR | C64_POSTED_INTR_DESC_ADDR
  | C64_VM_FUNCTION_CONTROL | C64_EPT_POINTER | C64_EOI_EXIT_BITMAP0 | C64_EOI_EXIT_BITMAP1
  | C64_EOI_EXIT_BITMAP2 | C64_EOI_EXIT_BITMAP3 | C64_EPTP_LIST_ADDRESS | C64_VMREAD_BITMAP
  | C64_VMWRITE_BITMAP | C64_XSS_EXIT_BITMAP | C64_ENCLS_EXITING_BITMAP | C64_TSC_MULTIPLIER
  | C64_CR0_GUEST_HOST_MASK | C64_CR4_GUEST_HOST_MASK | C64_CR0_READ_SHADOW
  | C64_CR4_READ_SHADOW | C64_CR3_TARGET_VALUE0 | C64_CR3_TARGET_VALUE1 | C64_CR3_TARGET_VALUE2
  | C64_CR3_TARGET_VALUE3

primrec c64_enc :: "VmcsField64Control \<Rightarrow> u32" where
  "c64_enc C64_IO_BITMAP_A = 0x00002000"
| "c64_enc C64_IO_BITMAP_B = 0x00002002"
| "c64_enc C64_MSR_BITMAP = 0x00002004"
| "c64_enc C64_VM_EXIT_MSR_STORE_ADDR = 0x00002006"
| "c64_enc C64_VM_EXIT_MSR_LOAD_ADDR = 0x00002008"
| "c64_enc C64_VM_ENTRY_MSR_LOAD_ADDR = 0x0000200a"
| "c64_enc C64_PML_ADDRESS = 0x0000200e"
| "c64_enc C64_TSC_OFFSET = 0x00002010"
| "c64_enc C64_VIRTUAL_APIC_PAGE_ADDR = 0x00002012"
| "c64_enc C64_APIC_ACCESS_ADDR = 0x00002014"
| "c64_enc C64_POSTED_INTR_DESC_ADDR = 0x00002016"
| "c64_enc C64_VM_FUNCTION_CONTROL = 0x00002018"
| "c64_enc C64_EPT_POINTER = 0x0000201a"
| "c64_enc C64_EOI_EXIT_BITMAP0 = 0x0000201c"
| "c64_enc C64_EOI_EXIT_BITMAP1 = 0x0000201e"
| "c64_enc C64_EOI_EXIT_BITMAP2 = 0x00002020"
| "c64_enc C64_EOI_EXIT_BITMAP3 = 0x00002022"
| "c64_enc C64_EPTP_LIST_ADDRESS = 0x00002024"
| "c64_enc C64_VMREAD_BITMAP = 0x00002026"
| "c64_enc C64_VMWRITE_BITMAP = 0x00002028"
| "c64_enc C64_XSS_EXIT_BITMAP = 0x0000202c"
| "c64_enc C64_ENCLS_EXITING_BITMAP = 0x0000202e"
| "c64_enc C64_TSC_MULTIPLIER = 0x00002032"
| "c64_enc C64_CR0_GUEST_HOST_MASK = 0x00006000"
| "c64_enc C64_CR4_GUEST_HOST_MASK = 0x00006002"
| "c64_enc C64_CR0_READ_SHADOW = 0x00006004"
| "c64_enc C64_CR4_READ_SHADOW = 0x00006006"
| "c64_enc C64_CR3_TARGET_VALUE0 = 0x00006008"
| "c64_enc C64_CR3_TARGET_VALUE1 = 0x0000600a"
| "c64_enc C64_CR3_TARGET_VALUE2 = 0x0000600c"
| "c64_enc C64_CR3_TARGET_VALUE3 = 0x0000600e"

datatype VmcsField64ReadOnly =
    R64_GUEST_PHYSICAL_ADDRESS | R64_EXIT_QUALIFICATION | R64_IO_RCX | R64_IO_RSI | R64_IO_RDI
  | R64_IO_RIP | R64_GUEST_LINEAR_ADDRESS

primrec r64_enc :: "VmcsField64ReadOnly \<Rightarrow> u32" where
  "r64_enc R64_GUEST_PHYSICAL_ADDRESS = 0x00002400"
| "r64_enc R64_EXIT_QUALIFICATION = 0x00006400"
| "r64_enc R64_IO_RCX = 0x00006402"
| "r64_enc R64_IO_RSI = 0x00006404"
| "r64_enc R64_IO_RDI = 0x00006406"
| "r64_enc R64_IO_RIP = 0x00006408"
| "r64_enc R64_GUEST_LINEAR_ADDRESS = 0x0000640a"

datatype (plugins only: code size) VmcsField64Guest =
    G64_VMCS_LINK_POINTER | G64_IA32_DEBUGCTL | G64_IA32_PAT | G64_IA32_EFER
  | G64_IA32_PERF_GLOBAL_CTRL | G64_PDPTR0 | G64_PDPTR1 | G64_PDPTR2 | G64_PDPTR3 | G64_BNDCFGS
  | G64_CR0 | G64_CR3 | G64_CR4 | G64_ES_BASE | G64_CS_BASE | G64_SS_BASE | G64_DS_BASE
  | G64_FS_BASE | G64_GS_BASE | G64_LDTR_BASE | G64_TR_BASE | G64_GDTR_BASE | G64_IDTR_BASE
  | G64_DR7 | G64_RSP | G64_RIP | G64_RFLAGS | G64_PENDING_DBG_EXCEPTIONS | G64_SYSENTER_ESP
  | G64_SYSENTER_EIP

primrec g64_enc :: "VmcsField64Guest \<Rightarrow> u32" where
  "g64_enc G64_VMCS_LINK_POINTER = 0x00002800"
| "g64_enc G64_IA32_DEBUGCTL = 0x00002802"
| "g64_enc G64_IA32_PAT = 0x00002804"
| "g64_enc G64_IA32_EFER = 0x00002806"
| "g64_enc G64_IA32_PERF_GLOBAL_CTRL = 0x00002808"
| "g64_enc G64_PDPTR0 = 0x0000280a"
| "g64_enc G64_PDPTR1 = 0x0000280c"
| "g64_enc G64_PDPTR2 = 0x0000280e"
| "g64_enc G64_PDPTR3 = 0x00002810"
| "g64_enc G64_BNDCFGS = 0x00002812"
| "g64_enc G64_CR0 = 0x00006800"
| "g64_enc G64_CR3 = 0x00006802"
| "g64_enc G64_CR4 = 0x00006804"
| "g64_enc G64_ES_BASE = 0x00006806"
| "g64_enc G64_CS_BASE = 0x00006808"
| "g64_enc G64_SS_BASE = 0x0000680a"
| "g64_enc G64_DS_BASE = 0x0000680c"
| "g64_enc G64_FS_BASE = 0x0000680e"
| "g64_enc G64_GS_BASE = 0x00006810"
| "g64_enc G64_LDTR_BASE = 0x00006812"
| "g64_enc G64_TR_BASE = 0x00006814"
| "g64_enc G64_GDTR_BASE = 0x00006816"
| "g64_enc G64_IDTR_BASE = 0x00006818"
| "g64_enc G64_DR7 = 0x0000681a"
| "g64_enc G64_RSP = 0x0000681c"
| "g64_enc G64_RIP = 0x0000681e"
| "g64_enc G64_RFLAGS = 0x00006820"
| "g64_enc G64_PENDING_DBG_EXCEPTIONS = 0x00006822"
| "g64_enc G64_SYSENTER_ESP = 0x00006824"
| "g64_enc G64_SYSENTER_EIP = 0x00006826"

datatype VmcsField64Host =
    H64_IA32_PAT | H64_IA32_EFER | H64_IA32_PERF_GLOBAL_CTRL | H64_CR0 | H64_CR3 | H64_CR4
  | H64_FS_BASE | H64_GS_BASE | H64_TR_BASE | H64_GDTR_BASE | H64_IDTR_BASE
  | H64_IA32_SYSENTER_ESP | H64_IA32_SYSENTER_EIP | H64_RSP | H64_RIP

primrec h64_enc :: "VmcsField64Host \<Rightarrow> u32" where
  "h64_enc H64_IA32_PAT = 0x00002c00"
| "h64_enc H64_IA32_EFER = 0x00002c02"
| "h64_enc H64_IA32_PERF_GLOBAL_CTRL = 0x00002c04"
| "h64_enc H64_CR0 = 0x00006c00"
| "h64_enc H64_CR3 = 0x00006c02"
| "h64_enc H64_CR4 = 0x00006c04"
| "h64_enc H64_FS_BASE = 0x00006c06"
| "h64_enc H64_GS_BASE = 0x00006c08"
| "h64_enc H64_TR_BASE = 0x00006c0a"
| "h64_enc H64_GDTR_BASE = 0x00006c0c"
| "h64_enc H64_IDTR_BASE = 0x00006c0e"
| "h64_enc H64_IA32_SYSENTER_ESP = 0x00006c10"
| "h64_enc H64_IA32_SYSENTER_EIP = 0x00006c12"
| "h64_enc H64_RSP = 0x00006c14"
| "h64_enc H64_RIP = 0x00006c16"


section \<open>Access attributes\<close>

datatype vmcs_field =
    F_C16 VmcsField16Control | F_G16 VmcsField16Guest | F_H16 VmcsField16Host
  | F_C32 VmcsField32Control | F_R32 VmcsField32ReadOnly | F_G32 VmcsField32Guest
  | F_H32 VmcsField32Host
  | F_C64 VmcsField64Control | F_R64 VmcsField64ReadOnly | F_G64 VmcsField64Guest
  | F_H64 VmcsField64Host

primrec field_enc :: "vmcs_field \<Rightarrow> u32" where
  "field_enc (F_C16 f) = c16_enc f"
| "field_enc (F_G16 f) = g16_enc f"
| "field_enc (F_H16 f) = h16_enc f"
| "field_enc (F_C32 f) = c32_enc f"
| "field_enc (F_R32 f) = r32_enc f"
| "field_enc (F_G32 f) = g32_enc f"
| "field_enc (F_H32 f) = h32_enc f"
| "field_enc (F_C64 f) = c64_enc f"
| "field_enc (F_R64 f) = r64_enc f"
| "field_enc (F_G64 f) = g64_enc f"
| "field_enc (F_H64 f) = h64_enc f"

text \<open>
  The arguments of the attribute: the bit width of the accessors and whether a \<^verbatim>\<open>write\<close> method
  is generated. The macro panics at compile time on any other width or access string.
\<close>

record VmcsFieldArguments =
  va_width :: nat
  va_access :: string

definition VmcsFieldArguments_parse :: "nat \<Rightarrow> string \<Rightarrow> VmcsFieldArguments option" where
  "VmcsFieldArguments_parse width access =
     (if width \<noteq> 16 \<and> width \<noteq> 32 \<and> width \<noteq> 64 then None
      else if access \<noteq> ''R'' \<and> access \<noteq> ''RW'' then None
      else Some \<lparr>va_width = width, va_access = access\<rparr>)"

primrec field_args :: "vmcs_field \<Rightarrow> nat \<times> string" where
  "field_args (F_C16 _) = (16, ''RW'')"
| "field_args (F_G16 _) = (16, ''RW'')"
| "field_args (F_H16 _) = (16, ''RW'')"
| "field_args (F_C32 _) = (32, ''RW'')"
| "field_args (F_R32 _) = (32, ''R'')"
| "field_args (F_G32 _) = (32, ''RW'')"
| "field_args (F_H32 _) = (32, ''RW'')"
| "field_args (F_C64 _) = (64, ''RW'')"
| "field_args (F_R64 _) = (64, ''R'')"
| "field_args (F_G64 _) = (64, ''RW'')"
| "field_args (F_H64 _) = (64, ''RW'')"


section \<open>Encodings\<close>

text \<open>
  The architectural reading of an encoding: bits 13 and 14 give the width (16-bit, 64-bit,
  32-bit, natural), bits 10 and 11 the kind (control, read-only data, guest state, host state),
  bit 0 the access type, which is 0 (full) for every access to a whole field.
\<close>

definition enc_width :: "u32 \<Rightarrow> nat" where
  "enc_width e = (if get_bits e 13 15 = 0 then 16 else if get_bits e 13 15 = 2 then 32 else 64)"

definition enc_read_only :: "u32 \<Rightarrow> bool" where
  "enc_read_only e \<longleftrightarrow> get_bits e 10 12 = 1"

lemma enc_kind:
  "get_bits (c16_enc a) 13 15 = 0" "get_bits (c16_enc a) 10 12 = 0"
  "get_bits (g16_enc b) 13 15 = 0" "get_bits (g16_enc b) 10 12 = 2"
  "get_bits (h16_enc c) 13 15 = 0" "get_bits (h16_enc c) 10 12 = 3"
  "get_bits (c32_enc d) 13 15 = 2" "get_bits (c32_enc d) 10 12 = 0"
  "get_bits (r32_enc e) 13 15 = 2" "get_bits (r32_enc e) 10 12 = 1"
  "get_bits (g32_enc f) 13 15 = 2" "get_bits (g32_enc f) 10 12 = 2"
  "get_bits (h32_enc g) 13 15 = 2" "get_bits (h32_enc g) 10 12 = 3"
  "get_bits (c64_enc h) 13 15 \<noteq> 0" "get_bits (c64_enc h) 13 15 \<noteq> 2" "get_bits (c64_enc h) 10 12 = 0"
  "get_bits (r64_enc i) 13 15 \<noteq> 0" "get_bits (r64_enc i) 13 15 \<noteq> 2" "get_bits (r64_enc i) 10 12 = 1"
  "get_bits (g64_enc j) 13 15 \<noteq> 0" "get_bits (g64_enc j) 13 15 \<noteq> 2" "get_bits (g64_enc j) 10 12 = 2"
  "get_bits (h64_enc k) 13 15 \<noteq> 0" "get_bits (h64_enc k) 13 15 \<noteq> 2" "get_bits (h64_enc k) 10 12 = 3"
  by (cases a; simp add: get_bits_def; fail | cases b; simp add: get_bits_def; fail
    | cases c; simp add: get_bits_def; fail | cases d; simp add: get_bits_def; fail
    | cases e; simp add: get_bits_def; fail | cases f; simp add: get_bits_def; fail
    | cases g; simp add: get_bits_def; fail | cases h; simp add: get_bits_def; fail
    | cases i; simp add: get_bits_def; fail | cases j; simp add: get_bits_def; fail
    | cases k; simp add: get_bits_def; fail)+

lemma enc_inj16: "c16_enc a = c16_enc a' \<longleftrightarrow> a = a'" "g16_enc b = g16_enc b' \<longleftrightarrow> b = b'"
  "h16_enc c = h16_enc c' \<longleftrightarrow> c = c'"
  by (cases a; cases a'; simp; fail | cases b; cases b'; simp; fail | cases c; cases c'; simp; fail)+

lemma enc_inj32: "c32_enc a = c32_enc a' \<longleftrightarrow> a = a'" "r32_enc b = r32_enc b' \<longleftrightarrow> b = b'"
  "h32_enc c = h32_enc c' \<longleftrightarrow> c = c'"
  by (cases a; cases a'; simp; fail | cases b; cases b'; simp; fail | cases c; cases c'; simp; fail)+

lemma enc_inj32_guest: "g32_enc a = g32_enc a' \<longleftrightarrow> a = a'"
  by (cases a; cases a'; simp)

lemma enc_inj64_control: "c64_enc a = c64_enc a' \<longleftrightarrow> a = a'"
  by (cases a; cases a'; simp)

lemma enc_inj64_guest: "g64_enc a = g64_enc a' \<longleftrightarrow> a = a'"
  by (cases a; cases a'; simp)

lemma enc_inj64: "r64_enc a = r64_enc a' \<longleftrightarrow> a = a'" "h64_enc b = h64_enc b' \<longleftrightarrow> b = b'"
  by (cases a; cases a'; simp; fail | cases b; cases b'; simp; fail)+

lemmas enc_inj = enc_inj16 enc_inj32 enc_inj32_guest enc_inj64_control enc_inj64_guest enc_inj64

text \<open>Fields of two enumerations differ in the width or in the kind of their encodings.\<close>

lemma field_width: "enc_width (field_enc f) = fst (field_args f)"
  by (cases f) (simp_all add: enc_width_def enc_kind)

primrec field_kind :: "vmcs_field \<Rightarrow> u32" where
  "field_kind (F_C16 _) = 0"
| "field_kind (F_G16 _) = 2"
| "field_kind (F_H16 _) = 3"
| "field_kind (F_C32 _) = 0"
| "field_kind (F_R32 _) = 1"
| "field_kind (F_G32 _) = 2"
| "field_kind (F_H32 _) = 3"
| "field_kind (F_C64 _) = 0"
| "field_kind (F_R64 _) = 1"
| "field_kind (F_G64 _) = 2"
| "field_kind (F_H64 _) = 3"

lemma field_enc_kind: "get_bits (field_enc f) 10 12 = field_kind f"
  by (cases f) (simp_all add: enc_kind)

lemma field_read_only: "enc_read_only (field_enc f) \<longleftrightarrow> snd (field_args f) = ''R''"
  by (cases f) (simp_all add: enc_read_only_def enc_kind)

lemma field_enc_inj: "field_enc f = field_enc g \<longleftrightarrow> f = g"
proof
  assume eq: "field_enc f = field_enc g"
  then have "fst (field_args f) = fst (field_args g)" "field_kind f = field_kind g"
    by (simp_all flip: field_width field_enc_kind)
  with eq show "f = g"
    by (cases f; cases g) (simp_all add: enc_inj)
qed simp

text \<open>C28: The accessor attributes of the VMCS field enumerations are right for the fields they
  enumerate: for every field, the macro accepts its arguments, the width of the generated accessor
  is the one the architectural encoding gives the field (a natural-width field counts as 64-bit),
  a write method is generated exactly for the fields that are not read-only data, and no two fields
  of any of the eleven enumerations share an encoding.\<close>

theorem vmcs_fields_typed:
  "VmcsFieldArguments_parse (fst (field_args f)) (snd (field_args f))
     = Some \<lparr>va_width = enc_width (field_enc f),
             va_access = (if enc_read_only (field_enc f) then ''R'' else ''RW'')\<rparr> \<and>
   (field_enc f = field_enc g \<longleftrightarrow> f = g)"
  by (cases f) (simp_all add: VmcsFieldArguments_parse_def field_enc_inj field_width field_read_only
      del: field_enc.simps)

end
