(* ===== verification/VmxDefs.thy ===== *)
theory VmxDefs
  imports Prelude
begin

text \<open>
  VM-exit reasons and VM-instruction errors of VMX:
  \<^verbatim>\<open>crates/libvmm/src/x86_64/vmx/definitions.rs\<close>. The numeric enumeration is a datatype with
  its discriminants; \<^verbatim>\<open>try_from\<close> searches the variants for a discriminant.
\<close>


section \<open>Exit reasons\<close>

datatype (plugins only: code size) VmxExitReason =
    XR_EXCEPTION_NMI | XR_EXTERNAL_INTERRUPT | XR_TRIPLE_FAULT | XR_INIT | XR_SIPI | XR_SMI
  | XR_OTHER_SMI | XR_PENDING_INTERRUPT | XR_NMI_WINDOW | XR_TASK_SWITCH | XR_CPUID | XR_GETSEC
  | XR_HLT | XR_INVD | XR_INVLPG | XR_RDPMC | XR_RDTSC | XR_RSM | XR_VMCALL | XR_VMCLEAR
  | XR_VMLAUNCH | XR_VMPTRLD | XR_VMPTRST | XR_VMREAD | XR_VMRESUME | XR_VMWRITE | XR_VMOFF
  | XR_VMON | XR_CR_ACCESS | XR_DR_ACCESS | XR_IO_INSTRUCTION | XR_MSR_READ | XR_MSR_WRITE
  | XR_INVALID_GUEST_STATE | XR_MSR_LOAD_FAIL | XR_MWAIT_INSTRUCTION | XR_MONITOR_TRAP_FLAG
  | XR_MONITOR_INSTRUCTION | XR_PAUSE_INSTRUCTION | XR_MCE_DURING_VMENTRY
  | XR_TPR_BELOW_THRESHOLD | XR_APIC_ACCESS | XR_EOI_INDUCED | XR_GDTR_IDTR | XR_LDTR_TR
  | XR_EPT_VIOLATION | XR_EPT_MISCONFIG | XR_INVEPT | XR_RDTSCP | XR_PREEMPTION_TIMER
  | XR_INVVPID | XR_WBINVD | XR_XSETBV | XR_APIC_WRITE | XR_RDRAND | XR_INVPCID | XR_VMFUNC
  | XR_ENCLS | XR_RDSEED | XR_PML_FULL | XR_XSAVES | XR_XRSTORS | XR_SPP_EVENT | XR_UMWAIT
  | XR_TPAUSE

primrec exit_reason_val :: "VmxExitReason \<Rightarrow> u32" where
  "exit_reason_val XR_EXCEPTION_NMI = 0"
| "exit_reason_val XR_EXTERNAL_INTERRUPT = 1"
| "exit_reason_val XR_TRIPLE_FAULT = 2"
| "exit_reason_val XR_INIT = 3"
| "exit_reason_val XR_SIPI = 4"
| "exit_reason_val XR_SMI = 5"
| "exit_reason_val XR_OTHER_SMI = 6"
| "exit_reason_val XR_PENDING_INTERRUPT = 7"
| "exit_reason_val XR_NMI_WINDOW = 8"
| "exit_reason_val XR_TASK_SWITCH = 9"
| "exit_reason_val XR_CPUID = 10"
| "exit_reason_val XR_GETSEC = 11"
| "exit_reason_val XR_HLT = 12"
| "exit_reason_val XR_INVD = 13"
| "exit_reason_val XR_INVLPG = 14"
| "exit_reason_val XR_RDPMC = 15"
| "exit_reason_val XR_RDTSC = 16"
| "exit_reason_val XR_RSM = 17"
| "exit_reason_val XR_VMCALL = 18"
| "exit_reason_val XR_VMCLEAR = 19"
| "exit_reason_val XR_VMLAUNCH = 20"
| "exit_reason_val XR_VMPTRLD = 21"
| "exit_reason_val XR_VMPTRST = 22"
| "exit_reason_val XR_VMREAD = 23"
| "exit_reason_val XR_VMRESUME = 24"
| "exit_reason_val XR_VMWRITE = 25"
| "exit_reason_val XR_VMOFF = 26"
| "exit_reason_val XR_VMON = 27"
| "exit_reason_val XR_CR_ACCESS = 28"
| "exit_reason_val XR_DR_ACCESS = 29"
| "exit_reason_val XR_IO_INSTRUCTION = 30"
| "exit_reason_val XR_MSR_READ = 31"
| "exit_reason_val XR_MSR_WRITE = 32"
| "exit_reason_val XR_INVALID_GUEST_STATE = 33"
| "exit_reason_val XR_MSR_LOAD_FAIL = 34"
| "exit_reason_val XR_MWAIT_INSTRUCTION = 36"
| "exit_reason_val XR_MONITOR_TRAP_FLAG = 37"
| "exit_reason_val XR_MONITOR_INSTRUCTION = 39"
| "exit_reason_val XR_PAUSE_INSTRUCTION = 40"
| "exit_reason_val XR_MCE_DURING_VMENTRY = 41"
| "exit_reason_val XR_TPR_BELOW_THRESHOLD = 43"
| "exit_reason_val XR_APIC_ACCESS = 44"
| "exit_reason_val XR_EOI_INDUCED = 45"
| "exit_reason_val XR_GDTR_IDTR = 46"
| "exit_reason_val XR_LDTR_TR = 47"
| "exit_reason_val XR_EPT_VIOLATION = 48"
| "exit_reason_val XR_EPT_MISCONFIG = 49"
| "exit_reason_val XR_INVEPT = 50"
| "exit_reason_val XR_RDTSCP = 51"
| "exit_reason_val XR_PREEMPTION_TIMER = 52"
| "exit_reason_val XR_INVVPID = 53"
| "exit_reason_val XR_WBINVD = 54"
| "exit_reason_val XR_XSETBV = 55"
| "exit_reason_val XR_APIC_WRITE = 56"
| "exit_reason_val XR_RDRAND = 57"
| "exit_reason_val XR_INVPCID = 58"
| "exit_reason_val XR_VMFUNC = 59"
| "exit_reason_val XR_ENCLS = 60"
| "exit_reason_val XR_RDSEED = 61"
| "exit_reason_val XR_PML_FULL = 62"
| "exit_reason_val XR_XSAVES = 63"
| "exit_reason_val XR_XRSTORS = 64"
| "exit_reason_val XR_SPP_EVENT = 66"
| "exit_reason_val XR_UMWAIT = 67"
| "exit_reason_val XR_TPAUSE = 68"

definition VmxExitReason_all :: "VmxExitReason list" where
  "VmxExitReason_all =
    [XR_EXCEPTION_NMI, XR_EXTERNAL_INTERRUPT, XR_TRIPLE_FAULT, XR_INIT, XR_SIPI, XR_SMI,
     XR_OTHER_SMI, XR_PENDING_INTERRUPT, XR_NMI_WINDOW, XR_TASK_SWITCH, XR_CPUID, XR_GETSEC,
     XR_HLT, XR_INVD, XR_INVLPG, XR_RDPMC, XR_RDTSC, XR_RSM, XR_VMCALL, XR_VMCLEAR,
     XR_VMLAUNCH, XR_VMPTRLD, XR_VMPTRST, XR_VMREAD, XR_VMRESUME, XR_VMWRITE, XR_VMOFF,
     XR_VMON, XR_CR_ACCESS, XR_DR_ACCESS, XR_IO_INSTRUCTION, XR_MSR_READ, XR_MSR_WRITE,
     XR_INVALID_GUEST_STATE, XR_MSR_LOAD_FAIL, XR_MWAIT_INSTRUCTION, XR_MONITOR_TRAP_FLAG,
     XR_MONITOR_INSTRUCTION, XR_PAUSE_INSTRUCTION, XR_MCE_DURING_VMENTRY,
     XR_TPR_BELOW_THRESHOLD, XR_APIC_ACCESS, XR_EOI_INDUCED, XR_GDTR_IDTR, XR_LDTR_TR,
     XR_EPT_VIOLATION, XR_EPT_MISCONFIG, XR_INVEPT, XR_RDTSCP, XR_PREEMPTION_TIMER,
     XR_INVVPID, XR_WBINVD, XR_XSETBV, XR_APIC_WRITE, XR_RDRAND, XR_INVPCID, XR_VMFUNC,
     XR_ENCLS, XR_RDSEED, XR_PML_FULL, XR_XSAVES, XR_XRSTORS, XR_SPP_EVENT, XR_UMWAIT,
     XR_TPAUSE]"

definition VmxExitReason_try_from :: "u32 \<Rightarrow> VmxExitReason option" where
  "VmxExitReason_try_from v = find (\<lambda>r. exit_reason_val r = v) VmxExitReason_all"

lemma VmxExitReason_all_complete: "r \<in> set VmxExitReason_all"
  by (cases r) (simp_all add: VmxExitReason_all_def)

lemma exit_reason_val_distinct: "distinct (map exit_reason_val VmxExitReason_all)"
  by (simp add: VmxExitReason_all_def)

lemma exit_reason_val_inj: "exit_reason_val r = exit_reason_val s \<longleftrightarrow> r = s"
  using exit_reason_val_distinct VmxExitReason_all_complete
  by (metis distinct_map inj_onD)

lemma VmxExitReason_try_from_iff: "VmxExitReason_try_from v = Some r \<longleftrightarrow> exit_reason_val r = v"
proof
  assume "VmxExitReason_try_from v = Some r"
  then show "exit_reason_val r = v"
    by (auto simp: VmxExitReason_try_from_def find_Some_iff)
next
  assume v: "exit_reason_val r = v"
  then have "VmxExitReason_try_from v \<noteq> None"
    using VmxExitReason_all_complete[of r] by (auto simp: VmxExitReason_try_from_def find_None_iff)
  then obtain s where s: "VmxExitReason_try_from v = Some s" by blast
  then have "exit_reason_val s = v"
    by (auto simp: VmxExitReason_try_from_def find_Some_iff)
  with v s show "VmxExitReason_try_from v = Some r"
    by (simp add: exit_reason_val_inj flip: v)
qed

lemma VmxExitReason_round_trip: "VmxExitReason_try_from (exit_reason_val r) = Some r"
  by (simp add: VmxExitReason_try_from_iff)


section \<open>Instruction errors\<close>

definition VmxInstructionError_as_str :: "u32 \<Rightarrow> string" where
  "VmxInstructionError_as_str n = (case map_of
     [(0, ''OK''),
      (1, ''VMCALL executed in VMX root operation''),
      (2, ''VMCLEAR with invalid physical address''),
      (3, ''VMCLEAR with VMXON pointer''),
      (4, ''VMLAUNCH with non-clear VMCS''),
      (5, ''VMRESUME with non-launched VMCS''),
      (6, ''VMRESUME after VMXOFF (VMXOFF and VMXON between VMLAUNCH and VMRESUME)''),
      (7, ''VM entry with invalid control field(s)''),
      (8, ''VM entry with invalid host-state field(s)''),
      (9, ''VMPTRLD with invalid physical address''),
      (10, ''VMPTRLD with VMXON pointer''),
      (11, ''VMPTRLD with incorrect VMCS revision identifier''),
      (12, ''VMREAD/VMWRITE from/to unsupported VMCS component''),
      (13, ''VMWRITE to read-only VMCS component''),
      (15, ''VMXON executed in VMX root operation''),
      (16, ''VM entry with invalid executive-VMCS pointer''),
      (17, ''VM entry with non-launched executive VMCS''),
      (18, ''VM entry with executive-VMCS pointer not VMXON pointer (when attempting to deactivate the dual-monitor treatment of SMIs and SMM)''),
      (19, ''VMCALL with non-clear VMCS (when attempting to activate the dual-monitor treatment of SMIs and SMM)''),
      (20, ''VMCALL with invalid VM-exit control fields''),
      (22, ''VMCALL with incorrect MSEG revision identifier (when attempting to activate the dual-monitor treatment of SMIs and SMM)''),
      (23, ''VMXOFF under dual-monitor treatment of SMIs and SMM''),
      (24, ''VMCALL with invalid SMM-monitor features (when attempting to activate the dual-monitor treatment of SMIs and SMM)''),
      (25, ''VM entry with invalid VM-execution control fields in executive VMCS (when attempting to return from SMM)''),
      (26, ''VM entry with events blocked by MOV SS''),
      (28, ''Invalid operand to INVEPT/INVVPID'')] n of
     Some s \<Rightarrow> s
   | None \<Rightarrow> ''[INVALID]'')"

end
