(* ===== verification/Vmcs.thy ===== *)
theory Vmcs
  imports VmcsFields VmxFlags VmxDefs
begin

text \<open>
  Operations on the current VMCS: the accessors the \<^verbatim>\<open>vmcs_access\<close> macro generates
  (\<^verbatim>\<open>crates/libvmm/libvmm_macros/src/vmcs.rs\<close>), the instruction wrappers of
  \<^verbatim>\<open>crates/libvmm/src/x86_64/vmx/instructions.rs\<close>, the functions of \<^verbatim>\<open>Vmcs\<close> and the exit
  information structures of \<^verbatim>\<open>crates/libvmm/src/x86_64/vmx/vmcs.rs\<close>. The error of a VMX
  instruction is a \<open>VmFail\<close>; \<open>to_hv\<close> is its conversion to an \<^verbatim>\<open>HvError\<close>
  (\<^verbatim>\<open>src/src/arch/x86_64/intel/mod.rs\<close>), which reads the instruction-error field and so can panic
  itself. The last section describes a sequence of field writes by the list of the written pairs.
\<close>


section \<open>Accessors\<close>

definition read16 :: "ext \<Rightarrow> u32 \<Rightarrow> machine \<Rightarrow> (u16, VmFail) result" where
  "read16 x f m = and_then (vmread x f m) (\<lambda>v. Ok (ucast v))"

definition read32 :: "ext \<Rightarrow> u32 \<Rightarrow> machine \<Rightarrow> (u32, VmFail) result" where
  "read32 x f m = and_then (vmread x f m) (\<lambda>v. Ok (ucast v))"

definition read64 :: "ext \<Rightarrow> u32 \<Rightarrow> machine \<Rightarrow> (u64, VmFail) result" where
  "read64 x f m = and_then (vmread x f m) (\<lambda>v. Ok v)"

definition write16 :: "ext \<Rightarrow> u32 \<Rightarrow> u16 \<Rightarrow> machine \<Rightarrow> machine \<times> (unit, VmFail) result" where
  "write16 x f v m = vmwrite x f (ucast v) m"

definition write32 :: "ext \<Rightarrow> u32 \<Rightarrow> u32 \<Rightarrow> machine \<Rightarrow> machine \<times> (unit, VmFail) result" where
  "write32 x f v m = vmwrite x f (ucast v) m"

definition write64 :: "ext \<Rightarrow> u32 \<Rightarrow> u64 \<Rightarrow> machine \<Rightarrow> machine \<times> (unit, VmFail) result" where
  "write64 x f v m = vmwrite x f v m"


section \<open>Instruction wrappers\<close>

text \<open>ZF is bit 6 of RFLAGS and CF is bit 0.\<close>

definition vmx_capture_status :: "u64 \<Rightarrow> (unit, VmFail) result" where
  "vmx_capture_status flags =
     (if bit flags 6 then Err VmFailValid
      else if bit flags 0 then Err VmFailInvalid
      else Ok ())"

definition invept :: "ext \<Rightarrow> InvEptType \<Rightarrow> u64 \<Rightarrow> machine \<Rightarrow> machine \<times> (unit, VmFail) result" where
  "invept x invalidation eptp m =
     (let descriptor = InvEptDescriptor_new eptp in
      (m, vmx_capture_status (x_rflags x (I_invept (inv_ept_val invalidation) (inv_eptp descriptor)) m)))"


section \<open>Vmcs\<close>

definition Vmcs_load :: "ext \<Rightarrow> usize \<Rightarrow> machine \<Rightarrow> machine \<times> (unit, VmFail) result" where
  "Vmcs_load x paddr = vmptrld x paddr"

definition Vmcs_clear :: "ext \<Rightarrow> usize \<Rightarrow> machine \<Rightarrow> machine \<times> (unit, VmFail) result" where
  "Vmcs_clear x paddr = vmclear x paddr"

definition Vmcs_instruction_error :: "ext \<Rightarrow> machine \<Rightarrow> (u32, VmFail) result" where
  "Vmcs_instruction_error x m = read32 x (r32_enc R32_VM_INSTRUCTION_ERROR) m"

definition decode_exit_reason :: "u32 \<Rightarrow> (VmxExitReason, VmFail) result" where
  "decode_exit_reason v = (case VmxExitReason_try_from (get_bits v 0 16) of Some r \<Rightarrow> Ok r | None \<Rightarrow> Panic)"

definition Vmcs_exit_reason :: "ext \<Rightarrow> machine \<Rightarrow> (VmxExitReason, VmFail) result" where
  "Vmcs_exit_reason x m = and_then (read32 x (r32_enc R32_VM_EXIT_REASON) m) decode_exit_reason"

definition Vmcs_set_ept_pointer :: "ext \<Rightarrow> usize \<Rightarrow> machine \<Rightarrow> machine \<times> (unit, VmFail) result" where
  "Vmcs_set_ept_pointer x pml4_paddr m =
     (let eptp = EPTPointer_from_table_phys pml4_paddr in
      st_then (write64 x (c64_enc C64_EPT_POINTER) eptp m) (\<lambda>m _.
      invept x INV_SingleContext eptp m))"

text \<open>
  The argument of \<^verbatim>\<open>unwrap_or\<close> is evaluated first, so the error code of the last exit is read
  even when a code is passed, and a failure of that read is an error.
\<close>

definition Vmcs_inject_interrupt ::
  "ext \<Rightarrow> u8 \<Rightarrow> u32 option \<Rightarrow> machine \<Rightarrow> machine \<times> (unit, VmFail) result" where
  "Vmcs_inject_interrupt x vector error_code m =
     (case InterruptInfo_from_vector vector of
        None \<Rightarrow> (m, Panic)
      | Some info \<Rightarrow>
          st_then
            (if contains info (intr_info_bits II_ERROR_CODE) then
               (case read32 x (r32_enc R32_VM_EXIT_INTR_ERROR_CODE) m of
                  Ok prev \<Rightarrow> write32 x (c32_enc C32_VM_ENTRY_EXCEPTION_ERROR_CODE)
                    (case error_code of Some c \<Rightarrow> c | None \<Rightarrow> prev) m
                | Err e \<Rightarrow> (m, Err e)
                | Panic \<Rightarrow> (m, Panic))
             else (m, Ok ())) (\<lambda>m _.
          st_then (write32 x (c32_enc C32_VM_ENTRY_INTR_INFO_FIELD) info m) (\<lambda>m _.
          if is_soft (intr_type info) then
            (case read32 x (r32_enc R32_VM_EXIT_INSTRUCTION_LEN) m of
               Ok len \<Rightarrow> write32 x (c32_enc C32_VM_ENTRY_INSTRUCTION_LEN) len m
             | Err e \<Rightarrow> (m, Err e)
             | Panic \<Rightarrow> (m, Panic))
          else (m, Ok ()))))"

definition Vmcs_set_control ::
  "ext \<Rightarrow> VmcsField32Control \<Rightarrow> u64 \<Rightarrow> u32 \<Rightarrow> u32 \<Rightarrow> machine \<Rightarrow> machine \<times> (unit, VmFail) result" where
  "Vmcs_set_control x field old_msr st clear m =
     (if st AND clear \<noteq> 0 then (m, Panic)
      else write32 x (c32_enc field) ((ucast old_msr AND NOT clear) OR st) m)"


section \<open>Exit information\<close>

record VmExitInfo =
  entry_failure :: bool
  exit_reason :: VmxExitReason
  exit_instruction_length :: u32
  guest_rip :: u64

definition VmExitInfo_new :: "ext \<Rightarrow> machine \<Rightarrow> (VmExitInfo, VmFail) result" where
  "VmExitInfo_new x m =
     and_then (read32 x (r32_enc R32_VM_EXIT_REASON) m) (\<lambda>full_reason.
     and_then (decode_exit_reason full_reason) (\<lambda>reason.
     and_then (read32 x (r32_enc R32_VM_EXIT_INSTRUCTION_LEN) m) (\<lambda>len.
     and_then (read64 x (g64_enc G64_RIP) m) (\<lambda>rip.
     Ok \<lparr>entry_failure = bit full_reason 31, exit_reason = reason, exit_instruction_length = len,
         guest_rip = rip\<rparr>))))"

record ExitInterruptInfo =
  ei_vector :: u8
  ei_interruption_type :: u8
  ei_valid :: bool

definition ExitInterruptInfo_new :: "ext \<Rightarrow> machine \<Rightarrow> (ExitInterruptInfo, VmFail) result" where
  "ExitInterruptInfo_new x m =
     and_then (read32 x (r32_enc R32_VM_EXIT_INTR_INFO) m) (\<lambda>info.
     Ok \<lparr>ei_vector = ucast (get_bits info 0 8), ei_interruption_type = ucast (get_bits info 8 11),
         ei_valid = bit info 31\<rparr>)"

record EptViolationInfo =
  ev_read :: bool
  ev_write :: bool
  ev_instruction :: bool
  ev_guest_paddr :: usize

definition EptViolationInfo_new :: "ext \<Rightarrow> machine \<Rightarrow> (EptViolationInfo, VmFail) result" where
  "EptViolationInfo_new x m =
     and_then (read64 x (r64_enc R64_EXIT_QUALIFICATION) m) (\<lambda>qualification.
     and_then (read64 x (r64_enc R64_GUEST_PHYSICAL_ADDRESS) m) (\<lambda>paddr.
     Ok \<lparr>ev_read = bit qualification 0, ev_write = bit qualification 1,
         ev_instruction = bit qualification 2, ev_guest_paddr = paddr\<rparr>))"


section \<open>Conversion of VMX failures\<close>

definition VmFail_into :: "ext \<Rightarrow> machine \<Rightarrow> VmFail \<Rightarrow> ('a, HvErrorNum) result" where
  "VmFail_into x m e =
     (case e of
        VmFailValid \<Rightarrow> (case Vmcs_instruction_error x m of Ok _ \<Rightarrow> Err EIO | _ \<Rightarrow> Panic)
      | VmFailInvalid \<Rightarrow> Err EIO)"

definition to_hv ::
  "ext \<Rightarrow> machine \<times> ('a, VmFail) result \<Rightarrow> machine \<times> ('a, HvErrorNum) result" where
  "to_hv x r = (case r of
       (m, Ok a) \<Rightarrow> (m, Ok a)
     | (m, Err e) \<Rightarrow> (m, VmFail_into x m e)
     | (m, Panic) \<Rightarrow> (m, Panic))"

text \<open>\<open>run_seq\<close> runs statements that each end in \<^verbatim>\<open>?\<close>.\<close>

fun run_seq :: "('s \<Rightarrow> 's \<times> (unit, 'e) result) list \<Rightarrow> 's \<Rightarrow> 's \<times> (unit, 'e) result" where
  "run_seq [] s = (s, Ok ())"
| "run_seq (f # fs) s = st_then (f s) (\<lambda>s _. run_seq fs s)"


section \<open>Sequences of field writes\<close>

text \<open>\<open>vmx_ok x\<close>: no VMX instruction fails. \<open>vmcs_put p ws m\<close>: the pairs \<open>ws\<close> are written, in order.\<close>

definition vmx_ok :: "ext \<Rightarrow> bool" where
  "vmx_ok x \<longleftrightarrow> (\<forall>i m. x_vmfail x i m = None) \<and> (\<forall>i m. vmx_capture_status (x_rflags x i m) = Ok ())"

definition vmcs_put :: "u64 \<Rightarrow> (u32 \<times> u64) list \<Rightarrow> machine \<Rightarrow> machine" where
  "vmcs_put p ws m =
     m\<lparr>vmcs_data := (vmcs_data m)(p := fold (\<lambda>(f, v) g. g(f := v)) ws (vmcs_data m p))\<rparr>"

named_theorems vmcs_run "evaluation of VMCS accesses that do not fail"

lemma vmcs_put_sel [simp]:
  "msr (vmcs_put p ws m) = msr m" "m_cr0 (vmcs_put p ws m) = m_cr0 m"
  "m_cr3 (vmcs_put p ws m) = m_cr3 m" "m_cr4 (vmcs_put p ws m) = m_cr4 m"
  "m_gdtr (vmcs_put p ws m) = m_gdtr m" "m_idtr (vmcs_put p ws m) = m_idtr m"
  "vmcs_cur (vmcs_put p ws m) = vmcs_cur m" "vmx_root (vmcs_put p ws m) = vmx_root m"
  "m_mem (vmcs_put p ws m) = m_mem m"
  by (simp_all add: vmcs_put_def)

lemma vmcs_put_read [simp]:
  "Msr_read r (vmcs_put p ws m) = Msr_read r m" "read_cr0 x (vmcs_put p ws m) = read_cr0 x m"
  "read_cr3 (vmcs_put p ws m) = read_cr3 m" "read_cr4 x (vmcs_put p ws m) = read_cr4 x m"
  by (simp_all add: Msr_read_def read_cr0_def read_cr3_def read_cr4_def)

lemma vmcs_put_put [vmcs_run]: "vmcs_put p ws' (vmcs_put p ws m) = vmcs_put p (ws @ ws') m"
  by (simp add: vmcs_put_def)

lemma fold_upd_map_of:
  "fold (\<lambda>(f, v) g. g(f := v)) ws g f = (case map_of (rev ws) f of Some v \<Rightarrow> v | None \<Rightarrow> g f)"
proof (induction ws arbitrary: g)
  case (Cons w ws)
  obtain f' v' where "w = (f', v')" by force
  with Cons show ?case by (simp add: map_add_def split: option.splits)
qed simp

lemma vmcs_data_put:
  "vmcs_data (vmcs_put p ws m) p f = (case map_of (rev ws) f of Some v \<Rightarrow> v | None \<Rightarrow> vmcs_data m p f)"
  by (simp add: vmcs_put_def fold_upd_map_of)

lemma vmwrite_put:
  "vmx_ok x \<Longrightarrow> vmcs_cur m = Some p \<Longrightarrow> vmwrite x f v m = (vmcs_put p [(f, v)] m, Ok ())"
  by (simp add: vmx_ok_def vmwrite_def vmcs_put_def)

lemma writes_put [vmcs_run]:
  assumes "vmx_ok x" "vmcs_cur m = Some p"
  shows "write16 x f a m = (vmcs_put p [(f, ucast a)] m, Ok ())"
    "write32 x f b m = (vmcs_put p [(f, ucast b)] m, Ok ())"
    "write64 x f c m = (vmcs_put p [(f, c)] m, Ok ())"
  using assms by (simp_all add: write16_def write32_def write64_def vmwrite_put)

lemma reads_data [vmcs_run]:
  assumes "vmx_ok x" "vmcs_cur m = Some p"
  shows "read16 x f m = Ok (ucast (vmcs_data m p f))"
    "read32 x f m = Ok (ucast (vmcs_data m p f))"
    "read64 x f m = Ok (vmcs_data m p f)"
  using assms by (simp_all add: vmx_ok_def read16_def read32_def read64_def vmread_def)

lemma to_hv_simps [vmcs_run]:
  "to_hv x (m, Ok a) = (m, Ok a)" "to_hv x (m, Panic) = (m, Panic)"
  "to_hv x (m, Err e) = (m, VmFail_into x m e)"
  by (simp_all add: to_hv_def)

lemma vmx_do_ok [vmcs_run]: "vmx_ok x \<Longrightarrow> vmx_do x i f m = (f m, Ok ())"
  by (simp add: vmx_ok_def vmx_do_def)

lemma Vmcs_set_control_ok [vmcs_run]:
  "vmx_ok x \<Longrightarrow> vmcs_cur m = Some p \<Longrightarrow> st AND clear = 0 \<Longrightarrow>
   Vmcs_set_control x f old st clear m
     = (vmcs_put p [(c32_enc f, ucast ((ucast old AND NOT clear) OR st :: u32))] m, Ok ())"
  by (simp add: Vmcs_set_control_def vmcs_run)

lemma Vmcs_set_ept_pointer_ok [vmcs_run]:
  "vmx_ok x \<Longrightarrow> vmcs_cur m = Some p \<Longrightarrow>
   Vmcs_set_ept_pointer x q m
     = (vmcs_put p [(c64_enc C64_EPT_POINTER, EPTPointer_from_table_phys q)] m, Ok ())"
  by (simp add: Vmcs_set_ept_pointer_def vmcs_run Let_def invept_def) (simp add: vmx_ok_def)

text \<open>An error of a converted VMX operation is always \<^verbatim>\<open>EIO\<close>.\<close>

lemma VmFail_into_EIO: "VmFail_into x m e = Err n \<Longrightarrow> n = EIO"
  by (auto simp: VmFail_into_def split: VmFail.splits result.splits)

lemma to_hv_EIO: "to_hv x (m, r) = (m', Err n) \<Longrightarrow> n = EIO"
  by (cases r) (auto simp: to_hv_def dest: VmFail_into_EIO)

end
