(* ===== verification/VmxStructs.thy ===== *)
theory VmxStructs
  imports FrameAlloc Processor
begin

text \<open>
  The memory-resident structures of VMX: \<^verbatim>\<open>src/src/arch/x86_64/intel/structs.rs\<close>. A VMXON or VMCS
  region is a frame whose first 32 bits hold the revision identifier and the shadow-VMCS indicator.
  The MSR bitmap is a 4096-byte page of four 1-KByte bitmaps; the processor exits on an access to
  an MSR whose bit is set.
\<close>


section \<open>VMX regions\<close>

record VmxRegion =
  vr_frame :: Frame

text \<open>
  The first 32 bits of the frame are the low half of its first 64-bit entry. \<^verbatim>\<open>set_bits\<close> panics on an
  identifier of more than 31 bits.
\<close>

definition VmxRegion_new ::
  "'b bit_alloc \<Rightarrow> u32 \<Rightarrow> bool \<Rightarrow> 'b pmem \<Rightarrow> 'b pmem \<times> (VmxRegion, HvErrorNum) result" where
  "VmxRegion_new ba rev_id shadow_indicator s =
     st_then (Frame_new ba s) (\<lambda>s f.
     let p = start_paddr f; old = tabs s p 0 in
     case set_bits_range (ucast old :: u32) 0 31 rev_id of
       None \<Rightarrow> (s, Panic)
     | Some v \<Rightarrow>
         let v' = (if shadow_indicator then set_bit 31 v else unset_bit 31 v);
             new = (old AND NOT (mask 32)) OR ucast v' in
         (s\<lparr>tabs := (tabs s)(p := (tabs s p)(0 := new))\<rparr>, Ok \<lparr>vr_frame = f\<rparr>))"

definition VmxRegion_paddr :: "VmxRegion \<Rightarrow> phys_addr" where
  "VmxRegion_paddr r = start_paddr (vr_frame r)"


section \<open>The MSR bitmap\<close>

type_synonym AlignedPage = "nat \<Rightarrow> u8"

definition AlignedPage_new :: AlignedPage where
  "AlignedPage_new = (\<lambda>_. 0)"

definition msr_slot :: "u32 \<Rightarrow> bool \<Rightarrow> nat \<times> nat" where
  "msr_slot reg is_write =
     (let msr_low = reg AND 0x1fff;
          msr_byte = unat (msr_low div 8);
          msr_bit = unat (msr_low mod 8);
          ptr = (if reg \<ge> 0xc0000000 then 1024 else 0);
          ptr = (if is_write then ptr + 2048 else ptr) in
      (ptr + msr_byte, msr_bit))"

definition MsrBitmap_mask :: "u32 \<Rightarrow> bool \<Rightarrow> AlignedPage \<Rightarrow> AlignedPage" where
  "MsrBitmap_mask reg is_write page =
     (let (byte, b) = msr_slot reg is_write in page(byte := page byte AND push_bit b 1))"

definition MsrBitmap_mask_range :: "u32 \<Rightarrow> u32 \<Rightarrow> bool \<Rightarrow> AlignedPage \<Rightarrow> AlignedPage" where
  "MsrBitmap_mask_range lo hi is_write page =
     fold (\<lambda>n. MsrBitmap_mask (word_of_nat n) is_write) [unat lo..<Suc (unat hi)] page"

definition MsrBitmap_default :: AlignedPage where
  "MsrBitmap_default =
     (let
        map = AlignedPage_new;
        map = MsrBitmap_mask 0x277 False map;
        map = MsrBitmap_mask 0x2FF False map;
        map = MsrBitmap_mask 0x802 False map;
        map = MsrBitmap_mask 0x803 False map;
        map = MsrBitmap_mask 0x808 False map;
        map = MsrBitmap_mask 0x80A False map;
        map = MsrBitmap_mask 0x80D False map;
        map = MsrBitmap_mask 0x80F False map;
        map = MsrBitmap_mask_range 0x810 0x817 False map;
        map = MsrBitmap_mask_range 0x818 0x81F False map;
        map = MsrBitmap_mask_range 0x820 0x827 False map;
        map = MsrBitmap_mask 0x828 False map;
        map = MsrBitmap_mask 0x82F False map;
        map = MsrBitmap_mask 0x830 False map;
        map = MsrBitmap_mask_range 0x832 0x837 False map;
        map = MsrBitmap_mask 0x838 False map;
        map = MsrBitmap_mask 0x839 False map;
        map = MsrBitmap_mask 0x83E False map;
        map = MsrBitmap_mask 0x1B True map;
        map = MsrBitmap_mask_range 0x200 0x277 True map;
        map = MsrBitmap_mask 0x277 True map;
        map = MsrBitmap_mask 0x2FF True map;
        map = MsrBitmap_mask 0x38F True map;
        map = MsrBitmap_mask_range 0xC80 0xD8F True map;
        map = MsrBitmap_mask 0x808 True map;
        map = MsrBitmap_mask 0x80B True map;
        map = MsrBitmap_mask 0x80F True map;
        map = MsrBitmap_mask 0x828 True map;
        map = MsrBitmap_mask 0x82F True map;
        map = MsrBitmap_mask 0x830 True map;
        map = MsrBitmap_mask_range 0x832 0x837 True map;
        map = MsrBitmap_mask 0x838 True map;
        map = MsrBitmap_mask 0x839 True map;
        map = MsrBitmap_mask 0x83E True map
      in map)"

text \<open>
  The processor's reading of the bitmap: an access to an MSR of one of the two ranges exits when its
  bit is set, an access to any other MSR always exits.
\<close>

definition msr_exits :: "AlignedPage \<Rightarrow> u32 \<Rightarrow> bool \<Rightarrow> bool" where
  "msr_exits page reg is_write =
     (if reg \<le> 0x1fff \<or> 0xc0000000 \<le> reg \<and> reg \<le> 0xc0001fff
      then (case msr_slot reg is_write of (byte, b) \<Rightarrow> bit (page byte) b)
      else True)"


section \<open>A fresh region\<close>

lemma revision_fits: "unat rev_id < 2 ^ 31 \<Longrightarrow> take_bit 31 (rev_id :: u32) = rev_id"
  by (simp add: word_unat_eq_iff unat_take_bit)

text \<open>The identifier is stored without panic and can be read back; a region is a fresh frame.\<close>

lemma VmxRegion_new_Ok:
  assumes "Frame_new ba s = (s1, Ok f)" "unat rev_id < 2 ^ 31"
  shows "\<exists>s'. VmxRegion_new ba rev_id False s = (s', Ok \<lparr>vr_frame = f\<rparr>) \<and> falloc s' = falloc s1 \<and>
    ucast (tabs s' (start_paddr f) 0) = rev_id"
proof -
  let ?old = "tabs s1 (start_paddr f) 0"
  obtain v where v: "set_bits_range (ucast ?old :: u32) 0 31 rev_id = Some v"
    using revision_fits[OF assms(2)] by (simp add: set_bits_range_def)
  have low: "bit rev_id n \<Longrightarrow> n < 31" for n
    using revision_fits[OF assms(2)] by (metis bit_take_bit_iff)
  have "bit (unset_bit 31 v) n = bit rev_id n" if "n < 32" for n
    using set_bits_range_Some[OF v, of n] low[of n] that by (simp only: bit_unset_bit_iff) auto
  then have v': "unset_bit 31 v = rev_id"
    by (intro bit_word_eqI) simp
  have "ucast ((?old AND NOT (mask 32)) OR ucast (unset_bit 31 v)) = rev_id"
    unfolding v' by (rule bit_word_eqI) (simp add: bit_ucast_iff bit_or_iff bit_and_iff bit_not_iff bit_mask_iff)
  with assms(1) v show ?thesis
    by (simp add: VmxRegion_new_def Let_def)
qed

lemma pool_frame_base: "fa_base fa = fa_base fb \<Longrightarrow> pool_frame fa p \<longleftrightarrow> pool_frame fb p"
  by (simp add: pool_frame_def pool_index_def frame_of_def)

lemma VmxRegion_new_cases:
  assumes "bit_alloc_spec ba free" "pmem_wf free s" "unat rev_id < 2 ^ 31"
  obtains (Ok) s' p where "VmxRegion_new ba rev_id False s
        = (s', Ok \<lparr>vr_frame = \<lparr>start_paddr = p, frame_count = 1\<rparr>\<rparr>)"
      "p \<in> avail free s" "avail free s' = avail free s - {p}" "pmem_wf free s'"
      "fa_base (falloc s') = fa_base (falloc s)"
  | (Err) s' where "VmxRegion_new ba rev_id False s = (s', Err ENOMEM)" "avail free s = {}"
      "avail free s' = {}" "pmem_wf free s'" "fa_base (falloc s') = fa_base (falloc s)"
proof (cases rule: Frame_new_cases[OF assms(1,2)])
  case 1: (1 s1 p)
  obtain s' where "VmxRegion_new ba rev_id False s = (s', Ok \<lparr>vr_frame = \<lparr>start_paddr = p, frame_count = 1\<rparr>\<rparr>)"
    "falloc s' = falloc s1"
    using VmxRegion_new_Ok[OF 1(1) assms(3)] by blast
  with 1 show thesis by (intro Ok[of s' p]) (simp_all add: pmem_wf_def)
next
  case 2: (2 s')
  then show thesis by (intro Err[of s']) (simp_all add: VmxRegion_new_def)
qed


section \<open>What the default bitmap intercepts\<close>

lemma mask_zero: "MsrBitmap_mask reg w AlignedPage_new = AlignedPage_new"
  by (auto simp: MsrBitmap_mask_def AlignedPage_new_def split: prod.splits)

lemma fold_mask_zero: "fold (\<lambda>n. MsrBitmap_mask (word_of_nat n) w) ns AlignedPage_new = AlignedPage_new"
  by (induction ns) (simp_all add: mask_zero)

lemma mask_range_zero: "MsrBitmap_mask_range lo hi w AlignedPage_new = AlignedPage_new"
  unfolding MsrBitmap_mask_range_def by (rule fold_mask_zero)

lemma MsrBitmap_default_zero: "MsrBitmap_default = AlignedPage_new"
  unfolding MsrBitmap_default_def Let_def by (simp only: mask_zero mask_range_zero)

text \<open>The byte and bit of an MSR lie in the page, and MSRs of the two ranges have distinct ones.\<close>

lemma msr_slot_bounds: "fst (msr_slot reg w) < 4096 \<and> snd (msr_slot reg w) < 8"
proof -
  have "unat (reg AND 0x1fff) < 8192"
    using word_and_le1[of reg "0x1fff"] by (simp add: word_le_nat_alt)
  then have "unat (reg AND 0x1fff) div 8 < 1024"
    by (simp add: less_mult_imp_div_less)
  then show ?thesis
    by (auto simp: msr_slot_def Let_def unat_div unat_mod)
qed


end
