(* ===== verification/Segmentation.thy ===== *)
theory Segmentation
  imports Processor
begin

text \<open>
  Segments and descriptor tables: \<^verbatim>\<open>src/src/arch/x86_64/segmentation.rs\<close> and
  \<^verbatim>\<open>src/src/arch/x86_64/tables.rs\<close>. A segment selector is its 16-bit value, whose bits 3 to 15
  are the table index. A descriptor table is a base address and a number of entries over the
  machine's memory; indexing it out of range panics.
\<close>


section \<open>Access rights\<close>

datatype SegmentAccessRights =
    AR_ACCESSED | AR_WRITABLE | AR_CONFORMING | AR_EXECUTABLE | AR_CODE_DATA | AR_PRESENT
  | AR_LONG_MODE | AR_DB | AR_GRANULARITY | AR_UNUSABLE | AR_TSS_AVAIL | AR_TSS_BUSY | AR_DPL_USER

primrec ar_bits :: "SegmentAccessRights \<Rightarrow> u32" where
  "ar_bits AR_ACCESSED = push_bit 0 1"
| "ar_bits AR_WRITABLE = push_bit 1 1"
| "ar_bits AR_CONFORMING = push_bit 2 1"
| "ar_bits AR_EXECUTABLE = push_bit 3 1"
| "ar_bits AR_CODE_DATA = push_bit 4 1"
| "ar_bits AR_PRESENT = push_bit 7 1"
| "ar_bits AR_LONG_MODE = push_bit 13 1"
| "ar_bits AR_DB = push_bit 14 1"
| "ar_bits AR_GRANULARITY = push_bit 15 1"
| "ar_bits AR_UNUSABLE = push_bit 16 1"
| "ar_bits AR_TSS_AVAIL = 0b1001"
| "ar_bits AR_TSS_BUSY = 0b1011"
| "ar_bits AR_DPL_USER = push_bit 5 3"

definition SegmentAccessRights_all :: u32 where
  "SegmentAccessRights_all = fold (\<lambda>f a. a OR ar_bits f)
     [AR_ACCESSED, AR_WRITABLE, AR_CONFORMING, AR_EXECUTABLE, AR_CODE_DATA, AR_PRESENT, AR_LONG_MODE,
      AR_DB, AR_GRANULARITY, AR_UNUSABLE, AR_TSS_AVAIL, AR_TSS_BUSY, AR_DPL_USER] 0"

definition dpl :: "u32 \<Rightarrow> u8" where
  "dpl rights = ucast (get_bits rights 5 7)"

definition from_descriptor :: "u64 \<Rightarrow> u32" where
  "from_descriptor desc =
     truncate_flags SegmentAccessRights_all (ucast (get_bits desc 40 56) AND 0xf0ff)"

definition type_field :: "u32 \<Rightarrow> u32" where
  "type_field rights = truncate_flags SegmentAccessRights_all (rights AND 0xf)"

definition set_descriptor_type :: "u64 \<Rightarrow> u32 \<Rightarrow> u64 option" where
  "set_descriptor_type desc type = set_bits_range desc 40 44 (ucast type)"

definition as_svm_segment_attributes :: "u32 \<Rightarrow> u16" where
  "as_svm_segment_attributes rights =
     (let b = ucast rights :: u16 in (b AND 0xff) OR drop_bit 4 (b AND 0xf000))"


section \<open>Descriptor tables\<close>

definition selector_index :: "u16 \<Rightarrow> usize" where
  "selector_index sel = drop_bit 3 (ucast sel)"

definition KCODE_SELECTOR :: u16 where [rvm_const]: "KCODE_SELECTOR = push_bit 3 1"
definition KDATA_SELECTOR :: u16 where [rvm_const]: "KDATA_SELECTOR = push_bit 3 2"
definition TSS_SELECTOR :: u16 where [rvm_const]: "TSS_SELECTOR = push_bit 3 3"

record GdtStruct =
  gdt_base :: u64
  gdt_len :: usize

definition GdtStruct_index :: "GdtStruct \<Rightarrow> usize \<Rightarrow> machine \<Rightarrow> (u64, 'e) result" where
  "GdtStruct_index g i m = (if i < gdt_len g then Ok (m_mem m (gdt_base g + 8 * i)) else Panic)"

definition GdtStruct_index_mut ::
  "GdtStruct \<Rightarrow> usize \<Rightarrow> u64 \<Rightarrow> machine \<Rightarrow> machine \<times> (unit, 'e) result" where
  "GdtStruct_index_mut g i v m =
     (if i < gdt_len g then (m\<lparr>m_mem := (m_mem m)(gdt_base g + 8 * i := v)\<rparr>, Ok ())
      else (m, Panic))"

text \<open>
  The new table is leaked from the heap, at the address \<open>a\<close> that the allocator returns; the two
  words of the TSS descriptor come from \<^verbatim>\<open>Descriptor::tss_segment\<close>.
\<close>

definition GdtStruct_alloc :: "u64 \<Rightarrow> machine \<Rightarrow> machine \<times> GdtStruct" where
  "GdtStruct_alloc a m =
     (m\<lparr>m_mem := fold (\<lambda>i f. f(a + 8 * word_of_nat i := 0)) [0..<16] (m_mem m)\<rparr>,
      \<lparr>gdt_base = a, gdt_len = 16\<rparr>)"

definition GdtStruct_init ::
  "GdtStruct \<Rightarrow> u64 \<times> u64 \<Rightarrow> machine \<Rightarrow> machine \<times> (unit, 'e) result" where
  "GdtStruct_init g tss m =
     (let m0 = m\<lparr>m_mem := fold (\<lambda>i f. f(gdt_base g + 8 * word_of_nat i := 0)) [0..<unat (gdt_len g)]
                 (m_mem m)\<rparr> in
      st_then (GdtStruct_index_mut g 1 0x00af9b000000ffff m0) (\<lambda>m _.
      st_then (GdtStruct_index_mut g 2 0x00cf93000000ffff m) (\<lambda>m _.
      st_then (GdtStruct_index_mut g 3 (fst tss) m) (\<lambda>m _.
      GdtStruct_index_mut g 4 (snd tss) m))))"

definition GdtStruct_pointer :: "GdtStruct \<Rightarrow> DescriptorTablePointer" where
  "GdtStruct_pointer g = \<lparr>dt_limit = ucast (gdt_len g * 8 - 1), dt_base = gdt_base g\<rparr>"

definition GdtStruct_from_pointer :: "DescriptorTablePointer \<Rightarrow> GdtStruct" where
  "GdtStruct_from_pointer p = \<lparr>gdt_base = dt_base p, gdt_len = (ucast (dt_limit p) + 1) div 8\<rparr>"

definition GdtStruct_sgdt :: "machine \<Rightarrow> DescriptorTablePointer" where
  "GdtStruct_sgdt m = m_gdtr m"

definition GdtStruct_lgdt :: "DescriptorTablePointer \<Rightarrow> machine \<Rightarrow> machine" where
  "GdtStruct_lgdt p m = m\<lparr>m_gdtr := p\<rparr>"

definition GdtStruct_load :: "GdtStruct \<Rightarrow> machine \<Rightarrow> machine" where
  "GdtStruct_load g m = GdtStruct_lgdt (GdtStruct_pointer g) m"

definition GdtStruct_load_tss :: "GdtStruct \<Rightarrow> u16 \<Rightarrow> machine \<Rightarrow> machine \<times> (unit, 'e) result" where
  "GdtStruct_load_tss g sel m =
     (case GdtStruct_index g (selector_index sel) m :: (u64, unit) result of
        Ok d \<Rightarrow> (case set_descriptor_type d (ar_bits AR_TSS_AVAIL) of
           Some d' \<Rightarrow> st_then (GdtStruct_index_mut g (selector_index sel) d' m) (\<lambda>m _.
             (m\<lparr>m_tr := sel\<rparr>, Ok ()))
         | None \<Rightarrow> (m, Panic))
      | _ \<Rightarrow> (m, Panic))"

definition IdtStruct_pointer :: "u64 \<Rightarrow> DescriptorTablePointer" where
  "IdtStruct_pointer table = \<lparr>dt_limit = 4096 - 1, dt_base = table\<rparr>"

definition IdtStruct_sidt :: "machine \<Rightarrow> DescriptorTablePointer" where
  "IdtStruct_sidt m = m_idtr m"

definition IdtStruct_lidt :: "DescriptorTablePointer \<Rightarrow> machine \<Rightarrow> machine" where
  "IdtStruct_lidt p m = m\<lparr>m_idtr := p\<rparr>"

definition IdtStruct_load :: "u64 \<Rightarrow> machine \<Rightarrow> machine" where
  "IdtStruct_load table m = IdtStruct_lidt (IdtStruct_pointer table) m"


section \<open>Segments\<close>

record Segment =
  seg_selector :: u16
  seg_base :: u64
  seg_limit :: u32
  seg_access_rights :: u32

definition Segment_invalid :: Segment where
  "Segment_invalid = \<lparr>seg_selector = 0, seg_base = 0, seg_limit = 0,
     seg_access_rights = ar_bits AR_UNUSABLE\<rparr>"

text \<open>
  The descriptor flags \<^verbatim>\<open>PRESENT\<close>, \<^verbatim>\<open>USER_SEGMENT\<close> and \<^verbatim>\<open>GRANULARITY\<close> are bits 47, 44 and 55 of
  the entry. The descriptor of a system segment occupies two entries.
\<close>

definition descriptor_base :: "u64 \<Rightarrow> u64" where
  "descriptor_base e = get_bits e 16 40 OR push_bit 24 (get_bits e 56 64)"

definition descriptor_limit :: "u64 \<Rightarrow> u64" where
  "descriptor_limit e =
     (let limit = get_bits e 0 16 OR push_bit 16 (get_bits e 48 52) in
      if bit e 55 then push_bit 12 limit OR 0xfff else limit)"

definition Segment_from_selector ::
  "u16 \<Rightarrow> DescriptorTablePointer \<Rightarrow> machine \<Rightarrow> (Segment, 'e) result" where
  "Segment_from_selector sel gdt m =
     (let index = selector_index sel; table = GdtStruct_from_pointer gdt in
      and_then (GdtStruct_index table index m) (\<lambda>entry.
      if bit entry 47 then
        and_then
          (if \<not> bit entry 44 then
             and_then (GdtStruct_index table (index + 1) m) (\<lambda>high.
               Ok (descriptor_base entry + push_bit 32 high))
           else Ok (descriptor_base entry)) (\<lambda>base.
        Ok \<lparr>seg_selector = sel, seg_base = base, seg_limit = ucast (descriptor_limit entry),
            seg_access_rights = from_descriptor entry\<rparr>)
      else Ok Segment_invalid))"


section \<open>Descriptor fields\<close>

lemma gdt_pointer_round_trip:
  assumes "0 < gdt_len g" "gdt_len g \<le> 8192"
  shows "GdtStruct_from_pointer (GdtStruct_pointer g) = g"
proof -
  have n: "0 < unat (gdt_len g)" "unat (gdt_len g) \<le> 8192"
    using assms by (simp_all add: word_less_nat_alt word_le_nat_alt)
  then have "unat (gdt_len g * 8 - 1) = unat (gdt_len g) * 8 - 1"
    by (subst unat_sub) (simp_all add: word_le_nat_alt unat_word_ariths)
  then have "unat (ucast (ucast (gdt_len g * 8 - 1) :: u16) :: u64) = unat (gdt_len g) * 8 - 1"
    using n by (simp add: unsigned_ucast_eq unat_take_bit)
  then have "unat ((ucast (ucast (gdt_len g * 8 - 1) :: u16) + 1 :: u64) div 8) = unat (gdt_len g)"
    using n by (simp add: unat_div unat_word_ariths)
  then show ?thesis
    by (simp add: GdtStruct_from_pointer_def GdtStruct_pointer_def word_unat_eq_iff)
qed

lemma bit_SegmentAccessRights_all:
  "bit SegmentAccessRights_all n \<longleftrightarrow> n < 8 \<or> n \<in> {13, 14, 15, 16}"
proof -
  have eq: "SegmentAccessRights_all = mask 8 OR push_bit 13 1 OR push_bit 14 1 OR push_bit 15 1 OR push_bit 16 1"
    by (simp add: SegmentAccessRights_all_def mask_eq_exp_minus_1)
  show ?thesis
    unfolding eq by (auto simp: bit_or_iff bit_mask_iff bit_push_bit_one simp del: push_bit_of_1)
qed

lemma bit_word_const:
  "bit (0xf0ff :: u32) n \<longleftrightarrow> n < 8 \<or> 12 \<le> n \<and> n < 16"
  "bit (0xff :: u16) n \<longleftrightarrow> n < 8" "bit (0xf000 :: u16) n \<longleftrightarrow> 12 \<le> n \<and> n < 16"
proof -
  have a: "(0xf0ff :: u32) = mask 8 OR push_bit 12 (mask 4)"
    and b: "(0xff :: u16) = mask 8" and c: "(0xf000 :: u16) = push_bit 12 (mask 4)"
    by (simp_all add: mask_eq_exp_minus_1)
  show "bit (0xf0ff :: u32) n \<longleftrightarrow> n < 8 \<or> 12 \<le> n \<and> n < 16"
    unfolding a by (auto simp: bit_simps)
  show "bit (0xff :: u16) n \<longleftrightarrow> n < 8" "bit (0xf000 :: u16) n \<longleftrightarrow> 12 \<le> n \<and> n < 16"
    unfolding b c by (auto simp: bit_simps)
qed

lemma bit_from_descriptor:
  "bit (from_descriptor e) n \<longleftrightarrow> (n < 8 \<or> n \<in> {13, 14, 15}) \<and> bit e (40 + n)"
  unfolding from_descriptor_def truncate_flags_def bit_and_iff bit_get_bits bit_ucast_iff
    bit_SegmentAccessRights_all bit_word_const
  by auto

lemma bit_as_svm_segment_attributes:
  "bit (as_svm_segment_attributes r) n \<longleftrightarrow> n < 8 \<and> bit r n \<or> 8 \<le> n \<and> n < 12 \<and> bit r (n + 4)"
  unfolding as_svm_segment_attributes_def Let_def bit_or_iff bit_and_iff bit_drop_bit_eq comp_def
    bit_ucast_iff bit_word_const
  by (auto simp: add.commute)

text \<open>C31: Loading a segment descriptor keeps its meaning in both vendors' formats. The VMX access
  rights of a descriptor have the type, S, DPL and P bits (0 to 7) and the L, D/B and G bits
  (13 to 15) of bits 40 to 55 of the descriptor and nothing else; the privilege level read from them
  is the DPL field; and the SVM attributes derived from them are the same bits with the gap at 8 to 11
  closed.\<close>

theorem descriptor_rights:
  "(bit (from_descriptor e) n \<longleftrightarrow> (n < 8 \<or> n \<in> {13, 14, 15}) \<and> bit e (40 + n)) \<and>
   dpl (from_descriptor e) = ucast (get_bits e 45 47) \<and>
   (bit (as_svm_segment_attributes (from_descriptor e)) n \<longleftrightarrow>
      (n < 8 \<and> bit e (40 + n) \<or> n \<in> {9, 10, 11} \<and> bit e (44 + n)))"
proof -
  have "dpl (from_descriptor e) = ucast (get_bits e 45 47)"
    by (rule bit_word_eqI)
      (auto simp: dpl_def bit_ucast_iff bit_get_bits bit_from_descriptor add.commute add.left_commute)
  moreover have "bit (as_svm_segment_attributes (from_descriptor e)) n \<longleftrightarrow>
      (n < 8 \<and> bit e (40 + n) \<or> n \<in> {9, 10, 11} \<and> bit e (44 + n))"
    by (auto simp: bit_as_svm_segment_attributes bit_from_descriptor add.commute)
  ultimately show ?thesis
    using bit_from_descriptor by blast
qed

end
