(* ===== verification/Context.thy ===== *)
theory Context
  imports Segmentation
begin

text \<open>
  The saved register state and the assembly that moves it: \<^verbatim>\<open>src/src/arch/x86_64/context.rs\<close> and
  \<^verbatim>\<open>src/src/arch/x86_64/entry.rs\<close>. The assembly blocks are programs of a small stack machine with
  the sixteen general registers, the instruction pointer and a memory of 8-byte words;
  \<open>run\<close> executes one. \<open>LinuxContext\<close> is the state of the Linux CPU that entered the hypervisor.
\<close>


section \<open>The stack machine\<close>

datatype reg = RAX | RCX | RDX | RBX | RSP | RBP | RSI | RDI | R8 | R9 | R10 | R11 | R12 | R13 | R14
  | R15 | RIP

record stack_cpu =
  gpr :: "reg \<Rightarrow> u64"
  ram :: "u64 \<Rightarrow> u64"

datatype instr =
    Push reg | PushImm u64 | Pop reg | AddRsp u64 | SubRsp u64 | Mov reg reg | Store reg u64 reg
  | Ret

fun exec :: "instr \<Rightarrow> stack_cpu \<Rightarrow> stack_cpu" where
  "exec (Push r) s = s\<lparr>gpr := (gpr s)(RSP := gpr s RSP - 8), ram := (ram s)(gpr s RSP - 8 := gpr s r)\<rparr>"
| "exec (PushImm v) s = s\<lparr>gpr := (gpr s)(RSP := gpr s RSP - 8), ram := (ram s)(gpr s RSP - 8 := v)\<rparr>"
| "exec (Pop r) s = s\<lparr>gpr := (gpr s)(RSP := gpr s RSP + 8, r := ram s (gpr s RSP))\<rparr>"
| "exec (AddRsp n) s = s\<lparr>gpr := (gpr s)(RSP := gpr s RSP + n)\<rparr>"
| "exec (SubRsp n) s = s\<lparr>gpr := (gpr s)(RSP := gpr s RSP - n)\<rparr>"
| "exec (Mov d r) s = s\<lparr>gpr := (gpr s)(d := gpr s r)\<rparr>"
| "exec (Store b d r) s = s\<lparr>ram := (ram s)(gpr s b + d := gpr s r)\<rparr>"
| "exec Ret s = s\<lparr>gpr := (gpr s)(RSP := gpr s RSP + 8, RIP := ram s (gpr s RSP))\<rparr>"

definition run :: "instr list \<Rightarrow> stack_cpu \<Rightarrow> stack_cpu" where
  "run p s = fold exec p s"


section \<open>General registers\<close>

record GeneralRegisters =
  rax :: u64
  rcx :: u64
  rdx :: u64
  rbx :: u64
  unused_rsp :: u64
  rbp :: u64
  rsi :: u64
  rdi :: u64
  r8 :: u64
  r9 :: u64
  r10 :: u64
  r11 :: u64
  r12 :: u64
  r13 :: u64
  r14 :: u64
  r15 :: u64

definition GeneralRegisters_default :: GeneralRegisters where
  "GeneralRegisters_default = \<lparr>rax = 0, rcx = 0, rdx = 0, rbx = 0, unused_rsp = 0, rbp = 0, rsi = 0,
     rdi = 0, r8 = 0, r9 = 0, r10 = 0, r11 = 0, r12 = 0, r13 = 0, r14 = 0, r15 = 0\<rparr>"

text \<open>The structure lies in memory as its sixteen words in the order of the fields.\<close>

definition regs_at :: "(u64 \<Rightarrow> u64) \<Rightarrow> u64 \<Rightarrow> GeneralRegisters" where
  "regs_at f a = \<lparr>rax = f a, rcx = f (a + 8), rdx = f (a + 16), rbx = f (a + 24),
     unused_rsp = f (a + 32), rbp = f (a + 40), rsi = f (a + 48), rdi = f (a + 56), r8 = f (a + 64),
     r9 = f (a + 72), r10 = f (a + 80), r11 = f (a + 88), r12 = f (a + 96), r13 = f (a + 104),
     r14 = f (a + 112), r15 = f (a + 120)\<rparr>"

definition save_regs_to_stack :: "instr list" where
  "save_regs_to_stack =
     [Push R15, Push R14, Push R13, Push R12, Push R11, Push R10, Push R9, Push R8, Push RDI,
      Push RSI, Push RBP, SubRsp 8, Push RBX, Push RDX, Push RCX, Push RAX]"

definition restore_regs_from_stack :: "instr list" where
  "restore_regs_from_stack =
     [Pop RAX, Pop RCX, Pop RDX, Pop RBX, AddRsp 8, Pop RBP, Pop RSI, Pop RDI, Pop R8, Pop R9,
      Pop R10, Pop R11, Pop R12, Pop R13, Pop R14, Pop R15]"


section \<open>The Linux context\<close>

definition SAVED_LINUX_REGS :: usize where [rvm_const]: "SAVED_LINUX_REGS = 8"

record LinuxContext =
  lx_rsp :: u64
  lx_rip :: u64
  lx_r15 :: u64
  lx_r14 :: u64
  lx_r13 :: u64
  lx_r12 :: u64
  lx_rbx :: u64
  lx_rbp :: u64
  lx_es :: Segment
  lx_cs :: Segment
  lx_ss :: Segment
  lx_ds :: Segment
  lx_fs :: Segment
  lx_gs :: Segment
  lx_tss :: Segment
  lx_gdt :: DescriptorTablePointer
  lx_idt :: DescriptorTablePointer
  lx_cr0 :: u64
  lx_cr3 :: u64
  lx_cr4 :: u64
  lx_efer :: u64
  lx_star :: u64
  lx_lstar :: u64
  lx_cstar :: u64
  lx_fmask :: u64
  lx_kernel_gsbase :: u64
  lx_pat :: u64
  lx_mtrr_def_type :: u64

definition LinuxContext_load_from :: "ext \<Rightarrow> usize \<Rightarrow> machine \<Rightarrow> (LinuxContext, 'e) result" where
  "LinuxContext_load_from x linux_sp m =
     (let regs = (\<lambda>i. m_mem m (linux_sp + 8 * i)); gdt = GdtStruct_sgdt m in
      and_then (Segment_from_selector (m_fs m) gdt m) (\<lambda>fs.
      and_then (Segment_from_selector (m_gs m) gdt m) (\<lambda>gs.
      and_then (Segment_from_selector (m_es m) gdt m) (\<lambda>es.
      and_then (Segment_from_selector (m_cs m) gdt m) (\<lambda>cs.
      and_then (Segment_from_selector (m_ss m) gdt m) (\<lambda>ss.
      and_then (Segment_from_selector (m_ds m) gdt m) (\<lambda>ds.
      and_then (Segment_from_selector (m_tr m) gdt m) (\<lambda>tss.
      Ok \<lparr>lx_rsp = linux_sp + 8 * SAVED_LINUX_REGS, lx_rip = regs 7, lx_r15 = regs 1, lx_r14 = regs 2,
          lx_r13 = regs 3, lx_r12 = regs 4, lx_rbx = regs 5, lx_rbp = regs 6,
          lx_es = es, lx_cs = cs, lx_ss = ss, lx_ds = ds,
          lx_fs = fs\<lparr>seg_base := Msr_read MSR_IA32_FS_BASE m\<rparr>, lx_gs = gs\<lparr>seg_base := regs 0\<rparr>,
          lx_tss = tss, lx_gdt = gdt, lx_idt = IdtStruct_sidt m,
          lx_cr0 = read_cr0 x m, lx_cr3 = read_cr3 m, lx_cr4 = read_cr4 x m,
          lx_efer = Msr_read MSR_IA32_EFER m, lx_star = Msr_read MSR_IA32_STAR m,
          lx_lstar = Msr_read MSR_IA32_LSTAR m, lx_cstar = Msr_read MSR_IA32_CSTAR m,
          lx_fmask = Msr_read MSR_IA32_FMASK m,
          lx_kernel_gsbase = Msr_read MSR_IA32_KERNEL_GSBASE m, lx_pat = Msr_read MSR_IA32_PAT m,
          lx_mtrr_def_type = Msr_read MSR_IA32_MTRR_DEF_TYPE m\<rparr>))))))))"

text \<open>
  \<^verbatim>\<open>restore\<close>. The frame \<^verbatim>\<open>PhysFrame::containing_address(PhysAddr::new(cr3))\<close> panics on an address
  of more than 52 bits; \<^verbatim>\<open>Cr3::write\<close> with empty flags stores the frame address alone.
\<close>

definition write_cr3_frame :: "u64 \<Rightarrow> machine \<Rightarrow> machine \<times> (unit, 'e) result" where
  "write_cr3_frame v m =
     (if get_bits v 52 64 = 0 then (m\<lparr>m_cr3 := v AND NOT (mask 12)\<rparr>, Ok ()) else (m, Panic))"

definition LinuxContext_restore_tss :: "LinuxContext \<Rightarrow> machine \<Rightarrow> machine \<times> (unit, 'e) result" where
  "LinuxContext_restore_tss l m =
     (let hv_gdt = GdtStruct_from_pointer (GdtStruct_sgdt m);
          linux_gdt = GdtStruct_from_pointer (lx_gdt l);
          tss_idx = selector_index (seg_selector (lx_tss l)) in
      case GdtStruct_index linux_gdt tss_idx m of
        Ok d0 \<Rightarrow> st_then (GdtStruct_index_mut hv_gdt tss_idx d0 m) (\<lambda>m _.
          case GdtStruct_index linux_gdt (tss_idx + 1) m of
            Ok d1 \<Rightarrow> st_then (GdtStruct_index_mut hv_gdt (tss_idx + 1) d1 m) (\<lambda>m _.
              GdtStruct_load_tss hv_gdt (seg_selector (lx_tss l)) m)
          | Err e \<Rightarrow> (m, Err e) | Panic \<Rightarrow> (m, Panic))
      | Err e \<Rightarrow> (m, Err e) | Panic \<Rightarrow> (m, Panic))"

definition LinuxContext_restore :: "ext \<Rightarrow> LinuxContext \<Rightarrow> machine \<Rightarrow> machine \<times> (unit, 'e) result" where
  "LinuxContext_restore x l m =
     (let m = Msr_write MSR_IA32_EFER (lx_efer l) m;
          m = Msr_write MSR_IA32_STAR (lx_star l) m;
          m = Msr_write MSR_IA32_LSTAR (lx_lstar l) m;
          m = Msr_write MSR_IA32_CSTAR (lx_cstar l) m;
          m = Msr_write MSR_IA32_FMASK (lx_fmask l) m;
          m = Msr_write MSR_IA32_KERNEL_GSBASE (lx_kernel_gsbase l) m;
          m = Msr_write MSR_IA32_PAT (lx_pat l) m;
          m = write_cr0 x (lx_cr0 l) m;
          m = write_cr4 x (lx_cr4 l) m in
      st_then (write_cr3_frame (lx_cr3 l) m) (\<lambda>m _.
      st_then (LinuxContext_restore_tss l m) (\<lambda>m _.
      let m = GdtStruct_lgdt (lx_gdt l) m;
          m = IdtStruct_lidt (lx_idt l) m;
          m = m\<lparr>m_es := seg_selector (lx_es l), m_cs := seg_selector (lx_cs l),
                m_ss := seg_selector (lx_ss l), m_ds := seg_selector (lx_ds l),
                m_fs := seg_selector (lx_fs l), m_gs := seg_selector (lx_gs l)\<rparr> in
      (Msr_write MSR_IA32_FS_BASE (seg_base (lx_fs l)) m, Ok ()))))"

text \<open>
  \<^verbatim>\<open>return_to_linux\<close>: the compiler chooses the registers \<open>rl\<close>, \<open>ri\<close> and \<open>rg\<close> that hold the operands
  \<^verbatim>\<open>linux_rsp\<close>, \<^verbatim>\<open>linux_rip\<close> and \<^verbatim>\<open>guest_regs\<close>.
\<close>

definition return_to_linux_asm :: "reg \<Rightarrow> reg \<Rightarrow> reg \<Rightarrow> instr list" where
  "return_to_linux_asm rl ri rg =
     [Mov RSP rl, Push ri, Mov RCX RSP, Mov RSP rg, Store RSP 128 RCX]
     @ restore_regs_from_stack @ [Pop RSP, Ret]"

definition LinuxContext_return_to_linux :: "LinuxContext \<Rightarrow> machine \<Rightarrow> machine" where
  "LinuxContext_return_to_linux l m = Msr_write MSR_IA32_GS_BASE (seg_base (lx_gs l)) m"


section \<open>Entering from Linux\<close>

text \<open>
  \<^verbatim>\<open>arch_entry\<close> is called by the Linux driver: the return address is on the stack. It pushes the
  callee-saved registers and a zero, which \<^verbatim>\<open>switch_stack\<close> replaces by the GS base. When
  \<^verbatim>\<open>switch_stack\<close> returns, the same registers are popped.
\<close>

definition arch_entry_push :: "instr list" where
  "arch_entry_push = [Push RBP, Push RBX, Push R12, Push R13, Push R14, Push R15, PushImm 0]"

definition arch_entry_pop :: "instr list" where
  "arch_entry_pop = [Pop R15, Pop R15, Pop R14, Pop R13, Pop R12, Pop RBX, Pop RBP, Ret]"

text \<open>\<^verbatim>\<open>mov [rsi], linux_tp\<close>, where \<open>rsi\<close> is the stack pointer \<^verbatim>\<open>arch_entry\<close> passed.\<close>

definition switch_stack_save :: "u64 \<Rightarrow> u64 \<Rightarrow> (u64 \<Rightarrow> u64) \<Rightarrow> (u64 \<Rightarrow> u64)" where
  "switch_stack_save linux_sp linux_tp f = f(linux_sp := linux_tp)"


section \<open>Saving and restoring\<close>

lemma run_save_regs:
  assumes "gpr s RSP = a + 128"
  shows "run save_regs_to_stack s = s\<lparr>gpr := (gpr s)(RSP := a),
    ram := (ram s)(a + 120 := gpr s R15, a + 112 := gpr s R14, a + 104 := gpr s R13,
      a + 96 := gpr s R12, a + 88 := gpr s R11, a + 80 := gpr s R10, a + 72 := gpr s R9,
      a + 64 := gpr s R8, a + 56 := gpr s RDI, a + 48 := gpr s RSI, a + 40 := gpr s RBP,
      a + 24 := gpr s RBX, a + 16 := gpr s RDX, a + 8 := gpr s RCX, a := gpr s RAX)\<rparr>"
  using assms by (simp add: run_def save_regs_to_stack_def add_diff_eq[symmetric])

lemma run_restore_regs:
  assumes "gpr s RSP = a"
  shows "run restore_regs_from_stack s = s\<lparr>gpr := (gpr s)(
      RAX := ram s a, RCX := ram s (a + 8), RDX := ram s (a + 16), RBX := ram s (a + 24),
      RBP := ram s (a + 40), RSI := ram s (a + 48), RDI := ram s (a + 56), R8 := ram s (a + 64),
      R9 := ram s (a + 72), R10 := ram s (a + 80), R11 := ram s (a + 88), R12 := ram s (a + 96),
      R13 := ram s (a + 104), R14 := ram s (a + 112), RSP := a + 128, R15 := ram s (a + 120))\<rparr>"
  using assms by (simp add: run_def restore_regs_from_stack_def add.assoc)

lemma run_append: "run (p @ q) s = run q (run p s)"
  by (simp add: run_def)

text \<open>The addresses of \<open>n\<close> consecutive words.\<close>

definition words_at :: "u64 \<Rightarrow> nat \<Rightarrow> u64 list" where
  "words_at a n = map (\<lambda>i. a + 8 * word_of_nat i) [0..<n]"

lemma words_at_16: "words_at a 16 = [a, a + 8, a + 16, a + 24, a + 32, a + 40, a + 48, a + 56,
    a + 64, a + 72, a + 80, a + 88, a + 96, a + 104, a + 112, a + 120]"
  by (simp add: words_at_def upt_rec)

lemma save_regs_frame:
  assumes "gpr s RSP = a + 128"
  shows "ram (run save_regs_to_stack s) b = ram s b \<or> b \<in> set (words_at a 16)"
  by (simp add: run_save_regs[OF assms] words_at_16)

text \<open>C27: The register save on a VM exit and the restore before resuming agree with the layout of
  \<^verbatim>\<open>GeneralRegisters\<close>. Saving writes every general register to the field of its name in the
  structure that ends where the stack pointer was, keeps the registers themselves, and touches no
  word outside the structure; restoring from any structure loads every register from its field
  and leaves the stack pointer at the end of the structure.\<close>

theorem regs_save_restore:
  "gpr (run save_regs_to_stack s) = (gpr s)(RSP := gpr s RSP - 128) \<and>
   regs_at (ram (run save_regs_to_stack s)) (gpr s RSP - 128)
     = \<lparr>rax = gpr s RAX, rcx = gpr s RCX, rdx = gpr s RDX, rbx = gpr s RBX,
        unused_rsp = ram s (gpr s RSP - 96), rbp = gpr s RBP, rsi = gpr s RSI, rdi = gpr s RDI,
        r8 = gpr s R8, r9 = gpr s R9, r10 = gpr s R10, r11 = gpr s R11, r12 = gpr s R12,
        r13 = gpr s R13, r14 = gpr s R14, r15 = gpr s R15\<rparr> \<and>
   (ram (run save_regs_to_stack s) b = ram s b \<or> b \<in> set (words_at (gpr s RSP - 128) 16)) \<and>
   (let t = run restore_regs_from_stack s; g = regs_at (ram s) (gpr s RSP) in
    ram t = ram s \<and> gpr t RSP = gpr s RSP + 128 \<and> gpr t RIP = gpr s RIP \<and>
    [gpr t RAX, gpr t RCX, gpr t RDX, gpr t RBX, gpr t RBP, gpr t RSI, gpr t RDI, gpr t R8, gpr t R9,
     gpr t R10, gpr t R11, gpr t R12, gpr t R13, gpr t R14, gpr t R15]
     = [rax g, rcx g, rdx g, rbx g, rbp g, rsi g, rdi g, r8 g, r9 g, r10 g, r11 g, r12 g, r13 g,
        r14 g, r15 g])"
proof -
  obtain a where a: "gpr s RSP = a + 128"
    by (metis diff_add_cancel)
  show ?thesis
    using save_regs_frame[OF a, of b]
    by (simp add: run_save_regs[OF a] run_restore_regs[OF a] regs_at_def Let_def a add.assoc
        add_diff_eq[symmetric])
qed


section \<open>Returning to Linux\<close>

lemma return_to_linux_split:
  "run (return_to_linux_asm rl ri rg) s = run [Pop RSP, Ret] (run restore_regs_from_stack
     (run [Mov RSP rl, Push ri, Mov RCX RSP, Mov RSP rg, Store RSP 128 RCX] s))"
  unfolding return_to_linux_asm_def run_append ..

lemma return_to_linux_prologue:
  assumes "rg \<noteq> RCX" "rg \<noteq> RSP" "ri \<noteq> RSP"
    and "gpr s rl = sp" "gpr s ri = ip" "gpr s rg = g"
  shows "gpr (run [Mov RSP rl, Push ri, Mov RCX RSP, Mov RSP rg, Store RSP 128 RCX] s) RSP = g"
    "ram (run [Mov RSP rl, Push ri, Mov RCX RSP, Mov RSP rg, Store RSP 128 RCX] s)
      = (ram s)(sp - 8 := ip, g + 128 := sp - 8)"
  using assms by (simp_all add: run_def)

lemma return_to_linux_epilogue:
  assumes "gpr u RSP = g" "ram u (g + 128) = sp - 8" "ram u (sp - 8) = ip"
  defines "t \<equiv> run [Pop RSP, Ret] (run restore_regs_from_stack u)"
  shows "gpr t = (gpr u)(RAX := ram u g, RCX := ram u (g + 8), RDX := ram u (g + 16),
      RBX := ram u (g + 24), RBP := ram u (g + 40), RSI := ram u (g + 48), RDI := ram u (g + 56),
      R8 := ram u (g + 64), R9 := ram u (g + 72), R10 := ram u (g + 80), R11 := ram u (g + 88),
      R12 := ram u (g + 96), R13 := ram u (g + 104), R14 := ram u (g + 112), R15 := ram u (g + 120),
      RSP := sp, RIP := ip)"
  unfolding t_def run_restore_regs[OF assms(1)]
  using assms(2,3) by (simp add: run_def fun_upd_twist)


definition sample_ret :: stack_cpu where
  "sample_ret = \<lparr>gpr = (\<lambda>_. 0)(RAX := 0xffffc90000004000, RDX := 0xffffffff81000000,
     RDI := 0xffffff0000100000), ram = (\<lambda>_. 7)\<rparr>"



section \<open>Entering and leaving without activation\<close>

lemma run_arch_entry_push:
  assumes "gpr s RSP = a + 56"
  shows "run arch_entry_push s = s\<lparr>gpr := (gpr s)(RSP := a),
    ram := (ram s)(a + 48 := gpr s RBP, a + 40 := gpr s RBX, a + 32 := gpr s R12,
      a + 24 := gpr s R13, a + 16 := gpr s R14, a + 8 := gpr s R15, a := 0)\<rparr>"
  using assms by (simp add: run_def arch_entry_push_def add_diff_eq[symmetric])

lemma load_from_words:
  assumes "LinuxContext_load_from x sp m = (Ok l :: (_, 'e) result)"
  shows "lx_rsp l = sp + 64 \<and> lx_rip l = m_mem m (sp + 56) \<and>
    [lx_r15 l, lx_r14 l, lx_r13 l, lx_r12 l, lx_rbx l, lx_rbp l]
      = [m_mem m (sp + 8), m_mem m (sp + 16), m_mem m (sp + 24), m_mem m (sp + 32), m_mem m (sp + 40),
         m_mem m (sp + 48)] \<and>
    seg_base (lx_gs l) = m_mem m sp"
  using assms
  unfolding LinuxContext_load_from_def Let_def SAVED_LINUX_REGS_def and_then_Ok result.inject
  by (elim exE conjE, hypsubst) simp

text \<open>C25: What \<^verbatim>\<open>arch_entry\<close> pushes is what \<^verbatim>\<open>LinuxContext::load_from\<close> reads: the context of a CPU
  that enters holds the six callee-saved registers the driver had, its return address, the stack
  pointer it will have after the return, and the GS base \<^verbatim>\<open>switch_stack\<close> stored. When the entry
  fails instead, the closing pops give the driver the same registers, stack and return address.\<close>

theorem arch_entry_context:
  assumes "LinuxContext_load_from x (gpr (run arch_entry_push s) RSP) m = (Ok l :: (_, 'e) result)"
    and "m_mem m = switch_stack_save (gpr (run arch_entry_push s) RSP) tp (ram (run arch_entry_push s))"
    and "ram s' = m_mem m" "gpr s' RSP = gpr (run arch_entry_push s) RSP"
  shows "lx_rsp l = gpr s RSP + 8 \<and> lx_rip l = ram s (gpr s RSP) \<and> seg_base (lx_gs l) = tp \<and>
    [lx_r15 l, lx_r14 l, lx_r13 l, lx_r12 l, lx_rbx l, lx_rbp l]
      = [gpr s R15, gpr s R14, gpr s R13, gpr s R12, gpr s RBX, gpr s RBP] \<and>
    (let t = run arch_entry_pop s' in
     gpr t RSP = gpr s RSP + 8 \<and> gpr t RIP = ram s (gpr s RSP) \<and>
     [gpr t R15, gpr t R14, gpr t R13, gpr t R12, gpr t RBX, gpr t RBP]
       = [gpr s R15, gpr s R14, gpr s R13, gpr s R12, gpr s RBX, gpr s RBP])"
proof -
  obtain a where a: "gpr s RSP = a + 56"
    by (metis diff_add_cancel)
  note push = run_arch_entry_push[OF a]
  have sp: "gpr (run arch_entry_push s) RSP = a"
    by (simp add: push)
  have m: "m_mem m = (ram s)(a + 48 := gpr s RBP, a + 40 := gpr s RBX, a + 32 := gpr s R12,
      a + 24 := gpr s R13, a + 16 := gpr s R14, a + 8 := gpr s R15, a := tp)"
    using assms(2) unfolding sp switch_stack_save_def by (simp add: push)
  show ?thesis
    using load_from_words[OF assms(1)] assms(3,4) unfolding sp m
    by (simp add: a Let_def run_def arch_entry_pop_def add.assoc)
qed

text \<open>A machine whose tables hold one present code descriptor, and a driver stack at \<open>0x8000\<close>.\<close>

definition sample_cpu :: stack_cpu where
  "sample_cpu = \<lparr>gpr = (\<lambda>_. 5)(RSP := 0x8000), ram = (\<lambda>_. 0x00af9b000000ffff)\<rparr>"

definition sample_machine :: machine where
  "sample_machine = \<lparr>msr = (\<lambda>_. 0), m_cr0 = 0, m_cr3 = 0x1000, m_cr4 = 0,
     m_gdtr = \<lparr>dt_limit = 127, dt_base = 0x10000\<rparr>, m_idtr = \<lparr>dt_limit = 4095, dt_base = 0x20000\<rparr>,
     m_es = 0, m_cs = 8, m_ss = 0, m_ds = 0, m_fs = 0, m_gs = 0, m_tr = 24, vmx_root = None,
     vmcs_cur = None, vmcs_data = (\<lambda>_ _. 0), m_gif = True,
     m_mem = switch_stack_save 0x7fc8 77 (ram (run arch_entry_push sample_cpu))\<rparr>"

lemma sample_sp: "gpr (run arch_entry_push sample_cpu) RSP = 0x7fc8"
  by (simp add: sample_cpu_def run_def arch_entry_push_def)

lemma sample_mem_high: "0x10000 \<le> b \<Longrightarrow> m_mem sample_machine b = 0x00af9b000000ffff"
  by (auto simp: sample_machine_def switch_stack_save_def sample_cpu_def run_def arch_entry_push_def)

lemma sample_mem: "m_mem sample_machine (0x10000 + 8 * i) = 0x00af9b000000ffff" if "i < 16"
proof (rule sample_mem_high)
  have "unat (0x10000 + 8 * i) = 0x10000 + 8 * unat i"
    using that by (simp add: unat_word_ariths word_less_nat_alt)
  then show "0x10000 \<le> 0x10000 + 8 * i"
    by (simp add: word_le_nat_alt)
qed

lemma sample_segment:
  "sel \<in> {0, 8, 24} \<Longrightarrow> \<exists>g. Segment_from_selector sel (m_gdtr sample_machine) sample_machine
     = (Ok g :: (_, unit) result)"
proof -
  assume "sel \<in> {0, 8, 24}"
  then have "selector_index sel < 16" "selector_index sel + 1 < 16"
    by (auto simp: selector_index_def)
  moreover have "GdtStruct_from_pointer (m_gdtr sample_machine) = \<lparr>gdt_base = 0x10000, gdt_len = 16\<rparr>"
    by (simp add: sample_machine_def GdtStruct_from_pointer_def)
  ultimately show ?thesis
    by (simp add: Segment_from_selector_def Let_def GdtStruct_index_def sample_mem)
qed

lemma sample_load_from:
  "\<exists>l. LinuxContext_load_from sample_ext 0x7fc8 sample_machine = (Ok l :: (_, unit) result)"
proof -
  have "m_es sample_machine = 0" "m_cs sample_machine = 8" "m_ss sample_machine = 0"
    "m_ds sample_machine = 0" "m_fs sample_machine = 0" "m_gs sample_machine = 0"
    "m_tr sample_machine = 24"
    by (simp_all add: sample_machine_def)
  moreover obtain g h k where
    "Segment_from_selector 0 (m_gdtr sample_machine) sample_machine = (Ok g :: (_, unit) result)"
    "Segment_from_selector 8 (m_gdtr sample_machine) sample_machine = (Ok h :: (_, unit) result)"
    "Segment_from_selector 24 (m_gdtr sample_machine) sample_machine = (Ok k :: (_, unit) result)"
    using sample_segment[of 0] sample_segment[of 8] sample_segment[of 24] by blast
  ultimately show ?thesis
    by (simp only: LinuxContext_load_from_def Let_def GdtStruct_sgdt_def and_then.simps) (rule exI, rule refl)
qed

theorem arch_entry_context_witness:
  "\<exists>l. LinuxContext_load_from sample_ext 0x7fc8 sample_machine = (Ok l :: (_, unit) result) \<and>
     lx_rsp l = 0x8008 \<and> seg_base (lx_gs l) = 77"
proof -
  obtain l where l: "LinuxContext_load_from sample_ext 0x7fc8 sample_machine = (Ok l :: (_, unit) result)"
    using sample_load_from by blast
  have "m_mem sample_machine = switch_stack_save 0x7fc8 77 (ram (run arch_entry_push sample_cpu))"
    by (simp add: sample_machine_def)
  with arch_entry_context[unfolded sample_sp, of sample_ext sample_cpu, unfolded sample_sp, OF l,
      of 77 "\<lparr>gpr = (\<lambda>_. 0)(RSP := 0x7fc8), ram = m_mem sample_machine\<rparr>"]
  have "lx_rsp l = gpr sample_cpu RSP + 8 \<and> seg_base (lx_gs l) = 77"
    by simp
  with l show ?thesis
    by (simp add: sample_cpu_def)
qed

end
