(* ===== verification/Cpuid.thy ===== *)
theory Cpuid
  imports Processor
begin

text \<open>
  CPUID: \<^verbatim>\<open>src/src/arch/x86_64/cpuid.rs\<close>. The feature flags of leaves 1 and \<^verbatim>\<open>0x80000001\<close> and the
  feature queries that the vCPU set-up makes; the answers of the \<^verbatim>\<open>raw_cpuid\<close> crate are fields of
  the argument \<open>x\<close>.
\<close>

datatype CpuIdEax =
    CPUID_VendorInfo | CPUID_FeatureInfo | CPUID_HypervisorInfo | CPUID_HypervisorFeatures
  | CPUID_AmdFeatureInfo

primrec cpuid_eax_val :: "CpuIdEax \<Rightarrow> u32" where
  "cpuid_eax_val CPUID_VendorInfo = 0x0"
| "cpuid_eax_val CPUID_FeatureInfo = 0x1"
| "cpuid_eax_val CPUID_HypervisorInfo = 0x40000000"
| "cpuid_eax_val CPUID_HypervisorFeatures = 0x40000001"
| "cpuid_eax_val CPUID_AmdFeatureInfo = 0x80000001"

datatype (plugins only: code size) FeatureInfoFlags =
    FI_SSE3 | FI_PCLMULQDQ | FI_DTES64 | FI_MONITOR | FI_DSCPL | FI_VMX | FI_SMX | FI_EIST
  | FI_TM2 | FI_SSSE3 | FI_CNXTID | FI_FMA | FI_CMPXCHG16B | FI_PDCM | FI_PCID | FI_DCA
  | FI_SSE41 | FI_SSE42 | FI_X2APIC | FI_MOVBE | FI_POPCNT | FI_TSC_DEADLINE | FI_AESNI
  | FI_XSAVE | FI_OSXSAVE | FI_AVX | FI_F16C | FI_RDRAND | FI_HYPERVISOR | FI_FPU | FI_VME
  | FI_DE | FI_PSE | FI_TSC | FI_MSR | FI_PAE | FI_MCE | FI_CX8 | FI_APIC | FI_SEP | FI_MTRR
  | FI_PGE | FI_MCA | FI_CMOV | FI_PAT | FI_PSE36 | FI_PSN | FI_CLFSH | FI_DS | FI_ACPI
  | FI_MMX | FI_FXSR | FI_SSE | FI_SSE2 | FI_SS | FI_HTT | FI_TM | FI_PBE | FI_SVM

primrec feature_info_bits :: "FeatureInfoFlags \<Rightarrow> u64" where
  "feature_info_bits FI_SSE3 = push_bit 0 1"
| "feature_info_bits FI_PCLMULQDQ = push_bit 1 1"
| "feature_info_bits FI_DTES64 = push_bit 2 1"
| "feature_info_bits FI_MONITOR = push_bit 3 1"
| "feature_info_bits FI_DSCPL = push_bit 4 1"
| "feature_info_bits FI_VMX = push_bit 5 1"
| "feature_info_bits FI_SMX = push_bit 6 1"
| "feature_info_bits FI_EIST = push_bit 7 1"
| "feature_info_bits FI_TM2 = push_bit 8 1"
| "feature_info_bits FI_SSSE3 = push_bit 9 1"
| "feature_info_bits FI_CNXTID = push_bit 10 1"
| "feature_info_bits FI_FMA = push_bit 12 1"
| "feature_info_bits FI_CMPXCHG16B = push_bit 13 1"
| "feature_info_bits FI_PDCM = push_bit 15 1"
| "feature_info_bits FI_PCID = push_bit 17 1"
| "feature_info_bits FI_DCA = push_bit 18 1"
| "feature_info_bits FI_SSE41 = push_bit 19 1"
| "feature_info_bits FI_SSE42 = push_bit 20 1"
| "feature_info_bits FI_X2APIC = push_bit 21 1"
| "feature_info_bits FI_MOVBE = push_bit 22 1"
| "feature_info_bits FI_POPCNT = push_bit 23 1"
| "feature_info_bits FI_TSC_DEADLINE = push_bit 24 1"
| "feature_info_bits FI_AESNI = push_bit 25 1"
| "feature_info_bits FI_XSAVE = push_bit 26 1"
| "feature_info_bits FI_OSXSAVE = push_bit 27 1"
| "feature_info_bits FI_AVX = push_bit 28 1"
| "feature_info_bits FI_F16C = push_bit 29 1"
| "feature_info_bits FI_RDRAND = push_bit 30 1"
| "feature_info_bits FI_HYPERVISOR = push_bit 31 1"
| "feature_info_bits FI_FPU = push_bit (32 + 0) 1"
| "feature_info_bits FI_VME = push_bit (32 + 1) 1"
| "feature_info_bits FI_DE = push_bit (32 + 2) 1"
| "feature_info_bits FI_PSE = push_bit (32 + 3) 1"
| "feature_info_bits FI_TSC = push_bit (32 + 4) 1"
| "feature_info_bits FI_MSR = push_bit (32 + 5) 1"
| "feature_info_bits FI_PAE = push_bit (32 + 6) 1"
| "feature_info_bits FI_MCE = push_bit (32 + 7) 1"
| "feature_info_bits FI_CX8 = push_bit (32 + 8) 1"
| "feature_info_bits FI_APIC = push_bit (32 + 9) 1"
| "feature_info_bits FI_SEP = push_bit (32 + 11) 1"
| "feature_info_bits FI_MTRR = push_bit (32 + 12) 1"
| "feature_info_bits FI_PGE = push_bit (32 + 13) 1"
| "feature_info_bits FI_MCA = push_bit (32 + 14) 1"
| "feature_info_bits FI_CMOV = push_bit (32 + 15) 1"
| "feature_info_bits FI_PAT = push_bit (32 + 16) 1"
| "feature_info_bits FI_PSE36 = push_bit (32 + 17) 1"
| "feature_info_bits FI_PSN = push_bit (32 + 18) 1"
| "feature_info_bits FI_CLFSH = push_bit (32 + 19) 1"
| "feature_info_bits FI_DS = push_bit (32 + 21) 1"
| "feature_info_bits FI_ACPI = push_bit (32 + 22) 1"
| "feature_info_bits FI_MMX = push_bit (32 + 23) 1"
| "feature_info_bits FI_FXSR = push_bit (32 + 24) 1"
| "feature_info_bits FI_SSE = push_bit (32 + 25) 1"
| "feature_info_bits FI_SSE2 = push_bit (32 + 26) 1"
| "feature_info_bits FI_SS = push_bit (32 + 27) 1"
| "feature_info_bits FI_HTT = push_bit (32 + 28) 1"
| "feature_info_bits FI_TM = push_bit (32 + 29) 1"
| "feature_info_bits FI_PBE = push_bit (32 + 31) 1"
| "feature_info_bits FI_SVM = push_bit 2 1"

definition FeatureInfoFlags_list :: "FeatureInfoFlags list" where
  "FeatureInfoFlags_list =
    [FI_SSE3, FI_PCLMULQDQ, FI_DTES64, FI_MONITOR, FI_DSCPL, FI_VMX, FI_SMX, FI_EIST,
     FI_TM2, FI_SSSE3, FI_CNXTID, FI_FMA, FI_CMPXCHG16B, FI_PDCM, FI_PCID, FI_DCA, FI_SSE41,
     FI_SSE42, FI_X2APIC, FI_MOVBE, FI_POPCNT, FI_TSC_DEADLINE, FI_AESNI, FI_XSAVE,
     FI_OSXSAVE, FI_AVX, FI_F16C, FI_RDRAND, FI_HYPERVISOR, FI_FPU, FI_VME, FI_DE, FI_PSE,
     FI_TSC, FI_MSR, FI_PAE, FI_MCE, FI_CX8, FI_APIC, FI_SEP, FI_MTRR, FI_PGE, FI_MCA,
     FI_CMOV, FI_PAT, FI_PSE36, FI_PSN, FI_CLFSH, FI_DS, FI_ACPI, FI_MMX, FI_FXSR, FI_SSE,
     FI_SSE2, FI_SS, FI_HTT, FI_TM, FI_PBE, FI_SVM]"

definition FeatureInfoFlags_all :: u64 where
  "FeatureInfoFlags_all = fold (\<lambda>f a. a OR feature_info_bits f) FeatureInfoFlags_list 0"


section \<open>Feature queries\<close>

definition perf_monitor_version_id :: "ext \<Rightarrow> u8" where
  "perf_monitor_version_id x = (case x_perf_version x of Some v \<Rightarrow> v | None \<Rightarrow> 0)"

definition has_vmx :: "ext \<Rightarrow> bool" where
  "has_vmx x = (case x_feat_vmx x of Some b \<Rightarrow> b | None \<Rightarrow> False)"

definition has_xsave :: "ext \<Rightarrow> bool" where
  "has_xsave x = (case x_feat_xsave x of Some b \<Rightarrow> b | None \<Rightarrow> False)"

definition has_rdtscp :: "ext \<Rightarrow> bool" where
  "has_rdtscp x = (case x_feat_rdtscp x of Some b \<Rightarrow> b | None \<Rightarrow> False)"

definition has_invpcid :: "ext \<Rightarrow> bool" where
  "has_invpcid x = (case x_feat_invpcid x of Some b \<Rightarrow> b | None \<Rightarrow> False)"

definition has_xsaves_xrstors :: "ext \<Rightarrow> bool" where
  "has_xsaves_xrstors x = (case x_feat_xsaves x of Some b \<Rightarrow> b | None \<Rightarrow> False)"


section \<open>The known flags\<close>

text \<open>The bits of the low half that no flag names are 11, 14 and 16.\<close>

lemma FeatureInfoFlags_all_low: "take_bit 32 FeatureInfoFlags_all = 0xfffeb7ff"
  by (simp add: FeatureInfoFlags_all_def FeatureInfoFlags_list_def)

lemma bit_FeatureInfoFlags_all:
  assumes "n < 32"
  shows "bit FeatureInfoFlags_all n \<longleftrightarrow> n \<noteq> 11 \<and> n \<noteq> 14 \<and> n \<noteq> 16"
proof -
  have eq: "(0xfffeb7ff :: u64) = mask 32 AND NOT (push_bit 11 1 OR push_bit 14 1 OR push_bit 16 1)"
    by (simp add: mask_eq_exp_minus_1)
  have "bit FeatureInfoFlags_all n \<longleftrightarrow> bit (take_bit 32 FeatureInfoFlags_all) n"
    using assms by (simp add: bit_take_bit_iff)
  also have "\<dots> \<longleftrightarrow> n \<noteq> 11 \<and> n \<noteq> 14 \<and> n \<noteq> 16"
    unfolding FeatureInfoFlags_all_low eq bit_and_iff bit_not_iff bit_or_iff bit_mask_iff
    using assms by (simp add: bit_push_bit_one del: push_bit_of_1)
  finally show ?thesis .
qed

end
