(* ===== verification/VmxVcpu.thy ===== *)
theory VmxVcpu
  imports Vmcs VmxStructs Context Cpuid Addr
begin

text \<open>
  The vCPU on Intel processors: \<^verbatim>\<open>src/src/arch/x86_64/intel/vcpu.rs\<close> and \<^verbatim>\<open>intel/mod.rs\<close>, with the
  host control-register constants of \<^verbatim>\<open>src/src/arch/x86_64/vmm.rs\<close>. The state is the machine, whose
  current VMCS holds the guest state; creating a vCPU also changes the frame allocator.

  A statement that ends in \<^verbatim>\<open>?\<close> is an element of a \<open>run_seq\<close> list or an \<open>st_then\<close>; a failed VMX
  instruction becomes \<^verbatim>\<open>EIO\<close> (\<open>to_hv\<close>), and where the code calls \<^verbatim>\<open>expect\<close> it panics (\<open>expect\<close>).
  Addresses that the linker or the allocator fixes are fields of \<open>host_env\<close>.
\<close>


section \<open>Host environment\<close>

definition HOST_CR0 :: "ext \<Rightarrow> u64" where
  "HOST_CR0 x = truncate_flags (x_cr0_all x)
     (CR0_PAGING OR CR0_WRITE_PROTECT OR CR0_NUMERIC_ERROR OR CR0_TASK_SWITCHED
        OR CR0_MONITOR_COPROCESSOR OR CR0_PROTECTED_MODE_ENABLE)"

definition HOST_CR4 :: u64 where
  "HOST_CR4 = CR4_PHYSICAL_ADDRESS_EXTENSION"

text \<open>
  The stack top of the current CPU, the address of its vCPU's \<^verbatim>\<open>host_stack_top\<close> field, the address
  of \<^verbatim>\<open>vmx_exit\<close>, the physical address of the MSR bitmap, the base of the IDT, and the root table
  of the cell's guest-physical memory.
\<close>

record host_env =
  he_stack_top :: usize
  he_stack_top_slot :: u64
  he_vmx_exit :: u64
  he_msr_bitmap :: usize
  he_idt_base :: u64
  he_gpm_root :: phys_addr

record VmxVcpu =
  vx_guest_regs :: GeneralRegisters
  vx_host_stack_top :: u64
  vx_vmxon_region :: VmxRegion
  vx_vmcs_region :: VmxRegion

definition vmx_check_hypervisor_feature :: "ext \<Rightarrow> (unit, HvErrorNum) result" where
  "vmx_check_hypervisor_feature x = (if has_vmx x then Ok () else Err ENODEV)"


section \<open>Statements on the current VMCS\<close>

definition w16 :: "ext \<Rightarrow> u32 \<Rightarrow> u16 \<Rightarrow> machine \<Rightarrow> machine \<times> (unit, HvErrorNum) result" where
  "w16 x f v m = to_hv x (write16 x f v m)"

definition w32 :: "ext \<Rightarrow> u32 \<Rightarrow> u32 \<Rightarrow> machine \<Rightarrow> machine \<times> (unit, HvErrorNum) result" where
  "w32 x f v m = to_hv x (write32 x f v m)"

definition w64 :: "ext \<Rightarrow> u32 \<Rightarrow> u64 \<Rightarrow> machine \<Rightarrow> machine \<times> (unit, HvErrorNum) result" where
  "w64 x f v m = to_hv x (write64 x f v m)"

fun expect :: "'s \<times> ('a, 'e) result \<Rightarrow> 's \<times> ('a, 'f) result" where
  "expect (s, Ok a) = (s, Ok a)"
| "expect (s, Err e) = (s, Panic)"
| "expect (s, Panic) = (s, Panic)"


section \<open>Control registers of the guest\<close>

definition VmxVcpu_cr :: "ext \<Rightarrow> nat \<Rightarrow> machine \<Rightarrow> (u64, HvErrorNum) result" where
  "VmxVcpu_cr x cr_idx m =
     (case (if cr_idx = 0 then read64 x (g64_enc G64_CR0) m
            else if cr_idx = 3 then read64 x (g64_enc G64_CR3) m
            else if cr_idx = 4 then
              and_then (read64 x (c64_enc C64_CR4_GUEST_HOST_MASK) m) (\<lambda>host_mask.
              and_then (read64 x (c64_enc C64_CR4_READ_SHADOW) m) (\<lambda>shadow.
              and_then (read64 x (g64_enc G64_CR4) m) (\<lambda>cr4.
              Ok ((shadow AND host_mask) OR (cr4 AND NOT host_mask)))))
            else Panic) of
        Ok v \<Rightarrow> Ok v | _ \<Rightarrow> Panic)"

definition VmxVcpu_set_cr :: "ext \<Rightarrow> nat \<Rightarrow> u64 \<Rightarrow> machine \<Rightarrow> machine \<times> (unit, HvErrorNum) result" where
  "VmxVcpu_set_cr x cr_idx val m =
     (if cr_idx = 0 then
        (let must0 = Msr_read MSR_IA32_VMX_CR0_FIXED1 m AND NOT (CR0_NOT_WRITE_THROUGH OR CR0_CACHE_DISABLE);
             must1 = Msr_read MSR_IA32_VMX_CR0_FIXED0 m AND NOT (CR0_PAGING OR CR0_PROTECTED_MODE_ENABLE) in
         expect (run_seq
           [w64 x (g64_enc G64_CR0) ((val AND must0) OR must1),
            w64 x (c64_enc C64_CR0_READ_SHADOW) val,
            w64 x (c64_enc C64_CR0_GUEST_HOST_MASK) (must1 OR NOT must0)] m))
      else if cr_idx = 3 then expect (w64 x (g64_enc G64_CR3) val m)
      else if cr_idx = 4 then
        (let must0 = Msr_read MSR_IA32_VMX_CR4_FIXED1 m;
             must1 = Msr_read MSR_IA32_VMX_CR4_FIXED0 m;
             val = val OR CR4_VIRTUAL_MACHINE_EXTENSIONS in
         expect (run_seq
           [w64 x (g64_enc G64_CR4) ((val AND must0) OR must1),
            w64 x (c64_enc C64_CR4_READ_SHADOW) val,
            w64 x (c64_enc C64_CR4_GUEST_HOST_MASK) (must1 OR NOT must0)] m))
      else (m, Panic))"


section \<open>Setting up the VMCS\<close>

definition set_guest_segment ::
  "ext \<Rightarrow> Segment \<Rightarrow> VmcsField16Guest \<Rightarrow> VmcsField64Guest \<Rightarrow> VmcsField32Guest \<Rightarrow> VmcsField32Guest
     \<Rightarrow> machine \<Rightarrow> machine \<times> (unit, HvErrorNum) result" where
  "set_guest_segment x seg sel base limit ar = run_seq
     [w16 x (g16_enc sel) (seg_selector seg),
      w64 x (g64_enc base) (seg_base seg),
      w32 x (g32_enc limit) (seg_limit seg),
      w32 x (g32_enc ar) (seg_access_rights seg)]"

definition setup_vmcs_host :: "ext \<Rightarrow> host_env \<Rightarrow> machine \<Rightarrow> machine \<times> (unit, HvErrorNum) result" where
  "setup_vmcs_host x he = run_seq
     [\<lambda>m. w64 x (h64_enc H64_IA32_PAT) (Msr_read MSR_IA32_PAT m) m,
      \<lambda>m. w64 x (h64_enc H64_IA32_EFER) (Msr_read MSR_IA32_EFER m) m,
      \<lambda>m. w64 x (h64_enc H64_CR0) (m_cr0 m) m,
      \<lambda>m. w64 x (h64_enc H64_CR3) (read_cr3 m) m,
      \<lambda>m. w64 x (h64_enc H64_CR4) (m_cr4 m) m,
      w16 x (h16_enc H16_ES_SELECTOR) 0,
      w16 x (h16_enc H16_CS_SELECTOR) KCODE_SELECTOR,
      w16 x (h16_enc H16_SS_SELECTOR) 0,
      w16 x (h16_enc H16_DS_SELECTOR) 0,
      w16 x (h16_enc H16_FS_SELECTOR) 0,
      w16 x (h16_enc H16_GS_SELECTOR) 0,
      w16 x (h16_enc H16_TR_SELECTOR) TSS_SELECTOR,
      w64 x (h64_enc H64_FS_BASE) 0,
      \<lambda>m. w64 x (h64_enc H64_GS_BASE) (Msr_read MSR_IA32_GS_BASE m) m,
      w64 x (h64_enc H64_TR_BASE) 0,
      \<lambda>m. w64 x (h64_enc H64_GDTR_BASE) (dt_base (GdtStruct_sgdt m)) m,
      w64 x (h64_enc H64_IDTR_BASE) (dt_base (IdtStruct_pointer (he_idt_base he))),
      w64 x (h64_enc H64_IA32_SYSENTER_ESP) 0,
      w64 x (h64_enc H64_IA32_SYSENTER_EIP) 0,
      w32 x (h32_enc H32_IA32_SYSENTER_CS) 0,
      w64 x (h64_enc H64_RSP) (he_stack_top_slot he),
      w64 x (h64_enc H64_RIP) (he_vmx_exit he)]"

definition setup_vmcs_guest :: "ext \<Rightarrow> LinuxContext \<Rightarrow> machine \<Rightarrow> machine \<times> (unit, HvErrorNum) result" where
  "setup_vmcs_guest x linux = run_seq
     [w64 x (g64_enc G64_IA32_PAT) (lx_pat linux),
      w64 x (g64_enc G64_IA32_EFER) (lx_efer linux),
      VmxVcpu_set_cr x 0 (lx_cr0 linux),
      VmxVcpu_set_cr x 4 (lx_cr4 linux),
      VmxVcpu_set_cr x 3 (lx_cr3 linux),
      set_guest_segment x (lx_es linux) G16_ES_SELECTOR G64_ES_BASE G32_ES_LIMIT G32_ES_AR_BYTES,
      set_guest_segment x (lx_cs linux) G16_CS_SELECTOR G64_CS_BASE G32_CS_LIMIT G32_CS_AR_BYTES,
      set_guest_segment x (lx_ss linux) G16_SS_SELECTOR G64_SS_BASE G32_SS_LIMIT G32_SS_AR_BYTES,
      set_guest_segment x (lx_ds linux) G16_DS_SELECTOR G64_DS_BASE G32_DS_LIMIT G32_DS_AR_BYTES,
      set_guest_segment x (lx_fs linux) G16_FS_SELECTOR G64_FS_BASE G32_FS_LIMIT G32_FS_AR_BYTES,
      set_guest_segment x (lx_gs linux) G16_GS_SELECTOR G64_GS_BASE G32_GS_LIMIT G32_GS_AR_BYTES,
      set_guest_segment x (lx_tss linux) G16_TR_SELECTOR G64_TR_BASE G32_TR_LIMIT G32_TR_AR_BYTES,
      set_guest_segment x Segment_invalid G16_LDTR_SELECTOR G64_LDTR_BASE G32_LDTR_LIMIT G32_LDTR_AR_BYTES,
      w64 x (g64_enc G64_GDTR_BASE) (dt_base (lx_gdt linux)),
      w32 x (g32_enc G32_GDTR_LIMIT) (ucast (dt_limit (lx_gdt linux))),
      w64 x (g64_enc G64_IDTR_BASE) (dt_base (lx_idt linux)),
      w32 x (g32_enc G32_IDTR_LIMIT) (ucast (dt_limit (lx_idt linux))),
      w64 x (g64_enc G64_RSP) (lx_rsp linux),
      w64 x (g64_enc G64_RIP) (lx_rip linux),
      w64 x (g64_enc G64_RFLAGS) 0x2,
      \<lambda>m. w32 x (g32_enc G32_SYSENTER_CS) (ucast (Msr_read MSR_IA32_SYSENTER_CS m)) m,
      \<lambda>m. w64 x (g64_enc G64_SYSENTER_ESP) (Msr_read MSR_IA32_SYSENTER_ESP m) m,
      \<lambda>m. w64 x (g64_enc G64_SYSENTER_EIP) (Msr_read MSR_IA32_SYSENTER_EIP m) m,
      w64 x (g64_enc G64_DR7) 0x400,
      w64 x (g64_enc G64_IA32_DEBUGCTL) 0,
      w32 x (g32_enc G32_ACTIVITY_STATE) 0,
      w32 x (g32_enc G32_INTERRUPTIBILITY_INFO) 0,
      w64 x (g64_enc G64_PENDING_DBG_EXCEPTIONS) 0,
      w64 x (g64_enc G64_VMCS_LINK_POINTER) (- 1),
      w32 x (g32_enc G32_VMX_PREEMPTION_TIMER_VALUE) 0]"

text \<open>The secondary controls: the features the processor has and the guest may use.\<close>

definition secondary_controls :: "ext \<Rightarrow> u32" where
  "secondary_controls x =
     (let val = secondary_bits CPU2_EPT OR secondary_bits CPU2_UNRESTRICTED_GUEST;
          val = (if has_rdtscp x then val OR secondary_bits CPU2_RDTSCP else val);
          val = (if has_invpcid x then val OR secondary_bits CPU2_INVPCID else val) in
      if has_xsaves_xrstors x then val OR secondary_bits CPU2_XSAVES else val)"

definition setup_vmcs_control :: "ext \<Rightarrow> host_env \<Rightarrow> machine \<Rightarrow> machine \<times> (unit, HvErrorNum) result" where
  "setup_vmcs_control x he = run_seq
     [\<lambda>m. to_hv x (Vmcs_set_control x C32_PIN_BASED_VM_EXEC_CONTROL
        (Msr_read MSR_IA32_VMX_PINBASED_CTLS m) (pin_bits PIN_NMI_EXITING) 0 m),
      \<lambda>m. to_hv x (Vmcs_set_control x C32_PROC_BASED_VM_EXEC_CONTROL
        (Msr_read MSR_IA32_VMX_PROCBASED_CTLS m)
        (primary_bits CPU_USE_MSR_BITMAPS OR primary_bits CPU_SEC_CONTROLS)
        (primary_bits CPU_CR3_LOAD_EXITING OR primary_bits CPU_CR3_STORE_EXITING) m),
      \<lambda>m. to_hv x (Vmcs_set_control x C32_SECONDARY_VM_EXEC_CONTROL
        (Msr_read MSR_IA32_VMX_PROCBASED_CTLS2 m) (secondary_controls x) 0 m),
      \<lambda>m. to_hv x (Vmcs_set_control x C32_VM_EXIT_CONTROLS (Msr_read MSR_IA32_VMX_EXIT_CTLS m)
        (exit_bits EXIT_HOST_ADDR_SPACE_SIZE OR exit_bits EXIT_SAVE_IA32_PAT
          OR exit_bits EXIT_LOAD_IA32_PAT OR exit_bits EXIT_SAVE_IA32_EFER
          OR exit_bits EXIT_LOAD_IA32_EFER) 0 m),
      \<lambda>m. to_hv x (Vmcs_set_control x C32_VM_ENTRY_CONTROLS (Msr_read MSR_IA32_VMX_ENTRY_CTLS m)
        (entry_bits ENTRY_IA32E_MODE OR entry_bits ENTRY_LOAD_IA32_PAT
          OR entry_bits ENTRY_LOAD_IA32_EFER) 0 m),
      w32 x (c32_enc C32_VM_EXIT_MSR_STORE_COUNT) 0,
      w32 x (c32_enc C32_VM_EXIT_MSR_LOAD_COUNT) 0,
      w32 x (c32_enc C32_VM_ENTRY_MSR_LOAD_COUNT) 0,
      w64 x (c64_enc C64_CR4_GUEST_HOST_MASK) 0,
      w32 x (c32_enc C32_CR3_TARGET_COUNT) 0,
      \<lambda>m. expect (Vmcs_set_ept_pointer x (he_gpm_root he) m),
      w64 x (c64_enc C64_MSR_BITMAP) (he_msr_bitmap he),
      w32 x (c32_enc C32_EXCEPTION_BITMAP) 0]"

definition vmcs_setup ::
  "ext \<Rightarrow> host_env \<Rightarrow> LinuxContext \<Rightarrow> phys_addr \<Rightarrow> machine \<Rightarrow> machine \<times> (unit, HvErrorNum) result" where
  "vmcs_setup x he linux paddr = run_seq
     [\<lambda>m. to_hv x (Vmcs_clear x paddr m),
      \<lambda>m. to_hv x (Vmcs_load x paddr m),
      setup_vmcs_host x he,
      setup_vmcs_guest x linux,
      setup_vmcs_control x he]"


section \<open>Creating a vCPU\<close>

text \<open>The check and the enabling of VMX in the feature-control register.\<close>

definition enable_vmxon :: "machine \<Rightarrow> machine \<times> (unit, HvErrorNum) result" where
  "enable_vmxon m =
     (let ctrl = FeatureControl_read m;
          locked = contains ctrl (feature_bits FC_LOCKED);
          vmxon_outside = contains ctrl (feature_bits FC_VMXON_ENABLED_OUTSIDE_SMX) in
      if \<not> locked then
        (FeatureControl_write (ctrl OR feature_bits FC_LOCKED OR feature_bits FC_VMXON_ENABLED_OUTSIDE_SMX) m,
         Ok ())
      else if \<not> vmxon_outside then (m, Err ENODEV)
      else (m, Ok ()))"

text \<open>
  The second half of \<^verbatim>\<open>Vcpu::new\<close>: the VMX regions, the host control registers, VMXON and the VMCS.
  When a step fails, the regions allocated so far are dropped, which gives their frames back.
\<close>

definition VmxVcpu_start ::
  "ext \<Rightarrow> host_env \<Rightarrow> 'b bit_alloc \<Rightarrow> LinuxContext \<Rightarrow> machine \<times> 'b pmem
     \<Rightarrow> (machine \<times> 'b pmem) \<times> (VmxVcpu, HvErrorNum) result" where
  "VmxVcpu_start x he ba linux st =
     (let (m, s) = st; rev_id = revision_id (VmxBasic_read m) in
      case VmxRegion_new ba rev_id False s of
        (s, Err e) \<Rightarrow> ((m, s), Err e)
      | (s, Panic) \<Rightarrow> ((m, s), Panic)
      | (s, Ok vmxon_region) \<Rightarrow>
     (case VmxRegion_new ba rev_id False s of
        (s, Err e) \<Rightarrow> ((m, Frame_drop ba (vr_frame vmxon_region) s), Err e)
      | (s, Panic) \<Rightarrow> ((m, s), Panic)
      | (s, Ok vmcs_region) \<Rightarrow>
     let cr4 = HOST_CR4 OR CR4_VIRTUAL_MACHINE_EXTENSIONS;
         cr4 = (if has_xsave x then cr4 OR CR4_OSXSAVE else cr4);
         m = write_cr4 x cr4 (write_cr0 x (HOST_CR0 x) m) in
     case run_seq [\<lambda>m. to_hv x (vmxon x (VmxRegion_paddr vmxon_region) m),
                   vmcs_setup x he linux (VmxRegion_paddr vmcs_region)] m of
        (m, Ok _) \<Rightarrow> ((m, s), Ok \<lparr>vx_guest_regs = GeneralRegisters_default,
           vx_host_stack_top = he_stack_top he, vx_vmxon_region = vmxon_region,
           vx_vmcs_region = vmcs_region\<rparr>)
      | (m, Err e) \<Rightarrow> ((m, Frame_drop ba (vr_frame vmxon_region) (Frame_drop ba (vr_frame vmcs_region) s)),
           Err e)
      | (m, Panic) \<Rightarrow> ((m, s), Panic)))"

definition VmxVcpu_new ::
  "ext \<Rightarrow> host_env \<Rightarrow> 'b bit_alloc \<Rightarrow> LinuxContext \<Rightarrow> machine \<times> 'b pmem
     \<Rightarrow> (machine \<times> 'b pmem) \<times> (VmxVcpu, HvErrorNum) result" where
  "VmxVcpu_new x he ba linux st =
     (let (m, s) = st in
      case vmx_check_hypervisor_feature x of
        Err e \<Rightarrow> ((m, s), Err e)
      | Panic \<Rightarrow> ((m, s), Panic)
      | Ok _ \<Rightarrow>
     let m = (if perf_monitor_version_id x > 0 then Msr_write MSR_IA32_PERF_GLOBAL_CTRL 0 m else m) in
     if contains (lx_cr4 linux) CR4_VIRTUAL_MACHINE_EXTENSIONS then ((m, s), Err EBUSY)
     else case enable_vmxon m of
        (m, Err e) \<Rightarrow> ((m, s), Err e)
      | (m, Panic) \<Rightarrow> ((m, s), Panic)
      | (m, Ok _) \<Rightarrow> VmxVcpu_start x he ba linux (m, s))"


section \<open>Entering and leaving the guest\<close>

text \<open>
  \<open>VmxVcpu_enter\<close>: when the launch succeeds the call does not return, which is \<open>Ok\<close> here; when it
  fails the call returns \<^verbatim>\<open>EIO\<close>.
\<close>

definition VmxVcpu_enter_regs :: "LinuxContext \<Rightarrow> VmxVcpu \<Rightarrow> VmxVcpu" where
  "VmxVcpu_enter_regs linux v = v\<lparr>vx_guest_regs := (vx_guest_regs v)\<lparr>rax := 0, rbx := lx_rbx linux,
     rbp := lx_rbp linux, r12 := lx_r12 linux, r13 := lx_r13 linux, r14 := lx_r14 linux,
     r15 := lx_r15 linux\<rparr>\<rparr>"

definition VmxVcpu_enter ::
  "ext \<Rightarrow> LinuxContext \<Rightarrow> machine \<times> VmxVcpu \<Rightarrow> (machine \<times> VmxVcpu) \<times> (unit, HvErrorNum) result" where
  "VmxVcpu_enter x linux st =
     (let (m, v) = st; v = VmxVcpu_enter_regs linux v in
      case vmx_do x I_vmlaunch (\<lambda>m. m) m of
        (m, Ok _) \<Rightarrow> ((m, v), Ok ())
      | (m, _) \<Rightarrow> ((m, v), Err EIO))"

text \<open>Statements that read a guest field into the Linux context.\<close>

definition ld64 :: "ext \<Rightarrow> u32 \<Rightarrow> (u64 \<Rightarrow> LinuxContext \<Rightarrow> LinuxContext) \<Rightarrow> machine \<times> LinuxContext
    \<Rightarrow> (machine \<times> LinuxContext) \<times> (unit, HvErrorNum) result" where
  "ld64 x f upd st = (let (m, l) = st in
     case to_hv x (m, read64 x f m) of
       (m, Ok v) \<Rightarrow> ((m, upd v l), Ok ()) | (m, Err e) \<Rightarrow> ((m, l), Err e) | (m, Panic) \<Rightarrow> ((m, l), Panic))"

definition ld32 :: "ext \<Rightarrow> u32 \<Rightarrow> (u32 \<Rightarrow> LinuxContext \<Rightarrow> LinuxContext) \<Rightarrow> machine \<times> LinuxContext
    \<Rightarrow> (machine \<times> LinuxContext) \<times> (unit, HvErrorNum) result" where
  "ld32 x f upd st = (let (m, l) = st in
     case to_hv x (m, read32 x f m) of
       (m, Ok v) \<Rightarrow> ((m, upd v l), Ok ()) | (m, Err e) \<Rightarrow> ((m, l), Err e) | (m, Panic) \<Rightarrow> ((m, l), Panic))"

definition ld16 :: "ext \<Rightarrow> u32 \<Rightarrow> (u16 \<Rightarrow> LinuxContext \<Rightarrow> LinuxContext) \<Rightarrow> machine \<times> LinuxContext
    \<Rightarrow> (machine \<times> LinuxContext) \<times> (unit, HvErrorNum) result" where
  "ld16 x f upd st = (let (m, l) = st in
     case to_hv x (m, read16 x f m) of
       (m, Ok v) \<Rightarrow> ((m, upd v l), Ok ()) | (m, Err e) \<Rightarrow> ((m, l), Err e) | (m, Panic) \<Rightarrow> ((m, l), Panic))"

text \<open>A base address passes through \<^verbatim>\<open>VirtAddr::new\<close>.\<close>

definition ld_base :: "ext \<Rightarrow> u32 \<Rightarrow> (u64 \<Rightarrow> LinuxContext \<Rightarrow> LinuxContext) \<Rightarrow> machine \<times> LinuxContext
    \<Rightarrow> (machine \<times> LinuxContext) \<times> (unit, HvErrorNum) result" where
  "ld_base x f upd st = (let (m, l) = st in
     case to_hv x (m, read64 x f m) of
       (m, Ok v) \<Rightarrow> (case x_virt_new x v of
          Some a \<Rightarrow> ((m, upd a l), Ok ()) | None \<Rightarrow> ((m, l), Panic))
     | (m, Err e) \<Rightarrow> ((m, l), Err e) | (m, Panic) \<Rightarrow> ((m, l), Panic))"

text \<open>A guest field is written to a model-specific register.\<close>

definition ld_msr :: "ext \<Rightarrow> Msr \<Rightarrow> (machine \<Rightarrow> (u64, VmFail) result) \<Rightarrow> machine \<times> LinuxContext
    \<Rightarrow> (machine \<times> LinuxContext) \<times> (unit, HvErrorNum) result" where
  "ld_msr x r rd st = (let (m, l) = st in
     case to_hv x (m, rd m) of
       (m, Ok v) \<Rightarrow> ((Msr_write r v m, l), Ok ()) | (m, Err e) \<Rightarrow> ((m, l), Err e)
     | (m, Panic) \<Rightarrow> ((m, l), Panic))"

definition load_vmcs_guest :: "ext \<Rightarrow> machine \<times> LinuxContext
    \<Rightarrow> (machine \<times> LinuxContext) \<times> (unit, HvErrorNum) result" where
  "load_vmcs_guest x = run_seq
     [ld64 x (g64_enc G64_RIP) (\<lambda>v l. l\<lparr>lx_rip := v\<rparr>),
      ld64 x (g64_enc G64_RSP) (\<lambda>v l. l\<lparr>lx_rsp := v\<rparr>),
      ld64 x (g64_enc G64_CR0) (\<lambda>v l. l\<lparr>lx_cr0 := truncate_flags (x_cr0_all x) v\<rparr>),
      ld64 x (g64_enc G64_CR3) (\<lambda>v l. l\<lparr>lx_cr3 := v\<rparr>),
      ld64 x (g64_enc G64_CR4) (\<lambda>v l. l\<lparr>lx_cr4 := truncate_flags (x_cr4_all x) v
        AND NOT CR4_VIRTUAL_MACHINE_EXTENSIONS\<rparr>),
      ld16 x (g16_enc G16_ES_SELECTOR) (\<lambda>v l. l\<lparr>lx_es := (lx_es l)\<lparr>seg_selector := v\<rparr>\<rparr>),
      ld16 x (g16_enc G16_CS_SELECTOR) (\<lambda>v l. l\<lparr>lx_cs := (lx_cs l)\<lparr>seg_selector := v\<rparr>\<rparr>),
      ld16 x (g16_enc G16_SS_SELECTOR) (\<lambda>v l. l\<lparr>lx_ss := (lx_ss l)\<lparr>seg_selector := v\<rparr>\<rparr>),
      ld16 x (g16_enc G16_DS_SELECTOR) (\<lambda>v l. l\<lparr>lx_ds := (lx_ds l)\<lparr>seg_selector := v\<rparr>\<rparr>),
      ld16 x (g16_enc G16_FS_SELECTOR) (\<lambda>v l. l\<lparr>lx_fs := (lx_fs l)\<lparr>seg_selector := v\<rparr>\<rparr>),
      ld64 x (g64_enc G64_FS_BASE) (\<lambda>v l. l\<lparr>lx_fs := (lx_fs l)\<lparr>seg_base := v\<rparr>\<rparr>),
      ld16 x (g16_enc G16_GS_SELECTOR) (\<lambda>v l. l\<lparr>lx_gs := (lx_gs l)\<lparr>seg_selector := v\<rparr>\<rparr>),
      ld64 x (g64_enc G64_GS_BASE) (\<lambda>v l. l\<lparr>lx_gs := (lx_gs l)\<lparr>seg_base := v\<rparr>\<rparr>),
      ld16 x (g16_enc G16_TR_SELECTOR) (\<lambda>v l. l\<lparr>lx_tss := (lx_tss l)\<lparr>seg_selector := v\<rparr>\<rparr>),
      ld_base x (g64_enc G64_GDTR_BASE) (\<lambda>v l. l\<lparr>lx_gdt := (lx_gdt l)\<lparr>dt_base := v\<rparr>\<rparr>),
      ld32 x (g32_enc G32_GDTR_LIMIT) (\<lambda>v l. l\<lparr>lx_gdt := (lx_gdt l)\<lparr>dt_limit := ucast v\<rparr>\<rparr>),
      ld_base x (g64_enc G64_IDTR_BASE) (\<lambda>v l. l\<lparr>lx_idt := (lx_idt l)\<lparr>dt_base := v\<rparr>\<rparr>),
      ld32 x (g32_enc G32_IDTR_LIMIT) (\<lambda>v l. l\<lparr>lx_idt := (lx_idt l)\<lparr>dt_limit := ucast v\<rparr>\<rparr>),
      ld_msr x MSR_IA32_SYSENTER_CS
        (\<lambda>m. and_then (read32 x (g32_enc G32_SYSENTER_CS) m) (\<lambda>v. Ok (ucast v))),
      ld_msr x MSR_IA32_SYSENTER_ESP (read64 x (g64_enc G64_SYSENTER_ESP)),
      ld_msr x MSR_IA32_SYSENTER_EIP (read64 x (g64_enc G64_SYSENTER_EIP))]"

definition VmxVcpu_exit :: "ext \<Rightarrow> VmxVcpu \<Rightarrow> machine \<times> LinuxContext
    \<Rightarrow> (machine \<times> LinuxContext) \<times> (unit, HvErrorNum) result" where
  "VmxVcpu_exit x v st =
     st_then (load_vmcs_guest x st) (\<lambda>(m, l) _.
     case run_seq [\<lambda>m. to_hv x (Vmcs_clear x (VmxRegion_paddr (vx_vmcs_region v)) m),
                   \<lambda>m. to_hv x (vmxoff x m)] m of
       (m, r) \<Rightarrow> ((m, l), r))"

definition VmxVcpu_inject_fault :: "ext \<Rightarrow> machine \<Rightarrow> machine \<times> (unit, HvErrorNum) result" where
  "VmxVcpu_inject_fault x m =
     to_hv x (Vmcs_inject_interrupt x (exception_vector E_GeneralProtectionFault) (Some 0) m)"

definition VmxVcpu_advance_rip :: "ext \<Rightarrow> u8 \<Rightarrow> machine \<Rightarrow> machine \<times> (unit, HvErrorNum) result" where
  "VmxVcpu_advance_rip x instr_len m =
     st_then (to_hv x (m, read64 x (g64_enc G64_RIP) m)) (\<lambda>m rip.
     w64 x (g64_enc G64_RIP) (rip + ucast instr_len) m)"

definition VmxVcpu_guest_is_privileged :: "ext \<Rightarrow> machine \<Rightarrow> (bool, HvErrorNum) result" where
  "VmxVcpu_guest_is_privileged x m =
     (case read32 x (g32_enc G32_CS_AR_BYTES) m of
        Ok ar \<Rightarrow> Ok (dpl (truncate_flags SegmentAccessRights_all ar) = 0)
      | _ \<Rightarrow> Panic)"

definition VmxVcpu_in_hypercall :: "ext \<Rightarrow> machine \<Rightarrow> (bool, HvErrorNum) result" where
  "VmxVcpu_in_hypercall x m =
     (case Vmcs_exit_reason x m of
        Ok r \<Rightarrow> Ok (r = XR_VMCALL) | Err _ \<Rightarrow> Ok False | Panic \<Rightarrow> Panic)"

text \<open>The root address the guest page table is built from.\<close>

definition VmxVcpu_guest_page_table :: "ext \<Rightarrow> machine \<Rightarrow> (phys_addr, HvErrorNum) result" where
  "VmxVcpu_guest_page_table x m = and_then (VmxVcpu_cr x 3 m) (\<lambda>v. Ok (align_down v))"


section \<open>Accessors of the guest state\<close>

definition VmxVcpu_set_return_val :: "usize \<Rightarrow> VmxVcpu \<Rightarrow> VmxVcpu" where
  "VmxVcpu_set_return_val ret_val v = v\<lparr>vx_guest_regs := (vx_guest_regs v)\<lparr>rax := ret_val\<rparr>\<rparr>"

definition vmx_unwrap :: "('a, VmFail) result \<Rightarrow> ('a, HvErrorNum) result" where
  "vmx_unwrap r = (case r of Ok v \<Rightarrow> Ok v | _ \<Rightarrow> Panic)"

definition VmxVcpu_instr_pointer :: "ext \<Rightarrow> machine \<Rightarrow> (u64, HvErrorNum) result" where
  "VmxVcpu_instr_pointer x m = vmx_unwrap (read64 x (g64_enc G64_RIP) m)"

definition VmxVcpu_stack_pointer :: "ext \<Rightarrow> machine \<Rightarrow> (u64, HvErrorNum) result" where
  "VmxVcpu_stack_pointer x m = vmx_unwrap (read64 x (g64_enc G64_RSP) m)"

definition VmxVcpu_set_stack_pointer :: "ext \<Rightarrow> u64 \<Rightarrow> machine \<Rightarrow> machine \<times> (unit, HvErrorNum) result" where
  "VmxVcpu_set_stack_pointer x sp m = expect (write64 x (g64_enc G64_RSP) sp m)"

definition VmxVcpu_rflags :: "ext \<Rightarrow> machine \<Rightarrow> (u64, HvErrorNum) result" where
  "VmxVcpu_rflags x m = vmx_unwrap (read64 x (g64_enc G64_RFLAGS) m)"

definition VmxVcpu_fs_base :: "ext \<Rightarrow> machine \<Rightarrow> (u64, HvErrorNum) result" where
  "VmxVcpu_fs_base x m = vmx_unwrap (read64 x (g64_enc G64_FS_BASE) m)"

definition VmxVcpu_gs_base :: "ext \<Rightarrow> machine \<Rightarrow> (u64, HvErrorNum) result" where
  "VmxVcpu_gs_base x m = vmx_unwrap (read64 x (g64_enc G64_GS_BASE) m)"

end
