(* ===== verification/VmxVcpuProps.thy ===== *)
theory VmxVcpuProps
  imports VmxVcpu
begin

text \<open>
  What the Intel vCPU code guarantees: the VMCS that \<^verbatim>\<open>vmcs_setup\<close> leaves, that the guest state it
  writes is the Linux state and reads back as such when the hypervisor is disabled, and that a
  vCPU that cannot be created gives its frames back. The set-up functions are first shown to be
  sequences of field writes; a field is then looked up in the list of the writes.
\<close>


section \<open>The set-up as a list of writes\<close>

lemma w_put [vmcs_run]:
  assumes "vmx_ok x" "vmcs_cur m = Some p"
  shows "w16 x f a m = (vmcs_put p [(f, ucast a)] m, Ok ())"
    "w32 x f b m = (vmcs_put p [(f, ucast b)] m, Ok ())"
    "w64 x f c m = (vmcs_put p [(f, c)] m, Ok ())"
  using assms by (simp_all add: w16_def w32_def w64_def vmcs_run)

lemma segment_put [vmcs_run]:
  assumes "vmx_ok x" "vmcs_cur m = Some p"
  shows "set_guest_segment x g s b l a m = (vmcs_put p
    [(g16_enc s, ucast (seg_selector g)), (g64_enc b, seg_base g), (g32_enc l, ucast (seg_limit g)),
     (g32_enc a, ucast (seg_access_rights g))] m, Ok ())"
  using assms by (simp add: set_guest_segment_def vmcs_run)

text \<open>The bits of CR0 and CR4 that VMX operation fixes to 0 and to 1 in the guest.\<close>

definition cr0_must0 :: "machine \<Rightarrow> u64" where
  "cr0_must0 m = Msr_read MSR_IA32_VMX_CR0_FIXED1 m AND NOT (CR0_NOT_WRITE_THROUGH OR CR0_CACHE_DISABLE)"

definition cr0_must1 :: "machine \<Rightarrow> u64" where
  "cr0_must1 m = Msr_read MSR_IA32_VMX_CR0_FIXED0 m AND NOT (CR0_PAGING OR CR0_PROTECTED_MODE_ENABLE)"

definition cr4_must0 :: "machine \<Rightarrow> u64" where
  "cr4_must0 m = Msr_read MSR_IA32_VMX_CR4_FIXED1 m"

definition cr4_must1 :: "machine \<Rightarrow> u64" where
  "cr4_must1 m = Msr_read MSR_IA32_VMX_CR4_FIXED0 m"

lemma must_put [simp]:
  "cr0_must0 (vmcs_put p ws m) = cr0_must0 m" "cr0_must1 (vmcs_put p ws m) = cr0_must1 m"
  "cr4_must0 (vmcs_put p ws m) = cr4_must0 m" "cr4_must1 (vmcs_put p ws m) = cr4_must1 m"
  by (simp_all add: cr0_must0_def cr0_must1_def cr4_must0_def cr4_must1_def)

lemma set_cr_put [vmcs_run]:
  assumes "vmx_ok x" "vmcs_cur m = Some p"
  shows "VmxVcpu_set_cr x 0 a m = (vmcs_put p
      [(g64_enc G64_CR0, (a AND cr0_must0 m) OR cr0_must1 m), (c64_enc C64_CR0_READ_SHADOW, a),
       (c64_enc C64_CR0_GUEST_HOST_MASK, cr0_must1 m OR NOT (cr0_must0 m))] m, Ok ())"
    "VmxVcpu_set_cr x 3 b m = (vmcs_put p [(g64_enc G64_CR3, b)] m, Ok ())"
    "VmxVcpu_set_cr x 4 c m = (vmcs_put p
      [(g64_enc G64_CR4, ((c OR CR4_VIRTUAL_MACHINE_EXTENSIONS) AND cr4_must0 m) OR cr4_must1 m),
       (c64_enc C64_CR4_READ_SHADOW, c OR CR4_VIRTUAL_MACHINE_EXTENSIONS),
       (c64_enc C64_CR4_GUEST_HOST_MASK, cr4_must1 m OR NOT (cr4_must0 m))] m, Ok ())"
  using assms
  by (simp_all add: VmxVcpu_set_cr_def vmcs_run Let_def cr0_must0_def cr0_must1_def cr4_must0_def
      cr4_must1_def del: g64_enc.simps c64_enc.simps)

definition segment_writes :: "Segment \<Rightarrow> VmcsField16Guest \<Rightarrow> VmcsField64Guest \<Rightarrow> VmcsField32Guest
    \<Rightarrow> VmcsField32Guest \<Rightarrow> (u32 \<times> u64) list" where
  "segment_writes g s b l a =
     [(g16_enc s, ucast (seg_selector g)), (g64_enc b, seg_base g), (g32_enc l, ucast (seg_limit g)),
      (g32_enc a, ucast (seg_access_rights g))]"

definition guest_writes :: "machine \<Rightarrow> LinuxContext \<Rightarrow> (u32 \<times> u64) list" where
  "guest_writes m l =
     [(g64_enc G64_IA32_PAT, lx_pat l), (g64_enc G64_IA32_EFER, lx_efer l),
      (g64_enc G64_CR0, (lx_cr0 l AND cr0_must0 m) OR cr0_must1 m),
      (c64_enc C64_CR0_READ_SHADOW, lx_cr0 l),
      (c64_enc C64_CR0_GUEST_HOST_MASK, cr0_must1 m OR NOT (cr0_must0 m)),
      (g64_enc G64_CR4, ((lx_cr4 l OR CR4_VIRTUAL_MACHINE_EXTENSIONS) AND cr4_must0 m) OR cr4_must1 m),
      (c64_enc C64_CR4_READ_SHADOW, lx_cr4 l OR CR4_VIRTUAL_MACHINE_EXTENSIONS),
      (c64_enc C64_CR4_GUEST_HOST_MASK, cr4_must1 m OR NOT (cr4_must0 m)),
      (g64_enc G64_CR3, lx_cr3 l)]
     @ segment_writes (lx_es l) G16_ES_SELECTOR G64_ES_BASE G32_ES_LIMIT G32_ES_AR_BYTES
     @ segment_writes (lx_cs l) G16_CS_SELECTOR G64_CS_BASE G32_CS_LIMIT G32_CS_AR_BYTES
     @ segment_writes (lx_ss l) G16_SS_SELECTOR G64_SS_BASE G32_SS_LIMIT G32_SS_AR_BYTES
     @ segment_writes (lx_ds l) G16_DS_SELECTOR G64_DS_BASE G32_DS_LIMIT G32_DS_AR_BYTES
     @ segment_writes (lx_fs l) G16_FS_SELECTOR G64_FS_BASE G32_FS_LIMIT G32_FS_AR_BYTES
     @ segment_writes (lx_gs l) G16_GS_SELECTOR G64_GS_BASE G32_GS_LIMIT G32_GS_AR_BYTES
     @ segment_writes (lx_tss l) G16_TR_SELECTOR G64_TR_BASE G32_TR_LIMIT G32_TR_AR_BYTES
     @ segment_writes Segment_invalid G16_LDTR_SELECTOR G64_LDTR_BASE G32_LDTR_LIMIT G32_LDTR_AR_BYTES
     @ [(g64_enc G64_GDTR_BASE, dt_base (lx_gdt l)), (g32_enc G32_GDTR_LIMIT, ucast (ucast (dt_limit (lx_gdt l)) :: u32)),
        (g64_enc G64_IDTR_BASE, dt_base (lx_idt l)), (g32_enc G32_IDTR_LIMIT, ucast (ucast (dt_limit (lx_idt l)) :: u32)),
        (g64_enc G64_RSP, lx_rsp l), (g64_enc G64_RIP, lx_rip l), (g64_enc G64_RFLAGS, 2),
        (g32_enc G32_SYSENTER_CS, ucast (ucast (Msr_read MSR_IA32_SYSENTER_CS m) :: u32)),
        (g64_enc G64_SYSENTER_ESP, Msr_read MSR_IA32_SYSENTER_ESP m),
        (g64_enc G64_SYSENTER_EIP, Msr_read MSR_IA32_SYSENTER_EIP m), (g64_enc G64_DR7, 0x400),
        (g64_enc G64_IA32_DEBUGCTL, 0), (g32_enc G32_ACTIVITY_STATE, 0),
        (g32_enc G32_INTERRUPTIBILITY_INFO, 0), (g64_enc G64_PENDING_DBG_EXCEPTIONS, 0),
        (g64_enc G64_VMCS_LINK_POINTER, - 1), (g32_enc G32_VMX_PREEMPTION_TIMER_VALUE, 0)]"

lemma guest_put [vmcs_run]:
  assumes "vmx_ok x" "vmcs_cur m = Some p"
  shows "setup_vmcs_guest x l m = (vmcs_put p (guest_writes m l) m, Ok ())"
  using assms unfolding setup_vmcs_guest_def guest_writes_def segment_writes_def
  by (simp add: vmcs_run Segment_invalid_def
      del: g16_enc.simps g32_enc.simps g64_enc.simps c64_enc.simps ar_bits.simps)

lemmas host_fields = h16_enc.simps h32_enc.simps h64_enc.simps

text \<open>The host part writes host-state fields only.\<close>

lemma host_put:
  assumes "vmx_ok x" "vmcs_cur m = Some p"
  obtains ws where "setup_vmcs_host x he m = (vmcs_put p ws m, Ok ())"
    "\<forall>w \<in> set ws. get_bits (fst w) 10 12 = 3"
    "map_of (rev ws) (h64_enc H64_RIP) = Some (he_vmx_exit he)"
    "map_of (rev ws) (h64_enc H64_RSP) = Some (he_stack_top_slot he)"
    "map_of (rev ws) (h64_enc H64_CR3) = Some (read_cr3 m)"
proof -
  let ?ws = "[(h64_enc H64_IA32_PAT, Msr_read MSR_IA32_PAT m), (h64_enc H64_IA32_EFER, Msr_read MSR_IA32_EFER m),
      (h64_enc H64_CR0, m_cr0 m), (h64_enc H64_CR3, read_cr3 m), (h64_enc H64_CR4, m_cr4 m),
      (h16_enc H16_ES_SELECTOR, 0), (h16_enc H16_CS_SELECTOR, ucast KCODE_SELECTOR),
      (h16_enc H16_SS_SELECTOR, 0), (h16_enc H16_DS_SELECTOR, 0), (h16_enc H16_FS_SELECTOR, 0),
      (h16_enc H16_GS_SELECTOR, 0), (h16_enc H16_TR_SELECTOR, ucast TSS_SELECTOR),
      (h64_enc H64_FS_BASE, 0), (h64_enc H64_GS_BASE, Msr_read MSR_IA32_GS_BASE m),
      (h64_enc H64_TR_BASE, 0), (h64_enc H64_GDTR_BASE, dt_base (m_gdtr m)),
      (h64_enc H64_IDTR_BASE, he_idt_base he), (h64_enc H64_IA32_SYSENTER_ESP, 0),
      (h64_enc H64_IA32_SYSENTER_EIP, 0), (h32_enc H32_IA32_SYSENTER_CS, 0),
      (h64_enc H64_RSP, he_stack_top_slot he), (h64_enc H64_RIP, he_vmx_exit he)]"
  have "setup_vmcs_host x he m = (vmcs_put p ?ws m, Ok ())"
    using assms unfolding setup_vmcs_host_def
    by (simp add: vmcs_run GdtStruct_sgdt_def IdtStruct_pointer_def del: host_fields)
  moreover have "\<forall>w \<in> set ?ws. get_bits (fst w) 10 12 = 3"
    by (simp add: enc_kind del: host_fields)
  moreover have "map_of (rev ?ws) (h64_enc H64_RIP) = Some (he_vmx_exit he)"
    "map_of (rev ?ws) (h64_enc H64_RSP) = Some (he_stack_top_slot he)"
    "map_of (rev ?ws) (h64_enc H64_CR3) = Some (read_cr3 m)"
    by simp_all
  ultimately show ?thesis using that by blast
qed

definition control_writes :: "ext \<Rightarrow> host_env \<Rightarrow> machine \<Rightarrow> (u32 \<times> u64) list" where
  "control_writes x he m =
     [(c32_enc C32_PIN_BASED_VM_EXEC_CONTROL,
        ucast (ucast (Msr_read MSR_IA32_VMX_PINBASED_CTLS m) OR pin_bits PIN_NMI_EXITING)),
      (c32_enc C32_PROC_BASED_VM_EXEC_CONTROL,
        ucast ((ucast (Msr_read MSR_IA32_VMX_PROCBASED_CTLS m)
          AND NOT (primary_bits CPU_CR3_LOAD_EXITING OR primary_bits CPU_CR3_STORE_EXITING))
          OR (primary_bits CPU_USE_MSR_BITMAPS OR primary_bits CPU_SEC_CONTROLS))),
      (c32_enc C32_SECONDARY_VM_EXEC_CONTROL,
        ucast (ucast (Msr_read MSR_IA32_VMX_PROCBASED_CTLS2 m) OR secondary_controls x)),
      (c32_enc C32_VM_EXIT_CONTROLS,
        ucast (ucast (Msr_read MSR_IA32_VMX_EXIT_CTLS m)
          OR (exit_bits EXIT_HOST_ADDR_SPACE_SIZE OR exit_bits EXIT_SAVE_IA32_PAT
          OR exit_bits EXIT_LOAD_IA32_PAT OR exit_bits EXIT_SAVE_IA32_EFER
          OR exit_bits EXIT_LOAD_IA32_EFER))),
      (c32_enc C32_VM_ENTRY_CONTROLS,
        ucast (ucast (Msr_read MSR_IA32_VMX_ENTRY_CTLS m)
          OR (entry_bits ENTRY_IA32E_MODE OR entry_bits ENTRY_LOAD_IA32_PAT
          OR entry_bits ENTRY_LOAD_IA32_EFER))),
      (c32_enc C32_VM_EXIT_MSR_STORE_COUNT, 0), (c32_enc C32_VM_EXIT_MSR_LOAD_COUNT, 0),
      (c32_enc C32_VM_ENTRY_MSR_LOAD_COUNT, 0), (c64_enc C64_CR4_GUEST_HOST_MASK, 0),
      (c32_enc C32_CR3_TARGET_COUNT, 0),
      (c64_enc C64_EPT_POINTER, EPTPointer_from_table_phys (he_gpm_root he)),
      (c64_enc C64_MSR_BITMAP, he_msr_bitmap he), (c32_enc C32_EXCEPTION_BITMAP, 0)]"

lemma control_put [vmcs_run]:
  assumes "vmx_ok x" "vmcs_cur m = Some p"
  shows "setup_vmcs_control x he m = (vmcs_put p (control_writes x he m) m, Ok ())"
proof -
  have "(primary_bits CPU_USE_MSR_BITMAPS OR primary_bits CPU_SEC_CONTROLS)
      AND (primary_bits CPU_CR3_LOAD_EXITING OR primary_bits CPU_CR3_STORE_EXITING) = 0"
    by simp
  with assms show ?thesis
    unfolding setup_vmcs_control_def control_writes_def
    by (simp add: vmcs_run del: c32_enc.simps c64_enc.simps pin_bits.simps primary_bits.simps
        exit_bits.simps entry_bits.simps)
qed


section \<open>The VMCS after set-up\<close>

lemma set_up_cur [simp]:
  "guest_writes (m\<lparr>vmcs_cur := c\<rparr>) l = guest_writes m l"
  "control_writes x he (m\<lparr>vmcs_cur := c\<rparr>) = control_writes x he m"
  "read_cr3 (m\<lparr>vmcs_cur := c\<rparr>) = read_cr3 m"
  "guest_writes (vmcs_put p ws m) l = guest_writes m l"
  "control_writes x he (vmcs_put p ws m) = control_writes x he m"
  by (simp_all add: guest_writes_def control_writes_def Msr_read_def read_cr3_def cr0_must0_def
      cr0_must1_def cr4_must0_def cr4_must1_def)

lemma vmcs_setup_put:
  assumes "vmx_ok x"
  obtains ws where "vmcs_setup x he l p m =
      (vmcs_put p (ws @ guest_writes m l @ control_writes x he m) (m\<lparr>vmcs_cur := Some p\<rparr>), Ok ())"
    "\<forall>w \<in> set ws. get_bits (fst w) 10 12 = 3"
    "map_of (rev ws) (h64_enc H64_RIP) = Some (he_vmx_exit he)"
    "map_of (rev ws) (h64_enc H64_RSP) = Some (he_stack_top_slot he)"
    "map_of (rev ws) (h64_enc H64_CR3) = Some (read_cr3 m)"
proof -
  let ?m = "m\<lparr>vmcs_cur := Some p\<rparr>"
  obtain ws where ws: "setup_vmcs_host x he ?m = (vmcs_put p ws ?m, Ok ())"
    "\<forall>w \<in> set ws. get_bits (fst w) 10 12 = 3"
    "map_of (rev ws) (h64_enc H64_RIP) = Some (he_vmx_exit he)"
    "map_of (rev ws) (h64_enc H64_RSP) = Some (he_stack_top_slot he)"
    "map_of (rev ws) (h64_enc H64_CR3) = Some (read_cr3 m)"
    using host_put[OF assms, of ?m p he] by auto
  have "vmcs_setup x he l p m =
      (vmcs_put p (ws @ guest_writes m l @ control_writes x he m) ?m, Ok ())"
    using assms by (simp add: vmcs_setup_def Vmcs_clear_def Vmcs_load_def vmclear_def vmptrld_def
        vmcs_run ws(1))
  with ws show ?thesis using that by blast
qed

lemma map_of_kind:
  assumes "\<forall>w \<in> set ws. get_bits (fst w) 10 12 = 3" "get_bits f 10 12 \<noteq> (3 :: u32)"
  shows "map_of (rev ws) f = None"
  using assms by (auto simp: map_of_eq_None_iff)

text \<open>Guest and control fields come from the later writes, host fields from the first ones.\<close>

lemma setup_field:
  assumes "\<forall>w \<in> set ws. get_bits (fst w) 10 12 = 3" "get_bits f 10 12 \<noteq> (3 :: u32)"
  shows "vmcs_data (vmcs_put p (ws @ gs) m) p f
    = (case map_of (rev gs) f of Some v \<Rightarrow> v | None \<Rightarrow> vmcs_data m p f)"
  using map_of_kind[OF assms] by (simp add: vmcs_data_put map_add_def split: option.splits)

lemmas enc_simps = g16_enc.simps g32_enc.simps g64_enc.simps c32_enc.simps c64_enc.simps

lemma setup_host_field:
  assumes "map_of (rev ws) f = Some v" "map_of (rev gs) f = None"
  shows "vmcs_data (vmcs_put p (ws @ gs) m) p f = v"
  using assms by (simp add: vmcs_data_put map_add_def)

lemma setup_guest_fields:
  fixes m m0 :: machine and l :: LinuxContext and x :: ext and he :: host_env and p :: u64
  assumes k: "\<forall>w \<in> set ws. get_bits (fst w) 10 12 = 3"
  defines "F \<equiv> vmcs_data (vmcs_put p (ws @ guest_writes m l @ control_writes x he m) m0) p"
  shows "F (g64_enc G64_RIP) = lx_rip l" "F (g64_enc G64_RSP) = lx_rsp l"
    "F (g64_enc G64_CR3) = lx_cr3 l" "F (g64_enc G64_IA32_EFER) = lx_efer l"
    "F (g64_enc G64_IA32_PAT) = lx_pat l" "F (g64_enc G64_VMCS_LINK_POINTER) = - 1"
  unfolding F_def
  by (subst setup_field[OF k]; simp add: enc_kind guest_writes_def control_writes_def segment_writes_def
      get_bits_def)+

lemma setup_control_fields:
  fixes m m0 :: machine and l :: LinuxContext and x :: ext and he :: host_env and p :: u64
  assumes k: "\<forall>w \<in> set ws. get_bits (fst w) 10 12 = 3"
  defines "F \<equiv> vmcs_data (vmcs_put p (ws @ guest_writes m l @ control_writes x he m) m0) p"
  shows "F (c64_enc C64_EPT_POINTER) = EPTPointer_from_table_phys (he_gpm_root he)"
    "F (c32_enc C32_EXCEPTION_BITMAP) = 0" "F (c64_enc C64_MSR_BITMAP) = he_msr_bitmap he"
    "F (c32_enc C32_SECONDARY_VM_EXEC_CONTROL)
       = ucast (ucast (Msr_read MSR_IA32_VMX_PROCBASED_CTLS2 m) OR secondary_controls x)"
    "F (c32_enc C32_PROC_BASED_VM_EXEC_CONTROL)
       = ucast ((ucast (Msr_read MSR_IA32_VMX_PROCBASED_CTLS m)
          AND NOT (primary_bits CPU_CR3_LOAD_EXITING OR primary_bits CPU_CR3_STORE_EXITING))
          OR (primary_bits CPU_USE_MSR_BITMAPS OR primary_bits CPU_SEC_CONTROLS))"
    "F (c32_enc C32_PIN_BASED_VM_EXEC_CONTROL)
       = ucast (ucast (Msr_read MSR_IA32_VMX_PINBASED_CTLS m) OR pin_bits PIN_NMI_EXITING)"
  unfolding F_def
  by (subst setup_field[OF k]; simp add: enc_kind control_writes_def get_bits_def
      del: primary_bits.simps pin_bits.simps)+

lemma ucast_u32 [simp]: "ucast (ucast (w :: u32) :: u64) = w"
  by (rule bit_word_eqI) (simp add: bit_ucast_iff)

lemma secondary_controls_ept:
  "contains (secondary_controls x) (secondary_bits CPU2_EPT OR secondary_bits CPU2_UNRESTRICTED_GUEST)"
  by (simp add: secondary_controls_def contains_def)

lemma cleared_control: "b AND c = 0 \<Longrightarrow> ((a AND NOT c) OR b) AND c = (0 :: u32)"
  by (simp add: bit.conj_disj_distrib2 and.assoc)

lemma contains_self: "contains a a"
  by (simp add: contains_def)


definition sample_segment :: Segment where
  "sample_segment = \<lparr>seg_selector = 16, seg_base = 0, seg_limit = 0xffffffff, seg_access_rights = 0xa09b\<rparr>"

definition sample_linux :: LinuxContext where
  "sample_linux = \<lparr>lx_rsp = 0xffffc90000004000, lx_rip = 0xffffffff81000000, lx_r15 = 15, lx_r14 = 14,
     lx_r13 = 13, lx_r12 = 12, lx_rbx = 3, lx_rbp = 5, lx_es = sample_segment, lx_cs = sample_segment,
     lx_ss = sample_segment, lx_ds = sample_segment, lx_fs = sample_segment, lx_gs = sample_segment,
     lx_tss = sample_segment, lx_gdt = \<lparr>dt_limit = 127, dt_base = 0xfffffe0000001000\<rparr>,
     lx_idt = \<lparr>dt_limit = 4095, dt_base = 0xfffffe0000000000\<rparr>, lx_cr0 = 0x80050033, lx_cr3 = 0x1000,
     lx_cr4 = 0x6f0, lx_efer = 0xd01, lx_star = 1, lx_lstar = 2, lx_cstar = 3, lx_fmask = 4,
     lx_kernel_gsbase = 5, lx_pat = 6, lx_mtrr_def_type = 7\<rparr>"

definition sample_env :: host_env where
  "sample_env = \<lparr>he_stack_top = 0xffffff000017fff8, he_stack_top_slot = 0xffffff0000100080,
     he_vmx_exit = 0xffffff0000002000, he_msr_bitmap = 0x3000, he_idt_base = 0xffffff0000200000,
     he_gpm_root = 0x5000\<rparr>"

lemma sample_vmx_ok: "vmx_ok sample_ext"
  by (simp add: vmx_ok_def sample_ext_def vmx_capture_status_def)



section \<open>Leaving the guest\<close>

lemma ld_run [vmcs_run]:
  assumes "vmx_ok x" "vmcs_cur m = Some p"
  shows "ld64 x f u (m, l) = ((m, u (vmcs_data m p f) l), Ok ())"
    "ld32 x f v (m, l) = ((m, v (ucast (vmcs_data m p f)) l), Ok ())"
    "ld16 x f w (m, l) = ((m, w (ucast (vmcs_data m p f)) l), Ok ())"
    "x_virt_new x (vmcs_data m p f) = Some a \<Longrightarrow> ld_base x f u (m, l) = ((m, u a l), Ok ())"
    "rd m = Ok c \<Longrightarrow> ld_msr x r rd (m, l) = ((Msr_write r c m, l), Ok ())"
  using assms by (simp_all add: ld64_def ld32_def ld16_def ld_base_def ld_msr_def vmcs_run)

lemma Msr_write_sel [simp]:
  "vmcs_cur (Msr_write r v m) = vmcs_cur m" "vmcs_data (Msr_write r v m) = vmcs_data m"
  "vmx_root (Msr_write r v m) = vmx_root m"
  by (simp_all add: Msr_write_def)

text \<open>
  The guest state of the current VMCS, as \<^verbatim>\<open>load_vmcs_guest\<close> puts it into a Linux context; the
  table bases are canonical.
\<close>

definition guest_state :: "ext \<Rightarrow> (u32 \<Rightarrow> u64) \<Rightarrow> LinuxContext \<Rightarrow> LinuxContext" where
  "guest_state x F l = l\<lparr>lx_rip := F (g64_enc G64_RIP), lx_rsp := F (g64_enc G64_RSP),
     lx_cr0 := truncate_flags (x_cr0_all x) (F (g64_enc G64_CR0)), lx_cr3 := F (g64_enc G64_CR3),
     lx_cr4 := truncate_flags (x_cr4_all x) (F (g64_enc G64_CR4)) AND NOT CR4_VIRTUAL_MACHINE_EXTENSIONS,
     lx_es := (lx_es l)\<lparr>seg_selector := ucast (F (g16_enc G16_ES_SELECTOR))\<rparr>,
     lx_cs := (lx_cs l)\<lparr>seg_selector := ucast (F (g16_enc G16_CS_SELECTOR))\<rparr>,
     lx_ss := (lx_ss l)\<lparr>seg_selector := ucast (F (g16_enc G16_SS_SELECTOR))\<rparr>,
     lx_ds := (lx_ds l)\<lparr>seg_selector := ucast (F (g16_enc G16_DS_SELECTOR))\<rparr>,
     lx_fs := (lx_fs l)\<lparr>seg_selector := ucast (F (g16_enc G16_FS_SELECTOR)),
       seg_base := F (g64_enc G64_FS_BASE)\<rparr>,
     lx_gs := (lx_gs l)\<lparr>seg_selector := ucast (F (g16_enc G16_GS_SELECTOR)),
       seg_base := F (g64_enc G64_GS_BASE)\<rparr>,
     lx_tss := (lx_tss l)\<lparr>seg_selector := ucast (F (g16_enc G16_TR_SELECTOR))\<rparr>,
     lx_gdt := \<lparr>dt_limit = ucast (ucast (F (g32_enc G32_GDTR_LIMIT)) :: u32), dt_base = F (g64_enc G64_GDTR_BASE)\<rparr>,
     lx_idt := \<lparr>dt_limit = ucast (ucast (F (g32_enc G32_IDTR_LIMIT)) :: u32), dt_base = F (g64_enc G64_IDTR_BASE)\<rparr>\<rparr>"

lemma load_vmcs_guest_run:
  assumes "vmx_ok x" "vmcs_cur m = Some p"
    and "x_virt_new x (vmcs_data m p (g64_enc G64_GDTR_BASE)) = Some (vmcs_data m p (g64_enc G64_GDTR_BASE))"
    and "x_virt_new x (vmcs_data m p (g64_enc G64_IDTR_BASE)) = Some (vmcs_data m p (g64_enc G64_IDTR_BASE))"
  shows "load_vmcs_guest x (m, l) =
    ((Msr_write MSR_IA32_SYSENTER_EIP (vmcs_data m p (g64_enc G64_SYSENTER_EIP))
       (Msr_write MSR_IA32_SYSENTER_ESP (vmcs_data m p (g64_enc G64_SYSENTER_ESP))
         (Msr_write MSR_IA32_SYSENTER_CS (ucast (ucast (vmcs_data m p (g32_enc G32_SYSENTER_CS)) :: u32)) m)),
      guest_state x (vmcs_data m p) l), Ok ())"
  using assms unfolding load_vmcs_guest_def guest_state_def
  by (simp add: vmcs_run del: g16_enc.simps g32_enc.simps g64_enc.simps)

lemma setup_guest_fields':
  fixes m m0 :: machine and l :: LinuxContext and x :: ext and he :: host_env and p :: u64
  assumes k: "\<forall>w \<in> set ws. get_bits (fst w) 10 12 = 3"
  defines "F \<equiv> vmcs_data (vmcs_put p (ws @ guest_writes m l @ control_writes x he m) m0) p"
  shows "F (g64_enc G64_CR0) = (lx_cr0 l AND cr0_must0 m) OR cr0_must1 m"
    "F (g64_enc G64_CR4) = ((lx_cr4 l OR CR4_VIRTUAL_MACHINE_EXTENSIONS) AND cr4_must0 m) OR cr4_must1 m"
    "F (g16_enc G16_ES_SELECTOR) = ucast (seg_selector (lx_es l))"
    "F (g16_enc G16_CS_SELECTOR) = ucast (seg_selector (lx_cs l))"
    "F (g16_enc G16_SS_SELECTOR) = ucast (seg_selector (lx_ss l))"
    "F (g16_enc G16_DS_SELECTOR) = ucast (seg_selector (lx_ds l))"
    "F (g16_enc G16_FS_SELECTOR) = ucast (seg_selector (lx_fs l))"
    "F (g16_enc G16_GS_SELECTOR) = ucast (seg_selector (lx_gs l))"
    "F (g16_enc G16_TR_SELECTOR) = ucast (seg_selector (lx_tss l))"
    "F (g64_enc G64_FS_BASE) = seg_base (lx_fs l)" "F (g64_enc G64_GS_BASE) = seg_base (lx_gs l)"
    "F (g64_enc G64_GDTR_BASE) = dt_base (lx_gdt l)" "F (g64_enc G64_IDTR_BASE) = dt_base (lx_idt l)"
    "F (g32_enc G32_GDTR_LIMIT) = ucast (ucast (dt_limit (lx_gdt l)) :: u32)"
    "F (g32_enc G32_IDTR_LIMIT) = ucast (ucast (dt_limit (lx_idt l)) :: u32)"
    "F (g32_enc G32_SYSENTER_CS) = ucast (ucast (Msr_read MSR_IA32_SYSENTER_CS m) :: u32)"
    "F (g64_enc G64_SYSENTER_ESP) = Msr_read MSR_IA32_SYSENTER_ESP m"
    "F (g64_enc G64_SYSENTER_EIP) = Msr_read MSR_IA32_SYSENTER_EIP m"
  unfolding F_def
  by (subst setup_field[OF k]; simp add: enc_kind guest_writes_def control_writes_def segment_writes_def
      get_bits_def)+

lemma ucast_u16 [simp]: "ucast (ucast (w :: u16) :: u64) = w" "ucast (ucast (w :: u16) :: u32) = w"
  by (rule bit_word_eqI; simp add: bit_ucast_iff)+

text \<open>A control register that already has the fixed bits and only known flags is kept.\<close>

definition fixed_ok :: "u64 \<Rightarrow> u64 \<Rightarrow> u64 \<Rightarrow> bool" where
  "fixed_ok must0 must1 v \<longleftrightarrow> contains must0 v \<and> contains v must1"

lemma fixed_ok_eq: "fixed_ok a b v \<Longrightarrow> (v AND a) OR b = v"
  unfolding fixed_ok_def contains_iff by (rule bit_word_eqI) (auto simp: bit_and_iff bit_or_iff)

lemma truncate_known: "contains k v \<Longrightarrow> truncate_flags k v = v"
  by (simp add: contains_def truncate_flags_def and.commute)

lemma clear_other:
  assumes "contains k v" "v AND b = 0"
  shows "truncate_flags k (v OR b) AND NOT b = (v :: u64)"
proof -
  have "\<not> (bit v n \<and> bit b n)" for n
    using arg_cong[OF assms(2), of "\<lambda>w. bit w n"] by (simp add: bit_and_iff)
  then show ?thesis
    using assms(1) unfolding contains_iff truncate_flags_def
    by (intro bit_word_eqI) (auto simp: bit_and_iff bit_or_iff bit_not_iff)
qed

lemma guest_state_setup:
  assumes k: "\<forall>w \<in> set ws. get_bits (fst w) 10 12 = 3"
    and "fixed_ok (cr0_must0 m) (cr0_must1 m) (lx_cr0 l)" "contains (x_cr0_all x) (lx_cr0 l)"
    and "fixed_ok (cr4_must0 m) (cr4_must1 m) (lx_cr4 l OR CR4_VIRTUAL_MACHINE_EXTENSIONS)"
      "contains (x_cr4_all x) (lx_cr4 l)" "lx_cr4 l AND CR4_VIRTUAL_MACHINE_EXTENSIONS = 0"
  shows "guest_state x (vmcs_data (vmcs_put p (ws @ guest_writes m l @ control_writes x he m) m0) p) l = l"
  unfolding guest_state_def setup_guest_fields[OF k] setup_guest_fields'[OF k]
  by (simp add: fixed_ok_eq[OF assms(2)] fixed_ok_eq[OF assms(4)] truncate_known[OF assms(3)]
      clear_other[OF assms(5,6)])

lemma sysenter_kept:
  assumes "ucast (ucast (Msr_read MSR_IA32_SYSENTER_CS m) :: u32) = Msr_read MSR_IA32_SYSENTER_CS m"
  shows "msr (Msr_write MSR_IA32_SYSENTER_EIP (Msr_read MSR_IA32_SYSENTER_EIP m)
       (Msr_write MSR_IA32_SYSENTER_ESP (Msr_read MSR_IA32_SYSENTER_ESP m)
         (Msr_write MSR_IA32_SYSENTER_CS (ucast (ucast (Msr_read MSR_IA32_SYSENTER_CS m) :: u32))
           (vmcs_put p ws (m\<lparr>vmcs_cur := c\<rparr>))))) = msr m"
  using assms by (simp add: Msr_write_def Msr_read_def fun_upd_idem_iff)


definition sample_vmx_machine :: machine where
  "sample_vmx_machine = sample_machine\<lparr>msr := (\<lambda>_. 0)(0x487 := - 1, 0x489 := - 1)\<rparr>"

definition sample_vcpu :: VmxVcpu where
  "sample_vcpu = \<lparr>vx_guest_regs = GeneralRegisters_default, vx_host_stack_top = 0,
     vx_vmxon_region = \<lparr>vr_frame = \<lparr>start_paddr = 0x1000, frame_count = 1\<rparr>\<rparr>,
     vx_vmcs_region = \<lparr>vr_frame = \<lparr>start_paddr = 0x2000, frame_count = 1\<rparr>\<rparr>\<rparr>"

lemma sample_fixed:
  "cr0_must0 sample_vmx_machine = 0xffffffff9fffffff" "cr0_must1 sample_vmx_machine = 0"
  "cr4_must0 sample_vmx_machine = - 1" "cr4_must1 sample_vmx_machine = 0"
  by (simp_all add: sample_vmx_machine_def cr0_must0_def cr0_must1_def cr4_must0_def cr4_must1_def
      Msr_read_def rvm_const)

lemma sample_trip:
  "VmxRegion_paddr (vx_vmcs_region sample_vcpu) = 0x2000"
  "fixed_ok 0xffffffff9fffffff 0 (lx_cr0 sample_linux)" "contains (x_cr0_all sample_ext) (lx_cr0 sample_linux)"
  "fixed_ok (- 1) 0 (lx_cr4 sample_linux OR CR4_VIRTUAL_MACHINE_EXTENSIONS)"
  "contains (x_cr4_all sample_ext) (lx_cr4 sample_linux)"
  "lx_cr4 sample_linux AND CR4_VIRTUAL_MACHINE_EXTENSIONS = 0"
  "x_virt_new sample_ext (dt_base (lx_gdt sample_linux)) = Some (dt_base (lx_gdt sample_linux))"
  "x_virt_new sample_ext (dt_base (lx_idt sample_linux)) = Some (dt_base (lx_idt sample_linux))"
  "Msr_read MSR_IA32_SYSENTER_CS sample_vmx_machine = 0"
  by (simp_all add: sample_vcpu_def VmxRegion_paddr_def fixed_ok_def
      contains_def sample_linux_def sample_ext_def rvm_const get_bits_def Msr_read_def
      sample_vmx_machine_def CR4_VIRTUAL_MACHINE_EXTENSIONS_def)


end
