(* ===== verification/VmxVcpuFrames.thy ===== *)
theory VmxVcpuFrames
  imports VmxVcpuProps
begin

text \<open>The frames and the errors of a new virtual CPU (\<^verbatim>\<open>Vcpu::new\<close> of
  \<^verbatim>\<open>src/arch/x86_64/intel/vcpu.rs\<close>).\<close>

section \<open>Errors and frames of a new vCPU\<close>

lemma revision_id_lt: "unat (revision_id (VmxBasic_read m)) < 2 ^ 31"
proof -
  have "unat (get_bits (Msr_read MSR_IA32_VMX_BASIC m) 0 31) < 2 ^ 31"
    using get_bits_lt[of 31 0 "Msr_read MSR_IA32_VMX_BASIC m"] by simp
  then show ?thesis
    by (simp add: VmxBasic_read_def Let_def unsigned_ucast_eq take_bit_nat_eq_self)
qed

text \<open>The only error of a statement is \<^verbatim>\<open>EIO\<close>.\<close>

definition errs_EIO :: "('s \<Rightarrow> 's \<times> (unit, HvErrorNum) result) \<Rightarrow> bool" where
  "errs_EIO f \<longleftrightarrow> (\<forall>s s' e. f s = (s', Err e) \<longrightarrow> e = EIO)"

lemma errs_EIO_run_seq: "list_all errs_EIO fs \<Longrightarrow> errs_EIO (run_seq fs)"
proof (induction fs)
  case (Cons f fs)
  show ?case
    unfolding errs_EIO_def
  proof (intro allI impI)
    fix s s' e assume a: "run_seq (f # fs) s = (s', Err e)"
    obtain s1 r where "f s = (s1, r)" by force
    with a Cons show "e = EIO" by (cases r) (auto simp: errs_EIO_def)
  qed
qed (simp add: errs_EIO_def)

lemma errs_EIO_to_hv: "errs_EIO (\<lambda>m. to_hv x (g m))"
  unfolding errs_EIO_def by (metis surj_pair to_hv_EIO)

lemma expect_no_Err: "expect r \<noteq> (s, Err e)"
  by (cases r rule: expect.cases) simp_all

lemma errs_EIO_expect: "errs_EIO (\<lambda>m. expect (g m))"
  by (simp add: errs_EIO_def expect_no_Err)

lemma errs_EIO_w:
  "errs_EIO (w16 x f a)" "errs_EIO (w32 x f b)" "errs_EIO (w64 x f c)"
  "errs_EIO (\<lambda>m. w32 x f (h m) m)" "errs_EIO (\<lambda>m. w64 x f (g m) m)"
  unfolding w16_def w32_def w64_def by (rule errs_EIO_to_hv)+

lemma errs_EIO_set_cr: "errs_EIO (VmxVcpu_set_cr x i v)"
  by (simp add: errs_EIO_def VmxVcpu_set_cr_def Let_def expect_no_Err del: run_seq.simps)

lemma errs_EIO_segment: "errs_EIO (set_guest_segment x g s b l a)"
  unfolding set_guest_segment_def by (rule errs_EIO_run_seq) (simp only: list.pred_inject errs_EIO_w simp_thms)

lemmas errs_EIO_rules = errs_EIO_w errs_EIO_set_cr errs_EIO_segment errs_EIO_to_hv errs_EIO_expect

lemma errs_EIO_setup: "errs_EIO (vmcs_setup x he l p)"
proof -
  have "errs_EIO (setup_vmcs_host x he)" "errs_EIO (setup_vmcs_guest x l)" "errs_EIO (setup_vmcs_control x he)"
    unfolding setup_vmcs_host_def setup_vmcs_guest_def setup_vmcs_control_def
    by (rule errs_EIO_run_seq, simp only: list.pred_inject errs_EIO_rules simp_thms)+
  then show ?thesis
    unfolding vmcs_setup_def
    by (intro errs_EIO_run_seq) (simp only: list.pred_inject errs_EIO_rules simp_thms)
qed

lemma start_EIO:
  "run_seq [\<lambda>m. to_hv x (vmxon x a m), vmcs_setup x he l b] c = (d, Err e) \<Longrightarrow> e = EIO"
proof -
  have "errs_EIO (run_seq [\<lambda>m. to_hv x (vmxon x a m), vmcs_setup x he l b])"
    by (rule errs_EIO_run_seq) (simp only: list.pred_inject errs_EIO_rules errs_EIO_setup simp_thms)
  then show "run_seq [\<lambda>m. to_hv x (vmxon x a m), vmcs_setup x he l b] c = (d, Err e) \<Longrightarrow> e = EIO"
    by (simp only: errs_EIO_def)
qed

lemma VmxVcpu_start_run:
  assumes "VmxRegion_new ba (revision_id (VmxBasic_read m)) False s = (s1, Ok a)"
    and "VmxRegion_new ba (revision_id (VmxBasic_read m)) False s1 = (s2, Ok b)"
  shows "\<exists>m0. VmxVcpu_start x he ba l (m, s) =
    (case run_seq [\<lambda>m. to_hv x (vmxon x (VmxRegion_paddr a) m), vmcs_setup x he l (VmxRegion_paddr b)] m0 of
       (m, Ok _) \<Rightarrow> ((m, s2), Ok \<lparr>vx_guest_regs = GeneralRegisters_default,
          vx_host_stack_top = he_stack_top he, vx_vmxon_region = a, vx_vmcs_region = b\<rparr>)
     | (m, Err e) \<Rightarrow> ((m, Frame_drop ba (vr_frame a) (Frame_drop ba (vr_frame b) s2)), Err e)
     | (m, Panic) \<Rightarrow> ((m, s2), Panic))"
  unfolding VmxVcpu_start_def Let_def prod.case assms result.case by (rule exI, rule refl)

lemma VmxVcpu_start_frames:
  assumes "bit_alloc_spec ba free" "pmem_wf free s"
    and "VmxVcpu_start x he ba l (m, s) = ((m', s'), r)"
  shows "pmem_wf free s' \<and> (case r of
      Ok v \<Rightarrow> let p = VmxRegion_paddr (vx_vmxon_region v); q = VmxRegion_paddr (vx_vmcs_region v) in
        p \<noteq> q \<and> {p, q} \<subseteq> avail free s \<and> avail free s' = avail free s - {p, q}
    | Err e \<Rightarrow> avail free s' = avail free s \<and> (e = ENOMEM \<or> e = EIO)
    | Panic \<Rightarrow> True)"
proof (cases rule: VmxRegion_new_cases[OF assms(1,2) revision_id_lt[of m]])
  case (2 s1)
  then show ?thesis using assms(3) by (auto simp: VmxVcpu_start_def)
next
  case on: (1 s1 p)
  have p: "pool_frame (falloc s) p"
    using free_frames_pool[OF assms(2)[unfolded pmem_wf_def] on(2)] .
  show ?thesis
  proof (cases rule: VmxRegion_new_cases[OF assms(1) on(4) revision_id_lt[of m]])
    case cs: (2 s2)
    then have "VmxVcpu_start x he ba l (m, s) = ((m, Frame_drop ba \<lparr>start_paddr = p, frame_count = 1\<rparr> s2), Err ENOMEM)"
      using on by (simp add: VmxVcpu_start_def)
    then have r: "r = Err ENOMEM" "s' = Frame_drop ba \<lparr>start_paddr = p, frame_count = 1\<rparr> s2"
      using assms(3) by simp_all
    have "pool_frame (falloc s2) p"
      using p pool_frame_base[of "falloc s2" "falloc s"] cs(5) on(5) by simp
    note d = Frame_drop_single[OF assms(1) cs(4) this]
    have "avail free s = {p}" using cs(2) on(2,3) by auto
    then show ?thesis using r d cs(3) by simp
  next
    case cs: (1 s2 q)
    let ?drop = "\<lambda>p. Frame_drop ba \<lparr>start_paddr = p, frame_count = 1\<rparr>"
    have pool: "pool_frame (falloc s2) p" "pool_frame (falloc s2) q"
      using p free_frames_pool[OF on(4)[unfolded pmem_wf_def] cs(2)]
        pool_frame_base[of "falloc s2" "falloc s"] pool_frame_base[of "falloc s2" "falloc s1"] cs(5) on(5)
      by simp_all
    have av: "p \<noteq> q" "p \<in> avail free s" "q \<in> avail free s" "avail free s2 = avail free s - {p, q}"
      using on cs by auto
    note dq = Frame_drop_single[OF assms(1) cs(4) pool(2)]
    have dp: "avail free (?drop p (?drop q s2)) = avail free s" "pmem_wf free (?drop p (?drop q s2))"
      using Frame_drop_single[OF assms(1) dq(2), of p] dq pool av
        pool_frame_base[of "falloc (?drop q s2)" "falloc s2"] by auto
    obtain m0 where start: "VmxVcpu_start x he ba l (m, s) =
        (case run_seq [\<lambda>m. to_hv x (vmxon x p m), vmcs_setup x he l q] m0 of
           (m, Ok _) \<Rightarrow> ((m, s2), Ok \<lparr>vx_guest_regs = GeneralRegisters_default,
              vx_host_stack_top = he_stack_top he,
              vx_vmxon_region = \<lparr>vr_frame = \<lparr>start_paddr = p, frame_count = 1\<rparr>\<rparr>,
              vx_vmcs_region = \<lparr>vr_frame = \<lparr>start_paddr = q, frame_count = 1\<rparr>\<rparr>\<rparr>)
         | (m, Err e) \<Rightarrow> ((m, ?drop p (?drop q s2)), Err e)
         | (m, Panic) \<Rightarrow> ((m, s2), Panic))"
      using VmxVcpu_start_run[OF on(1) cs(1), of x he l,
          unfolded VmxRegion_paddr_def VmxRegion.select_convs Frame.select_convs] by blast
    obtain m1 u where run: "run_seq [\<lambda>m. to_hv x (vmxon x p m), vmcs_setup x he l q] m0 = (m1, u)"
      by (rule prod.exhaust)
    note e = start[unfolded run assms(3) prod.case]
    show ?thesis
    proof (cases u)
      case (Ok a)
      then show ?thesis using e cs(4) av by (simp add: VmxRegion_paddr_def)
    next
      case (Err e')
      then show ?thesis using e dp start_EIO[OF run[unfolded Err]] by simp
    next
      case Panic
      then show ?thesis using e cs(4) by simp
    qed
  qed
qed


text \<open>C24: Creating a vCPU is all or nothing on the frame pool: on success it owns two distinct frames
  that were free, its VMXON region and its VMCS, and no other frame was taken; on any error, VMX
  missing, already on, disabled by the firmware, out of memory or a failed VMX instruction, every
  frame it took is back, and the error is \<^verbatim>\<open>ENODEV\<close>, \<^verbatim>\<open>EBUSY\<close>, \<^verbatim>\<open>ENOMEM\<close> or \<^verbatim>\<open>EIO\<close>.\<close>

theorem vmx_vcpu_new_frames:
  assumes "bit_alloc_spec ba free" "pmem_wf free s"
    and "VmxVcpu_new x he ba l (m, s) = ((m', s'), r)"
  shows "pmem_wf free s' \<and> (case r of
      Ok v \<Rightarrow> let p = VmxRegion_paddr (vx_vmxon_region v); q = VmxRegion_paddr (vx_vmcs_region v) in
        p \<noteq> q \<and> {p, q} \<subseteq> avail free s \<and> avail free s' = avail free s - {p, q}
    | Err e \<Rightarrow> avail free s' = avail free s \<and> e \<in> {ENODEV, EBUSY, ENOMEM, EIO}
    | Panic \<Rightarrow> True)"
proof (cases "VmxVcpu_new x he ba l (m, s) = VmxVcpu_start x he ba l (fst (enable_vmxon
    (if perf_monitor_version_id x > 0 then Msr_write MSR_IA32_PERF_GLOBAL_CTRL 0 m else m)), s)")
  case True
  show ?thesis
    using VmxVcpu_start_frames[OF assms(1,2) True[unfolded assms(3), symmetric]]
    by (cases r) (simp_all, blast?)
next
  case False
  then show ?thesis
    using assms(2,3)
    by (auto simp: VmxVcpu_new_def Let_def enable_vmxon_def vmx_check_hypervisor_feature_def
        split: if_splits)
qed

lemma VmxVcpu_start_Ok:
  assumes "vmx_ok x" "VmxRegion_new ba (revision_id (VmxBasic_read m)) False s = (s1, Ok a)"
    and "VmxRegion_new ba (revision_id (VmxBasic_read m)) False s1 = (s2, Ok b)"
  shows "\<exists>m' v. VmxVcpu_start x he ba l (m, s) = ((m', s2), Ok v)"
proof -
  have "\<exists>m'. vmcs_setup x he l p m = (m', Ok ())" for p m
    using vmcs_setup_put[OF assms(1)] by metis
  moreover have "\<exists>m'. to_hv x (vmxon x p m) = (m', Ok ())" for p m
    using assms(1) by (simp add: vmxon_def vmcs_run)
  ultimately have run: "\<exists>m'. run_seq [\<lambda>m. to_hv x (vmxon x p m), vmcs_setup x he l q] m = (m', Ok ())" for p q m
    by simp (metis st_then.simps(1))
  obtain m0 where e: "VmxVcpu_start x he ba l (m, s) =
    (case run_seq [\<lambda>m. to_hv x (vmxon x (VmxRegion_paddr a) m), vmcs_setup x he l (VmxRegion_paddr b)] m0 of
       (m, Ok _) \<Rightarrow> ((m, s2), Ok \<lparr>vx_guest_regs = GeneralRegisters_default,
          vx_host_stack_top = he_stack_top he, vx_vmxon_region = a, vx_vmcs_region = b\<rparr>)
     | (m, Err e) \<Rightarrow> ((m, Frame_drop ba (vr_frame a) (Frame_drop ba (vr_frame b) s2)), Err e)
     | (m, Panic) \<Rightarrow> ((m, s2), Panic))"
    using VmxVcpu_start_run[OF assms(2,3), of x he l] by blast
  obtain m' where "run_seq [\<lambda>m. to_hv x (vmxon x (VmxRegion_paddr a) m),
      vmcs_setup x he l (VmxRegion_paddr b)] m0 = (m', Ok ())"
    using run by blast
  then show ?thesis unfolding e by (simp del: run_seq.simps)
qed

lemma sample_new_Ok:
  "\<exists>m' s' v. VmxVcpu_new sample_ext sample_env list_alloc sample_linux (sample_vmx_machine, sample_mem)
     = ((m', s'), Ok v)"
proof -
  have new: "\<exists>s'. VmxRegion_new list_alloc (revision_id (VmxBasic_read m)) False s =
      (s', Ok \<lparr>vr_frame = \<lparr>start_paddr = a, frame_count = 1\<rparr>\<rparr>) \<and> falloc s' = f"
    if "fa_alloc list_alloc (falloc s) = (f, Some a)" for s a f and m :: machine
  proof -
    have "Frame_new list_alloc s = (s\<lparr>falloc := f\<rparr>, Ok \<lparr>start_paddr = a, frame_count = 1\<rparr>)"
      using that by (simp add: Frame_new_def)
    from VmxRegion_new_Ok[OF this revision_id_lt[of m]] show ?thesis by auto
  qed
  have start: "\<exists>m' s' v. VmxVcpu_start sample_ext sample_env list_alloc sample_linux (m, sample_mem)
      = ((m', s'), Ok v)" for m
  proof -
    obtain s1 where s1: "VmxRegion_new list_alloc (revision_id (VmxBasic_read m)) False sample_mem
        = (s1, Ok \<lparr>vr_frame = \<lparr>start_paddr = 0x1000000, frame_count = 1\<rparr>\<rparr>)"
        "falloc s1 = \<lparr>fa_base = 0x1000000, fa_inner = [1, 2, 3, 4, 5, 6, 7]\<rparr>"
      using new[of sample_mem "\<lparr>fa_base = 0x1000000, fa_inner = [1, 2, 3, 4, 5, 6, 7]\<rparr>" "0x1000000" m]
      by (simp add: sample_mem_eq fa_alloc_def list_alloc_def rvm_const) blast
    obtain s2 where s2: "VmxRegion_new list_alloc (revision_id (VmxBasic_read m)) False s1
        = (s2, Ok \<lparr>vr_frame = \<lparr>start_paddr = 0x1001000, frame_count = 1\<rparr>\<rparr>)"
      using new[of s1 "\<lparr>fa_base = 0x1000000, fa_inner = [2, 3, 4, 5, 6, 7]\<rparr>" "0x1001000" m]
      by (simp add: s1(2) fa_alloc_def list_alloc_def rvm_const) blast
    show ?thesis
      using VmxVcpu_start_Ok[OF sample_vmx_ok s1(1) s2] by blast
  qed
  let ?m = "if perf_monitor_version_id sample_ext > 0
    then Msr_write MSR_IA32_PERF_GLOBAL_CTRL 0 sample_vmx_machine else sample_vmx_machine"
  have f: "has_vmx sample_ext" "\<not> contains (lx_cr4 sample_linux) CR4_VIRTUAL_MACHINE_EXTENSIONS"
    by (simp_all add: has_vmx_def sample_ext_def sample_linux_def contains_def rvm_const)
  have "FeatureControl_read ?m = 0"
    by (simp add: FeatureControl_read_def truncate_flags_def Msr_read_def Msr_write_def sample_vmx_machine_def)
  then have "\<not> contains (FeatureControl_read ?m) (feature_bits FC_LOCKED)"
    by (simp add: contains_def)
  then obtain m1 where "enable_vmxon ?m = (m1, Ok ())" by (simp add: enable_vmxon_def Let_def)
  then have "VmxVcpu_new sample_ext sample_env list_alloc sample_linux (sample_vmx_machine, sample_mem)
      = VmxVcpu_start sample_ext sample_env list_alloc sample_linux (m1, sample_mem)"
    by (simp only: VmxVcpu_new_def Let_def prod.case vmx_check_hypervisor_feature_def f if_True if_False
        result.case simp_thms)
  then show ?thesis using start by simp
qed

theorem vmx_vcpu_new_frames_witness:
  "\<exists>m' s' v. VmxVcpu_new sample_ext sample_env list_alloc sample_linux (sample_vmx_machine, sample_mem)
       = ((m', s'), Ok v) \<and>
     avail list_free s' = avail list_free sample_mem
       - {VmxRegion_paddr (vx_vmxon_region v), VmxRegion_paddr (vx_vmcs_region v)}"
proof -
  obtain m' s' v where n: "VmxVcpu_new sample_ext sample_env list_alloc sample_linux
      (sample_vmx_machine, sample_mem) = ((m', s'), Ok v)"
    using sample_new_Ok by blast
  from vmx_vcpu_new_frames[OF list_alloc_spec sample_mem_wf n] n show ?thesis
    by (auto simp: Let_def)
qed

end
