(* ===== verification/SvmVcpu.thy ===== *)
theory SvmVcpu
  imports Vmcb VmxVcpuProps
begin

text \<open>
  The vCPU on AMD processors: \<^verbatim>\<open>src/src/arch/x86_64/amd/vcpu.rs\<close> and \<^verbatim>\<open>amd/mod.rs\<close>. The guest state is in
  the control block that the vCPU holds, so the accessors change the vCPU and not the machine;
  creating and leaving change the EFER, the host save area register and the host control registers.
  The addresses of the vCPU's CPU data and control block are fields of \<open>svm_env\<close>.
\<close>


section \<open>State\<close>

record SvmVcpu =
  sv_guest_regs :: GeneralRegisters
  sv_host_tp :: u64
  sv_host_stack_top :: u64
  sv_host_save_area :: Frame
  sv_vmcb :: Vmcb

record svm_env =
  se_cpu_data :: usize
  se_stack_top :: usize
  se_vmcb :: virt_addr
  se_phys_off :: usize
  se_gpm_root :: phys_addr

definition svm_check_hypervisor_feature :: "machine \<Rightarrow> (unit, HvErrorNum) result" where
  "svm_check_hypervisor_feature m =
     (if contains (VmCr_read m) (vm_cr_bits VMCR_SVMDIS) then Err ENODEV else Ok ())"

text \<open>Updates of the two areas of the control block.\<close>

definition upd_save :: "(VmcbStateSaveArea \<Rightarrow> VmcbStateSaveArea) \<Rightarrow> SvmVcpu \<Rightarrow> SvmVcpu" where
  "upd_save f v = v\<lparr>sv_vmcb := (sv_vmcb v)\<lparr>vmcb_save := f (vmcb_save (sv_vmcb v))\<rparr>\<rparr>"

definition upd_control :: "(VmcbControlArea \<Rightarrow> VmcbControlArea) \<Rightarrow> SvmVcpu \<Rightarrow> SvmVcpu" where
  "upd_control f v = v\<lparr>sv_vmcb := (sv_vmcb v)\<lparr>vmcb_control := f (vmcb_control (sv_vmcb v))\<rparr>\<rparr>"

abbreviation sv_save :: "SvmVcpu \<Rightarrow> VmcbStateSaveArea" where
  "sv_save v \<equiv> vmcb_save (sv_vmcb v)"

abbreviation sv_control :: "SvmVcpu \<Rightarrow> VmcbControlArea" where
  "sv_control v \<equiv> vmcb_control (sv_vmcb v)"


section \<open>Accessors of the guest state\<close>

definition SvmVcpu_instr_pointer :: "SvmVcpu \<Rightarrow> u64" where
  "SvmVcpu_instr_pointer v = va_rip (sv_save v)"

definition SvmVcpu_stack_pointer :: "SvmVcpu \<Rightarrow> u64" where
  "SvmVcpu_stack_pointer v = va_rsp (sv_save v)"

definition SvmVcpu_set_stack_pointer :: "u64 \<Rightarrow> SvmVcpu \<Rightarrow> SvmVcpu" where
  "SvmVcpu_set_stack_pointer sp = upd_save (\<lambda>a. a\<lparr>va_rsp := sp\<rparr>)"

definition SvmVcpu_rflags :: "SvmVcpu \<Rightarrow> u64" where
  "SvmVcpu_rflags v = va_rflags (sv_save v)"

definition SvmVcpu_fs_base :: "machine \<Rightarrow> u64" where
  "SvmVcpu_fs_base m = Msr_read MSR_IA32_FS_BASE m"

definition SvmVcpu_gs_base :: "SvmVcpu \<Rightarrow> u64" where
  "SvmVcpu_gs_base v = vs_base (va_gs (sv_save v))"

definition SvmVcpu_cr :: "nat \<Rightarrow> SvmVcpu \<Rightarrow> (u64, HvErrorNum) result" where
  "SvmVcpu_cr cr_idx v =
     (if cr_idx = 0 then Ok (va_cr0 (sv_save v))
      else if cr_idx = 3 then Ok (va_cr3 (sv_save v))
      else if cr_idx = 4 then Ok (va_cr4 (sv_save v))
      else Panic)"

definition SvmVcpu_set_cr :: "nat \<Rightarrow> u64 \<Rightarrow> SvmVcpu \<Rightarrow> (SvmVcpu, HvErrorNum) result" where
  "SvmVcpu_set_cr cr_idx val v =
     (if cr_idx = 0 then Ok (upd_save (\<lambda>a. a\<lparr>va_cr0 := val AND NOT CR0_NOT_WRITE_THROUGH\<rparr>) v)
      else if cr_idx = 3 then Ok (upd_save (\<lambda>a. a\<lparr>va_cr3 := val\<rparr>) v)
      else if cr_idx = 4 then Ok (upd_save (\<lambda>a. a\<lparr>va_cr4 := val\<rparr>) v)
      else Panic)"


section \<open>Setting up the control block\<close>

definition set_vmcb_dtr :: "DescriptorTablePointer \<Rightarrow> VmcbSegment \<Rightarrow> VmcbSegment" where
  "set_vmcb_dtr dtr s = s\<lparr>vs_limit := ucast (dt_limit dtr) AND 0xffff, vs_base := dt_base dtr\<rparr>"

definition set_vmcb_segment :: "Segment \<Rightarrow> VmcbSegment \<Rightarrow> VmcbSegment" where
  "set_vmcb_segment seg s = s\<lparr>vs_selector := seg_selector seg,
     vs_attr := as_svm_segment_attributes (seg_access_rights seg), vs_limit := seg_limit seg,
     vs_base := seg_base seg\<rparr>"

definition vmcb_setup_save :: "machine \<Rightarrow> LinuxContext \<Rightarrow> VmcbStateSaveArea \<Rightarrow> VmcbStateSaveArea" where
  "vmcb_setup_save m linux a =
     a\<lparr>va_es := set_vmcb_segment (lx_es linux) (va_es a), va_cs := set_vmcb_segment (lx_cs linux) (va_cs a),
       va_ss := set_vmcb_segment (lx_ss linux) (va_ss a), va_ds := set_vmcb_segment (lx_ds linux) (va_ds a),
       va_fs := set_vmcb_segment (lx_fs linux) (va_fs a), va_gs := set_vmcb_segment (lx_gs linux) (va_gs a),
       va_tr := set_vmcb_segment (lx_tss linux) (va_tr a),
       va_ldtr := set_vmcb_segment Segment_invalid (va_ldtr a),
       va_idtr := set_vmcb_dtr (lx_idt linux) (va_idtr a), va_gdtr := set_vmcb_dtr (lx_gdt linux) (va_gdtr a),
       va_cpl := 0, va_rflags := 0x2, va_rip := lx_rip linux, va_rsp := lx_rsp linux, va_rax := 0,
       va_sysenter_cs := Msr_read MSR_IA32_SYSENTER_CS m,
       va_sysenter_eip := Msr_read MSR_IA32_SYSENTER_EIP m,
       va_sysenter_esp := Msr_read MSR_IA32_SYSENTER_ESP m,
       va_star := lx_star linux, va_lstar := lx_lstar linux, va_cstar := lx_cstar linux,
       va_sfmask := lx_fmask linux, va_kernel_gs_base := Msr_read MSR_IA32_KERNEL_GSBASE m,
       va_efer := lx_efer linux OR EFER_SECURE_VIRTUAL_MACHINE_ENABLE, va_g_pat := lx_pat linux,
       va_dr7 := 0x400, va_dr6 := 0xffff0ff0\<rparr>"

definition vmcb_setup_control :: "phys_addr \<Rightarrow> VmcbControlArea \<Rightarrow> VmcbControlArea" where
  "vmcb_setup_control root c =
     c\<lparr>vc_intercept_exceptions := 0, vc_np_enable := 1, vc_guest_asid := 1, vc_clean_bits := 0,
       vc_nest_cr3 := root, vc_tlb_control := tlb_control_val TLB_FlushAsid\<rparr>"

definition vmcb_setup_intercepts :: "SvmIntercept list" where
  "vmcb_setup_intercepts = [SI_NMI, SI_CPUID, SI_SHUTDOWN, SI_VMRUN, SI_VMMCALL, SI_VMLOAD, SI_VMSAVE,
     SI_STGI, SI_CLGI, SI_SKINIT]"

definition vmcb_setup :: "machine \<Rightarrow> LinuxContext \<Rightarrow> phys_addr \<Rightarrow> SvmVcpu \<Rightarrow> (SvmVcpu, HvErrorNum) result" where
  "vmcb_setup m linux root v =
     and_then (SvmVcpu_set_cr 0 (lx_cr0 linux) v) (\<lambda>v.
     and_then (SvmVcpu_set_cr 4 (lx_cr4 linux) v) (\<lambda>v.
     and_then (SvmVcpu_set_cr 3 (lx_cr3 linux) v) (\<lambda>v.
     let v = upd_save (vmcb_setup_save m linux) v;
         v = upd_control (vmcb_setup_control root) v in
     Ok (v\<lparr>sv_vmcb := fold Vmcb_set_intercept vmcb_setup_intercepts (sv_vmcb v)\<rparr>))))"


section \<open>Creating, entering and leaving\<close>

text \<open>The enable bit of the six performance event-select registers is cleared.\<close>

definition PERF_EVT_SEL_EN :: u64 where
  "PERF_EVT_SEL_EN = push_bit 22 1"

definition perf_counters_off :: "machine \<Rightarrow> machine" where
  "perf_counters_off m = fold (\<lambda>r m. Msr_write r (Msr_read r m AND NOT PERF_EVT_SEL_EN) m)
     [MSR_PERF_EVT_SEL0, MSR_PERF_EVT_SEL1, MSR_PERF_EVT_SEL2, MSR_PERF_EVT_SEL3, MSR_PERF_EVT_SEL4,
      MSR_PERF_EVT_SEL5] m"

definition SvmVcpu_new ::
  "ext \<Rightarrow> svm_env \<Rightarrow> 'b bit_alloc \<Rightarrow> LinuxContext \<Rightarrow> machine \<times> 'b pmem
     \<Rightarrow> (machine \<times> 'b pmem) \<times> (SvmVcpu, HvErrorNum) result" where
  "SvmVcpu_new x se ba linux st =
     (let (m, s) = st in
      case svm_check_hypervisor_feature m of
        Err e \<Rightarrow> ((m, s), Err e)
      | Panic \<Rightarrow> ((m, s), Panic)
      | Ok _ \<Rightarrow>
     let m = perf_counters_off m; efer = read_efer x m in
     if contains efer EFER_SECURE_VIRTUAL_MACHINE_ENABLE then ((m, s), Err EBUSY)
     else case Frame_new ba s of
        (s, Err e) \<Rightarrow> ((m, s), Err e)
      | (s, Panic) \<Rightarrow> ((m, s), Panic)
      | (s, Ok host_save_area) \<Rightarrow>
     let m = write_efer x (efer OR EFER_SECURE_VIRTUAL_MACHINE_ENABLE) m;
         m = Msr_write MSR_VM_HSAVE_PA (start_paddr host_save_area) m;
         m = write_cr4 x HOST_CR4 (write_cr0 x (HOST_CR0 x) m);
         ret = \<lparr>sv_guest_regs = GeneralRegisters_default, sv_host_tp = se_cpu_data se,
                sv_host_stack_top = se_stack_top se, sv_host_save_area = host_save_area,
                sv_vmcb = Vmcb_default\<rparr> in
     ((m, s), vmcb_setup m linux (se_gpm_root se) ret))"

text \<open>
  \<open>SvmVcpu_enter\<close> does not return: \<open>Ok\<close> stands for the jump into \<^verbatim>\<open>svm_run\<close> with the global interrupt
  flag cleared and the general registers loaded from the vCPU.
\<close>

definition SvmVcpu_enter :: "svm_env \<Rightarrow> LinuxContext \<Rightarrow> machine \<times> SvmVcpu
    \<Rightarrow> (machine \<times> SvmVcpu) \<times> (unit, HvErrorNum) result" where
  "SvmVcpu_enter se linux st =
     (let (m, v) = st;
          v = v\<lparr>sv_guest_regs := (sv_guest_regs v)\<lparr>rax := virt_to_phys (se_phys_off se) (se_vmcb se),
            rbx := lx_rbx linux, rbp := lx_rbp linux, r12 := lx_r12 linux, r13 := lx_r13 linux,
            r14 := lx_r14 linux, r15 := lx_r15 linux\<rparr>\<rparr> in
      ((m\<lparr>m_gif := False\<rparr>, v), Ok ()))"

text \<open>\<^verbatim>\<open>VirtAddr::new\<close> panics on an address that is not canonical.\<close>

definition load_vmcb_guest :: "ext \<Rightarrow> SvmVcpu \<Rightarrow> machine \<Rightarrow> LinuxContext \<Rightarrow> (LinuxContext, HvErrorNum) result" where
  "load_vmcb_guest x v m l =
     (let a = sv_save v;
          l = l\<lparr>lx_rip := va_rip a, lx_rsp := va_rsp a, lx_cr0 := truncate_flags (x_cr0_all x) (va_cr0 a),
                lx_cr3 := va_cr3 a, lx_cr4 := truncate_flags (x_cr4_all x) (va_cr4 a),
                lx_efer := va_efer a AND NOT EFER_SECURE_VIRTUAL_MACHINE_ENABLE,
                lx_es := (lx_es l)\<lparr>seg_selector := vs_selector (va_es a)\<rparr>,
                lx_cs := (lx_cs l)\<lparr>seg_selector := vs_selector (va_cs a)\<rparr>,
                lx_ss := (lx_ss l)\<lparr>seg_selector := vs_selector (va_ss a)\<rparr>,
                lx_ds := (lx_ds l)\<lparr>seg_selector := vs_selector (va_ds a)\<rparr>\<rparr> in
      case x_virt_new x (vs_base (va_gdtr a)) of
        None \<Rightarrow> Panic
      | Some gb \<Rightarrow>
     (case x_virt_new x (vs_base (va_idtr a)) of
        None \<Rightarrow> Panic
      | Some ib \<Rightarrow>
      Ok (l\<lparr>lx_gdt := \<lparr>dt_limit = ucast (vs_limit (va_gdtr a)), dt_base = gb\<rparr>,
            lx_idt := \<lparr>dt_limit = ucast (vs_limit (va_idtr a)), dt_base = ib\<rparr>,
            lx_fs := (lx_fs l)\<lparr>seg_selector := m_fs m, seg_base := Msr_read MSR_IA32_FS_BASE m\<rparr>,
            lx_gs := (lx_gs l)\<lparr>seg_selector := m_gs m, seg_base := vs_base (va_gs a)\<rparr>,
            lx_tss := (lx_tss l)\<lparr>seg_selector := m_tr m\<rparr>\<rparr>)))"

definition SvmVcpu_exit :: "ext \<Rightarrow> SvmVcpu \<Rightarrow> machine \<times> LinuxContext
    \<Rightarrow> (machine \<times> LinuxContext) \<times> (unit, HvErrorNum) result" where
  "SvmVcpu_exit x v st =
     (let (m, l) = st in
      case load_vmcb_guest x v m l of
        Ok l \<Rightarrow>
          let m = m\<lparr>m_gif := True\<rparr>;
              m = write_efer x (read_efer x m AND NOT EFER_SECURE_VIRTUAL_MACHINE_ENABLE) m;
              m = Msr_write MSR_VM_HSAVE_PA 0 m in
          ((m, l), Ok ())
      | Err e \<Rightarrow> ((m, l), Err e)
      | Panic \<Rightarrow> ((m, l), Panic))"

definition SvmVcpu_inject_fault :: "SvmVcpu \<Rightarrow> SvmVcpu \<times> (unit, HvErrorNum) result" where
  "SvmVcpu_inject_fault v =
     (case VmcbIntInfo_from SIT_Exception (exception_vector E_GeneralProtectionFault) of
        None \<Rightarrow> (v, Panic)
      | Some info \<Rightarrow> (v\<lparr>sv_vmcb := Vmcb_inject_event info 0 (sv_vmcb v)\<rparr>, Ok ()))"

definition SvmVcpu_advance_rip :: "u8 \<Rightarrow> SvmVcpu \<Rightarrow> SvmVcpu \<times> (unit, HvErrorNum) result" where
  "SvmVcpu_advance_rip instr_len v =
     (upd_save (\<lambda>a. a\<lparr>va_rip := va_rip a + ucast instr_len\<rparr>) v, Ok ())"

definition SvmVcpu_guest_is_privileged :: "SvmVcpu \<Rightarrow> bool" where
  "SvmVcpu_guest_is_privileged v \<longleftrightarrow> va_cpl (sv_save v) = 0"

definition SvmVcpu_in_hypercall :: "SvmVcpu \<Rightarrow> bool" where
  "SvmVcpu_in_hypercall v \<longleftrightarrow> SvmExitCode_try_from (vc_exit_code (sv_control v)) = Ok SX_VMMCALL"

text \<open>The root address the guest page table is built from.\<close>

definition SvmVcpu_guest_page_table :: "SvmVcpu \<Rightarrow> phys_addr" where
  "SvmVcpu_guest_page_table v = align_down (va_cr3 (sv_save v))"


section \<open>Lemmas\<close>

lemma upd_save_sel [simp]:
  "sv_guest_regs (upd_save f v) = sv_guest_regs v" "sv_save (upd_save f v) = f (sv_save v)"
  "sv_control (upd_save f v) = sv_control v" "sv_host_save_area (upd_save f v) = sv_host_save_area v"
  by (simp_all add: upd_save_def)

lemma upd_control_sel [simp]:
  "sv_guest_regs (upd_control f v) = sv_guest_regs v" "sv_save (upd_control f v) = sv_save v"
  "sv_control (upd_control f v) = f (sv_control v)"
  "sv_host_save_area (upd_control f v) = sv_host_save_area v"
  by (simp_all add: upd_control_def)

lemma set_intercept_save [simp]: "vmcb_save (Vmcb_set_intercept i b) = vmcb_save b"
  by (simp add: Vmcb_set_intercept_def Let_def)

lemma set_intercepts_save [simp]: "vmcb_save (fold Vmcb_set_intercept is b) = vmcb_save b"
  by (induction "is" arbitrary: b) simp_all

lemma set_intercepts_iff:
  "vmcb_intercepts (fold Vmcb_set_intercept is b) j \<longleftrightarrow> j \<in> set is \<or> vmcb_intercepts b j"
  by (induction "is" arbitrary: b) (auto simp: set_intercept_iff)

lemma set_intercept_control:
  "vc_np_enable (vmcb_control (Vmcb_set_intercept i b)) = vc_np_enable (vmcb_control b)"
  "vc_nest_cr3 (vmcb_control (Vmcb_set_intercept i b)) = vc_nest_cr3 (vmcb_control b)"
  "vc_guest_asid (vmcb_control (Vmcb_set_intercept i b)) = vc_guest_asid (vmcb_control b)"
  "vc_clean_bits (vmcb_control (Vmcb_set_intercept i b)) = vc_clean_bits (vmcb_control b)"
  by (simp_all add: Vmcb_set_intercept_def Let_def)

lemma set_intercepts_control:
  "vc_np_enable (vmcb_control (fold Vmcb_set_intercept is b)) = vc_np_enable (vmcb_control b)"
  "vc_nest_cr3 (vmcb_control (fold Vmcb_set_intercept is b)) = vc_nest_cr3 (vmcb_control b)"
  "vc_guest_asid (vmcb_control (fold Vmcb_set_intercept is b)) = vc_guest_asid (vmcb_control b)"
  "vc_clean_bits (vmcb_control (fold Vmcb_set_intercept is b)) = vc_clean_bits (vmcb_control b)"
  by (induction "is" arbitrary: b) (simp_all add: set_intercept_control)

lemma Vmcb_both: "b\<lparr>vmcb_save := a, vmcb_control := c\<rparr> = \<lparr>vmcb_control = c, vmcb_save = a\<rparr>"
  by (cases b) simp

text \<open>The vCPU that \<^verbatim>\<open>vmcb_setup\<close> builds; it cannot fail.\<close>

lemma vmcb_setup_Ok:
  obtains v' where "vmcb_setup m l root v = Ok v'"
    "sv_save v' = vmcb_setup_save m l ((sv_save v)\<lparr>va_cr0 := lx_cr0 l AND NOT CR0_NOT_WRITE_THROUGH,
       va_cr4 := lx_cr4 l, va_cr3 := lx_cr3 l\<rparr>)"
    "sv_vmcb v' = fold Vmcb_set_intercept vmcb_setup_intercepts
       \<lparr>vmcb_control = vmcb_setup_control root (sv_control v), vmcb_save = sv_save v'\<rparr>"
    "sv_guest_regs v' = sv_guest_regs v" "sv_host_save_area v' = sv_host_save_area v"
proof -
  show ?thesis
    by (rule that[of "upd_control (vmcb_setup_control root) (upd_save (\<lambda>a. vmcb_setup_save m l
        (a\<lparr>va_cr0 := lx_cr0 l AND NOT CR0_NOT_WRITE_THROUGH, va_cr4 := lx_cr4 l, va_cr3 := lx_cr3 l\<rparr>)) v)
        \<lparr>sv_vmcb := fold Vmcb_set_intercept vmcb_setup_intercepts
          \<lparr>vmcb_control = vmcb_setup_control root (sv_control v),
           vmcb_save = vmcb_setup_save m l ((sv_save v)\<lparr>va_cr0 := lx_cr0 l AND NOT CR0_NOT_WRITE_THROUGH,
             va_cr4 := lx_cr4 l, va_cr3 := lx_cr3 l\<rparr>)\<rparr>\<rparr>"])
      (simp_all add: vmcb_setup_def SvmVcpu_set_cr_def upd_save_def upd_control_def Let_def Vmcb_both)
qed



section \<open>The guest of a new vCPU\<close>

lemma zeroed_intercepts: "\<not> vmcb_intercepts \<lparr>vmcb_control = vmcb_setup_control root VmcbControlArea_zeroed, vmcb_save = a\<rparr> i"
  by (simp add: vmcb_intercepts_def vmcb_vector_def vmcb_setup_control_def VmcbControlArea_zeroed_def Let_def)

text \<open>The successful end of \<^verbatim>\<open>Vcpu::new\<close>.\<close>

lemma SvmVcpu_new_Ok:
  assumes "SvmVcpu_new x se ba l (m, s) = ((m', s'), Ok v)"
  obtains p m1 where "Frame_new ba s = (s', Ok p)" "sv_host_save_area v = p"
    "Msr_read MSR_VM_HSAVE_PA m' = start_paddr p"
    "contains (Msr_read MSR_IA32_EFER m') EFER_SECURE_VIRTUAL_MACHINE_ENABLE"
    "\<not> contains (read_efer x m) EFER_SECURE_VIRTUAL_MACHINE_ENABLE"
    "sv_vmcb v = fold Vmcb_set_intercept vmcb_setup_intercepts
       \<lparr>vmcb_control = vmcb_setup_control (se_gpm_root se) VmcbControlArea_zeroed, vmcb_save = sv_save v\<rparr>"
    "sv_save v = vmcb_setup_save m1 l (VmcbStateSaveArea_zeroed\<lparr>
       va_cr0 := lx_cr0 l AND NOT CR0_NOT_WRITE_THROUGH, va_cr4 := lx_cr4 l, va_cr3 := lx_cr3 l\<rparr>)"
proof -
  have efer: "read_efer x (perf_counters_off m) = read_efer x m"
    by (simp add: read_efer_def perf_counters_off_def Msr_read_write)
  obtain p where p: "Frame_new ba s = (s', Ok p)"
    "\<not> contains (read_efer x m) EFER_SECURE_VIRTUAL_MACHINE_ENABLE"
    using assms by (auto simp: SvmVcpu_new_def Let_def efer split: result.splits if_splits prod.splits)
  then have new: "m' = write_cr4 x HOST_CR4 (write_cr0 x (HOST_CR0 x)
      (Msr_write MSR_VM_HSAVE_PA (start_paddr p)
        (write_efer x (read_efer x m OR EFER_SECURE_VIRTUAL_MACHINE_ENABLE) (perf_counters_off m))))"
    "vmcb_setup m' l (se_gpm_root se) \<lparr>sv_guest_regs = GeneralRegisters_default, sv_host_tp = se_cpu_data se,
       sv_host_stack_top = se_stack_top se, sv_host_save_area = p, sv_vmcb = Vmcb_default\<rparr> = Ok v"
    using assms by (auto simp: SvmVcpu_new_def Let_def efer split: result.splits if_splits)
  obtain v' where v': "v' = v" "sv_host_save_area v' = p"
    "sv_vmcb v' = fold Vmcb_set_intercept vmcb_setup_intercepts
       \<lparr>vmcb_control = vmcb_setup_control (se_gpm_root se) VmcbControlArea_zeroed, vmcb_save = sv_save v'\<rparr>"
    "sv_save v' = vmcb_setup_save m' l (VmcbStateSaveArea_zeroed\<lparr>
       va_cr0 := lx_cr0 l AND NOT CR0_NOT_WRITE_THROUGH, va_cr4 := lx_cr4 l, va_cr3 := lx_cr3 l\<rparr>)"
    using vmcb_setup_Ok[of m' l "se_gpm_root se" "\<lparr>sv_guest_regs = GeneralRegisters_default,
       sv_host_tp = se_cpu_data se, sv_host_stack_top = se_stack_top se, sv_host_save_area = p,
       sv_vmcb = Vmcb_default\<rparr>"] new(2) by (simp add: Vmcb_default_def) metis
  have "Msr_read MSR_VM_HSAVE_PA m' = start_paddr p"
    "contains (Msr_read MSR_IA32_EFER m') EFER_SECURE_VIRTUAL_MACHINE_ENABLE"
    unfolding new(1) write_cr4_def write_cr0_def write_efer_def
    by (simp_all add: Msr_read_def Msr_write_def contains_iff bit_or_iff)
  with that p v' show ?thesis by blast
qed


definition sample_svm_env :: svm_env where
  "sample_svm_env = \<lparr>se_cpu_data = 0xffffff0000100000, se_stack_top = 0xffffff000017fff8,
     se_vmcb = 0xffffff0000101000, se_phys_off = 0xffffff0000000000, se_gpm_root = 0x5000\<rparr>"

lemma sample_svm_new:
  obtains m' s' v where "SvmVcpu_new sample_ext sample_svm_env list_alloc sample_linux (sample_machine, sample_mem)
    = ((m', s'), Ok v)"
proof -
  have c: "\<not> contains (VmCr_read sample_machine) (vm_cr_bits VMCR_SVMDIS)"
    "\<not> contains (read_efer sample_ext (perf_counters_off sample_machine)) EFER_SECURE_VIRTUAL_MACHINE_ENABLE"
    by (simp_all add: contains_def VmCr_read_def truncate_flags_def Msr_read_def sample_machine_def
        read_efer_def perf_counters_off_def Msr_write_def EFER_SECURE_VIRTUAL_MACHINE_ENABLE_def rvm_const)
  obtain s' p where f: "Frame_new list_alloc sample_mem = (s', Ok p)"
    by (simp add: Frame_new_def fa_alloc_def sample_mem_eq list_alloc_def rvm_const)
  have "\<exists>v'. vmcb_setup m l root v = Ok v'" for m l root v
    using vmcb_setup_Ok[of m l root v] by metis
  then show thesis
    using that c f unfolding SvmVcpu_new_def svm_check_hypervisor_feature_def Let_def prod.case
    by (simp only: if_False result.case prod.case) metis
qed


text \<open>C34: Creating an AMD vCPU succeeds or changes nothing that matters: on success it owns one frame
  that was free, the host save area the processor is told about, and SVM is on; when the firmware has
  disabled SVM (\<^verbatim>\<open>ENODEV\<close>), SVM is already on (\<^verbatim>\<open>EBUSY\<close>) or no frame is free (\<^verbatim>\<open>ENOMEM\<close>), no frame is
  taken and EFER is as before. It never panics.\<close>

theorem svm_vcpu_new_frames:
  assumes "bit_alloc_spec ba free" "pmem_wf free s"
    and "SvmVcpu_new x se ba l (m, s) = ((m', s'), r)"
  shows "pmem_wf free s' \<and> (case r of
      Ok v \<Rightarrow> let p = start_paddr (sv_host_save_area v) in
        p \<in> avail free s \<and> avail free s' = avail free s - {p} \<and> Msr_read MSR_VM_HSAVE_PA m' = p \<and>
        contains (Msr_read MSR_IA32_EFER m') EFER_SECURE_VIRTUAL_MACHINE_ENABLE
    | Err e \<Rightarrow> avail free s' = avail free s \<and> Msr_read MSR_IA32_EFER m' = Msr_read MSR_IA32_EFER m \<and>
        e = (if contains (VmCr_read m) (vm_cr_bits VMCR_SVMDIS) then ENODEV
             else if contains (read_efer x m) EFER_SECURE_VIRTUAL_MACHINE_ENABLE then EBUSY else ENOMEM)
    | Panic \<Rightarrow> False)"
proof -
  have efer: "read_efer x (perf_counters_off m) = read_efer x m"
    "Msr_read MSR_IA32_EFER (perf_counters_off m) = Msr_read MSR_IA32_EFER m"
    by (simp_all add: read_efer_def perf_counters_off_def Msr_read_write)
  consider (dis) "contains (VmCr_read m) (vm_cr_bits VMCR_SVMDIS)"
    | (busy) "\<not> contains (VmCr_read m) (vm_cr_bits VMCR_SVMDIS)"
        "contains (read_efer x m) EFER_SECURE_VIRTUAL_MACHINE_ENABLE"
    | (go) "\<not> contains (VmCr_read m) (vm_cr_bits VMCR_SVMDIS)"
        "\<not> contains (read_efer x m) EFER_SECURE_VIRTUAL_MACHINE_ENABLE" by blast
  then show ?thesis
  proof cases
    case dis
    then have "m' = m" "s' = s" "r = Err ENODEV"
      using assms(3) by (simp_all add: SvmVcpu_new_def svm_check_hypervisor_feature_def)
    then show ?thesis using dis assms(2) by simp
  next
    case busy
    then have "m' = perf_counters_off m" "s' = s" "r = Err EBUSY"
      using assms(3) by (simp_all add: SvmVcpu_new_def svm_check_hypervisor_feature_def efer Let_def)
    then show ?thesis using busy assms(2) efer(2) by simp
  next
    case go
    show ?thesis
    proof (cases rule: Frame_new_cases[OF assms(1,2)])
      case (2 s1)
      then have "m' = perf_counters_off m" "s' = s1" "r = Err ENOMEM"
        using go assms(3) by (simp_all add: SvmVcpu_new_def svm_check_hypervisor_feature_def efer Let_def)
      then show ?thesis using go 2 efer(2) by simp
    next
      case (1 s1 p)
      obtain m1 v where r: "s' = s1" "r = vmcb_setup m1 l (se_gpm_root se) v"
        using go 1 assms(3) by (auto simp: SvmVcpu_new_def svm_check_hypervisor_feature_def efer Let_def)
      obtain v' where v': "r = Ok v'"
        using vmcb_setup_Ok[of m1 l "se_gpm_root se" v] r(2) by metis
      show ?thesis
      proof (rule SvmVcpu_new_Ok[OF assms(3)[unfolded v']])
        fix q m2
        assume q: "Frame_new ba s = (s', Ok q)" "sv_host_save_area v' = q"
          "Msr_read MSR_VM_HSAVE_PA m' = start_paddr q"
          "contains (Msr_read MSR_IA32_EFER m') EFER_SECURE_VIRTUAL_MACHINE_ENABLE"
        have "start_paddr q = p" "s' = s1" using q(1) 1(1) by auto
        then show ?thesis using q(2-4) 1(2-4) v' by (simp add: Let_def)
      qed
    qed
  qed
qed

theorem svm_vcpu_new_frames_witness:
  "\<exists>m' s' v. SvmVcpu_new sample_ext sample_svm_env list_alloc sample_linux (sample_machine, sample_mem)
     = ((m', s'), Ok v) \<and>
     avail list_free s' = avail list_free sample_mem - {start_paddr (sv_host_save_area v)}"
proof -
  obtain m' s' v where n: "SvmVcpu_new sample_ext sample_svm_env list_alloc sample_linux
      (sample_machine, sample_mem) = ((m', s'), Ok v)"
    by (rule sample_svm_new)
  from svm_vcpu_new_frames[OF list_alloc_spec sample_mem_wf n]
  have "avail list_free s' = avail list_free sample_mem - {start_paddr (sv_host_save_area v)}"
    by (simp add: Let_def)
  with n show ?thesis by blast
qed


section \<open>Migration round trip\<close>

lemma contains_mask: "contains a b \<Longrightarrow> b AND a = b"
  by (simp add: contains_def and.commute)

lemma and_not_id: "a AND b = 0 \<Longrightarrow> a AND NOT b = (a :: u64)"
  and or_and_not_id: "a AND b = 0 \<Longrightarrow> (a OR b) AND NOT b = (a :: u64)"
proof -
  assume "a AND b = 0"
  then have "\<not> (bit a n \<and> bit b n)" for n
    by (metis bit_0_eq bit_and_iff bot_apply bot_bool_def)
  then show "a AND NOT b = a" "(a OR b) AND NOT b = a"
    by (auto intro!: bit_word_eqI simp: bit_and_iff bit_or_iff bit_not_iff)
qed

lemma load_vmcb_guest_setup:
  assumes "sv_save v = vmcb_setup_save m1 l (VmcbStateSaveArea_zeroed\<lparr>
      va_cr0 := lx_cr0 l AND NOT CR0_NOT_WRITE_THROUGH, va_cr4 := lx_cr4 l, va_cr3 := lx_cr3 l\<rparr>)"
    and "contains (x_cr0_all x) (lx_cr0 l)" "lx_cr0 l AND CR0_NOT_WRITE_THROUGH = 0"
    and "contains (x_cr4_all x) (lx_cr4 l)" "lx_efer l AND EFER_SECURE_VIRTUAL_MACHINE_ENABLE = 0"
    and "x_virt_new x (dt_base (lx_gdt l)) = Some (dt_base (lx_gdt l))"
      "x_virt_new x (dt_base (lx_idt l)) = Some (dt_base (lx_idt l))"
    and "m_fs m = seg_selector (lx_fs l)" "m_gs m = seg_selector (lx_gs l)" "m_tr m = seg_selector (lx_tss l)"
      "Msr_read MSR_IA32_FS_BASE m = seg_base (lx_fs l)"
  shows "load_vmcb_guest x v m l = Ok l"
proof -
  have lim: "ucast (ucast (n :: u16) AND 0xffff :: u32) = n" for n
  proof -
    have e: "(0xffff :: u32) = mask 16" by (simp add: mask_eq_exp_minus_1)
    show ?thesis unfolding e by (rule bit_word_eqI) (auto simp: bit_simps)
  qed
  show ?thesis
    unfolding load_vmcb_guest_def Let_def assms(1) vmcb_setup_save_def set_vmcb_segment_def set_vmcb_dtr_def
    using assms(2-) by (simp add: lim and_not_id or_and_not_id truncate_flags_def contains_mask)
qed


definition sample_guest_machine :: machine where
  "sample_guest_machine = sample_machine\<lparr>m_fs := seg_selector (lx_fs sample_linux),
     m_gs := seg_selector (lx_gs sample_linux), m_tr := seg_selector (lx_tss sample_linux),
     msr := (\<lambda>_. 0)(0xc0000100 := seg_base (lx_fs sample_linux))\<rparr>"


end
