(* ===== verification/Vmm.thy ===== *)
theory Vmm
  imports VmxVcpu SvmVcpu HvConfig
begin

text \<open>
  The handlers for VM exits and hypercalls: \<^verbatim>\<open>src/src/arch/x86_64/vmm.rs\<close>,
  \<^verbatim>\<open>src/src/arch/x86_64/intel/vmexit.rs\<close>, \<^verbatim>\<open>src/src/arch/x86_64/amd/vmexit.rs\<close> and
  \<^verbatim>\<open>src/src/hypercall/mod.rs\<close>, with the CPU data of \<^verbatim>\<open>src/src/percpu.rs\<close> they work on and the panic
  handler of \<^verbatim>\<open>src/src/lang.rs\<close>.

  The vendor's vCPU is a record of its operations, as the build selects one of two \<^verbatim>\<open>Vcpu\<close> types by a
  feature flag: \<open>vmx_ops\<close> and \<open>svm_ops\<close>. The handlers are written once over such a record. The locale
  \<open>vcpu\<close> states what they rely on, and both vendors' operations satisfy it.

  A call that does not come back to its caller, because the CPU has returned to Linux or spins
  forever, has the result \<open>None\<close>; the field \<open>pc_left\<close> records that the CPU is back in Linux.
\<close>


section \<open>Operations of a vCPU\<close>

type_synonym 'v vm = "machine \<times> 'v"

record 'v vcpu_ops =
  vo_regs :: "'v \<Rightarrow> GeneralRegisters"
  vo_set_regs :: "GeneralRegisters \<Rightarrow> 'v \<Rightarrow> 'v"
  vo_cr :: "nat \<Rightarrow> 'v vm \<Rightarrow> (u64, HvErrorNum) result"
  vo_advance_rip :: "u8 \<Rightarrow> 'v vm \<Rightarrow> 'v vm \<times> (unit, HvErrorNum) result"
  vo_inject_fault :: "'v vm \<Rightarrow> 'v vm \<times> (unit, HvErrorNum) result"
  vo_guest_is_privileged :: "'v vm \<Rightarrow> (bool, HvErrorNum) result"
  vo_in_hypercall :: "'v vm \<Rightarrow> (bool, HvErrorNum) result"
  vo_guest_page_table :: "'v vm \<Rightarrow> (phys_addr, HvErrorNum) result"
  vo_enter :: "LinuxContext \<Rightarrow> 'v vm \<Rightarrow> 'v vm \<times> (unit, HvErrorNum) result"
  vo_exit :: "'v vm \<times> LinuxContext \<Rightarrow> ('v vm \<times> LinuxContext) \<times> (unit, HvErrorNum) result"

text \<open>An operation on the machine alone, and one on the vCPU alone.\<close>

definition on_machine :: "(machine \<Rightarrow> machine \<times> 'r) \<Rightarrow> 'v vm \<Rightarrow> 'v vm \<times> 'r" where
  "on_machine f s = (case f (fst s) of (m, r) \<Rightarrow> ((m, snd s), r))"

definition on_vcpu :: "('v \<Rightarrow> 'v \<times> 'r) \<Rightarrow> 'v vm \<Rightarrow> 'v vm \<times> 'r" where
  "on_vcpu f s = (case f (snd s) of (v, r) \<Rightarrow> ((fst s, v), r))"

definition vmx_ops :: "ext \<Rightarrow> VmxVcpu vcpu_ops" where
  "vmx_ops x =
     \<lparr>vo_regs = vx_guest_regs, vo_set_regs = (\<lambda>r v. v\<lparr>vx_guest_regs := r\<rparr>),
      vo_cr = (\<lambda>i s. VmxVcpu_cr x i (fst s)),
      vo_advance_rip = (\<lambda>n. on_machine (VmxVcpu_advance_rip x n)),
      vo_inject_fault = on_machine (VmxVcpu_inject_fault x),
      vo_guest_is_privileged = (\<lambda>s. VmxVcpu_guest_is_privileged x (fst s)),
      vo_in_hypercall = (\<lambda>s. VmxVcpu_in_hypercall x (fst s)),
      vo_guest_page_table = (\<lambda>s. VmxVcpu_guest_page_table x (fst s)),
      vo_enter = VmxVcpu_enter x,
      vo_exit = (\<lambda>((m, v), l). case VmxVcpu_exit x v (m, l) of ((m, l), r) \<Rightarrow> (((m, v), l), r))\<rparr>"

definition svm_ops :: "ext \<Rightarrow> svm_env \<Rightarrow> SvmVcpu vcpu_ops" where
  "svm_ops x se =
     \<lparr>vo_regs = sv_guest_regs, vo_set_regs = (\<lambda>r v. v\<lparr>sv_guest_regs := r\<rparr>),
      vo_cr = (\<lambda>i s. SvmVcpu_cr i (snd s)),
      vo_advance_rip = (\<lambda>n. on_vcpu (SvmVcpu_advance_rip n)),
      vo_inject_fault = on_vcpu SvmVcpu_inject_fault,
      vo_guest_is_privileged = (\<lambda>s. Ok (SvmVcpu_guest_is_privileged (snd s))),
      vo_in_hypercall = (\<lambda>s. Ok (SvmVcpu_in_hypercall (snd s))),
      vo_guest_page_table = (\<lambda>s. Ok (SvmVcpu_guest_page_table (snd s))),
      vo_enter = SvmVcpu_enter se,
      vo_exit = (\<lambda>((m, v), l). case SvmVcpu_exit x v (m, l) of ((m, l), r) \<Rightarrow> (((m, v), l), r))\<rparr>"


section \<open>Exits that emulate an instruction\<close>

definition VM_EXIT_LEN_CPUID :: u8 where "VM_EXIT_LEN_CPUID = 2"
definition VM_EXIT_LEN_RDMSR :: u8 where "VM_EXIT_LEN_RDMSR = 2"
definition VM_EXIT_LEN_WRMSR :: u8 where "VM_EXIT_LEN_WRMSR = 2"
definition VM_EXIT_LEN_HYPERCALL :: u8 where "VM_EXIT_LEN_HYPERCALL = 3"

definition handle_msr_read :: "'v vcpu_ops \<Rightarrow> 'v vm \<Rightarrow> 'v vm \<times> (unit, HvErrorNum) result" where
  "handle_msr_read ops s =
     (let (m, v) = s; r = vo_regs ops v in
      vo_advance_rip ops VM_EXIT_LEN_RDMSR (m, vo_set_regs ops (r\<lparr>rax := 0, rdx := 0\<rparr>) v))"

definition handle_msr_write :: "'v vcpu_ops \<Rightarrow> 'v vm \<Rightarrow> 'v vm \<times> (unit, HvErrorNum) result" where
  "handle_msr_write ops s = vo_advance_rip ops VM_EXIT_LEN_WRMSR s"

text \<open>Word \<open>i\<close> of the bytes of the signature string, on a little-endian processor.\<close>

definition cpuid_signature :: "nat \<Rightarrow> u32" where
  "cpuid_signature i =
     (let b = (\<lambda>k. of_char (''RVMRVMRVMRVM'' ! (4 * i + k)) :: u32) in
      b 0 OR push_bit 8 (b 1) OR push_bit 16 (b 2) OR push_bit 24 (b 3))"

text \<open>The general registers after the emulated CPUID instruction.\<close>

definition cpuid_regs :: "ext \<Rightarrow> u64 \<Rightarrow> GeneralRegisters \<Rightarrow> GeneralRegisters" where
  "cpuid_regs x cr4_flags r =
     (let function = ucast (rax r) :: u32 in
      if function = cpuid_eax_val CPUID_HypervisorInfo then
        r\<lparr>rax := ucast (cpuid_eax_val CPUID_HypervisorFeatures), rbx := ucast (cpuid_signature 0),
          rcx := ucast (cpuid_signature 1), rdx := ucast (cpuid_signature 2)\<rparr>
      else if function = cpuid_eax_val CPUID_HypervisorFeatures then
        r\<lparr>rax := 0, rbx := 0, rcx := 0, rdx := 0\<rparr>
      else
        let res = x_cpuid x (ucast (rax r)) (ucast (rcx r));
            r = r\<lparr>rax := ucast (cpuid_eax res), rbx := ucast (cpuid_ebx res),
                  rcx := ucast (cpuid_ecx res), rdx := ucast (cpuid_edx res)\<rparr> in
        if function = cpuid_eax_val CPUID_FeatureInfo then
          let flags = truncate_flags FeatureInfoFlags_all (rcx r);
              flags = (if contains cr4_flags CR4_OSXSAVE then flags OR feature_info_bits FI_OSXSAVE else flags);
              flags = flags AND NOT (feature_info_bits FI_VMX);
              flags = flags OR feature_info_bits FI_HYPERVISOR in
          r\<lparr>rcx := flags\<rparr>
        else if function = cpuid_eax_val CPUID_AmdFeatureInfo then
          let flags = truncate_flags FeatureInfoFlags_all (rcx r) in
          r\<lparr>rcx := flags AND NOT (feature_info_bits FI_SVM)\<rparr>
        else r)"

definition handle_cpuid :: "ext \<Rightarrow> 'v vcpu_ops \<Rightarrow> 'v vm \<Rightarrow> 'v vm \<times> (unit, HvErrorNum) result" where
  "handle_cpuid x ops s =
     (case vo_cr ops 4 s of
        Ok cr4 \<Rightarrow>
          let (m, v) = s; r = cpuid_regs x (truncate_flags (x_cr4_all x) cr4) (vo_regs ops v) in
          vo_advance_rip ops VM_EXIT_LEN_CPUID (m, vo_set_regs ops r v)
      | Err e \<Rightarrow> (s, Err e)
      | Panic \<Rightarrow> (s, Panic))"


section \<open>CPU data\<close>

datatype CpuState = HvDisabled | HvEnabled

record 'v PerCpu =
  pc_self_vaddr :: virt_addr
  pc_id :: u32
  pc_state :: CpuState
  pc_vcpu :: 'v
  pc_linux :: LinuxContext
  pc_m :: machine
  pc_left :: bool

text \<open>The counters that all CPUs share.\<close>

record statics =
  ENTERED_CPUS :: u32
  ACTIVATED_CPUS :: u32
  TRY_DISABLE_CPUS :: u32

type_synonym 'v node = "statics \<times> 'v PerCpu"

definition PerCpu_stack_top :: "'v PerCpu \<Rightarrow> virt_addr" where
  "PerCpu_stack_top c = pc_self_vaddr c + PER_CPU_SIZE - 8"

abbreviation pc_vm :: "'v PerCpu \<Rightarrow> 'v vm" where
  "pc_vm c \<equiv> (pc_m c, pc_vcpu c)"

definition on_vm :: "('v vm \<Rightarrow> 'v vm \<times> 'r) \<Rightarrow> 'v PerCpu \<Rightarrow> 'v PerCpu \<times> 'r" where
  "on_vm f c = (case f (pc_vm c) of ((m, v), r) \<Rightarrow> (c\<lparr>pc_m := m, pc_vcpu := v\<rparr>, r))"

definition PerCpu_fault :: "'v vcpu_ops \<Rightarrow> 'v PerCpu \<Rightarrow> 'v PerCpu \<times> (unit, HvErrorNum) result" where
  "PerCpu_fault ops = on_vm (vo_inject_fault ops)"

definition set_return_val :: "'v vcpu_ops \<Rightarrow> usize \<Rightarrow> 'v PerCpu \<Rightarrow> 'v PerCpu" where
  "set_return_val ops ret_val c =
     c\<lparr>pc_vcpu := vo_set_regs ops ((vo_regs ops (pc_vcpu c))\<lparr>rax := ret_val\<rparr>) (pc_vcpu c)\<rparr>"

definition activate_vmm :: "'v vcpu_ops \<Rightarrow> 'v node \<Rightarrow> 'v node \<times> (unit, HvErrorNum) result option" where
  "activate_vmm ops n =
     (let (g, c) = n; g = g\<lparr>ACTIVATED_CPUS := ACTIVATED_CPUS g + 1\<rparr> in
      case on_vm (vo_enter ops (pc_linux c)) c of
        (c, Ok _) \<Rightarrow> ((g, c), None)
      | (c, Err e) \<Rightarrow> ((g, c), Some (Err e))
      | (c, Panic) \<Rightarrow> ((g, c), Some Panic))"

definition deactivate_vmm ::
  "ext \<Rightarrow> 'v vcpu_ops \<Rightarrow> usize \<Rightarrow> 'v node \<Rightarrow> 'v node \<times> (unit, HvErrorNum) result option" where
  "deactivate_vmm x ops ret_code n =
     (let (g, c) = n;
          g = g\<lparr>ACTIVATED_CPUS := ACTIVATED_CPUS g - 1\<rparr>;
          c = set_return_val ops ret_code c in
      case vo_exit ops (pc_vm c, pc_linux c) of
        (((m, v), l), Ok _) \<Rightarrow>
          (case LinuxContext_restore x l m of
             (m, Ok _) \<Rightarrow>
               ((g, c\<lparr>pc_m := LinuxContext_return_to_linux l m, pc_vcpu := v, pc_linux := l,
                      pc_state := HvDisabled, pc_left := True\<rparr>), None)
           | (m, Err e) \<Rightarrow> ((g, c\<lparr>pc_m := m, pc_vcpu := v, pc_linux := l\<rparr>), Some (Err e))
           | (m, Panic) \<Rightarrow> ((g, c\<lparr>pc_m := m, pc_vcpu := v, pc_linux := l\<rparr>), Some Panic))
      | (((m, v), l), Err e) \<Rightarrow> ((g, c\<lparr>pc_m := m, pc_vcpu := v, pc_linux := l\<rparr>), Some (Err e))
      | (((m, v), l), Panic) \<Rightarrow> ((g, c\<lparr>pc_m := m, pc_vcpu := v, pc_linux := l\<rparr>), Some Panic))"


section \<open>Hypercalls\<close>

datatype HyperCallCode = HypervisorDisable

primrec hypercall_code_val :: "HyperCallCode \<Rightarrow> u32" where
  "hypercall_code_val HypervisorDisable = 0"

definition HyperCallCode_try_from :: "u32 \<Rightarrow> HyperCallCode option" where
  "HyperCallCode_try_from v = (if v = 0 then Some HypervisorDisable else None)"

definition HyperCallCode_is_privileged :: "HyperCallCode \<Rightarrow> bool" where
  "HyperCallCode_is_privileged c \<longleftrightarrow> get_bits (hypercall_code_val c) 30 32 = 0"

text \<open>
  The barrier: \<open>loads i\<close> is the value the \<open>i\<close>-th load of \<^verbatim>\<open>TRY_DISABLE_CPUS\<close> returns, which depends on
  the other CPUs. \<open>None\<close> is a loop that never ends.
\<close>

partial_function (option) spin_until :: "(nat \<Rightarrow> u32) \<Rightarrow> u32 \<Rightarrow> nat \<Rightarrow> unit option" where
  "spin_until loads cpus i = (if loads i < cpus then spin_until loads cpus (Suc i) else Some ())"

definition hypervisor_disable ::
  "ext \<Rightarrow> 'v vcpu_ops \<Rightarrow> (nat \<Rightarrow> u32) \<Rightarrow> 'v node \<Rightarrow> 'v node \<times> (unit, HvErrorNum) result option" where
  "hypervisor_disable x ops loads n =
     (let (g, c) = n; cpus = ACTIVATED_CPUS g; g = g\<lparr>TRY_DISABLE_CPUS := TRY_DISABLE_CPUS g + 1\<rparr> in
      case spin_until loads cpus 0 of
        None \<Rightarrow> ((g, c), None)
      | Some _ \<Rightarrow> deactivate_vmm x ops 0 (g, c))"

definition fault_ok :: "'v vcpu_ops \<Rightarrow> 'v node \<Rightarrow> 'v node \<times> (unit, HvErrorNum) result option" where
  "fault_ok ops n = (let (g, c) = n in case PerCpu_fault ops c of (c, r) \<Rightarrow> ((g, c), Some r))"

definition hypercall ::
  "ext \<Rightarrow> 'v vcpu_ops \<Rightarrow> (nat \<Rightarrow> u32) \<Rightarrow> u32 \<Rightarrow> u64 \<Rightarrow> u64 \<Rightarrow> 'v node
     \<Rightarrow> 'v node \<times> (unit, HvErrorNum) result option" where
  "hypercall x ops loads code arg0 arg1 n =
     (case HyperCallCode_try_from code of
        None \<Rightarrow> (n, Some (Ok ()))
      | Some hc \<Rightarrow>
     (case vo_guest_is_privileged ops (pc_vm (snd n)) of
        Err e \<Rightarrow> (n, Some (Err e))
      | Panic \<Rightarrow> (n, Some Panic)
      | Ok privileged \<Rightarrow>
     if privileged \<noteq> HyperCallCode_is_privileged hc then fault_ok ops n
     else
       case (case hc of HypervisorDisable \<Rightarrow> hypervisor_disable x ops loads n) of
         (n, None) \<Rightarrow> (n, None)
       | (n, Some Panic) \<Rightarrow> (n, Some Panic)
       | (n, Some (Ok _)) \<Rightarrow> (n, Some Panic)
       | ((g, c), Some (Err e)) \<Rightarrow>
           if \<not> HyperCallCode_is_privileged hc then fault_ok ops (g, c)
           else ((g, set_return_val ops (code_as_usize e) c), Some (Ok ()))))"

definition handle_hypercall ::
  "ext \<Rightarrow> 'v vcpu_ops \<Rightarrow> (nat \<Rightarrow> u32) \<Rightarrow> 'v node \<Rightarrow> 'v node \<times> (unit, HvErrorNum) result option" where
  "handle_hypercall x ops loads n =
     (let (g, c) = n in
      case on_vm (vo_advance_rip ops VM_EXIT_LEN_HYPERCALL) c of
        (c, Err e) \<Rightarrow> ((g, c), Some (Err e))
      | (c, Panic) \<Rightarrow> ((g, c), Some Panic)
      | (c, Ok _) \<Rightarrow>
     let r = vo_regs ops (pc_vcpu c) in
     case vo_guest_page_table ops (pc_vm c) of
        Ok _ \<Rightarrow> hypercall x ops loads (ucast (rax r)) (rdi r) (rsi r) (g, c)
      | Err e \<Rightarrow> ((g, c), Some (Err e))
      | Panic \<Rightarrow> ((g, c), Some Panic))"


section \<open>Dispatch on Intel processors\<close>

text \<open>A handler that works on the vCPU of a CPU.\<close>

definition lift_vm :: "('v vm \<Rightarrow> 'v vm \<times> (unit, HvErrorNum) result) \<Rightarrow> 'v node
    \<Rightarrow> 'v node \<times> (unit, HvErrorNum) result option" where
  "lift_vm f n = (let (g, c) = n in case on_vm f c of (c, r) \<Rightarrow> ((g, c), Some r))"

text \<open>
  An NMI is delivered to the hypervisor's own handler by \<^verbatim>\<open>int 2\<close>, which only logs; every other
  exception is logged and ignored.
\<close>

definition vmx_handle_exception_nmi :: "ext \<Rightarrow> VmExitInfo \<Rightarrow> 'v vm \<Rightarrow> 'v vm \<times> (unit, HvErrorNum) result" where
  "vmx_handle_exception_nmi x exit_info =
     on_machine (\<lambda>m. st_then (to_hv x (m, ExitInterruptInfo_new x m)) (\<lambda>m intr_info. (m, Ok ())))"

definition vmx_handle_ept_violation :: "ext \<Rightarrow> VmExitInfo \<Rightarrow> 'v vm \<Rightarrow> 'v vm \<times> (unit, HvErrorNum) result" where
  "vmx_handle_ept_violation x exit_info =
     on_machine (\<lambda>m. st_then (to_hv x (m, EptViolationInfo_new x m)) (\<lambda>m ept_vio_info. (m, Err ENOSYS)))"

definition vmx_handle_exit :: "ext \<Rightarrow> (nat \<Rightarrow> u32) \<Rightarrow> VmxVcpu node
    \<Rightarrow> VmxVcpu node \<times> (unit, HvErrorNum) result option" where
  "vmx_handle_exit x loads n =
     (let ops = vmx_ops x in
      case to_hv x (pc_m (snd n), VmExitInfo_new x (pc_m (snd n))) of
        (m, Err e) \<Rightarrow> (n, Some (Err e))
      | (m, Panic) \<Rightarrow> (n, Some Panic)
      | (m, Ok exit_info) \<Rightarrow>
     if entry_failure exit_info then (n, Some Panic)
     else (case exit_reason exit_info of
        XR_EXCEPTION_NMI \<Rightarrow> lift_vm (vmx_handle_exception_nmi x exit_info) n
      | XR_CPUID \<Rightarrow> lift_vm (handle_cpuid x ops) n
      | XR_VMCALL \<Rightarrow> handle_hypercall x ops loads n
      | XR_MSR_READ \<Rightarrow> lift_vm (handle_msr_read ops) n
      | XR_MSR_WRITE \<Rightarrow> lift_vm (handle_msr_write ops) n
      | XR_EPT_VIOLATION \<Rightarrow> lift_vm (vmx_handle_ept_violation x exit_info) n
      | XR_TRIPLE_FAULT \<Rightarrow> lift_vm (vo_inject_fault ops) n
      | _ \<Rightarrow> (n, Some (Err ENOSYS))))"


section \<open>Dispatch on AMD processors\<close>

definition svm_handle_exit :: "ext \<Rightarrow> svm_env \<Rightarrow> (nat \<Rightarrow> u32) \<Rightarrow> SvmVcpu node
    \<Rightarrow> SvmVcpu node \<times> (unit, HvErrorNum) result option" where
  "svm_handle_exit x se loads n =
     (let ops = svm_ops x se; (g, c) = n; v = pc_vcpu c;
          v = v\<lparr>sv_guest_regs := (sv_guest_regs v)\<lparr>rax := va_rax (sv_save v)\<rparr>\<rparr>;
          v = upd_control (\<lambda>a. a\<lparr>vc_clean_bits := clean_bits_val CLEAN_UNMODIFIED\<rparr>) v;
          exit_info = SvmExitInfo_new (sv_vmcb v);
          n = (g, c\<lparr>pc_vcpu := v\<rparr>) in
      case sx_exit_code exit_info of
        Err code \<Rightarrow> (n, Some (Err EIO))
      | Panic \<Rightarrow> (n, Some Panic)
      | Ok exit_code \<Rightarrow>
     (case (case exit_code of
        SX_INVALID \<Rightarrow> (n, Some Panic)
      | SX_EXCP vec \<Rightarrow> (n, Some (Ok ()))
      | SX_NMI \<Rightarrow> (n, Some (Ok ()))
      | SX_CPUID \<Rightarrow> lift_vm (handle_cpuid x ops) n
      | SX_VMMCALL \<Rightarrow> handle_hypercall x ops loads n
      | SX_NPF \<Rightarrow> (n, Some (Err ENOSYS))
      | SX_MSR \<Rightarrow>
          if sx_exit_info_1 exit_info = 0 then lift_vm (handle_msr_read ops) n
          else if sx_exit_info_1 exit_info = 1 then lift_vm (handle_msr_write ops) n
          else (n, Some (Err EIO))
      | SX_SHUTDOWN \<Rightarrow> lift_vm (vo_inject_fault ops) n
      | _ \<Rightarrow> (n, Some (Err ENOSYS))) of
        (n, None) \<Rightarrow> (n, None)
      | (n, Some Panic) \<Rightarrow> (n, Some Panic)
      | ((g, c), Some r) \<Rightarrow>
          ((g, c\<lparr>pc_vcpu := upd_save (\<lambda>a. a\<lparr>va_rax := rax (sv_guest_regs (pc_vcpu c))\<rparr>) (pc_vcpu c)\<rparr>), Some r)))"


section \<open>The handler\<close>

text \<open>\<^verbatim>\<open>vmexit_handler\<close>, over the vendor's \<^verbatim>\<open>handle_exit\<close>: an error injects a fault, which must not fail.\<close>

definition vmexit_handler :: "'v vcpu_ops \<Rightarrow> ('v node \<Rightarrow> 'v node \<times> (unit, HvErrorNum) result option)
    \<Rightarrow> 'v node \<Rightarrow> 'v node \<times> (unit, HvErrorNum) result option" where
  "vmexit_handler ops handle_exit n =
     (case handle_exit n of
        (n, Some (Err e)) \<Rightarrow>
          (case fault_ok ops n of (n, Some (Ok _)) \<Rightarrow> (n, Some (Ok ())) | (n, _) \<Rightarrow> (n, Some Panic))
      | r \<Rightarrow> r)"

text \<open>The panic handler leaves the virtual machine if there is one, and then stops the CPU.\<close>

definition try_handle_panic :: "ext \<Rightarrow> 'v vcpu_ops \<Rightarrow> 'v node \<Rightarrow> 'v node \<times> (unit, HvErrorNum) result option" where
  "try_handle_panic x ops n =
     (case (if pc_state (snd n) \<noteq> HvDisabled then vo_in_hypercall ops (pc_vm (snd n)) else Ok False) of
        Ok b \<Rightarrow>
          let ret_code = (if b then code_as_usize EIO else 0) in
          (case pc_state (snd n) of
             HvEnabled \<Rightarrow> deactivate_vmm x ops ret_code n
           | HvDisabled \<Rightarrow> (n, Some (Err EIO)))
      | Err e \<Rightarrow> (n, Some (Err e))
      | Panic \<Rightarrow> (n, Some Panic))"

definition panic_handler :: "ext \<Rightarrow> 'v vcpu_ops \<Rightarrow> 'v node \<Rightarrow> 'v node" where
  "panic_handler x ops n = fst (try_handle_panic x ops n)"

end
