(* ===== verification/VmmProps.thy ===== *)
theory VmmProps
  imports Vmm
begin

text \<open>
  Properties of the exit handlers. The locale \<open>vcpu\<close> is the contract between the handlers of
  \<^verbatim>\<open>vmm.rs\<close> and the vendor's vCPU; the handlers are verified against it once, and it is interpreted for
  the Intel and the AMD operations.
\<close>


section \<open>What the handlers rely on\<close>

text \<open>
  \<open>ready\<close> holds when the vCPU's operations can work, \<open>rip\<close> is the guest's instruction pointer, \<open>pending\<close>
  says that a general-protection fault awaits the guest, and \<open>keep\<close> is everything that neither the
  registers, the instruction pointer nor an injected event are part of.
\<close>

locale vcpu =
  fixes ops :: "'v vcpu_ops" and ready :: "'v vm \<Rightarrow> bool" and rip :: "'v vm \<Rightarrow> u64"
    and pending :: "'v vm \<Rightarrow> bool" and keep :: "'v vm \<Rightarrow> 'k"
  assumes regs_set: "vo_regs ops (vo_set_regs ops r v) = r"
    and set_regs: "ready (m, v) \<Longrightarrow> ready (m, vo_set_regs ops r v) \<and>
      rip (m, vo_set_regs ops r v) = rip (m, v) \<and> keep (m, vo_set_regs ops r v) = keep (m, v)"
    and advance: "ready s \<Longrightarrow> \<exists>s'. vo_advance_rip ops n s = (s', Ok ()) \<and> ready s' \<and>
      rip s' = rip s + ucast n \<and> vo_regs ops (snd s') = vo_regs ops (snd s) \<and> keep s' = keep s"
    and inject: "ready s \<Longrightarrow> \<exists>s'. vo_inject_fault ops s = (s', Ok ()) \<and> ready s' \<and> pending s' \<and>
      rip s' = rip s \<and> vo_regs ops (snd s') = vo_regs ops (snd s) \<and> keep s' = keep s"
    and cr4: "ready s \<Longrightarrow> \<exists>c. vo_cr ops 4 s = Ok c"
    and page_table: "ready s \<Longrightarrow> \<exists>p. vo_guest_page_table ops s = Ok p"
    and privileged: "ready s \<Longrightarrow> \<exists>b. vo_guest_is_privileged ops s = Ok b"
    and privileged_keep: "ready s \<Longrightarrow> ready s' \<Longrightarrow> keep s' = keep s \<Longrightarrow>
      vo_guest_is_privileged ops s' = vo_guest_is_privileged ops s"

text \<open>The virtual machine goes on, \<open>n\<close> bytes further.\<close>

definition vm_steps :: "('v vm \<Rightarrow> bool) \<Rightarrow> ('v vm \<Rightarrow> u64) \<Rightarrow> ('v vm \<Rightarrow> 'k) \<Rightarrow> 'v vm \<Rightarrow> u64 \<Rightarrow> 'v vm \<Rightarrow> bool" where
  "vm_steps ready rip keep s n s' \<longleftrightarrow> ready s' \<and> keep s' = keep s \<and> rip s' = rip s + n"

text \<open>Two states of a CPU that differ in its virtual machine only.\<close>

definition same_cpu :: "'v PerCpu \<Rightarrow> 'v PerCpu \<Rightarrow> bool" where
  "same_cpu c c' \<longleftrightarrow> c' = c\<lparr>pc_m := pc_m c', pc_vcpu := pc_vcpu c'\<rparr>"

lemma same_cpu_upd [simp]: "same_cpu c (c\<lparr>pc_m := m, pc_vcpu := v\<rparr>)"
  by (simp add: same_cpu_def)

lemma same_cpu_refl [simp]: "same_cpu c c"
  by (simp add: same_cpu_def)

lemma same_cpu_trans: "same_cpu a b \<Longrightarrow> same_cpu b c \<Longrightarrow> same_cpu a c"
  by (cases a, cases b, cases c) (simp add: same_cpu_def)

context vcpu
begin

lemma cpuid_step:
  assumes "ready (m, v)"
  shows "\<exists>cr4 s'. vo_cr ops 4 (m, v) = Ok cr4 \<and> handle_cpuid x ops (m, v) = (s', Ok ()) \<and>
    vm_steps ready rip keep (m, v) 2 s' \<and> vo_regs ops (snd s') = cpuid_regs x (truncate_flags (x_cr4_all x) cr4) (vo_regs ops v)"
proof -
  obtain c where c: "vo_cr ops 4 (m, v) = Ok c" using cr4 assms by blast
  let ?r = "cpuid_regs x (truncate_flags (x_cr4_all x) c) (vo_regs ops v)"
  obtain s' where "vo_advance_rip ops VM_EXIT_LEN_CPUID (m, vo_set_regs ops ?r v) = (s', Ok ())" "ready s'"
    "rip s' = rip (m, v) + 2" "vo_regs ops (snd s') = ?r" "keep s' = keep (m, v)"
    using advance[of "(m, vo_set_regs ops ?r v)" VM_EXIT_LEN_CPUID] set_regs[OF assms, of ?r]
    by (auto simp: VM_EXIT_LEN_CPUID_def regs_set)
  with c show ?thesis by (simp add: handle_cpuid_def vm_steps_def)
qed

lemma msr_read_step:
  assumes "ready (m, v)"
  shows "\<exists>s'. handle_msr_read ops (m, v) = (s', Ok ()) \<and> vm_steps ready rip keep (m, v) 2 s' \<and>
    vo_regs ops (snd s') = (vo_regs ops v)\<lparr>rax := 0, rdx := 0\<rparr>"
  using advance[of "(m, vo_set_regs ops ((vo_regs ops v)\<lparr>rax := 0, rdx := 0\<rparr>) v)" VM_EXIT_LEN_RDMSR]
    set_regs[OF assms]
  by (auto simp: VM_EXIT_LEN_RDMSR_def regs_set handle_msr_read_def vm_steps_def)

lemma msr_write_step:
  "ready s \<Longrightarrow> \<exists>s'. handle_msr_write ops s = (s', Ok ()) \<and> vm_steps ready rip keep s 2 s' \<and>
    vo_regs ops (snd s') = vo_regs ops (snd s)"
  using advance[of s VM_EXIT_LEN_WRMSR] by (auto simp: VM_EXIT_LEN_WRMSR_def handle_msr_write_def vm_steps_def)

lemma fault_step:
  assumes "ready (pc_vm c)"
  shows "\<exists>c'. fault_ok ops (g, c) = ((g, c'), Some (Ok ())) \<and> same_cpu c c' \<and>
    vm_steps ready rip keep (pc_vm c) 0 (pc_vm c') \<and> pending (pc_vm c')"
proof -
  obtain m v where "vo_inject_fault ops (pc_vm c) = ((m, v), Ok ())" "ready (m, v)" "pending (m, v)"
    "rip (m, v) = rip (pc_vm c)" "keep (m, v) = keep (pc_vm c)"
    using inject[OF assms] by fastforce
  then show ?thesis
    by (auto simp: fault_ok_def PerCpu_fault_def on_vm_def vm_steps_def)
qed

lemma lift_step:
  assumes "f (pc_vm c) = (s', r)"
  shows "lift_vm f (g, c) = ((g, c\<lparr>pc_m := fst s', pc_vcpu := snd s'\<rparr>), Some r)"
  using assms by (cases s') (simp add: lift_vm_def on_vm_def)

text \<open>A hypercall other than a privileged disable only moves past the instruction.\<close>

lemma hypercall_step:
  assumes "ready (pc_vm c)"
    and "\<not> ((ucast (rax (vo_regs ops (pc_vcpu c))) :: u32) = 0 \<and>
      vo_guest_is_privileged ops (pc_vm c) = Ok True)"
  shows "\<exists>c'. handle_hypercall x ops loads (g, c) = ((g, c'), Some (Ok ())) \<and> same_cpu c c' \<and>
    vm_steps ready rip keep (pc_vm c) 3 (pc_vm c')"
proof -
  obtain m v where a: "vo_advance_rip ops VM_EXIT_LEN_HYPERCALL (pc_vm c) = ((m, v), Ok ())" "ready (m, v)"
    "rip (m, v) = rip (pc_vm c) + 3" "vo_regs ops v = vo_regs ops (pc_vcpu c)" "keep (m, v) = keep (pc_vm c)"
    using advance[OF assms(1), of VM_EXIT_LEN_HYPERCALL] by (auto simp: VM_EXIT_LEN_HYPERCALL_def)
  let ?c = "c\<lparr>pc_m := m, pc_vcpu := v\<rparr>"
  obtain p where p: "vo_guest_page_table ops (m, v) = Ok p" using page_table a(2) by blast
  obtain b where b: "vo_guest_is_privileged ops (m, v) = Ok b" using privileged a(2) by blast
  then have b': "vo_guest_is_privileged ops (pc_vm c) = Ok b"
    using privileged_keep[OF assms(1) a(2) a(5)] by simp
  let ?code = "ucast (rax (vo_regs ops (pc_vcpu c))) :: u32"
  have h: "handle_hypercall x ops loads (g, c)
      = hypercall x ops loads ?code (rdi (vo_regs ops v)) (rsi (vo_regs ops v)) (g, ?c)"
    using a(1,4) p by (simp add: handle_hypercall_def on_vm_def Let_def)
  show ?thesis
  proof (cases "?code = 0")
    case False
    then show ?thesis
      using h a by (auto simp: hypercall_def HyperCallCode_try_from_def vm_steps_def)
  next
    case True
    then have "b = False" using assms(2) b' by auto
    then have "hypercall x ops loads ?code (rdi (vo_regs ops v)) (rsi (vo_regs ops v)) (g, ?c)
        = fault_ok ops (g, ?c)"
      using b True by (simp add: hypercall_def HyperCallCode_try_from_def HyperCallCode_is_privileged_def get_bits_def)
    with h fault_step[of ?c g] a show ?thesis
      by (auto simp: vm_steps_def intro: same_cpu_trans[OF same_cpu_upd])
  qed
qed

text \<open>The handler turns an error into a fault for the guest.\<close>

lemma handler_err:
  assumes "handle_exit (g, c) = ((g, c'), Some (Err e))" "same_cpu c c'" "ready (pc_vm c')"
  shows "\<exists>c''. vmexit_handler ops handle_exit (g, c) = ((g, c''), Some (Ok ())) \<and> same_cpu c c'' \<and>
    vm_steps ready rip keep (pc_vm c') 0 (pc_vm c'') \<and> pending (pc_vm c'')"
  using fault_step[OF assms(3), of g] assms(1,2)
  by (auto simp: vmexit_handler_def intro: same_cpu_trans)

lemma handler_ok:
  "handle_exit (g, c) = (n, Some (Ok ())) \<Longrightarrow> vmexit_handler ops handle_exit (g, c) = (n, Some (Ok ()))"
  by (simp add: vmexit_handler_def)

end


section \<open>The Intel operations satisfy the contract\<close>

text \<open>The event word for a general-protection fault: valid, with error code, hardware exception 13.\<close>

definition gp_event :: u32 where "gp_event = 0x80000b0d"

definition vmx_ready :: "ext \<Rightarrow> VmxVcpu vm \<Rightarrow> bool" where
  "vmx_ready x s \<longleftrightarrow> vmx_ok x \<and> vmcs_cur (fst s) \<noteq> None"

abbreviation vmx_field :: "VmxVcpu vm \<Rightarrow> u32 \<Rightarrow> u64" where
  "vmx_field s \<equiv> vmcs_data (fst s) (the (vmcs_cur (fst s)))"

definition vmx_rip :: "VmxVcpu vm \<Rightarrow> u64" where
  "vmx_rip s = vmx_field s (g64_enc G64_RIP)"

definition vmx_pending :: "VmxVcpu vm \<Rightarrow> bool" where
  "vmx_pending s \<longleftrightarrow> vmx_field s (c32_enc C32_VM_ENTRY_INTR_INFO_FIELD) = ucast gp_event \<and>
     vmx_field s (c32_enc C32_VM_ENTRY_EXCEPTION_ERROR_CODE) = 0"

definition vmx_volatile :: "u32 set" where
  "vmx_volatile = {g64_enc G64_RIP, c32_enc C32_VM_ENTRY_INTR_INFO_FIELD,
     c32_enc C32_VM_ENTRY_EXCEPTION_ERROR_CODE}"

definition vmx_keep :: "VmxVcpu vm \<Rightarrow> VmxVcpu vm" where
  "vmx_keep s = (case s of (m, v) \<Rightarrow>
     (m\<lparr>vmcs_data := (\<lambda>p f. if f \<in> vmx_volatile then 0 else vmcs_data m p f)\<rparr>,
      v\<lparr>vx_guest_regs := GeneralRegisters_default\<rparr>))"

lemma vmx_keep_put:
  assumes "fst ` set ws \<subseteq> vmx_volatile"
  shows "vmx_keep (vmcs_put p ws m, v) = vmx_keep (m, v)"
proof -
  have "f \<notin> vmx_volatile \<Longrightarrow> map_of (rev ws) f = None" for f
    using assms by (auto simp: map_of_eq_None_iff)
  then have "(\<lambda>q f. if f \<in> vmx_volatile then 0 else vmcs_data (vmcs_put p ws m) q f)
      = (\<lambda>q f. if f \<in> vmx_volatile then 0 else vmcs_data m q f)"
    by (intro ext) (auto simp: vmcs_put_def fold_upd_map_of split: option.splits)
  then have "m\<lparr>vmcs_data := (\<lambda>q f. if f \<in> vmx_volatile then 0 else vmcs_data (vmcs_put p ws m) q f)\<rparr>
      = m\<lparr>vmcs_data := (\<lambda>q f. if f \<in> vmx_volatile then 0 else vmcs_data m q f)\<rparr>"
    by (rule arg_cong)
  then show ?thesis
    by (simp add: vmx_keep_def) (simp add: vmcs_put_def)
qed

lemma vmx_advance:
  assumes "vmx_ok x" "vmcs_cur m = Some p"
  shows "VmxVcpu_advance_rip x n m =
    (vmcs_put p [(g64_enc G64_RIP, vmcs_data m p (g64_enc G64_RIP) + ucast n)] m, Ok ())"
  using assms by (simp add: VmxVcpu_advance_rip_def w64_def vmcs_run)

lemma gp_info: "InterruptInfo_from_vector (exception_vector E_GeneralProtectionFault) = Some gp_event"
  "is_soft (intr_type gp_event) = False" "contains gp_event (intr_info_bits II_ERROR_CODE)"
  by (simp_all add: InterruptInfo_from_vector_def InterruptType_from_vector_def set_bits_range_def
      has_error_code_def gp_event_def intr_type_def get_bits_def is_soft_def contains_def mask_eq_exp_minus_1)

lemma vmx_inject:
  assumes "vmx_ok x" "vmcs_cur m = Some p"
  shows "VmxVcpu_inject_fault x m = (vmcs_put p [(c32_enc C32_VM_ENTRY_EXCEPTION_ERROR_CODE, 0),
    (c32_enc C32_VM_ENTRY_INTR_INFO_FIELD, ucast gp_event)] m, Ok ())"
  using assms unfolding VmxVcpu_inject_fault_def Vmcs_inject_interrupt_def gp_info option.case
  by (simp add: vmcs_run gp_info del: intr_info_bits.simps c32_enc.simps r32_enc.simps)

interpretation vmx: vcpu "vmx_ops x" "vmx_ready x" vmx_rip vmx_pending vmx_keep for x
proof (unfold_locales, goal_cases)
  case (1 r v)
  then show ?case by (simp add: vmx_ops_def)
next
  case (2 m v r)
  then show ?case by (simp add: vmx_ops_def vmx_ready_def vmx_rip_def vmx_keep_def)
next
  case (3 s n)
  then obtain m v p where s: "s = (m, v)" "vmx_ok x" "vmcs_cur m = Some p" 
    by (cases s) (auto simp: vmx_ready_def)
  then show ?case
    by (simp add: vmx_ops_def vmx_ready_def on_machine_def vmx_advance vmx_rip_def vmx_volatile_def
        vmx_keep_put) (simp add: vmcs_put_def)
next
  case (4 s)
  then obtain m v p where s: "s = (m, v)" "vmx_ok x" "vmcs_cur m = Some p" 
    by (cases s) (auto simp: vmx_ready_def)
  then show ?case
    by (simp add: vmx_ops_def vmx_ready_def on_machine_def vmx_inject vmx_rip_def vmx_volatile_def
        vmx_keep_put vmx_pending_def) (simp add: vmcs_put_def)
next
  case (5 s)
  then show ?case by (auto simp: vmx_ops_def vmx_ready_def VmxVcpu_cr_def vmcs_run)
next
  case (6 s)
  then show ?case by (auto simp: vmx_ops_def vmx_ready_def VmxVcpu_guest_page_table_def VmxVcpu_cr_def vmcs_run)
next
  case (7 s)
  then show ?case by (auto simp: vmx_ops_def vmx_ready_def VmxVcpu_guest_is_privileged_def vmcs_run)
next
  case (8 s s')
  have "vmcs_cur (fst s') = vmcs_cur (fst s)"
    using arg_cong[OF 8(3), of "\<lambda>s. vmcs_cur (fst s)"] by (simp add: vmx_keep_def split: prod.splits)
  moreover have "vmcs_data (fst s') p (g32_enc G32_CS_AR_BYTES) = vmcs_data (fst s) p (g32_enc G32_CS_AR_BYTES)" for p
    using arg_cong[OF 8(3), of "\<lambda>s. vmcs_data (fst s) p (g32_enc G32_CS_AR_BYTES)"]
    by (simp add: vmx_keep_def vmx_volatile_def split: prod.splits)
  ultimately show ?case
    using 8(1,2) by (auto simp: vmx_ops_def vmx_ready_def VmxVcpu_guest_is_privileged_def vmcs_run)
qed


section \<open>The AMD operations satisfy the contract\<close>

definition svm_rip :: "SvmVcpu vm \<Rightarrow> u64" where
  "svm_rip s = SvmVcpu_instr_pointer (snd s)"

definition svm_pending :: "SvmVcpu vm \<Rightarrow> bool" where
  "svm_pending s \<longleftrightarrow> vc_event_inj (sv_control (snd s)) = gp_event \<and> vc_event_inj_err (sv_control (snd s)) = 0"

definition svm_keep :: "SvmVcpu vm \<Rightarrow> SvmVcpu vm" where
  "svm_keep s = (fst s, upd_save (\<lambda>a. a\<lparr>va_rip := 0, va_rax := 0\<rparr>)
     (upd_control (\<lambda>a. a\<lparr>vc_event_inj := 0, vc_event_inj_err := 0, vc_clean_bits := 0\<rparr>)
       ((snd s)\<lparr>sv_guest_regs := GeneralRegisters_default\<rparr>)))"

lemma gp_vmcb_info: "VmcbIntInfo_from SIT_Exception (exception_vector E_GeneralProtectionFault) = Some gp_event"
  by (simp add: VmcbIntInfo_from_def set_bits_range_def VmcbIntInfo_has_error_code_def gp_event_def
      mask_eq_exp_minus_1)

lemma svm_inject:
  "SvmVcpu_inject_fault v = (v\<lparr>sv_vmcb := Vmcb_inject_event gp_event 0 (sv_vmcb v)\<rparr>, Ok ())"
  by (simp only: SvmVcpu_inject_fault_def gp_vmcb_info option.case)

interpretation svm: vcpu "svm_ops x se" "\<lambda>s. True" svm_rip svm_pending svm_keep for x se
proof (unfold_locales, goal_cases)
  case (8 s s')
  have "va_cpl (sv_save (snd s')) = va_cpl (sv_save (snd s))"
    using arg_cong[OF 8(3), of "\<lambda>s. va_cpl (sv_save (snd s))"] by (simp add: svm_keep_def)
  then show ?case by (simp add: svm_ops_def SvmVcpu_guest_is_privileged_def)
qed (simp_all add: svm_ops_def svm_rip_def svm_keep_def SvmVcpu_instr_pointer_def on_vcpu_def SvmVcpu_cr_def
    SvmVcpu_advance_rip_def svm_inject svm_pending_def Vmcb_inject_event_def
    upd_save_def upd_control_def)


section \<open>Emulated CPUID\<close>

lemma bit_feature_info:
  "bit (feature_info_bits FI_VMX) n \<longleftrightarrow> n = 5" "bit (feature_info_bits FI_SVM) n \<longleftrightarrow> n = 2"
  "bit (feature_info_bits FI_HYPERVISOR) n \<longleftrightarrow> n = 31" "bit (feature_info_bits FI_OSXSAVE) n \<longleftrightarrow> n = 27"
  unfolding feature_info_bits.simps by (rule bit_push_bit_one; simp)+

lemma cpuid_regs_features:
  assumes "(ucast (rax r) :: u32) = 1"
  shows "bit (rcx (cpuid_regs x cr4 r)) n \<longleftrightarrow>
    (n = 31 \<or> n \<noteq> 5 \<and> (bit (cpuid_ecx (x_cpuid x 1 (ucast (rcx r)))) n \<and> n \<notin> {11, 14, 16} \<or>
      n = 27 \<and> contains cr4 CR4_OSXSAVE))"
proof -
  let ?ecx = "cpuid_ecx (x_cpuid x 1 (ucast (rcx r)))"
  let ?f = "truncate_flags FeatureInfoFlags_all (ucast ?ecx)"
  have f: "bit ?f n \<longleftrightarrow> bit ?ecx n \<and> n \<notin> {11, 14, 16}" for n
    using bit_FeatureInfoFlags_all[of n] bit_imp_le_length[of ?ecx n]
    by (auto simp: truncate_flags_def bit_and_iff bit_ucast_iff)
  have "rcx (cpuid_regs x cr4 r) = ((if contains cr4 CR4_OSXSAVE then ?f OR feature_info_bits FI_OSXSAVE else ?f)
      AND NOT (feature_info_bits FI_VMX)) OR feature_info_bits FI_HYPERVISOR"
    using assms by (simp add: cpuid_regs_def Let_def del: feature_info_bits.simps)
  then show ?thesis
    using bit_imp_le_length[of ?ecx n]
    by (auto simp: bit_or_iff bit_and_iff bit_not_iff bit_feature_info f simp del: feature_info_bits.simps)
qed

lemma cpuid_regs_amd:
  assumes "(ucast (rax r) :: u32) = 0x80000001"
  shows "\<not> bit (rcx (cpuid_regs x cr4 r)) 2"
  using assms by (simp add: cpuid_regs_def Let_def bit_and_iff bit_not_iff bit_feature_info
      del: feature_info_bits.simps)

text \<open>What the guest sees: \<open>r\<close> are the registers before and \<open>r'\<close> those after the instruction.\<close>

definition cpuid_view :: "ext \<Rightarrow> u64 \<Rightarrow> GeneralRegisters \<Rightarrow> GeneralRegisters \<Rightarrow> bool" where
  "cpuid_view x cr4 r r' \<longleftrightarrow>
     ((ucast (rax r) :: u32) = 1 \<longrightarrow> (\<forall>n. bit (rcx r') n \<longleftrightarrow>
        n = 31 \<or> n \<noteq> 5 \<and> (bit (cpuid_ecx (x_cpuid x 1 (ucast (rcx r)))) n \<and> n \<notin> {11, 14, 16} \<or>
          n = 27 \<and> contains cr4 CR4_OSXSAVE))) \<and>
     ((ucast (rax r) :: u32) = 0x80000001 \<longrightarrow> \<not> bit (rcx r') 2) \<and>
     ((ucast (rax r) :: u32) = 0x40000000 \<longrightarrow>
        r' = r\<lparr>rax := 0x40000001, rbx := 0x524d5652, rcx := 0x56524d56, rdx := 0x4d56524d\<rparr>)"

lemma cpuid_regs_signature:
  assumes "(ucast (rax r) :: u32) = 0x40000000"
  shows "cpuid_regs x cr4 r = r\<lparr>rax := 0x40000001, rbx := 0x524d5652, rcx := 0x56524d56, rdx := 0x4d56524d\<rparr>"
  using assms by (simp add: cpuid_regs_def Let_def cpuid_signature_def)


definition sample_guest :: machine where
  "sample_guest = sample_vmx_machine\<lparr>vmcs_cur := Some 0x2000\<rparr>"

definition sample_svm_vcpu :: SvmVcpu where
  "sample_svm_vcpu = \<lparr>sv_guest_regs = GeneralRegisters_default, sv_host_tp = 0, sv_host_stack_top = 0,
     sv_host_save_area = \<lparr>start_paddr = 0x1000, frame_count = 1\<rparr>, sv_vmcb = Vmcb_default\<rparr>"

lemma sample_guest_cur: "vmcs_cur sample_guest = Some 0x2000"
  by (simp add: sample_guest_def)


end
