(* ===== verification/VmExitProps.thy ===== *)
theory VmExitProps
  imports VmmProps
begin

text \<open>
  The exit handlers of both vendors as a whole, and the barrier of the disable hypercall.
\<close>


section \<open>Intel exits\<close>

text \<open>The bytes the handler moves the guest forward by.\<close>

definition vmx_emulated_len :: "VmxExitReason \<Rightarrow> u64" where
  "vmx_emulated_len r = (if r = XR_CPUID \<or> r = XR_MSR_READ \<or> r = XR_MSR_WRITE then 2
     else if r = XR_VMCALL then 3 else 0)"

lemma vmx_exit_info:
  assumes "vmx_ok x" "vmcs_cur m = Some p"
    and "VmxExitReason_try_from (get_bits (ucast (vmcs_data m p (r32_enc R32_VM_EXIT_REASON))) 0 16) = Some r"
  obtains i where "to_hv x (m, VmExitInfo_new x m) = (m, Ok i)" "exit_reason i = r"
    "entry_failure i = bit (vmcs_data m p (r32_enc R32_VM_EXIT_REASON)) 31"
  using assms that
  by (simp add: VmExitInfo_new_def decode_exit_reason_def vmcs_run bit_ucast_iff del: r32_enc.simps g64_enc.simps)

text \<open>What the handler as a whole leaves behind.\<close>

definition vmx_outcome :: "VmxExitReason \<Rightarrow> statics \<Rightarrow> VmxVcpu PerCpu
    \<Rightarrow> VmxVcpu node \<times> (unit, HvErrorNum) result option \<Rightarrow> bool" where
  "vmx_outcome r g c res \<longleftrightarrow> (\<exists>c'. res = ((g, c'), Some (Ok ())) \<and> same_cpu c c' \<and>
     vmx_keep (pc_vm c') = vmx_keep (pc_vm c) \<and> vmx_rip (pc_vm c') = vmx_rip (pc_vm c) + vmx_emulated_len r \<and>
     (r \<in> {XR_CPUID, XR_MSR_READ, XR_MSR_WRITE, XR_VMCALL, XR_EXCEPTION_NMI} \<or> vmx_pending (pc_vm c')))"

lemma vmx_outcome_lift:
  assumes "h (g, c) = lift_vm f (g, c)" "f (pc_vm c) = (s', Ok ())"
    and "vm_steps (vmx_ready x) vmx_rip vmx_keep (pc_vm c) (vmx_emulated_len r) s'"
    and "r \<in> {XR_CPUID, XR_MSR_READ, XR_MSR_WRITE, XR_VMCALL, XR_EXCEPTION_NMI} \<or> vmx_pending s'"
  shows "vmx_outcome r g c (vmexit_handler (vmx_ops x) h (g, c))"
proof -
  have "h (g, c) = ((g, c\<lparr>pc_m := fst s', pc_vcpu := snd s'\<rparr>), Some (Ok ()))"
    using assms(1) vmx.lift_step[of f c s' "Ok ()" g] assms(2) by simp
  from vmx.handler_ok[of h g c _ x, OF this] show ?thesis
    using assms(3,4) by (auto simp: vmx_outcome_def vm_steps_def)
qed

lemma vmx_outcome_err:
  assumes "h (g, c) = ((g, c), Some (Err e))" "vmx_ready x (pc_vm c)" "vmx_emulated_len r = 0"
  shows "vmx_outcome r g c (vmexit_handler (vmx_ops x) h (g, c))"
  using vmx.handler_err[of h g c c e x] assms by (auto simp: vmx_outcome_def vm_steps_def)

text \<open>The dispatch for a decoded exit reason.\<close>

lemma vmx_dispatch:
  assumes "to_hv x (pc_m c, VmExitInfo_new x (pc_m c)) = (pc_m c, Ok i)" "exit_reason i = r" "\<not> entry_failure i"
  shows "vmx_handle_exit x loads (g, c) =
    (if r = XR_EXCEPTION_NMI then lift_vm (vmx_handle_exception_nmi x i) (g, c)
     else if r = XR_CPUID then lift_vm (handle_cpuid x (vmx_ops x)) (g, c)
     else if r = XR_VMCALL then handle_hypercall x (vmx_ops x) loads (g, c)
     else if r = XR_MSR_READ then lift_vm (handle_msr_read (vmx_ops x)) (g, c)
     else if r = XR_MSR_WRITE then lift_vm (handle_msr_write (vmx_ops x)) (g, c)
     else if r = XR_EPT_VIOLATION then lift_vm (vmx_handle_ept_violation x i) (g, c)
     else if r = XR_TRIPLE_FAULT then lift_vm (vo_inject_fault (vmx_ops x)) (g, c)
     else ((g, c), Some (Err ENOSYS)))"
  unfolding vmx_handle_exit_def Let_def snd_conv assms(1,2) prod.case result.case
  using assms(3) by (cases r) simp_all

text \<open>The exits that a function of the vCPU alone handles.\<close>

definition vmx_lifted :: "ext \<Rightarrow> VmExitInfo
    \<Rightarrow> (VmxExitReason \<times> (VmxVcpu vm \<Rightarrow> VmxVcpu vm \<times> (unit, HvErrorNum) result)) set" where
  "vmx_lifted x i = {(XR_EXCEPTION_NMI, vmx_handle_exception_nmi x i), (XR_CPUID, handle_cpuid x (vmx_ops x)),
     (XR_MSR_READ, handle_msr_read (vmx_ops x)), (XR_MSR_WRITE, handle_msr_write (vmx_ops x)),
     (XR_TRIPLE_FAULT, vo_inject_fault (vmx_ops x))}"

lemma vmx_lifted_step:
  assumes "vmx_ok x" "vmx_ready x (pc_vm c)"
    and "(r, f) \<in> vmx_lifted x i"
  shows "\<exists>s'. f (pc_vm c) = (s', Ok ()) \<and>
    vm_steps (vmx_ready x) vmx_rip vmx_keep (pc_vm c) (vmx_emulated_len r) s' \<and>
    (r \<in> {XR_CPUID, XR_MSR_READ, XR_MSR_WRITE, XR_VMCALL, XR_EXCEPTION_NMI} \<or> vmx_pending s')"
proof -
  have "vmx_handle_exception_nmi x i (pc_vm c) = (pc_vm c, Ok ())"
    using assms(1,2) by (auto simp: vmx_handle_exception_nmi_def on_machine_def ExitInterruptInfo_new_def vmcs_run
        vmx_ready_def simp del: r32_enc.simps)
  then show ?thesis
    using assms(3)[unfolded vmx_lifted_def] vmx.cpuid_step[OF assms(2), of x] vmx.msr_read_step[OF assms(2)] vmx.msr_write_step[OF assms(2)]
      vmx.inject[OF assms(2)] assms(2)
    by (elim insertE) (auto simp: vmx_emulated_len_def vm_steps_def)
qed

text \<open>C20: Every VM exit on an Intel processor is handled: for each of the exit reasons, unless the VM entry
  failed or a guest kernel asks to disable the hypervisor, the handler returns normally, the CPU stays
  in its virtual machine, and of the machine and the VMCS only the guest's registers, its instruction
  pointer and a pending event can have changed. CPUID and MSR accesses are skipped as two bytes and a
  hypercall as three; a reason without handler leaves the instruction pointer and gives the guest a
  general-protection fault.\<close>

theorem vmx_exit_handled:
  assumes "vmx_ok x" "vmcs_cur (pc_m c) = Some p"
    and "VmxExitReason_try_from (get_bits (ucast (vmcs_data (pc_m c) p (r32_enc R32_VM_EXIT_REASON))) 0 16) = Some r"
    and "\<not> bit (vmcs_data (pc_m c) p (r32_enc R32_VM_EXIT_REASON)) 31"
    and "\<not> (r = XR_VMCALL \<and> (ucast (rax (vx_guest_regs (pc_vcpu c))) :: u32) = 0 \<and>
      VmxVcpu_guest_is_privileged x (pc_m c) = Ok True)"
  shows "vmx_outcome r g c (vmexit_handler (vmx_ops x) (vmx_handle_exit x loads) (g, c))"
proof -
  let ?h = "vmx_handle_exit x loads"
  obtain i where i: "to_hv x (pc_m c, VmExitInfo_new x (pc_m c)) = (pc_m c, Ok i)" "exit_reason i = r" "\<not> entry_failure i"
    using vmx_exit_info[OF assms(1-3)] assms(4) by metis
  have ready: "vmx_ready x (pc_vm c)" using assms(1,2) by (simp add: vmx_ready_def)
  note h = vmx_dispatch[OF i, of loads g]
  consider f where "(r, f) \<in> vmx_lifted x i" | "r = XR_VMCALL" | "r = XR_EPT_VIOLATION"
    | "r \<notin> {XR_CPUID, XR_VMCALL, XR_MSR_READ, XR_MSR_WRITE, XR_EPT_VIOLATION, XR_TRIPLE_FAULT, XR_EXCEPTION_NMI}"
    unfolding vmx_lifted_def by blast
  then show ?thesis
  proof cases
    case 1
    then have "?h (g, c) = lift_vm f (g, c)" using h by (auto simp: vmx_lifted_def)
    then show ?thesis using vmx_lifted_step[OF assms(1) ready 1] vmx_outcome_lift by blast
  next
    case 2
    obtain c' where "handle_hypercall x (vmx_ops x) loads (g, c) = ((g, c'), Some (Ok ()))" "same_cpu c c'"
      "vm_steps (vmx_ready x) vmx_rip vmx_keep (pc_vm c) 3 (pc_vm c')"
      using vmx.hypercall_step[OF ready, of x loads g] assms(5) 2 by (auto simp: vmx_ops_def)
    then show ?thesis
      using 2 vmx.handler_ok[of ?h g c _ x] by (auto simp: h vmx_emulated_len_def vmx_outcome_def vm_steps_def)
  next
    case 3
    have "vmx_handle_ept_violation x i (pc_vm c) = (pc_vm c, Err ENOSYS)"
      using assms(1,2) by (simp add: vmx_handle_ept_violation_def on_machine_def EptViolationInfo_new_def vmcs_run
        del: r64_enc.simps)
    then have "lift_vm (vmx_handle_ept_violation x i) (g, c) = ((g, c), Some (Err ENOSYS))"
      by (simp add: vmx.lift_step)
    then show ?thesis
      using 3 ready by (intro vmx_outcome_err) (simp_all add: h vmx_emulated_len_def)
  next
    case 4
    then show ?thesis
      using ready by (intro vmx_outcome_err) (simp_all add: h vmx_emulated_len_def)
  qed
qed

definition sample_statics :: statics where
  "sample_statics = \<lparr>ENTERED_CPUS = 1, ACTIVATED_CPUS = 1, TRY_DISABLE_CPUS = 0\<rparr>"

definition sample_exit_cpu :: "VmxVcpu PerCpu" where
  "sample_exit_cpu = \<lparr>pc_self_vaddr = 0, pc_id = 0, pc_state = HvEnabled, pc_vcpu = sample_vcpu,
     pc_linux = sample_linux, pc_m = sample_guest\<lparr>vmcs_data := (\<lambda>p f. if f = r32_enc R32_VM_EXIT_REASON then 10 else 0)\<rparr>,
     pc_left = False\<rparr>"

theorem vmx_exit_handled_witness:
  "vmx_outcome XR_CPUID sample_statics sample_exit_cpu
     (vmexit_handler (vmx_ops sample_ext) (vmx_handle_exit sample_ext (\<lambda>i. 0)) (sample_statics, sample_exit_cpu))"
proof -
  have "VmxExitReason_try_from (get_bits (ucast (10 :: u64)) 0 16) = Some XR_CPUID" by code_simp
  moreover have "\<not> bit (10 :: u64) 31" by simp
  ultimately show ?thesis
    using vmx_exit_handled[where x = sample_ext and c = sample_exit_cpu and p = "0x2000" and r = XR_CPUID
      and g = sample_statics and loads = "\<lambda>i. 0", OF sample_vmx_ok]
    by (simp add: sample_exit_cpu_def sample_guest_cur)
qed


section \<open>AMD exits\<close>

definition svm_emulated_len :: "SvmExitCode \<Rightarrow> u64 \<Rightarrow> u64" where
  "svm_emulated_len code info_1 = (if code = SX_CPUID \<or> code = SX_MSR \<and> info_1 \<in> {0, 1} then 2
     else if code = SX_VMMCALL then 3 else 0)"

definition svm_silent :: "SvmExitCode \<Rightarrow> u64 \<Rightarrow> bool" where
  "svm_silent code info_1 \<longleftrightarrow> code \<in> {SX_CPUID, SX_VMMCALL, SX_NMI} \<or> code = SX_MSR \<and> info_1 \<in> {0, 1} \<or>
     (\<exists>vec. code = SX_EXCP vec)"

definition svm_outcome :: "SvmExitCode \<Rightarrow> u64 \<Rightarrow> statics \<Rightarrow> SvmVcpu PerCpu
    \<Rightarrow> SvmVcpu node \<times> (unit, HvErrorNum) result option \<Rightarrow> bool" where
  "svm_outcome code info_1 g c res \<longleftrightarrow> (\<exists>c'. res = ((g, c'), Some (Ok ())) \<and> same_cpu c c' \<and>
     svm_keep (pc_vm c') = svm_keep (pc_vm c) \<and>
     svm_rip (pc_vm c') = svm_rip (pc_vm c) + svm_emulated_len code info_1 \<and>
     va_rax (sv_save (pc_vcpu c')) = rax (sv_guest_regs (pc_vcpu c')) \<and>
     (svm_silent code info_1 \<or> svm_pending (pc_vm c')))"

text \<open>The state the dispatch starts from, and what is done after it.\<close>

definition svm_loaded :: "SvmVcpu PerCpu \<Rightarrow> SvmVcpu PerCpu" where
  "svm_loaded c = c\<lparr>pc_vcpu := upd_control (\<lambda>a. a\<lparr>vc_clean_bits := clean_bits_val CLEAN_UNMODIFIED\<rparr>)
     ((pc_vcpu c)\<lparr>sv_guest_regs := (sv_guest_regs (pc_vcpu c))\<lparr>rax := va_rax (sv_save (pc_vcpu c))\<rparr>\<rparr>)\<rparr>"

definition svm_stored :: "SvmVcpu PerCpu \<Rightarrow> SvmVcpu PerCpu" where
  "svm_stored c = c\<lparr>pc_vcpu := upd_save (\<lambda>a. a\<lparr>va_rax := rax (sv_guest_regs (pc_vcpu c))\<rparr>) (pc_vcpu c)\<rparr>"

lemma svm_loaded_simps:
  "svm_keep (pc_vm (svm_loaded c)) = svm_keep (pc_vm c)" "svm_rip (pc_vm (svm_loaded c)) = svm_rip (pc_vm c)"
  "same_cpu c (svm_loaded c)" "va_cpl (sv_save (pc_vcpu (svm_loaded c))) = va_cpl (sv_save (pc_vcpu c))"
  "rax (sv_guest_regs (pc_vcpu (svm_loaded c))) = va_rax (sv_save (pc_vcpu c))"
  by (simp_all add: svm_loaded_def svm_keep_def svm_rip_def SvmVcpu_instr_pointer_def upd_control_def upd_save_def
      same_cpu_def)

lemma svm_stored_simps:
  "svm_keep (pc_vm (svm_stored c)) = svm_keep (pc_vm c)" "svm_rip (pc_vm (svm_stored c)) = svm_rip (pc_vm c)"
  "same_cpu c (svm_stored c)" "svm_pending (pc_vm (svm_stored c)) = svm_pending (pc_vm c)"
  "va_rax (sv_save (pc_vcpu (svm_stored c))) = rax (sv_guest_regs (pc_vcpu (svm_stored c)))"
  by (simp_all add: svm_stored_def svm_keep_def svm_rip_def SvmVcpu_instr_pointer_def upd_save_def upd_control_def
      svm_pending_def same_cpu_def)

lemma svm_dispatch:
  assumes "SvmExitCode_try_from (vc_exit_code (sv_control (pc_vcpu c))) = Ok code"
  shows "svm_handle_exit x se loads (g, c) =
    (let n = (g, svm_loaded c); info_1 = vc_exit_info_1 (sv_control (pc_vcpu c)); ops = svm_ops x se in
     case (if code = SX_INVALID then (n, Some Panic)
     else if code = SX_NMI \<or> (\<exists>vec. code = SX_EXCP vec) then (n, Some (Ok ()))
     else if code = SX_CPUID then lift_vm (handle_cpuid x ops) n
     else if code = SX_VMMCALL then handle_hypercall x ops loads n
     else if code = SX_MSR \<and> info_1 = 0 then lift_vm (handle_msr_read ops) n
     else if code = SX_MSR \<and> info_1 = 1 then lift_vm (handle_msr_write ops) n
     else if code = SX_MSR then (n, Some (Err EIO))
     else if code = SX_SHUTDOWN then lift_vm (vo_inject_fault ops) n
     else (n, Some (Err ENOSYS))) of
       (n, None) \<Rightarrow> (n, None)
     | (n, Some Panic) \<Rightarrow> (n, Some Panic)
     | ((g, c), Some r) \<Rightarrow> ((g, svm_stored c), Some r))"
proof -
  let ?v = "upd_control (\<lambda>a. a\<lparr>vc_clean_bits := clean_bits_val CLEAN_UNMODIFIED\<rparr>)
     ((pc_vcpu c)\<lparr>sv_guest_regs := (sv_guest_regs (pc_vcpu c))\<lparr>rax := va_rax (sv_save (pc_vcpu c))\<rparr>\<rparr>)"
  have i: "sx_exit_code (SvmExitInfo_new (sv_vmcb ?v)) = Ok code"
    "sx_exit_info_1 (SvmExitInfo_new (sv_vmcb ?v)) = vc_exit_info_1 (sv_control (pc_vcpu c))"
    using assms by (simp_all add: upd_control_def SvmExitInfo_new_def)
  show ?thesis
    unfolding svm_handle_exit_def Let_def prod.case i result.case svm_loaded_def[symmetric] svm_stored_def[symmetric]
    by (cases code) simp_all
qed

lemma svm_outcome_ok:
  assumes "h (g, c) = ((g, svm_stored c'), Some (Ok ()))" "same_cpu (svm_loaded c) c'"
    and "vm_steps (\<lambda>s. True) svm_rip svm_keep (pc_vm (svm_loaded c)) (svm_emulated_len code info_1) (pc_vm c')"
    and "svm_silent code info_1 \<or> svm_pending (pc_vm c')"
  shows "svm_outcome code info_1 g c (vmexit_handler (svm_ops x se) h (g, c))"
proof -
  have "same_cpu c (svm_stored c')"
    using assms(2) svm_loaded_simps(3) svm_stored_simps(3) same_cpu_trans by blast
  with svm.handler_ok[of h g c _ x se, OF assms(1)] assms(3,4) show ?thesis
    unfolding svm_outcome_def vm_steps_def svm_loaded_simps
    by (intro exI[of _ "svm_stored c'"]) (simp only: svm_stored_simps simp_thms)
qed

lemma svm_fault:
  "fault_ok (svm_ops x se) (g, c) =
    ((g, c\<lparr>pc_vcpu := (pc_vcpu c)\<lparr>sv_vmcb := Vmcb_inject_event gp_event 0 (sv_vmcb (pc_vcpu c))\<rparr>\<rparr>), Some (Ok ()))"
  by (simp add: fault_ok_def PerCpu_fault_def on_vm_def svm_ops_def on_vcpu_def svm_inject)

lemma svm_outcome_err:
  assumes "h (g, c) = ((g, svm_stored (svm_loaded c)), Some (Err e))" "svm_emulated_len code info_1 = 0"
  shows "svm_outcome code info_1 g c (vmexit_handler (svm_ops x se) h (g, c))"
proof -
  have "same_cpu c (svm_stored (svm_loaded c))"
    using svm_loaded_simps(3) svm_stored_simps(3) same_cpu_trans by blast
  then obtain c' where c': "vmexit_handler (svm_ops x se) h (g, c) = ((g, c'), Some (Ok ()))" "same_cpu c c'"
    "vm_steps (\<lambda>s. True) svm_rip svm_keep (pc_vm (svm_stored (svm_loaded c))) 0 (pc_vm c')" "svm_pending (pc_vm c')"
    using svm.handler_err[of h g c "svm_stored (svm_loaded c)" e x se] assms(1) by auto
  have "va_rax (sv_save (pc_vcpu c')) = rax (sv_guest_regs (pc_vcpu c'))"
    using c'(1) assms(1) svm_stored_simps(5)[of "svm_loaded c"]
    by (auto simp: vmexit_handler_def svm_fault Vmcb_inject_event_def)
  with c' assms(2) show ?thesis
    unfolding svm_outcome_def vm_steps_def by (simp add: svm_stored_simps svm_loaded_simps)
qed

text \<open>The exits that a function of the vCPU alone handles.\<close>

definition svm_lifted :: "ext \<Rightarrow> svm_env \<Rightarrow> u64
    \<Rightarrow> (SvmExitCode \<times> (SvmVcpu vm \<Rightarrow> SvmVcpu vm \<times> (unit, HvErrorNum) result)) set" where
  "svm_lifted x se info_1 =
     {(SX_CPUID, handle_cpuid x (svm_ops x se)), (SX_SHUTDOWN, vo_inject_fault (svm_ops x se))} \<union>
     {(SX_MSR, f) | f. (info_1, f) \<in> {(0, handle_msr_read (svm_ops x se)), (1, handle_msr_write (svm_ops x se))}}"

lemma svm_lifted_iff:
  "(code, f) \<in> svm_lifted x se info_1 \<longleftrightarrow>
     code = SX_CPUID \<and> f = handle_cpuid x (svm_ops x se) \<or> code = SX_SHUTDOWN \<and> f = vo_inject_fault (svm_ops x se) \<or>
     code = SX_MSR \<and> info_1 = 0 \<and> f = handle_msr_read (svm_ops x se) \<or>
     code = SX_MSR \<and> info_1 = 1 \<and> f = handle_msr_write (svm_ops x se)"
  unfolding svm_lifted_def by blast

lemma svm_lifted_step:
  assumes "(code, f) \<in> svm_lifted x se info_1"
  shows "\<exists>s'. f (pc_vm c) = (s', Ok ()) \<and>
    vm_steps (\<lambda>s. True) svm_rip svm_keep (pc_vm c) (svm_emulated_len code info_1) s' \<and>
    (svm_silent code info_1 \<or> svm_pending s')"
  using assms[unfolded svm_lifted_iff] svm.cpuid_step[where m = "pc_m c" and v = "pc_vcpu c" and x = x and se = se and xa = x]
    svm.msr_read_step[where m = "pc_m c" and v = "pc_vcpu c" and x = x and se = se]
    svm.msr_write_step[where s = "pc_vm c" and x = x and se = se] svm.inject[where s = "pc_vm c" and x = x and se = se]
  by (elim disjE conjE) (auto simp: svm_emulated_len_def vm_steps_def svm_silent_def)

lemma svm_lifted_outcome:
  assumes code: "SvmExitCode_try_from (vc_exit_code (sv_control (pc_vcpu c))) = Ok code"
    and f: "(code, f) \<in> svm_lifted x se (vc_exit_info_1 (sv_control (pc_vcpu c)))"
  shows "svm_outcome code (vc_exit_info_1 (sv_control (pc_vcpu c))) g c
    (vmexit_handler (svm_ops x se) (svm_handle_exit x se loads) (g, c))"
proof -
  let ?h = "svm_handle_exit x se loads" and ?i = "vc_exit_info_1 (sv_control (pc_vcpu c))"
  obtain m v where s: "f (pc_vm (svm_loaded c)) = ((m, v), Ok ())"
    "vm_steps (\<lambda>s. True) svm_rip svm_keep (pc_vm (svm_loaded c)) (svm_emulated_len code ?i) (m, v)"
    "svm_silent code ?i \<or> svm_pending (m, v)"
    using svm_lifted_step[OF f, of "svm_loaded c"] by auto
  have "?h (g, c) = ((g, svm_stored ((svm_loaded c)\<lparr>pc_m := m, pc_vcpu := v\<rparr>)), Some (Ok ()))"
    using f[unfolded svm_lifted_iff] svm.lift_step[of f "svm_loaded c", OF s(1), of g]
    unfolding svm_dispatch[OF code] Let_def by (elim disjE conjE) simp_all
  from svm_outcome_ok[of ?h g c _ code ?i, OF this] s show ?thesis by simp
qed

text \<open>C21: Every VM exit on an AMD processor is handled: for each exit code the processor defines other than
  an invalid VMCB, unless a guest kernel asks to disable the hypervisor, the handler returns normally
  and the CPU stays in its virtual machine; of the machine and the VMCB only the guest's registers, the
  instruction pointer, the clean bits and a pending event can have changed, and the RAX of the VMCB is
  the one of the register block. CPUID and MSR accesses are skipped as two bytes and a hypercall as
  three; a code without handler, and a malformed MSR exit, give the guest a general-protection fault.\<close>

theorem svm_exit_handled:
  assumes "SvmExitCode_try_from (vc_exit_code (sv_control (pc_vcpu c))) = Ok code" "code \<noteq> SX_INVALID"
    and "\<not> (code = SX_VMMCALL \<and> (ucast (va_rax (sv_save (pc_vcpu c))) :: u32) = 0 \<and>
      SvmVcpu_guest_is_privileged (pc_vcpu c))"
  shows "svm_outcome code (vc_exit_info_1 (sv_control (pc_vcpu c))) g c
    (vmexit_handler (svm_ops x se) (svm_handle_exit x se loads) (g, c))"
proof -
  let ?h = "svm_handle_exit x se loads" and ?i = "vc_exit_info_1 (sv_control (pc_vcpu c))"
  note h = svm_dispatch[OF assms(1), of x se loads g, unfolded Let_def]
  consider f where "(code, f) \<in> svm_lifted x se ?i"
    | "code = SX_VMMCALL" | "code = SX_NMI \<or> (\<exists>vec. code = SX_EXCP vec)"
    | "code \<notin> {SX_CPUID, SX_SHUTDOWN, SX_VMMCALL, SX_NMI}" "\<not> (\<exists>vec. code = SX_EXCP vec)" "code = SX_MSR \<longrightarrow> ?i \<notin> {0, 1}"
    unfolding svm_lifted_iff by blast
  then show ?thesis
  proof cases
    case 1
    then show ?thesis by (rule svm_lifted_outcome[OF assms(1)])
  next
    case 2
    have "\<not> ((ucast (rax (vo_regs (svm_ops x se) (pc_vcpu (svm_loaded c)))) :: u32) = 0 \<and>
        vo_guest_is_privileged (svm_ops x se) (pc_vm (svm_loaded c)) = Ok True)"
      using assms(3) 2 by (simp add: svm_ops_def svm_loaded_simps SvmVcpu_guest_is_privileged_def)
    then obtain c' where "handle_hypercall x (svm_ops x se) loads (g, svm_loaded c) = ((g, c'), Some (Ok ()))"
      "same_cpu (svm_loaded c) c'" "vm_steps (\<lambda>s. True) svm_rip svm_keep (pc_vm (svm_loaded c)) 3 (pc_vm c')"
      using svm.hypercall_step[where c = "svm_loaded c" and x = x and se = se and xa = x and loads = loads and g = g] by auto
    then show ?thesis
      using 2 by (intro svm_outcome_ok[where c' = c']) (simp_all add: h svm_emulated_len_def svm_silent_def)
  next
    case 3
    then show ?thesis
      by (intro svm_outcome_ok[where c' = "svm_loaded c"])
        (auto simp: h svm_emulated_len_def svm_silent_def vm_steps_def)
  next
    case 4
    then show ?thesis
      using assms(2) by (intro svm_outcome_err[where e = "if code = SX_MSR then EIO else ENOSYS"])
        (auto simp: h svm_emulated_len_def)
  qed
qed

definition sample_svm_cpu :: "SvmVcpu PerCpu" where
  "sample_svm_cpu = \<lparr>pc_self_vaddr = 0, pc_id = 0, pc_state = HvEnabled,
     pc_vcpu = upd_control (\<lambda>a. a\<lparr>vc_exit_code := 0x72\<rparr>) sample_svm_vcpu,
     pc_linux = sample_linux, pc_m = sample_guest, pc_left = False\<rparr>"

theorem svm_exit_handled_witness:
  "svm_outcome SX_CPUID (vc_exit_info_1 (sv_control (pc_vcpu sample_svm_cpu))) sample_statics sample_svm_cpu
     (vmexit_handler (svm_ops sample_ext sample_svm_env) (svm_handle_exit sample_ext sample_svm_env (\<lambda>i. 0))
       (sample_statics, sample_svm_cpu))"
proof (rule svm_exit_handled)
  have "SvmExitCode_try_from 0x72 = Ok SX_CPUID"
    using try_from_svm_exit_val[of SX_CPUID] by (simp add: svm_exit_valid_def)
  then show "SvmExitCode_try_from (vc_exit_code (sv_control (pc_vcpu sample_svm_cpu))) = Ok SX_CPUID"
    by (simp add: sample_svm_cpu_def upd_control_def)
next
  show "SX_CPUID \<noteq> SX_INVALID" by simp
qed simp


section \<open>The disable barrier\<close>

lemma spin_until_from:
  "cpus \<le> loads (i + n) \<Longrightarrow> spin_until loads cpus i = Some ()"
proof (induction n arbitrary: i)
  case 0
  then show ?case by (subst spin_until.simps) (auto simp: not_less[symmetric])
next
  case (Suc n)
  then show ?case using Suc.IH[of "Suc i"] by (subst spin_until.simps) simp
qed

lemma spin_until_sees:
  assumes "spin_until loads cpus i = Some u"
  shows "\<exists>j. cpus \<le> loads j"
proof (rule spin_until.raw_induct[OF _ assms])
  fix f :: "(nat \<Rightarrow> u32) \<Rightarrow> u32 \<Rightarrow> nat \<Rightarrow> unit option" and loads cpus i y
  assume "\<And>loads cpus i y. f loads cpus i = Some y \<Longrightarrow> \<exists>j. cpus \<le> loads j"
    and "(if loads i < cpus then f loads cpus (Suc i) else Some ()) = Some y"
  then show "\<exists>j. cpus \<le> loads j" by (auto simp: not_less split: if_splits)
qed

text \<open>C22: The disable hypercall leaves the virtual machine exactly when the barrier opens: if some load of
  the counter of CPUs that asked to disable reaches the number of active CPUs, the spin loop ends and
  the CPU is deactivated, with its own request counted; otherwise the CPU spins forever and has changed
  nothing but that counter.\<close>

theorem disable_barrier:
  "hypervisor_disable x ops loads (g, c) =
    (if \<exists>i. ACTIVATED_CPUS g \<le> loads i
     then deactivate_vmm x ops 0 (g\<lparr>TRY_DISABLE_CPUS := TRY_DISABLE_CPUS g + 1\<rparr>, c)
     else ((g\<lparr>TRY_DISABLE_CPUS := TRY_DISABLE_CPUS g + 1\<rparr>, c), None))"
proof (cases "\<exists>i. ACTIVATED_CPUS g \<le> loads i")
  case True
  then obtain i where "ACTIVATED_CPUS g \<le> loads (0 + i)" by auto
  from spin_until_from[of _ loads 0 i, OF this] True show ?thesis by (simp add: hypervisor_disable_def)
next
  case False
  then have "spin_until loads (ACTIVATED_CPUS g) 0 = None"
    using spin_until_sees[of loads "ACTIVATED_CPUS g" 0] by (cases "spin_until loads (ACTIVATED_CPUS g) 0") auto
  then show ?thesis using False by (simp add: hypervisor_disable_def)
qed

end
