(* ===== verification/Spec2Isabelle.thy ===== *)
theory Spec2Isabelle
  imports RootCell Boot GuestAccess VmxVcpuFrames VmExitProps
begin

text \<open>
  A verification development of the RVM1.5 hypervisor, a type-1.5 hypervisor in Rust for x86-64: a
  Linux driver loads it, every CPU calls its entry point, and it puts the running Linux into a
  virtual machine (VMX on Intel, SVM on AMD) until Linux asks to disable it again. File names below
  are relative to \<^verbatim>\<open>src/\<close>.

  \<^bold>\<open>How the program works.\<close> Each CPU enters through \<^verbatim>\<open>arch/x86_64/entry.rs\<close>, which saves the
  caller's registers, and \<^verbatim>\<open>main.rs\<close>, where CPU 0 builds the heap, the frame allocator, the
  hypervisor's page table (\<^verbatim>\<open>memory/\<close>) and the guest-physical address space of the root cell
  (\<^verbatim>\<open>cell.rs\<close>) while the others wait. Then every CPU captures the Linux context
  (\<^verbatim>\<open>arch/x86_64/context.rs\<close>), creates a vCPU (\<^verbatim>\<open>intel/vcpu.rs\<close> or \<^verbatim>\<open>amd/vcpu.rs\<close> over the register and
  control-block definitions of \<^verbatim>\<open>crates/libvmm\<close>) and enters the guest. VM exits come back to
  \<^verbatim>\<open>arch/x86_64/vmm.rs\<close>, which emulates an instruction, serves a hypercall (\<^verbatim>\<open>hypercall/mod.rs\<close>) or injects
  a fault. Disabling waits for all CPUs at a barrier, leaves the virtual machine, restores the Linux
  context and returns to Linux.

  \<^bold>\<open>Conventions\<close> (theory \<open>Prelude\<close>). The crate is built in release mode only, so \<^verbatim>\<open>usize\<close> and \<^verbatim>\<open>u64\<close> are
  64-bit words whose arithmetic wraps. A Rust call ends in \<open>Ok\<close>, \<open>Err\<close> or \<open>Panic\<close> (type \<open>result\<close>);
  \<open>st_then\<close> and \<open>and_then\<close> are the \<^verbatim>\<open>?\<close> operator with and without state. A bit-flag type or a numeric
  enumeration is a datatype of its constants with the function that gives their values. Third-party
  code is a parameter: the bitmap allocator (\<open>bit_alloc\<close>, with the laws \<open>bit_alloc_spec\<close>), and the
  processor's answers (\<open>ext\<close>: failures of VMX instructions, CPUID, the bits the \<^verbatim>\<open>x86_64\<close> package knows).
  Each has an instance that satisfies the hypotheses (\<open>list_alloc\<close>, \<open>sample_ext\<close>).

  \<^bold>\<open>Errors, addresses and memory.\<close>
  \<^item> \<open>HvError\<close>: \<^verbatim>\<open>error.rs\<close>; error numbers and their conversion to hypercall results.
  \<^item> \<open>Addr\<close>, \<open>PageEntry\<close>: \<^verbatim>\<open>memory/addr.rs\<close>, and the entry formats of \<^verbatim>\<open>page_table.rs\<close>, \<^verbatim>\<open>intel/ept.rs\<close> and
    \<^verbatim>\<open>amd/npt.rs\<close>. The locale of page-table entries is interpreted for all three formats.
  \<^item> \<open>FrameAlloc\<close>: \<^verbatim>\<open>memory/frame.rs\<close>. Allocation is exclusive, contiguous allocation aligned, dropping a
    frame gives it back.
  \<^item> \<open>PageTable\<close>, \<open>PageWalk\<close>, \<open>PageTableInv\<close>, \<open>PageTableMap\<close>, \<open>PageTableProps\<close>: \<^verbatim>\<open>memory/paging.rs\<close>. Tables live in
    a memory of 4 KiB frames. The lemmas show a tree invariant, the exact effect of mapping,
    unmapping and updating on every translation, isolation of separate tables, that no frame leaks,
    and that mapping fails only for lack of frames or on an overlap. Walks have a fixed depth of four,
    and the loops over a region end because every step covers at least 4 KiB of it.
  \<^item> \<open>MemRegion\<close>, \<open>MemorySet\<close>, \<open>MemorySetProps\<close>: \<^verbatim>\<open>memory/mm.rs\<close> and \<^verbatim>\<open>memory/mapper.rs\<close>. An address space refines
    its list of regions: an address is translated exactly as the region containing it says.

  \<^bold>\<open>Processor and VMX.\<close>
  \<^item> \<open>Processor\<close>: the record \<open>machine\<close> is the privileged state of one CPU; \<^verbatim>\<open>libvmm/src/x86_64/msr.rs\<close>.
  \<^item> \<open>VmxFlags\<close>, \<open>VmxDefs\<close>, \<open>VmcsFields\<close>, \<open>Vmcs\<close>: \<^verbatim>\<open>libvmm/src/x86_64/vmx\<close> and the accessor macro of
    \<^verbatim>\<open>libvmm_macros\<close>. Every field is accessed at the width its encoding says.
  \<^item> \<open>Segmentation\<close>, \<open>Context\<close>, \<open>Cpuid\<close>: \<^verbatim>\<open>segmentation.rs\<close>, \<^verbatim>\<open>tables.rs\<close>, \<^verbatim>\<open>context.rs\<close>, \<^verbatim>\<open>entry.rs\<close>, \<^verbatim>\<open>cpuid.rs\<close>.
    The assembly of the entry and exit paths runs on a small stack machine (\<open>exec\<close>, \<open>run\<close>).
  \<^item> \<open>VmxStructs\<close>, \<open>VmxVcpu\<close>, \<open>VmxVcpuProps\<close>, \<open>VmxVcpuFrames\<close>: \<^verbatim>\<open>intel/structs.rs\<close> and \<^verbatim>\<open>intel/vcpu.rs\<close>. The VMCS that is
    set up describes the captured context, leaving gives the context back, and creating a vCPU is
    all or nothing on the frame pool.

  \<^bold>\<open>SVM.\<close>
  \<^item> \<open>SvmDefs\<close>, \<open>Vmcb\<close>: \<^verbatim>\<open>libvmm/src/x86_64/svm\<close>. Exit codes decode exactly; the control block has the
    layout of the manual.
  \<^item> \<open>SvmVcpu\<close>: \<^verbatim>\<open>amd/vcpu.rs\<close>, with the same three groups of properties as on Intel.

  \<^bold>\<open>Exits and hypercalls.\<close>
  \<^item> \<open>Vmm\<close>, \<open>VmmProps\<close>, \<open>VmExitProps\<close>: \<^verbatim>\<open>vmm.rs\<close>, \<^verbatim>\<open>intel/vmexit.rs\<close>, \<^verbatim>\<open>amd/vmexit.rs\<close>, \<^verbatim>\<open>hypercall/mod.rs\<close>, \<^verbatim>\<open>percpu.rs\<close> and
    \<^verbatim>\<open>lang.rs\<close>. The handlers work on a record of the vendor's operations (the \<^verbatim>\<open>Vcpu\<close> type the build
    selects); the locale \<open>vcpu\<close> is what they rely on, and it is interpreted for both vendors.
    The barrier of the disable hypercall is a \<open>partial_function\<close> over the values its loads return.

  \<^bold>\<open>Configuration and address spaces of the system.\<close>
  \<^item> \<open>HvConfig\<close>: \<^verbatim>\<open>config.rs\<close>, \<^verbatim>\<open>header.rs\<close>, \<^verbatim>\<open>consts.rs\<close>. The packed structures are lists of fields; fields are read from
    a memory of bytes. Sizes never wrap, and the slices stay inside the configuration.
  \<^item> \<open>RootCell\<close>: \<^verbatim>\<open>cell.rs\<close>, \<^verbatim>\<open>init_heap\<close>, \<^verbatim>\<open>frame::init\<close> and \<^verbatim>\<open>init_hv_page_table\<close>. The guest-physical address space
    maps what the configuration says, and the hypervisor's memory only as a read-only empty page; the
    hypervisor's own address space agrees with \<^verbatim>\<open>virt_to_phys\<close>.
  \<^item> \<open>Boot\<close>: \<^verbatim>\<open>main.rs\<close> and \<^verbatim>\<open>PerCpu::new\<close> as a step relation over the interleavings of all CPUs. CPU numbers are unique,
    and no CPU enters its virtual machine before all have initialised. The waits are places of the
    step relation, so no bound on the number of their iterations is needed.
  \<^item> \<open>GuestAccess\<close>: \<^verbatim>\<open>memory/gaccess.rs\<close>. The loops that copy page by page equal a byte-by-byte copy through the guest's
    page table; they end because every piece has at least one byte.

  \<^bold>\<open>Not modelled.\<close>
  \<^item> \<^verbatim>\<open>logging.rs\<close>, \<^verbatim>\<open>uart_16550\<close>, \<^verbatim>\<open>stats.rs\<close>, \<^verbatim>\<open>cpu.rs\<close>: output to a device and time measurements, which no
    other component reads back. Log calls inside the modelled functions are left out.
  \<^item> \<^verbatim>\<open>heap.rs\<close>: the heap is the third-party buddy allocator; vectors and tree maps are lists.
  \<^item> \<^verbatim>\<open>exception.rs\<close>: the handlers of the hypervisor's own exceptions only log and panic.
  \<^item> \<^verbatim>\<open>Debug\<close> implementations: formatting for the log.
\<close>

end
